(* ===== verification/Go_Prelude.thy ===== *)
theory Go_Prelude
  imports "HOL-Library.Word" "HOL-Library.Signed_Division" "HOL-Library.Sublist"
begin

text \<open>
  The vocabulary every component shares: Go's machine integers, the outcome of a piece of
  Go code that may panic, and the list operations behind the slices of the alarm manager.

  \<^item> \<open>go_int\<close> is Go's \<open>int\<close> and \<open>int64\<close> on a 64-bit machine: a two's complement word, whose
    \<open>+\<close> and \<open>-\<close> wrap and whose order is the signed one (\<open><=s\<close>, \<open><s\<close>).
  \<^item> \<open>result\<close> is what a statement sequence ends with: a value and the new state, or a panic and
    the state in which it struck.  The state of a panic is kept because a panicking goroutine
    leaves what it wrote, and the mutex it holds, behind.
  \<^item> \<open>remove_nth\<close> and \<open>find_index\<close> are the list meaning of deleting by index and of a search loop.
\<close>

named_theorems outcome_simps \<open>unfolding sequences of statements that may panic\<close>
named_theorems frame_simps \<open>fields an operation leaves alone\<close>

section \<open>Machine integers\<close>

type_synonym go_int = "64 word"

text \<open>Signed division of Go truncates towards zero.\<close>

definition go_div :: "go_int \<Rightarrow> go_int \<Rightarrow> go_int" where
  "go_div a b = word_of_int (sint a sdiv sint b)"

lemma sint_range64: "- (2 ^ 63) \<le> sint (x :: go_int)" "sint (x :: go_int) < 2 ^ 63"
  using sint_ge [of x] sint_lt [of x] by simp_all

lemma sint_of_int64: "- (2 ^ 63) \<le> i \<Longrightarrow> i < 2 ^ 63 \<Longrightarrow> sint (word_of_int i :: go_int) = i"
  by (simp add: sint_sbintrunc' signed_take_bit_int_eq_self)

lemma sint_plus64:
  "- (2 ^ 63) \<le> sint a + sint b \<Longrightarrow> sint a + sint b < 2 ^ 63 \<Longrightarrow>
   sint (a + b :: go_int) = sint a + sint b"
  by (simp add: sint_word_ariths signed_take_bit_int_eq_self)

lemma sint_minus64:
  "- (2 ^ 63) \<le> sint a - sint b \<Longrightarrow> sint a - sint b < 2 ^ 63 \<Longrightarrow>
   sint (a - b :: go_int) = sint a - sint b"
  by (simp add: sint_word_ariths signed_take_bit_int_eq_self)

lemma unat_inc64: "unat (x :: go_int) < 2 ^ 64 - 1 \<Longrightarrow> unat (x + 1) = unat x + 1"
  by (simp add: unat_word_ariths)

lemma uint_sint64: "uint (x :: go_int) = (if sint x < 0 then sint x + 2 ^ 64 else sint x)"
proof -
  have "uint x = sint x mod 2 ^ 64"
    using uint_word_of_int [where 'a = 64, of "sint x"] by simp
  also have "\<dots> = (if sint x < 0 then sint x + 2 ^ 64 else sint x)"
    using sint_range64 [of x] mod_add_self2 [of "sint x" "2 ^ 64", symmetric]
    by (auto simp: mod_pos_pos_trivial simp del: mod_add_self2)
  finally show ?thesis .
qed

section \<open>Outcomes\<close>

text \<open>
  \<open>LockHeld\<close> is not a Go panic: it marks a \<open>Lock\<close> that could not proceed because the mutex is
  taken, so that a section that would wait forever for itself shows up as a fault.
\<close>

datatype fault = NilDeref | IndexOutOfRange | UnlockOfUnlocked | LockHeld

datatype ('a, 's) result = Ok 'a 's | Panic fault (panic_state: 's)

fun bindR :: "('a, 's) result \<Rightarrow> ('a \<Rightarrow> 's \<Rightarrow> ('b, 's) result) \<Rightarrow> ('b, 's) result" where
  "bindR (Ok a s) k = k a s"
| "bindR (Panic e s) k = Panic e s"

lemma bindR_Ok_iff [outcome_simps]:
  "bindR r k = Ok b t \<longleftrightarrow> (\<exists>a s. r = Ok a s \<and> k a s = Ok b t)"
  by (cases r) auto

lemma bindR_Panic_iff:
  "bindR r k = Panic e t \<longleftrightarrow> r = Panic e t \<or> (\<exists>a s. r = Ok a s \<and> k a s = Panic e t)"
  by (cases r) auto

lemma bindR_assoc: "bindR (bindR r f) g = bindR r (\<lambda>a s. bindR (f a s) g)"
  by (cases r) simp_all

lemma bindR_Ok_right [simp]: "bindR r Ok = r"
  by (cases r) simp_all

text \<open>What holds of the state an outcome leaves, and of a normal outcome if there is one.\<close>

fun final :: "('a, 's) result \<Rightarrow> 's" where
  "final (Ok a s) = s"
| "final (Panic e s) = s"

fun is_ok :: "('a, 's) result \<Rightarrow> bool" where
  "is_ok (Ok a s) = True"
| "is_ok (Panic e s) = False"

lemma is_ok_iff: "is_ok r \<longleftrightarrow> (\<exists>a s. r = Ok a s)"
  by (cases r) simp_all

text \<open>Whatever a chain of statements keeps at each step it keeps to its end, panic or not.\<close>

lemma final_bindR:
  assumes "P (final r)" and "\<And>a s. r = Ok a s \<Longrightarrow> P (final (k a s))"
  shows "P (final (bindR r k))"
  using assms by (cases r) simp_all

section \<open>Lists\<close>

definition remove_nth :: "nat \<Rightarrow> 'a list \<Rightarrow> 'a list" where
  "remove_nth i xs = take i xs @ drop (Suc i) xs"

lemma remove_nth_Nil [simp]: "remove_nth i [] = []"
  by (simp add: remove_nth_def)

lemma remove_nth_Cons_0 [simp]: "remove_nth 0 (x # xs) = xs"
  by (simp add: remove_nth_def)

lemma remove_nth_Cons_Suc [simp]: "remove_nth (Suc i) (x # xs) = x # remove_nth i xs"
  by (simp add: remove_nth_def)

lemma length_remove_nth [simp]: "i < length xs \<Longrightarrow> length (remove_nth i xs) = length xs - 1"
  by (simp add: remove_nth_def)

lemma remove_nth_beyond [simp]: "length xs \<le> i \<Longrightarrow> remove_nth i xs = xs"
  by (simp add: remove_nth_def)

lemma set_remove_nth: "set (remove_nth i xs) \<subseteq> set xs"
  by (auto simp: remove_nth_def dest: in_set_takeD in_set_dropD)

lemma map_remove_nth: "map f (remove_nth i xs) = remove_nth i (map f xs)"
  by (simp add: remove_nth_def take_map drop_map)

lemma distinct_remove_nth: "distinct xs \<Longrightarrow> distinct (remove_nth i xs)"
  unfolding remove_nth_def using set_take_disj_set_drop_if_distinct [of xs i "Suc i"] by simp

lemma distinct_filter_remove_nth:
  "distinct (map f (filter P xs)) \<Longrightarrow> distinct (map f (filter P (remove_nth i xs)))"
proof (induction xs arbitrary: i)
  case (Cons x xs)
  have sub: "set (filter P (remove_nth j xs)) \<subseteq> set (filter P xs)" for j
    using set_remove_nth [of j xs] by auto
  show ?case
    using Cons sub by (cases i) (auto split: if_splits)
qed simp

lemma nth_remove_nth:
  "i < length xs \<Longrightarrow> j < length xs - 1 \<Longrightarrow>
   remove_nth i xs ! j = (if j < i then xs ! j else xs ! Suc j)"
  by (auto simp: remove_nth_def nth_append min_def)

lemma split_at_nth: "i < length xs \<Longrightarrow> xs = take i xs @ xs ! i # drop (Suc i) xs"
  by (rule id_take_nth_drop)

fun find_index :: "('a \<Rightarrow> bool) \<Rightarrow> 'a list \<Rightarrow> nat option" where
  "find_index P [] = None"
| "find_index P (x # xs) = (if P x then Some 0 else map_option Suc (find_index P xs))"

lemma find_index_Some:
  "find_index P xs = Some i \<longleftrightarrow> i < length xs \<and> P (xs ! i) \<and> (\<forall>j<i. \<not> P (xs ! j))"
proof (induction xs arbitrary: i)
  case (Cons x xs)
  show ?case
    by (cases i) (auto simp: Cons.IH All_less_Suc2)
qed simp

lemma find_index_None: "find_index P xs = None \<longleftrightarrow> (\<forall>x\<in>set xs. \<not> P x)"
  by (induction xs) auto

lemma find_index_bound: "find_index P xs = Some i \<Longrightarrow> i < length xs"
  by (simp add: find_index_Some)

lemma find_index_append:
  "find_index P (xs @ ys) =
     (case find_index P xs of Some i \<Rightarrow> Some i
      | None \<Rightarrow> map_option (\<lambda>i. length xs + i) (find_index P ys))"
proof (induction xs)
  case Nil
  show ?case by (cases "find_index P ys") simp_all
next
  case (Cons x xs)
  then show ?case by (cases "find_index P ys") (auto split: option.splits)
qed

text \<open>Deleting the first match leaves the table without one, when keys do not repeat.\<close>

lemma find_index_remove_nth:
  assumes "distinct (map key (filter P xs))" "\<And>x. key x = k \<Longrightarrow> P x"
    and "find_index (\<lambda>x. key x = k) xs = Some i"
  shows "\<forall>x\<in>set (remove_nth i xs). key x \<noteq> k"
proof
  fix x assume x: "x \<in> set (remove_nth i xs)"
  have i: "i < length xs" "key (xs ! i) = k"
    using assms(3) by (auto simp: find_index_Some)
  have "distinct (map key (filter P (take i xs @ xs ! i # drop (Suc i) xs)))"
    using assms(1) id_take_nth_drop [OF i(1)] by simp
  then have "k \<notin> key ` set (filter P (remove_nth i xs))"
    using assms(2) [OF i(2)] i(2) by (auto simp: remove_nth_def)
  then show "key x \<noteq> k"
    using x assms(2) by force
qed

lemma filter_remove_nth:
  "i < length xs \<Longrightarrow> \<not> P (xs ! i) \<Longrightarrow> filter P (remove_nth i xs) = filter P xs"
  by (subst (2) split_at_nth [of i xs]) (simp_all add: remove_nth_def)

text \<open>Deleting the first match is deleting the key from the map the list stands for.\<close>

lemma map_of_remove_nth:
  assumes "distinct (map key (filter P xs))" "\<And>x. key x = k \<Longrightarrow> P x"
    and "find_index (\<lambda>x. key x = k) xs = Some i"
  shows "map_of (map (\<lambda>x. (key x, f x)) (filter P (remove_nth i xs))) =
    (map_of (map (\<lambda>x. (key x, f x)) (filter P xs)))(k := None)"
  using assms
proof (induction xs arbitrary: i)
  case (Cons x xs)
  show ?case
  proof (cases "key x = k")
    case True
    with Cons.prems have "i = 0" "P x" "k \<notin> key ` set (filter P xs)" by auto
    then have "map_of (map (\<lambda>x. (key x, f x)) (filter P xs)) k = None"
      by (auto simp: map_of_eq_None_iff image_image)
    with True \<open>i = 0\<close> \<open>P x\<close> show ?thesis by (auto simp: fun_eq_iff)
  next
    case False
    with Cons.prems obtain j where j: "i = Suc j" "find_index (\<lambda>x. key x = k) xs = Some j"
      by auto
    have "distinct (map key (filter P xs))"
      using Cons.prems(1) by (auto split: if_splits)
    from Cons.IH [OF this Cons.prems(2) j(2)] False show ?thesis
      by (auto simp: j(1) fun_eq_iff)
  qed
qed simp

lemma map_of_find:
  "find_index (\<lambda>x. key x = k) xs = Some i \<Longrightarrow> (\<And>x. key x = k \<Longrightarrow> P x) \<Longrightarrow>
   map_of (map (\<lambda>x. (key x, f x)) (filter P xs)) k = Some (f (xs ! i))"
  by (induction xs arbitrary: i) (auto split: if_splits)

lemma distinct_filter_nth:
  "distinct (map f (filter P xs)) \<Longrightarrow> i < length xs \<Longrightarrow> j < length xs \<Longrightarrow>
   P (xs ! i) \<Longrightarrow> P (xs ! j) \<Longrightarrow> f (xs ! i) = f (xs ! j) \<Longrightarrow> i = j"
proof (induction xs arbitrary: i j)
  case (Cons x xs)
  have once: False if "P x" "l < length xs" "P (xs ! l)" "f x = f (xs ! l)" for l
  proof -
    have "f (xs ! l) \<in> f ` set (filter P xs)" using that by simp
    then show False using Cons.prems(1) that by auto
  qed
  show ?case
  proof (cases i)
    case 0
    then show ?thesis using Cons.prems once by (cases j) auto
  next
    case (Suc i')
    have "distinct (map f (filter P xs))" using Cons.prems(1) by (auto split: if_splits)
    then show ?thesis
      using Suc Cons.prems Cons.IH [of i' "j - 1"] once [of i'] by (cases j) auto
  qed
qed simp

end
