(* ===== verification/Go_Strings.thy ===== *)
theory Go_Strings
  imports Go_Prelude
begin

text \<open>
  The parts of \<open>fmt\<close>, \<open>strconv\<close> and \<open>strings\<close> the sources use: decimal printing
  (\<open>fmt.Sprintf("%d")\<close>, \<open>strconv.FormatUint(_, 10)\<close>), decimal parsing (\<open>strconv.Atoi\<close> and the
  number literals of \<open>encoding/json\<close>) and \<open>strings.Contains\<close>.  A Go string is its bytes, as
  a HOL \<open>string\<close> is.
\<close>

section \<open>Printing\<close>

definition digit :: "nat \<Rightarrow> char" where
  "digit d = char_of (48 + d)"

fun digits_of :: "nat \<Rightarrow> string" where
  "digits_of n = (if n < 10 then [digit n] else digits_of (n div 10) @ [digit (n mod 10)])"

declare digits_of.simps [simp del]

definition Sprint_d :: "go_int \<Rightarrow> string" where
  "Sprint_d x =
     (if sint x < 0 then CHR ''-'' # digits_of (nat (- sint x)) else digits_of (nat (sint x)))"

definition FormatUint10 :: "64 word \<Rightarrow> string" where
  "FormatUint10 u = digits_of (unat u)"

section \<open>Parsing\<close>

datatype num_error = ErrSyntax | ErrRange

definition is_digit :: "char \<Rightarrow> bool" where
  "is_digit c \<longleftrightarrow> 48 \<le> (of_char c :: nat) \<and> (of_char c :: nat) \<le> 57"

definition digit_val :: "char \<Rightarrow> nat" where
  "digit_val c = of_char c - 48"

text \<open>The digit loop of \<open>ParseUint\<close>: the first bad byte or the first overflow ends it.\<close>

fun scan_digits :: "nat \<Rightarrow> string \<Rightarrow> num_error + nat" where
  "scan_digits n [] = Inr n"
| "scan_digits n (c # cs) =
     (if \<not> is_digit c then Inl ErrSyntax
      else if 2 ^ 64 \<le> n * 10 + digit_val c then Inl ErrRange
      else scan_digits (n * 10 + digit_val c) cs)"

definition ParseUint :: "string \<Rightarrow> num_error + nat" where
  "ParseUint s = (if s = [] then Inl ErrSyntax else scan_digits 0 s)"

text \<open>
  \<open>strconv.Atoi\<close> and \<open>ParseInt(_, 10, 64)\<close>: value and error.  Out of range the value is the
  bound that was passed, and a caller that drops the error goes on with it.
\<close>

fun split_sign :: "string \<Rightarrow> bool \<times> string" where
  "split_sign [] = (False, [])"
| "split_sign (c # r) =
     (if c = CHR ''-'' then (True, r) else if c = CHR ''+'' then (False, r) else (False, c # r))"

definition lowest :: go_int where
  "lowest = word_of_int (- (2 ^ 63))"

definition highest :: go_int where
  "highest = word_of_int (2 ^ 63 - 1)"

definition Atoi :: "string \<Rightarrow> go_int \<times> num_error option" where
  "Atoi s =
     (case split_sign s of
        (neg, body) \<Rightarrow>
          (case ParseUint body of
             Inl ErrSyntax \<Rightarrow> (0, Some ErrSyntax)
           | Inl ErrRange \<Rightarrow> (if neg then lowest else highest, Some ErrRange)
           | Inr un \<Rightarrow>
               if \<not> neg \<and> 2 ^ 63 \<le> un then (highest, Some ErrRange)
               else if neg \<and> 2 ^ 63 < un then (lowest, Some ErrRange)
               else (word_of_int (if neg then - int un else int un), None)))"

section \<open>Searching\<close>

fun strings_Contains :: "string \<Rightarrow> string \<Rightarrow> bool" where
  "strings_Contains [] sub = (sub = [])"
| "strings_Contains (c # cs) sub = (prefix sub (c # cs) \<or> strings_Contains cs sub)"

lemma strings_Contains_iff: "strings_Contains s sub \<longleftrightarrow> sublist sub s"
proof (induction s)
  case (Cons c cs)
  then show ?case by (auto simp: sublist_Cons_right)
qed simp

section \<open>Round trips\<close>

lemma digit_props:
  assumes "d < 10"
  shows "is_digit (digit d)" "digit_val (digit d) = d"
    "digit d \<noteq> CHR ''-''" "digit d \<noteq> CHR ''+''"
proof -
  have c: "of_char (digit d) = 48 + d"
    using assms by (simp add: digit_def)
  show "is_digit (digit d)" "digit_val (digit d) = d"
    using assms c by (auto simp: is_digit_def digit_val_def)
  show "digit d \<noteq> CHR ''-''" "digit d \<noteq> CHR ''+''"
    using c by auto
qed

lemma digits_of_nonempty [simp]: "digits_of n \<noteq> []"
  by (subst digits_of.simps) simp

lemma digits_of_digits: "c \<in> set (digits_of n) \<Longrightarrow> is_digit c"
proof (induction n rule: digits_of.induct)
  case (1 n)
  then show ?case
    by (cases "n < 10") (auto simp: digits_of.simps [of n] digit_props)
qed

lemma scan_digits_of: "n < 2 ^ 64 \<Longrightarrow> scan_digits 0 (digits_of n @ cs) = scan_digits n cs"
proof (induction n arbitrary: cs rule: digits_of.induct)
  case (1 n)
  show ?case
  proof (cases "n < 10")
    case True
    then show ?thesis by (simp add: digits_of.simps [of n] digit_props)
  next
    case False
    with 1 have "scan_digits 0 (digits_of (n div 10) @ digit (n mod 10) # cs) =
      scan_digits (n div 10) (digit (n mod 10) # cs)" by simp
    also have "\<dots> = scan_digits n cs"
      using "1.prems" by (simp add: digit_props)
    finally show ?thesis using False by (simp add: digits_of.simps [of n])
  qed
qed

lemma ParseUint_digits_of: "n < 2 ^ 64 \<Longrightarrow> ParseUint (digits_of n) = Inr n"
  using scan_digits_of [of n "[]"] by (simp add: ParseUint_def)

lemma digits_of_no_sign: "digits_of n \<noteq> CHR ''-'' # r" "digits_of n \<noteq> CHR ''+'' # r"
  using digits_of_digits [of "CHR ''-''" n] digits_of_digits [of "CHR ''+''" n]
  by (auto simp: is_digit_def)

lemma split_sign_digits_of: "split_sign (digits_of n) = (False, digits_of n)"
  using digits_of_no_sign [of n] by (cases "digits_of n") auto

lemma Atoi_digits_of: "n < 2 ^ 63 \<Longrightarrow> Atoi (digits_of n) = (word_of_int (int n), None)"
  by (simp add: Atoi_def split_sign_digits_of ParseUint_digits_of)

lemma Atoi_neg_digits_of:
  "n \<le> 2 ^ 63 \<Longrightarrow> Atoi (CHR ''-'' # digits_of n) = (word_of_int (- int n), None)"
  by (simp add: Atoi_def ParseUint_digits_of)

lemma Atoi_digits_of_large:
  "2 ^ 63 \<le> n \<Longrightarrow> n < 2 ^ 64 \<Longrightarrow> Atoi (digits_of n) = (highest, Some ErrRange)"
  by (simp add: Atoi_def split_sign_digits_of ParseUint_digits_of)

text \<open>What \<open>%d\<close> prints, \<open>Atoi\<close> reads back.\<close>

lemma Atoi_Sprint_d: "Atoi (Sprint_d x) = (x, None)"
proof (cases "sint x < 0")
  case True
  have "nat (- sint x) \<le> 2 ^ 63" using sint_range64 [of x] by simp
  with True show ?thesis by (simp add: Sprint_d_def Atoi_neg_digits_of)
next
  case False
  have "nat (sint x) < 2 ^ 63" using sint_range64 [of x] False by simp
  with False show ?thesis by (simp add: Sprint_d_def Atoi_digits_of)
qed

lemma inj_Sprint_d: "Sprint_d x = Sprint_d y \<Longrightarrow> x = y"
  by (metis Atoi_Sprint_d prod.inject)

text \<open>A number printed as unsigned reads back exactly when its sign bit is clear.\<close>

lemma Atoi_FormatUint10: "0 \<le> sint x \<Longrightarrow> Atoi (FormatUint10 x) = (x, None)"
proof -
  assume nonneg: "0 \<le> sint x"
  have eq: "int (unat x) = sint x"
    using nonneg uint_sint64 [of x] by simp
  then have "int (unat x) < 2 ^ 63" using sint_range64 [of x] by (simp del: uint_nat of_nat_unat)
  then have "unat x < 2 ^ 63" by (metis of_nat_less_iff of_nat_numeral of_nat_power)
  then show ?thesis by (simp add: FormatUint10_def Atoi_digits_of eq)
qed

lemma Atoi_FormatUint10_neg:
  "sint x < 0 \<Longrightarrow> Atoi (FormatUint10 x) = (highest, Some ErrRange)"
proof -
  assume neg: "sint x < 0"
  then have "2 ^ 63 \<le> int (unat x)"
    using sint_range64 [of x] uint_sint64 [of x] by simp
  then have "2 ^ 63 \<le> unat x" by (metis of_nat_le_iff of_nat_numeral of_nat_power)
  moreover have "unat x < 2 ^ 64" using unsigned_less [of x, where ?'a = nat] by simp
  ultimately show ?thesis by (simp add: FormatUint10_def Atoi_digits_of_large)
qed

end
