(* ===== verification/Go_Json.thy ===== *)
theory Go_Json
  imports Go_Strings
begin

text \<open>
  The part of \<open>encoding/json\<close> the sources use, on the level of JSON values: \<open>json\<close> is a parsed
  document, with a number as its literal.  A decoder gets the value and the old content of the
  variable it decodes into, and returns the new content and whether it went without error:
  \<open>encoding/json\<close> skips a value of the wrong type, goes on with the rest and reports the
  error at the end, so a caller that ignores the error sees the partly filled variable.
\<close>

datatype json =
  JNull | JBool bool | JNum string | JStr string | JArr "json list" | JObj "(string \<times> json) list"

type_synonym 'a decoder = "json \<Rightarrow> 'a \<Rightarrow> 'a \<times> bool"
type_synonym 'r fields = "(string \<times> 'r decoder) list"

section \<open>Scalars\<close>

fun dec_string :: "string decoder" where
  "dec_string (JStr s) _ = (s, True)"
| "dec_string JNull x = (x, True)"
| "dec_string _ x = (x, False)"

fun dec_int :: "go_int decoder" where
  "dec_int (JNum lit) x = (case Atoi lit of (v, None) \<Rightarrow> (v, True) | (_, Some _) \<Rightarrow> (x, False))"
| "dec_int JNull x = (x, True)"
| "dec_int _ x = (x, False)"

definition enc_int :: "go_int \<Rightarrow> json" where
  "enc_int x = JNum (Sprint_d x)"

section \<open>Structs\<close>

text \<open>
  A member goes to the field of exactly that name, else to the first field whose name is the
  same up to letter case; other members are dropped.  Besides the ASCII letters, the Kelvin
  sign and the long s fold into ASCII.
\<close>

definition fold_char :: "char \<Rightarrow> char" where
  "fold_char c = (let n = (of_char c :: nat) in if 97 \<le> n \<and> n \<le> 122 then char_of (n - 32) else c)"

fun fold_name :: "string \<Rightarrow> string" where
  "fold_name (c # d # e # r) =
     (if (of_char c :: nat) = 0xE2 \<and> (of_char d :: nat) = 0x84 \<and> (of_char e :: nat) = 0xAA
      then CHR ''K'' # fold_name r
      else if (of_char c :: nat) = 0xC5 \<and> (of_char d :: nat) = 0xBF
      then CHR ''S'' # fold_name (e # r)
      else fold_char c # fold_name (d # e # r))"
| "fold_name [c, d] =
     (if (of_char c :: nat) = 0xC5 \<and> (of_char d :: nat) = 0xBF then ''S''
      else [fold_char c, fold_char d])"
| "fold_name [c] = [fold_char c]"
| "fold_name [] = []"

definition lookup_field :: "'r fields \<Rightarrow> string \<Rightarrow> 'r decoder option" where
  "lookup_field fs k =
     (case map_of fs k of
        Some f \<Rightarrow> Some f
      | None \<Rightarrow> map_option snd (find (\<lambda>(n, _). fold_name n = fold_name k) fs))"

fun dec_members :: "'r fields \<Rightarrow> (string \<times> json) list \<Rightarrow> 'r \<Rightarrow> 'r \<times> bool" where
  "dec_members fs [] r = (r, True)"
| "dec_members fs ((k, v) # ms) r =
     (case lookup_field fs k of
        None \<Rightarrow> dec_members fs ms r
      | Some f \<Rightarrow>
          (case f v r of (r', ok) \<Rightarrow>
             (case dec_members fs ms r' of (r'', ok') \<Rightarrow> (r'', ok \<and> ok'))))"

fun dec_struct :: "'r fields \<Rightarrow> 'r decoder" where
  "dec_struct fs (JObj ms) r = dec_members fs ms r"
| "dec_struct fs JNull r = (r, True)"
| "dec_struct fs _ r = (r, False)"

text \<open>A field of a struct, read and written through its selector and its update.\<close>

definition field_dec :: "('r \<Rightarrow> 'a) \<Rightarrow> ('a \<Rightarrow> 'r \<Rightarrow> 'r) \<Rightarrow> 'a decoder \<Rightarrow> 'r decoder" where
  "field_dec get put d v r = (case d v (get r) of (x, ok) \<Rightarrow> (put x r, ok))"

text \<open>The promoted fields of an embedded struct.\<close>

definition embed :: "('r \<Rightarrow> 'a) \<Rightarrow> ('a \<Rightarrow> 'r \<Rightarrow> 'r) \<Rightarrow> 'a fields \<Rightarrow> 'r fields" where
  "embed get put fs = map (\<lambda>(n, d). (n, field_dec get put d)) fs"

section \<open>Slices and pointers\<close>

fun dec_elems :: "'a \<Rightarrow> 'a decoder \<Rightarrow> json list \<Rightarrow> 'a list \<times> bool" where
  "dec_elems z d [] = ([], True)"
| "dec_elems z d (v # vs) =
     (case d v z of (x, ok) \<Rightarrow> (case dec_elems z d vs of (xs, ok') \<Rightarrow> (x # xs, ok \<and> ok')))"

fun dec_slice :: "'a \<Rightarrow> 'a decoder \<Rightarrow> 'a list decoder" where
  "dec_slice z d (JArr vs) _ = dec_elems z d vs"
| "dec_slice z d JNull _ = ([], True)"
| "dec_slice z d _ xs = (xs, False)"

definition enc_slice :: "('a \<Rightarrow> json) \<Rightarrow> 'a list \<Rightarrow> json" where
  "enc_slice e xs = JArr (map e xs)"

fun dec_pointer :: "'a \<Rightarrow> 'a decoder \<Rightarrow> 'a option decoder" where
  "dec_pointer z d v p =
     (if v = JNull then (None, True)
      else case d v (case p of Some x \<Rightarrow> x | None \<Rightarrow> z) of (x, ok) \<Rightarrow> (Some x, ok))"

fun enc_pointer :: "('a \<Rightarrow> json) \<Rightarrow> 'a option \<Rightarrow> json" where
  "enc_pointer e (Some x) = e x"
| "enc_pointer e None = JNull"

section \<open>The contract between an encoder and its decoder\<close>

locale codec =
  fixes enc :: "'a \<Rightarrow> json" and dec :: "'a decoder"
  assumes roundtrip: "dec (enc x) r = (x, True)"
    and not_null: "enc x \<noteq> JNull"
begin

lemma enc_inj: "enc x = enc y \<Longrightarrow> x = y"
  by (metis prod.inject roundtrip)

lemma elems_roundtrip: "dec_elems z dec (map enc xs) = (xs, True)"
  by (induction xs) (simp_all add: roundtrip)

lemma slice_roundtrip: "dec_slice z dec (enc_slice enc xs) r = (xs, True)"
  by (simp add: enc_slice_def elems_roundtrip)

lemma pointer_roundtrip: "dec_pointer z dec (enc_pointer enc p) q = (p, True)"
  by (cases p) (simp_all add: roundtrip not_null)

lemma pointers_roundtrip:
  "dec_slice None (dec_pointer z dec) (enc_slice (enc_pointer enc) ps) r = (ps, True)"
proof -
  have "dec_elems None (dec_pointer z dec) (map (enc_pointer enc) ps) = (ps, True)"
    by (induction ps) (simp_all add: pointer_roundtrip del: dec_pointer.simps)
  then show ?thesis by (simp add: enc_slice_def)
qed

end

interpretation string_codec: codec JStr dec_string
  by unfold_locales simp_all

interpretation int_codec: codec enc_int dec_int
  by unfold_locales (simp_all add: enc_int_def Atoi_Sprint_d)

end
