(* ===== verification/Alarm_Types.thy ===== *)
theory Alarm_Types
  imports Go_Json
begin

text \<open>
  The data of \<open>alarm/types.go\<close> and of \<open>manager/cmd/types.go\<close>: alarms, messages,
  definitions and notifications, their constants, their JSON form (the struct tags) and the
  identity of an alarm.  Severities and actions are strings in the code, with named constants
  but no restriction to them.  An embedded struct is a field, and its promoted fields are the
  abbreviations at the end.
\<close>

section \<open>Severities, actions and message types\<close>

type_synonym severity = string
type_synonym alarm_action = string

definition SeverityUnspecified :: severity where "SeverityUnspecified = ''UNSPECIFIED''"
definition SeverityCritical :: severity where "SeverityCritical = ''CRITICAL''"
definition SeverityMajor :: severity where "SeverityMajor = ''MAJOR''"
definition SeverityMinor :: severity where "SeverityMinor = ''MINOR''"
definition SeverityWarning :: severity where "SeverityWarning = ''WARNING''"
definition SeverityCleared :: severity where "SeverityCleared = ''CLEARED''"
definition SeverityDefault :: severity where "SeverityDefault = ''DEFAULT''"

definition AlarmActionRaise :: alarm_action where "AlarmActionRaise = ''RAISE''"
definition AlarmActionClear :: alarm_action where "AlarmActionClear = ''CLEAR''"
definition AlarmActionClearAll :: alarm_action where "AlarmActionClearAll = ''CLEARALL''"

definition RIC_ALARM_UPDATE :: go_int where "RIC_ALARM_UPDATE = 13111"
definition RIC_ALARM_QUERY :: go_int where "RIC_ALARM_QUERY = 13112"

definition E2_CONNECTION_PROBLEM :: go_int where "E2_CONNECTION_PROBLEM = 72004"
definition ACTIVE_ALARM_EXCEED_MAX_THRESHOLD :: go_int where
  "ACTIVE_ALARM_EXCEED_MAX_THRESHOLD = 72007"
definition ALARM_HISTORY_EXCEED_MAX_THRESHOLD :: go_int where
  "ALARM_HISTORY_EXCEED_MAX_THRESHOLD = 72008"

lemma AlarmAction_distinct [simp]:
  "AlarmActionRaise \<noteq> AlarmActionClear" "AlarmActionClear \<noteq> AlarmActionRaise"
  "AlarmActionRaise \<noteq> AlarmActionClearAll" "AlarmActionClearAll \<noteq> AlarmActionRaise"
  "AlarmActionClear \<noteq> AlarmActionClearAll" "AlarmActionClearAll \<noteq> AlarmActionClear"
  by (simp_all add: AlarmActionRaise_def AlarmActionClear_def AlarmActionClearAll_def)

lemma threshold_problems_distinct [simp]:
  "ACTIVE_ALARM_EXCEED_MAX_THRESHOLD \<noteq> ALARM_HISTORY_EXCEED_MAX_THRESHOLD"
  "ALARM_HISTORY_EXCEED_MAX_THRESHOLD \<noteq> ACTIVE_ALARM_EXCEED_MAX_THRESHOLD"
  by (simp_all add: ACTIVE_ALARM_EXCEED_MAX_THRESHOLD_def ALARM_HISTORY_EXCEED_MAX_THRESHOLD_def)

section \<open>Structs\<close>

record Alarm =
  ManagedObjectId :: string
  ApplicationId :: string
  SpecificProblem :: go_int
  PerceivedSeverity :: severity
  IdentifyingInfo :: string
  AdditionalInfo :: string

record AlarmMessage =
  msgAlarm :: Alarm
  AlarmAction :: alarm_action
  AlarmTime :: go_int

text \<open>
  \<open>rmrCtx\<close> is an opaque C pointer, \<open>None\<close> for nil.  The library's own mutex covers the whole
  body of each of its operations and is not a field here: the operations are atomic.
\<close>

record RICAlarm =
  moId :: string
  appId :: string
  managerUrl :: string
  rmrEndpoint :: string
  rmrCtx :: "nat option"
  libReady :: bool

record AlarmConfigParams =
  MaxActiveAlarms :: go_int
  MaxAlarmHistory :: go_int

record AlarmDefinition =
  AlarmId :: go_int
  AlarmText :: string
  EventType :: string
  OperationInstructions :: string
  RaiseDelay :: go_int
  ClearDelay :: go_int
  TimeToLive :: go_int

record AlarmNotification =
  notifMessage :: AlarmMessage
  notifDef :: AlarmDefinition

record AlarmPersistentInfo =
  UniqueAlarmId :: go_int
  ActiveAlarms :: "AlarmNotification list"
  AlarmHistory :: "AlarmNotification list"

text \<open>\<open>[]*AlarmDefinition\<close> and \<open>[]*Alarm\<close>: a JSON \<open>null\<close> in the array is a nil pointer.\<close>

record RicAlarmDefinitions =
  AlarmDefinitions :: "AlarmDefinition option list"

record RicPerfAlarmObjects =
  AlarmObjects :: "Alarm option list"

definition zero_Alarm :: Alarm where
  "zero_Alarm = \<lparr>ManagedObjectId = [], ApplicationId = [], SpecificProblem = 0,
     PerceivedSeverity = [], IdentifyingInfo = [], AdditionalInfo = []\<rparr>"

definition zero_AlarmMessage :: AlarmMessage where
  "zero_AlarmMessage = \<lparr>msgAlarm = zero_Alarm, AlarmAction = [], AlarmTime = 0\<rparr>"

definition zero_AlarmDefinition :: AlarmDefinition where
  "zero_AlarmDefinition = \<lparr>AlarmId = 0, AlarmText = [], EventType = [],
     OperationInstructions = [], RaiseDelay = 0, ClearDelay = 0, TimeToLive = 0\<rparr>"

definition zero_AlarmNotification :: AlarmNotification where
  "zero_AlarmNotification =
     \<lparr>notifMessage = zero_AlarmMessage, notifDef = zero_AlarmDefinition\<rparr>"

text \<open>Promoted fields of a notification.\<close>

abbreviation nAlarm :: "AlarmNotification \<Rightarrow> Alarm" where
  "nAlarm n \<equiv> msgAlarm (notifMessage n)"

abbreviation nAction :: "AlarmNotification \<Rightarrow> alarm_action" where
  "nAction n \<equiv> AlarmAction (notifMessage n)"

abbreviation nTime :: "AlarmNotification \<Rightarrow> go_int" where
  "nTime n \<equiv> AlarmTime (notifMessage n)"

abbreviation nProblem :: "AlarmNotification \<Rightarrow> go_int" where
  "nProblem n \<equiv> SpecificProblem (nAlarm n)"

abbreviation nSeverity :: "AlarmNotification \<Rightarrow> severity" where
  "nSeverity n \<equiv> PerceivedSeverity (nAlarm n)"

abbreviation nId :: "AlarmNotification \<Rightarrow> go_int" where
  "nId n \<equiv> AlarmId (notifDef n)"

abbreviation nRaiseDelay :: "AlarmNotification \<Rightarrow> go_int" where
  "nRaiseDelay n \<equiv> RaiseDelay (notifDef n)"

section \<open>The identity of an alarm\<close>

type_synonym alarm_key = "string \<times> string \<times> go_int \<times> string"

definition alarm_key :: "Alarm \<Rightarrow> alarm_key" where
  "alarm_key a = (ManagedObjectId a, ApplicationId a, SpecificProblem a, IdentifyingInfo a)"

abbreviation nKey :: "AlarmNotification \<Rightarrow> alarm_key" where
  "nKey n \<equiv> alarm_key (nAlarm n)"

text \<open>Severity and additional information are not part of the identity.\<close>

lemma alarm_key_update [simp]:
  "alarm_key (a\<lparr>PerceivedSeverity := s\<rparr>) = alarm_key a"
  "alarm_key (a\<lparr>AdditionalInfo := i\<rparr>) = alarm_key a"
  by (simp_all add: alarm_key_def)

section \<open>JSON form\<close>

definition Alarm_fields :: "Alarm fields" where
  "Alarm_fields =
     [(''managedObjectId'', field_dec ManagedObjectId (\<lambda>x. ManagedObjectId_update (\<lambda>_. x)) dec_string),
      (''applicationId'', field_dec ApplicationId (\<lambda>x. ApplicationId_update (\<lambda>_. x)) dec_string),
      (''specificProblem'', field_dec SpecificProblem (\<lambda>x. SpecificProblem_update (\<lambda>_. x)) dec_int),
      (''perceivedSeverity'',
         field_dec PerceivedSeverity (\<lambda>x. PerceivedSeverity_update (\<lambda>_. x)) dec_string),
      (''identifyingInfo'', field_dec IdentifyingInfo (\<lambda>x. IdentifyingInfo_update (\<lambda>_. x)) dec_string),
      (''additionalInfo'', field_dec AdditionalInfo (\<lambda>x. AdditionalInfo_update (\<lambda>_. x)) dec_string)]"

definition Alarm_members :: "Alarm \<Rightarrow> (string \<times> json) list" where
  "Alarm_members a =
     [(''managedObjectId'', JStr (ManagedObjectId a)),
      (''applicationId'', JStr (ApplicationId a)),
      (''specificProblem'', enc_int (SpecificProblem a)),
      (''perceivedSeverity'', JStr (PerceivedSeverity a)),
      (''identifyingInfo'', JStr (IdentifyingInfo a)),
      (''additionalInfo'', JStr (AdditionalInfo a))]"

text \<open>The embedded \<open>AlarmAction\<close> is not a struct, so it is a member under its type's name.\<close>

definition AlarmMessage_fields :: "AlarmMessage fields" where
  "AlarmMessage_fields =
     embed msgAlarm (\<lambda>x. msgAlarm_update (\<lambda>_. x)) Alarm_fields @
     [(''AlarmAction'', field_dec AlarmAction (\<lambda>x. AlarmAction_update (\<lambda>_. x)) dec_string),
      (''AlarmTime'', field_dec AlarmTime (\<lambda>x. AlarmTime_update (\<lambda>_. x)) dec_int)]"

definition AlarmMessage_members :: "AlarmMessage \<Rightarrow> (string \<times> json) list" where
  "AlarmMessage_members m =
     Alarm_members (msgAlarm m) @
     [(''AlarmAction'', JStr (AlarmAction m)), (''AlarmTime'', enc_int (AlarmTime m))]"

definition AlarmConfigParams_fields :: "AlarmConfigParams fields" where
  "AlarmConfigParams_fields =
     [(''maxactivealarms'', field_dec MaxActiveAlarms (\<lambda>x. MaxActiveAlarms_update (\<lambda>_. x)) dec_int),
      (''maxalarmhistory'', field_dec MaxAlarmHistory (\<lambda>x. MaxAlarmHistory_update (\<lambda>_. x)) dec_int)]"

definition AlarmConfigParams_members :: "AlarmConfigParams \<Rightarrow> (string \<times> json) list" where
  "AlarmConfigParams_members c =
     [(''maxactivealarms'', enc_int (MaxActiveAlarms c)),
      (''maxalarmhistory'', enc_int (MaxAlarmHistory c))]"

definition AlarmDefinition_fields :: "AlarmDefinition fields" where
  "AlarmDefinition_fields =
     [(''alarmId'', field_dec AlarmId (\<lambda>x. AlarmId_update (\<lambda>_. x)) dec_int),
      (''alarmText'', field_dec AlarmText (\<lambda>x. AlarmText_update (\<lambda>_. x)) dec_string),
      (''eventType'', field_dec EventType (\<lambda>x. EventType_update (\<lambda>_. x)) dec_string),
      (''operationInstructions'',
         field_dec OperationInstructions (\<lambda>x. OperationInstructions_update (\<lambda>_. x)) dec_string),
      (''raiseDelay'', field_dec RaiseDelay (\<lambda>x. RaiseDelay_update (\<lambda>_. x)) dec_int),
      (''clearDelay'', field_dec ClearDelay (\<lambda>x. ClearDelay_update (\<lambda>_. x)) dec_int),
      (''timeToLive'', field_dec TimeToLive (\<lambda>x. TimeToLive_update (\<lambda>_. x)) dec_int)]"

definition AlarmDefinition_members :: "AlarmDefinition \<Rightarrow> (string \<times> json) list" where
  "AlarmDefinition_members d =
     [(''alarmId'', enc_int (AlarmId d)), (''alarmText'', JStr (AlarmText d)),
      (''eventType'', JStr (EventType d)),
      (''operationInstructions'', JStr (OperationInstructions d)),
      (''raiseDelay'', enc_int (RaiseDelay d)), (''clearDelay'', enc_int (ClearDelay d)),
      (''timeToLive'', enc_int (TimeToLive d))]"

definition AlarmNotification_fields :: "AlarmNotification fields" where
  "AlarmNotification_fields =
     embed notifMessage (\<lambda>x. notifMessage_update (\<lambda>_. x)) AlarmMessage_fields @
     embed notifDef (\<lambda>x. notifDef_update (\<lambda>_. x)) AlarmDefinition_fields"

definition AlarmNotification_members :: "AlarmNotification \<Rightarrow> (string \<times> json) list" where
  "AlarmNotification_members n =
     AlarmMessage_members (notifMessage n) @ AlarmDefinition_members (notifDef n)"

abbreviation enc_AlarmMessage :: "AlarmMessage \<Rightarrow> json" where
  "enc_AlarmMessage m \<equiv> JObj (AlarmMessage_members m)"

abbreviation enc_AlarmDefinition :: "AlarmDefinition \<Rightarrow> json" where
  "enc_AlarmDefinition d \<equiv> JObj (AlarmDefinition_members d)"

abbreviation enc_AlarmNotification :: "AlarmNotification \<Rightarrow> json" where
  "enc_AlarmNotification n \<equiv> JObj (AlarmNotification_members n)"

abbreviation enc_AlarmConfigParams :: "AlarmConfigParams \<Rightarrow> json" where
  "enc_AlarmConfigParams c \<equiv> JObj (AlarmConfigParams_members c)"

abbreviation enc_Alarm :: "Alarm \<Rightarrow> json" where
  "enc_Alarm a \<equiv> JObj (Alarm_members a)"

definition AlarmPersistentInfo_fields :: "AlarmPersistentInfo fields" where
  "AlarmPersistentInfo_fields =
     [(''uiniquealarmid'', field_dec UniqueAlarmId (\<lambda>x. UniqueAlarmId_update (\<lambda>_. x)) dec_int),
      (''activealarms'', field_dec ActiveAlarms (\<lambda>x. ActiveAlarms_update (\<lambda>_. x))
         (dec_slice zero_AlarmNotification (dec_struct AlarmNotification_fields))),
      (''alarmhistory'', field_dec AlarmHistory (\<lambda>x. AlarmHistory_update (\<lambda>_. x))
         (dec_slice zero_AlarmNotification (dec_struct AlarmNotification_fields)))]"

definition enc_AlarmPersistentInfo :: "AlarmPersistentInfo \<Rightarrow> json" where
  "enc_AlarmPersistentInfo p =
     JObj [(''uiniquealarmid'', enc_int (UniqueAlarmId p)),
           (''activealarms'', enc_slice enc_AlarmNotification (ActiveAlarms p)),
           (''alarmhistory'', enc_slice enc_AlarmNotification (AlarmHistory p))]"

definition RicAlarmDefinitions_fields :: "RicAlarmDefinitions fields" where
  "RicAlarmDefinitions_fields =
     [(''alarmdefinitions'', field_dec AlarmDefinitions (\<lambda>x. AlarmDefinitions_update (\<lambda>_. x))
         (dec_slice None (dec_pointer zero_AlarmDefinition (dec_struct AlarmDefinition_fields))))]"

text \<open>The slice is built by \<open>append\<close> from nil, so the empty one is a nil slice: \<open>null\<close>.\<close>

definition enc_RicAlarmDefinitions :: "RicAlarmDefinitions \<Rightarrow> json" where
  "enc_RicAlarmDefinitions p =
     JObj [(''alarmdefinitions'',
        if AlarmDefinitions p = [] then JNull
        else enc_slice (enc_pointer enc_AlarmDefinition) (AlarmDefinitions p))]"

definition RicPerfAlarmObjects_fields :: "RicPerfAlarmObjects fields" where
  "RicPerfAlarmObjects_fields =
     [(''alarmobjects'', field_dec AlarmObjects (\<lambda>x. AlarmObjects_update (\<lambda>_. x))
         (dec_slice None (dec_pointer zero_Alarm (dec_struct Alarm_fields))))]"

section \<open>Every struct decodes to what was encoded\<close>

lemmas decode_simps =
  lookup_field_def field_dec_def embed_def string_codec.roundtrip int_codec.roundtrip

interpretation Alarm_codec: codec enc_Alarm "dec_struct Alarm_fields"
  by unfold_locales (simp_all add: Alarm_fields_def Alarm_members_def decode_simps)

interpretation AlarmMessage_codec: codec enc_AlarmMessage "dec_struct AlarmMessage_fields"
  by unfold_locales (simp_all add: AlarmMessage_fields_def AlarmMessage_members_def
      Alarm_fields_def Alarm_members_def decode_simps)

interpretation AlarmConfigParams_codec:
  codec enc_AlarmConfigParams "dec_struct AlarmConfigParams_fields"
  by unfold_locales
    (simp_all add: AlarmConfigParams_fields_def AlarmConfigParams_members_def decode_simps)

interpretation AlarmDefinition_codec: codec enc_AlarmDefinition "dec_struct AlarmDefinition_fields"
  by unfold_locales
    (simp_all add: AlarmDefinition_fields_def AlarmDefinition_members_def decode_simps)

interpretation AlarmNotification_codec:
  codec enc_AlarmNotification "dec_struct AlarmNotification_fields"
  by unfold_locales (simp_all add: AlarmNotification_fields_def AlarmNotification_members_def
      AlarmMessage_fields_def AlarmMessage_members_def Alarm_fields_def Alarm_members_def
      AlarmDefinition_fields_def AlarmDefinition_members_def decode_simps)

interpretation AlarmPersistentInfo_codec:
  codec enc_AlarmPersistentInfo "dec_struct AlarmPersistentInfo_fields"
  by unfold_locales (simp_all add: AlarmPersistentInfo_fields_def enc_AlarmPersistentInfo_def
      decode_simps AlarmNotification_codec.slice_roundtrip)

interpretation RicAlarmDefinitions_codec:
  codec enc_RicAlarmDefinitions "dec_struct RicAlarmDefinitions_fields"
  by unfold_locales (auto simp add: RicAlarmDefinitions_fields_def enc_RicAlarmDefinitions_def
      decode_simps AlarmDefinition_codec.pointers_roundtrip)

text \<open>The same after the outer object has been opened.\<close>

lemmas members_roundtrip =
  Alarm_codec.roundtrip [unfolded dec_struct.simps]
  AlarmMessage_codec.roundtrip [unfolded dec_struct.simps]
  AlarmConfigParams_codec.roundtrip [unfolded dec_struct.simps]
  AlarmDefinition_codec.roundtrip [unfolded dec_struct.simps]
  AlarmNotification_codec.roundtrip [unfolded dec_struct.simps]

end
