(* ===== verification/Alarm_Lib.thy ===== *)
theory Alarm_Lib
  imports Alarm_Types
begin

text \<open>
  The alarm library linked into the applications: \<open>alarm/alarm.go\<close> and the RMR glue of
  \<open>alarm/utils.c\<close>.  The RMR library, the network and the process environment are not in the
  repository; \<open>LibEnv\<close> holds what the code gets from them.  \<open>rmr_send_msg k\<close> is what the
  \<open>k\<close>-th call of \<open>rmr_send_msg\<close> in the life of the process returns: the state in the returned
  buffer, or \<open>None\<close> for NULL.
\<close>

record LibEnv =
  getenv :: "string \<Rightarrow> string"
  RMR_OK :: go_int
  RMR_ERR_RETRY :: go_int
  rmr_send_msg :: "nat \<Rightarrow> go_int option"
  rmr_rcv_msg :: "nat \<Rightarrow> (go_int \<times> json option) option"
  rmr_init :: "nat option"
  rmr_ready :: "nat \<Rightarrow> bool"
  http_post :: "string \<Rightarrow> json \<Rightarrow> string option"
  write_file :: "string \<Rightarrow> string \<Rightarrow> string option"

section \<open>Creating the client\<close>

definition ALARM_MANAGER_HTTP_URL :: "string \<Rightarrow> string" where
  "ALARM_MANAGER_HTTP_URL namespace =
     ''http://service-'' @ namespace @ ''-alarmmanager-http.'' @ namespace @ '':8080''"

definition ALARM_MANAGER_RMR_URL :: "string \<Rightarrow> string" where
  "ALARM_MANAGER_RMR_URL namespace =
     ''service-'' @ namespace @ ''-alarmmanager-rmr.'' @ namespace @ '':4560''"

text \<open>
  \<open>InitAlarm\<close> without the goroutine it starts (\<open>InitRMR\<close>).  It never returns an error.
\<close>

definition InitAlarm :: "LibEnv \<Rightarrow> string \<Rightarrow> string \<Rightarrow> RICAlarm" where
  "InitAlarm e mo ident =
     (let ns = getenv e ''PLT_NAMESPACE'';
          r = \<lparr>moId = mo, appId = ident, managerUrl = ALARM_MANAGER_HTTP_URL ns,
                rmrEndpoint = ALARM_MANAGER_RMR_URL ns, rmrCtx = None, libReady = False\<rparr>;
          r = (if getenv e ''ALARM_MANAGER_URL'' \<noteq> []
               then r\<lparr>managerUrl := getenv e ''ALARM_MANAGER_URL''\<rparr> else r);
          r = (if getenv e ''ALARM_MANAGER_SERVICE_NAME'' \<noteq> [] \<and>
                  getenv e ''ALARM_MANAGER_SERVICE_PORT'' \<noteq> []
               then r\<lparr>rmrEndpoint := getenv e ''ALARM_MANAGER_SERVICE_NAME'' @ '':'' @
                        getenv e ''ALARM_MANAGER_SERVICE_PORT''\<rparr> else r)
      in if getenv e ''ALARM_IF_RMR'' = []
         then if moId r = ''my-pod'' then r\<lparr>rmrEndpoint := ''127.0.0.1:4560''\<rparr>
              else if moId r = ''my-pod-lib'' then r\<lparr>rmrEndpoint := ''127.0.0.1:4588''\<rparr>
              else r
         else r)"

definition NewAlarm :: "RICAlarm \<Rightarrow> go_int \<Rightarrow> severity \<Rightarrow> string \<Rightarrow> string \<Rightarrow> Alarm" where
  "NewAlarm r sp severity ainfo iinfo =
     \<lparr>ManagedObjectId = moId r, ApplicationId = appId r, SpecificProblem = sp,
       PerceivedSeverity = severity, IdentifyingInfo = iinfo, AdditionalInfo = ainfo\<rparr>"

text \<open>\<open>now\<close> is the reading of \<open>time.Now().UnixNano()\<close>.\<close>

definition NewAlarmMessage :: "go_int \<Rightarrow> Alarm \<Rightarrow> alarm_action \<Rightarrow> AlarmMessage" where
  "NewAlarmMessage now a act = \<lparr>msgAlarm = a, AlarmAction = act, AlarmTime = now\<rparr>"

definition SetManagedObjectId :: "string \<Rightarrow> RICAlarm \<Rightarrow> RICAlarm" where
  "SetManagedObjectId mo r = r\<lparr>moId := mo\<rparr>"

definition SetApplicationId :: "string \<Rightarrow> RICAlarm \<Rightarrow> RICAlarm" where
  "SetApplicationId app r = r\<lparr>appId := app\<rparr>"

definition AlarmString :: "AlarmMessage \<Rightarrow> string" where
  "AlarmString m =
     (let a = msgAlarm m in
      ''MOId='' @ ManagedObjectId a @ '' AppId='' @ ApplicationId a @
      '' SP='' @ Sprint_d (SpecificProblem a) @ '' severity='' @ PerceivedSeverity a @
      '' IA='' @ IdentifyingInfo a)"

section \<open>Sending over RMR\<close>

text \<open>
  The send loop of \<open>rmrSend\<close>: \<open>k\<close> calls have been made before it, \<open>retry_count\<close> is the C
  variable.  The result is the returned state (-1 for NULL) and the number of calls made so far.
  The buffer before the loop is taken to be allocated (the code does not check it).
\<close>

function rmrSend_loop :: "LibEnv \<Rightarrow> nat \<Rightarrow> nat \<Rightarrow> go_int \<times> nat" where
  "rmrSend_loop e k retry_count =
     (case rmr_send_msg e k of
        None \<Rightarrow> (-1, Suc k)
      | Some state \<Rightarrow>
          if state = RMR_OK e then (state, Suc k)
          else if state = RMR_ERR_RETRY e \<and> Suc retry_count < 10
          then rmrSend_loop e (Suc k) (Suc retry_count)
          else (state, Suc k))"
  by pat_completeness auto
termination
  by (relation "measure (\<lambda>(e, k, c). 10 - c)") auto

declare rmrSend_loop.simps [simp del]

definition rmrSend :: "LibEnv \<Rightarrow> nat \<Rightarrow> go_int \<times> nat" where
  "rmrSend e k = rmrSend_loop e k 0"

text \<open>The size asked of \<open>rmr_alloc_msg\<close> for a payload.\<close>

definition rmr_alloc_size :: "nat \<Rightarrow> nat" where
  "rmr_alloc_size payload_len = (if 1024 < payload_len then payload_len else 1024)"

section \<open>Sending a message\<close>

text \<open>What left the process: over RMR with the number of attempts made, or over HTTP to a URL.\<close>

datatype transmission = ViaRmr json nat | ViaHttp string json

definition sendAlarmUpdateReqWithRmr ::
  "LibEnv \<Rightarrow> nat \<Rightarrow> RICAlarm \<Rightarrow> json \<Rightarrow> nat \<times> transmission list \<times> string option" where
  "sendAlarmUpdateReqWithRmr e k r payload =
     (if rmrCtx r = None \<or> \<not> libReady r then (k, [], Some ''RmrError=rmr not ready'')
      else case rmrSend e k of
        (state, k') \<Rightarrow>
          (k', [ViaRmr payload (k' - k)],
           if state \<noteq> RMR_OK e
           then Some (''RmrError=rmrSend via '' @ rmrEndpoint r @ '' failed with error: '' @
                      Sprint_d state)
           else None))"

definition sendAlarmUpdateReqWithHttp ::
  "LibEnv \<Rightarrow> RICAlarm \<Rightarrow> json \<Rightarrow> transmission list \<times> string option" where
  "sendAlarmUpdateReqWithHttp e r payload =
     (let url = managerUrl r @ ''/'' @ ''ric/v1/alarms'' in
      ([ViaHttp url payload],
       map_option (\<lambda>err. ''HttpError=Post failed with error: '' @ err) (http_post e url payload)))"

definition sendAlarmUpdateReq ::
  "LibEnv \<Rightarrow> nat \<Rightarrow> RICAlarm \<Rightarrow> AlarmMessage \<Rightarrow> nat \<times> transmission list \<times> string option" where
  "sendAlarmUpdateReq e k r a =
     (let payload = enc_AlarmMessage a in
      case sendAlarmUpdateReqWithRmr e k r payload of
        (k', tr, None) \<Rightarrow> (k', tr, None)
      | (k', tr, Some err) \<Rightarrow>
          (case sendAlarmUpdateReqWithHttp e r payload of
             (tr', None) \<Rightarrow> (k', tr @ tr', None)
           | (tr', Some httperr) \<Rightarrow> (k', tr @ tr', Some (err @ '' and  '' @ httperr))))"

section \<open>The operations of the library\<close>

definition Raise ::
  "LibEnv \<Rightarrow> nat \<Rightarrow> go_int \<Rightarrow> RICAlarm \<Rightarrow> Alarm \<Rightarrow> nat \<times> transmission list \<times> string option" where
  "Raise e k now r a = sendAlarmUpdateReq e k r (NewAlarmMessage now a AlarmActionRaise)"

definition Clear ::
  "LibEnv \<Rightarrow> nat \<Rightarrow> go_int \<Rightarrow> RICAlarm \<Rightarrow> Alarm \<Rightarrow> nat \<times> transmission list \<times> string option" where
  "Clear e k now r a = sendAlarmUpdateReq e k r (NewAlarmMessage now a AlarmActionClear)"

definition Reraise ::
  "LibEnv \<Rightarrow> nat \<Rightarrow> go_int \<Rightarrow> go_int \<Rightarrow> RICAlarm \<Rightarrow> Alarm \<Rightarrow>
     nat \<times> transmission list \<times> string option" where
  "Reraise e k now now' r a =
     (case sendAlarmUpdateReq e k r (NewAlarmMessage now a AlarmActionClear) of
        (k', tr, Some err) \<Rightarrow> (k', tr, Some (''Reraise failed: '' @ err))
      | (k', tr, None) \<Rightarrow>
          (case sendAlarmUpdateReq e k' r (NewAlarmMessage now' a AlarmActionRaise) of
             (k'', tr', err) \<Rightarrow> (k'', tr @ tr', err)))"

definition ClearAll ::
  "LibEnv \<Rightarrow> nat \<Rightarrow> go_int \<Rightarrow> RICAlarm \<Rightarrow> nat \<times> transmission list \<times> string option" where
  "ClearAll e k now r =
     (let a = NewAlarm r 0 SeverityDefault [] []
      in sendAlarmUpdateReq e k r (NewAlarmMessage now a AlarmActionClearAll))"

section \<open>Receiving and connecting\<close>

text \<open>
  \<open>rmrRcv\<close> loops until a buffer with state \<open>RMR_OK\<close> arrives and so may never return; the
  payload of a buffer is \<open>None\<close> when it is not JSON.  \<open>ReceiveMessage\<close> calls the callback on
  the message, if it decodes, and returns its error in every case.
\<close>

partial_function (option) rmrRcv :: "LibEnv \<Rightarrow> nat \<Rightarrow> (json option \<times> nat) option" where
  "rmrRcv e k =
     (case rmr_rcv_msg e k of
        None \<Rightarrow> rmrRcv e (Suc k)
      | Some (state, payload) \<Rightarrow>
          if state = RMR_OK e then Some (payload, Suc k) else rmrRcv e (Suc k))"

definition ReceiveMessage :: "LibEnv \<Rightarrow> nat \<Rightarrow> (AlarmMessage list \<times> string) option" where
  "ReceiveMessage e k =
     map_option
       (\<lambda>(payload, _).
          (case payload of
             None \<Rightarrow> []
           | Some v \<Rightarrow>
               (case dec_struct AlarmMessage_fields v zero_AlarmMessage of
                  (a, True) \<Rightarrow> [a] | (_, False) \<Rightarrow> []),
           ''rmrRcv failed!''))
       (rmrRcv e k)"

text \<open>\<open>rmrInit\<close> polls \<open>rmr_ready\<close>, two seconds apart, until it holds.\<close>

partial_function (option) rmr_wait_ready :: "LibEnv \<Rightarrow> nat \<Rightarrow> nat option" where
  "rmr_wait_ready e k = (if rmr_ready e k then Some k else rmr_wait_ready e (Suc k))"

definition rmrInit :: "LibEnv \<Rightarrow> nat option option" where
  "rmrInit e =
     (case rmr_init e of
        None \<Rightarrow> Some None
      | Some ctx \<Rightarrow> map_option (\<lambda>_. Some ctx) (rmr_wait_ready e 0))"

definition alarm_route_table :: "RICAlarm \<Rightarrow> string" where
  "alarm_route_table r =
     ''newrt|start'' @ [CHR 0x0A] @ ''rte|13111|'' @ rmrEndpoint r @ [CHR 0x0A] @
     ''newrt|end'' @ [CHR 0x0A]"

text \<open>The client after \<open>InitRMR\<close> and its error; \<open>None\<close> when it never returns.\<close>

definition InitRMR :: "LibEnv \<Rightarrow> RICAlarm \<Rightarrow> (RICAlarm \<times> string option) option" where
  "InitRMR e r =
     (case write_file e ''/tmp/alarm.rt'' (alarm_route_table r) of
        Some err \<Rightarrow> Some (r, Some err)
      | None \<Rightarrow>
          map_option
            (\<lambda>ctx. case ctx of
               Some c \<Rightarrow> (r\<lparr>rmrCtx := Some c, libReady := True\<rparr>, None)
             | None \<Rightarrow> (r, Some ''rmrInit failed!''))
            (rmrInit e))"

definition IsRMRReady :: "RICAlarm \<Rightarrow> bool" where
  "IsRMRReady r = libReady r"

end
