(* ===== verification/Go_Slice.thy ===== *)
theory Go_Slice
  imports Go_Prelude
begin

text \<open>
  Go slices, with the sharing of the backing array kept.  A slice variable is a header over an
  array: the elements up to its length, and the spare slots up to its capacity.  \<open>old\<close> lists
  the arrays the variable has left behind, oldest first: \<open>append\<close> beyond the capacity and
  \<open>make\<close> move the variable to a new array, and the array it leaves keeps its last content.
  So the identity of the current array is \<open>length (old s)\<close>, and a header copied earlier (the
  hidden one of a \<open>range\<close> loop) reads the array it was copied over, whatever the variable does
  meanwhile: \<open>array_of s k ! i\<close>.
\<close>

datatype 'a slice = Slice (old: "'a list list") (elems: "'a list") (spare: "'a list")

definition slice_len :: "'a slice \<Rightarrow> nat" where
  "slice_len s = length (elems s)"

definition slice_cap :: "'a slice \<Rightarrow> nat" where
  "slice_cap s = length (elems s) + length (spare s)"

definition backing :: "'a slice \<Rightarrow> 'a list" where
  "backing s = elems s @ spare s"

definition array_id :: "'a slice \<Rightarrow> nat" where
  "array_id s = length (old s)"

definition array_of :: "'a slice \<Rightarrow> nat \<Rightarrow> 'a list" where
  "array_of s k = (if k < length (old s) then old s ! k else backing s)"

text \<open>\<open>make\<close> followed by \<open>copy\<close> of \<open>xs\<close>: a new array of exactly that length.\<close>

definition slice_make :: "'a slice \<Rightarrow> 'a list \<Rightarrow> 'a slice" where
  "slice_make s xs = Slice (old s @ [backing s]) xs []"

text \<open>
  \<open>s = append(s, x)\<close>.  With a spare slot the array is written in place; without one the
  runtime allocates a larger array, whose zeroed spare slots (their number is the runtime's
  choice) are \<open>fresh\<close>.
\<close>

definition slice_append :: "'a list \<Rightarrow> 'a slice \<Rightarrow> 'a \<Rightarrow> 'a slice" where
  "slice_append fresh s x =
     (case spare s of
        [] \<Rightarrow> Slice (old s @ [backing s]) (elems s @ [x]) fresh
      | _ # r \<Rightarrow> Slice (old s) (elems s @ [x]) r)"

text \<open>\<open>s[i]\<close> and \<open>s[i] = x\<close>; \<open>None\<close> where Go panics.\<close>

definition slice_get :: "'a slice \<Rightarrow> nat \<Rightarrow> 'a option" where
  "slice_get s i = (if i < length (elems s) then Some (elems s ! i) else None)"

definition slice_set :: "'a slice \<Rightarrow> nat \<Rightarrow> 'a \<Rightarrow> 'a slice option" where
  "slice_set s i x =
     (if i < length (elems s) then Some (Slice (old s) ((elems s)[i := x]) (spare s)) else None)"

text \<open>
  \<open>copy(s[i:], s[j:])\<close>: the shorter of the two tails is moved, overlapping or not.
  Slicing with an offset beyond the length panics.
\<close>

definition slice_copy_within :: "'a slice \<Rightarrow> nat \<Rightarrow> nat \<Rightarrow> 'a slice option" where
  "slice_copy_within s i j =
     (let xs = elems s; n = min (length xs - i) (length xs - j) in
      if i \<le> length xs \<and> j \<le> length xs
      then Some (Slice (old s) (take i xs @ take n (drop j xs) @ drop (i + n) xs) (spare s))
      else None)"

text \<open>\<open>s[:n]\<close> for \<open>n\<close> up to the length: the cut elements stay in the array as spare slots.\<close>

definition slice_prefix :: "'a slice \<Rightarrow> nat \<Rightarrow> 'a slice" where
  "slice_prefix s n = Slice (old s) (take n (elems s)) (drop n (elems s) @ spare s)"

section \<open>What the operations do to the elements and to the array\<close>

lemma elems_append [simp]: "elems (slice_append fresh s x) = elems s @ [x]"
  by (simp add: slice_append_def split: list.split)

lemma elems_make [simp]: "elems (slice_make s xs) = xs"
  by (simp add: slice_make_def)

lemma elems_prefix [simp]: "elems (slice_prefix s n) = take n (elems s)"
  by (simp add: slice_prefix_def)

lemma backing_prefix [simp]: "backing (slice_prefix s n) = backing s"
  by (simp add: slice_prefix_def backing_def)

lemma array_id_prefix [simp]: "array_id (slice_prefix s n) = array_id s"
  by (simp add: slice_prefix_def array_id_def)

lemma slice_get_Some: "slice_get s i = Some x \<longleftrightarrow> i < length (elems s) \<and> x = elems s ! i"
  by (auto simp: slice_get_def)

lemma slice_get_None: "slice_get s i = None \<longleftrightarrow> length (elems s) \<le> i"
  by (auto simp: slice_get_def)

lemma slice_set_Some:
  "slice_set s i x = Some t \<longleftrightarrow>
     i < length (elems s) \<and> t = Slice (old s) ((elems s)[i := x]) (spare s)"
  by (auto simp: slice_set_def)

text \<open>Copying a tail one place down deletes an element and leaves the last one doubled.\<close>

lemma slice_copy_down:
  assumes "i < length (elems s)"
  shows "slice_copy_within s i (Suc i) =
     Some (Slice (old s) (remove_nth i (elems s) @ [last (elems s)]) (spare s))"
proof -
  let ?xs = "elems s"
  have n: "min (length ?xs - i) (length ?xs - Suc i) = length ?xs - Suc i" by simp
  have "drop (i + (length ?xs - Suc i)) ?xs = [last ?xs]"
    using assms by (cases ?xs rule: rev_cases) auto
  then show ?thesis
    using assms by (simp add: slice_copy_within_def Let_def n remove_nth_def)
qed

text \<open>An append into a spare slot stays in the array and writes only that slot.\<close>

lemma append_in_place:
  assumes "spare s \<noteq> []"
  shows "array_id (slice_append fresh s x) = array_id s"
    and "backing (slice_append fresh s x) = (backing s)[length (elems s) := x]"
  using assms by (auto simp: slice_append_def array_id_def backing_def neq_Nil_conv)

lemma append_reallocates:
  "spare s = [] \<Longrightarrow> array_id (slice_append fresh s x) = Suc (array_id s)"
  by (simp add: slice_append_def array_id_def)

text \<open>An array that has been left behind is never written again.\<close>

lemma left_array_frozen:
  assumes "k < array_id s"
  shows "array_of (slice_append fresh s x) k = array_of s k"
    and "array_of (slice_prefix s n) k = array_of s k"
    and "array_of (slice_make s xs) k = array_of s k"
    and "slice_set s i x = Some t \<Longrightarrow> array_of t k = array_of s k"
    and "slice_copy_within s i j = Some t \<Longrightarrow> array_of t k = array_of s k"
  using assms
  by (auto simp: slice_append_def slice_prefix_def slice_make_def slice_set_def
      slice_copy_within_def array_of_def array_id_def nth_append Let_def
      split: list.splits if_splits)

section \<open>The interface of a keyed table\<close>

text \<open>
  What the alarm tables ask of the sequence that stores them: appending, deleting by index
  and the list of the stored elements.  \<open>del\<close> gives \<open>None\<close> where the code panics.
\<close>

locale sequence =
  fixes contents :: "'s \<Rightarrow> 'a list"
    and add :: "'s \<Rightarrow> 'a \<Rightarrow> 's"
    and del :: "'s \<Rightarrow> nat \<Rightarrow> 's option"
  assumes contents_add: "contents (add s x) = contents s @ [x]"
    and del_in: "i < length (contents s) \<Longrightarrow>
      \<exists>t. del s i = Some t \<and> contents t = remove_nth i (contents s)"
    and del_out: "length (contents s) \<le> i \<Longrightarrow> del s i = None"
begin

lemma del_SomeD: "del s i = Some t \<Longrightarrow>
    i < length (contents s) \<and> contents t = remove_nth i (contents s)"
  by (metis del_in del_out linorder_not_less option.inject option.distinct(1))

lemma add_set: "set (contents (add s x)) = insert x (set (contents s))"
  by (simp add: contents_add)

lemma del_subset: "del s i = Some t \<Longrightarrow> set (contents t) \<subseteq> set (contents s)"
  using set_remove_nth [of i "contents s"] by (auto dest!: del_SomeD)

lemma del_length: "del s i = Some t \<Longrightarrow> length (contents s) = Suc (length (contents t))"
  by (auto dest!: del_SomeD)

end

text \<open>The same with a key that identifies an element, and the search for a key.\<close>

locale keyed_sequence = sequence contents add del
  for contents :: "'s \<Rightarrow> 'a list"
    and add :: "'s \<Rightarrow> 'a \<Rightarrow> 's"
    and del :: "'s \<Rightarrow> nat \<Rightarrow> 's option" +
  fixes key :: "'a \<Rightarrow> 'k"
    and find :: "'s \<Rightarrow> 'k \<Rightarrow> nat option"
  assumes find_first: "find s k = find_index (\<lambda>x. key x = k) (contents s)"
begin

lemma find_hit: "find s k = Some i \<Longrightarrow> i < length (contents s) \<and> key (contents s ! i) = k"
  by (simp add: find_first find_index_Some)

lemma find_miss: "find s k = None \<longleftrightarrow> k \<notin> key ` set (contents s)"
  by (auto simp: find_first find_index_None)

lemma find_del: "find s k = Some i \<Longrightarrow> \<exists>t. del s i = Some t"
  using del_in find_hit by blast

lemma add_fresh_distinct:
  assumes "distinct (map key (filter P (contents s)))" "P x \<Longrightarrow> find s (key x) = None"
  shows "distinct (map key (filter P (contents (add s x))))"
  using assms by (auto simp: contents_add find_miss)

lemma del_distinct:
  "distinct (map key (filter P (contents s))) \<Longrightarrow> del s i = Some t \<Longrightarrow>
   distinct (map key (filter P (contents t)))"
  by (auto dest!: del_SomeD intro: distinct_filter_remove_nth)

lemma del_found_gone:
  assumes "distinct (map key (filter P (contents s)))" "\<And>x. key x = k \<Longrightarrow> P x"
    and "find s k = Some i" "del s i = Some t"
  shows "find t k = None"
proof -
  have "find_index (\<lambda>x. key x = k) (contents s) = Some i"
    using assms(3) by (simp only: find_first)
  with assms(1,2) have "\<forall>x\<in>set (remove_nth i (contents s)). key x \<noteq> k"
    by (rule find_index_remove_nth)
  then show ?thesis
    using del_SomeD [OF assms(4)] by (simp add: find_first find_index_None)
qed

lemma add_found: "find s k = None \<Longrightarrow> key x = k \<Longrightarrow> find (add s x) k = Some (length (contents s))"
  by (simp add: find_first contents_add find_index_append)

end

end
