(* ===== verification/Manager_State.thy ===== *)
theory Manager_State
  imports Alarm_Lib Go_Slice
begin

text \<open>
  The state of the alarm manager (\<open>manager/cmd/types.go\<close>): the struct \<open>AlarmManager\<close>, and,
  in \<open>World\<close>, what else its handlers read and write: the global table of alarm definitions of
  package \<open>alarm\<close>, the file on the persistent volume and the messages posted to other systems.

  The definition table maps to pointers in the code.  Each entry is allocated for its key
  alone, so the map owns what it points to and an update through the pointer is an update of
  the entry.

  \<open>Env\<close> is the outside: every reading of the clock, post and file write takes the next number
  from \<open>clk\<close>, and \<open>Env\<close> says how that interaction goes.  A file write that fails
  (\<open>pv_write n = Some f\<close>) leaves \<open>f\<close> of the old content.  \<open>spare_slots n\<close> is the spare
  capacity the Go runtime allocates when a slice of length \<open>n\<close> grows.
\<close>

record AlarmManager =
  amHost :: string
  amBaseUrl :: string
  amSchemes :: "string list"
  alertInterval :: go_int
  activeAlarms :: "AlarmNotification slice"
  alarmHistory :: "AlarmNotification slice"
  uniqueAlarmId :: go_int
  mutex :: bool
  rmrReady :: bool
  postClear :: bool
  maxActiveAlarms :: go_int
  maxAlarmHistory :: go_int
  alarmClient :: "RICAlarm option"
  exceededActiveAlarmOn :: bool
  exceededAlarmHistoryOn :: bool
  alarmInfoPvFile :: string

type_synonym label_set = "(string \<times> string) list"

datatype alert_status = AlertStatusActive | AlertStatusResolved

primrec alert_status_string :: "alert_status \<Rightarrow> string" where
  "alert_status_string AlertStatusActive = ''active''"
| "alert_status_string AlertStatusResolved = ''resolved''"

datatype outgoing =
  AlertPost label_set label_set \<comment> \<open>labels and annotations, to the Prometheus Alert Manager\<close>
| NomaPost string json          \<comment> \<open>URL and notification, to NOMA\<close>

record World = AlarmManager +
  RICAlarmDefinitions :: "go_int \<rightharpoonup> AlarmDefinition"
  pvFile :: "json option"
  outbox :: "outgoing list"
  clk :: nat

text \<open>A handler's result \<open>(*alert.PostAlertsOK, error)\<close>; \<open>Some ()\<close> is a non-nil pointer.\<close>

type_synonym reply = "unit option \<times> string option"

text \<open>
  What the code reads of an alert of the Prometheus Alert Manager (\<open>models.GettableAlert\<close>); a
  nil pointer in its list of alerts is \<open>None\<close>.
\<close>

record GettableAlert =
  alertLabels :: "string \<rightharpoonup> string"
  alertAnnotations :: "string \<rightharpoonup> string"

type_synonym alerts_reply = "GettableAlert option list option \<times> string option"

record Env =
  time_now :: "nat \<Rightarrow> go_int"
  fmt_time :: "go_int \<Rightarrow> string"
  noma_enabled :: bool
  noma_host :: string
  noma_alarmUrl :: string
  noma_post :: "nat \<Rightarrow> string option"
  alert_post :: "nat \<Rightarrow> reply"
  get_alerts :: "nat \<Rightarrow> alerts_reply"
  pv_write :: "nat \<Rightarrow> (json option \<Rightarrow> json option) option"
  spare_slots :: "nat \<Rightarrow> nat"

section \<open>Clock, mutex and slices\<close>

definition UnixNano :: "Env \<Rightarrow> World \<Rightarrow> go_int \<times> World" where
  "UnixNano e w = (time_now e (clk w), w\<lparr>clk := Suc (clk w)\<rparr>)"

definition Lock :: "World \<Rightarrow> (unit, World) result" where
  "Lock w = (if mutex w then Panic LockHeld w else Ok () (w\<lparr>mutex := True\<rparr>))"

definition Unlock :: "World \<Rightarrow> (unit, World) result" where
  "Unlock w = (if mutex w then Ok () (w\<lparr>mutex := False\<rparr>) else Panic UnlockOfUnlocked w)"

definition append_alarm ::
  "Env \<Rightarrow> AlarmNotification slice \<Rightarrow> AlarmNotification \<Rightarrow> AlarmNotification slice" where
  "append_alarm e s n =
     slice_append (replicate (spare_slots e (slice_len s)) zero_AlarmNotification) s n"

definition append_active :: "Env \<Rightarrow> AlarmNotification \<Rightarrow> World \<Rightarrow> World" where
  "append_active e n w = w\<lparr>activeAlarms := append_alarm e (activeAlarms w) n\<rparr>"

definition append_history :: "Env \<Rightarrow> AlarmNotification \<Rightarrow> World \<Rightarrow> World" where
  "append_history e n w = w\<lparr>alarmHistory := append_alarm e (alarmHistory w) n\<rparr>"

abbreviation active :: "World \<Rightarrow> AlarmNotification list" where
  "active w \<equiv> elems (activeAlarms w)"

abbreviation history :: "World \<Rightarrow> AlarmNotification list" where
  "history w \<equiv> elems (alarmHistory w)"

lemma elems_append_alarm [simp]: "elems (append_alarm e s n) = elems s @ [n]"
  by (simp add: append_alarm_def)

lemma append_active_simps [frame_simps]:
  "active (append_active e n w) = active w @ [n]"
  "history (append_active e n w) = history w"
  "alarmHistory (append_active e n w) = alarmHistory w"
  "uniqueAlarmId (append_active e n w) = uniqueAlarmId w"
  "mutex (append_active e n w) = mutex w"
  "alarmClient (append_active e n w) = alarmClient w"
  "RICAlarmDefinitions (append_active e n w) = RICAlarmDefinitions w"
  "exceededActiveAlarmOn (append_active e n w) = exceededActiveAlarmOn w"
  "exceededAlarmHistoryOn (append_active e n w) = exceededAlarmHistoryOn w"
  "pvFile (append_active e n w) = pvFile w"
  "outbox (append_active e n w) = outbox w"
  by (simp_all add: append_active_def)

lemma append_history_simps [frame_simps]:
  "active (append_history e n w) = active w"
  "activeAlarms (append_history e n w) = activeAlarms w"
  "history (append_history e n w) = history w @ [n]"
  "uniqueAlarmId (append_history e n w) = uniqueAlarmId w"
  "mutex (append_history e n w) = mutex w"
  "alarmClient (append_history e n w) = alarmClient w"
  "RICAlarmDefinitions (append_history e n w) = RICAlarmDefinitions w"
  "exceededActiveAlarmOn (append_history e n w) = exceededActiveAlarmOn w"
  "exceededAlarmHistoryOn (append_history e n w) = exceededAlarmHistoryOn w"
  "pvFile (append_history e n w) = pvFile w"
  "outbox (append_history e n w) = outbox w"
  by (simp_all add: append_history_def)

lemma Lock_Ok [outcome_simps]: "Lock w = Ok u w' \<longleftrightarrow> \<not> mutex w \<and> w' = w\<lparr>mutex := True\<rparr>"
  by (auto simp: Lock_def)

lemma Unlock_Ok [outcome_simps]: "Unlock w = Ok u w' \<longleftrightarrow> mutex w \<and> w' = w\<lparr>mutex := False\<rparr>"
  by (auto simp: Unlock_def)

end
