(* ===== verification/Manager_Table.thy ===== *)
theory Manager_Table
  imports Manager_State
begin

text \<open>
  The operations of \<open>manager/cmd/manager.go\<close> on the alarm tables: searching, deleting,
  numbering, completing a notification from its definition, and adding to the active table
  and to the history with their threshold alarms.
\<close>

section \<open>Operations\<close>

text \<open>\<open>IsMatchFound\<close>: \<open>(i, true)\<close> is \<open>Some i\<close>, \<open>(-1, false)\<close> is \<open>None\<close>.\<close>

definition IsMatchFound :: "World \<Rightarrow> Alarm \<Rightarrow> nat option" where
  "IsMatchFound w newAlarm =
     find_index
       (\<lambda>m. ManagedObjectId (nAlarm m) = ManagedObjectId newAlarm \<and>
            ApplicationId (nAlarm m) = ApplicationId newAlarm \<and>
            SpecificProblem (nAlarm m) = SpecificProblem newAlarm \<and>
            IdentifyingInfo (nAlarm m) = IdentifyingInfo newAlarm)
       (active w)"

text \<open>
  \<open>RemoveAlarm\<close>: the log line reads \<open>alarms[i]\<close> and panics out of range; then the tail is
  copied down and the slice shortened, all in the array.
\<close>

definition RemoveAlarm :: "AlarmNotification slice \<Rightarrow> nat \<Rightarrow> AlarmNotification slice option" where
  "RemoveAlarm alarms i =
     (case slice_get alarms i of
        None \<Rightarrow> None
      | Some _ \<Rightarrow>
          (case slice_copy_within alarms i (Suc i) of
             None \<Rightarrow> None
           | Some copied \<Rightarrow> Some (slice_prefix copied (slice_len copied - 1))))"

definition remove_active :: "nat \<Rightarrow> World \<Rightarrow> (unit, World) result" where
  "remove_active i w =
     (case RemoveAlarm (activeAlarms w) i of
        None \<Rightarrow> Panic IndexOutOfRange w
      | Some s \<Rightarrow> Ok () (w\<lparr>activeAlarms := s\<rparr>))"

definition GenerateAlarmId :: "World \<Rightarrow> go_int \<times> World" where
  "GenerateAlarmId w = (uniqueAlarmId w + 1, w\<lparr>uniqueAlarmId := uniqueAlarmId w + 1\<rparr>)"

text \<open>A missing definition is a nil pointer, dereferenced at once.\<close>

definition UpdateAlarmFields ::
  "go_int \<Rightarrow> AlarmNotification \<Rightarrow> World \<Rightarrow> (AlarmNotification, World) result" where
  "UpdateAlarmFields alarmId newAlarm w =
     (case RICAlarmDefinitions w (nProblem newAlarm) of
        None \<Rightarrow> Panic NilDeref w
      | Some alarmDef \<Rightarrow>
          Ok (newAlarm\<lparr>notifDef := (notifDef newAlarm)
                \<lparr>AlarmId := alarmId, AlarmText := AlarmText alarmDef,
                 EventType := EventType alarmDef\<rparr>\<rparr>) w)"

text \<open>
  The definition of the threshold problem is looked up, its \<open>AlarmId\<close> is overwritten in the
  global table, and the notification, with a copy of the whole definition, goes to both tables.
\<close>

definition GenerateThresholdAlarm ::
  "Env \<Rightarrow> go_int \<Rightarrow> string \<Rightarrow> World \<Rightarrow> (bool, World) result" where
  "GenerateThresholdAlarm e sp data w =
     (case alarmClient w of
        None \<Rightarrow> Panic NilDeref w
      | Some client \<Rightarrow>
          (case UnixNano e w of
             (now, w1) \<Rightarrow>
               (case GenerateAlarmId w1 of
                  (alarmId, w2) \<Rightarrow>
                    (case RICAlarmDefinitions w2 sp of
                       None \<Rightarrow> Panic NilDeref w2
                     | Some d \<Rightarrow>
                         let thresholdMessage =
                               \<lparr>msgAlarm = NewAlarm client sp SeverityWarning ''threshold'' data,
                                 AlarmAction = AlarmActionRaise, AlarmTime = now\<rparr>;
                             alarmDef = d\<lparr>AlarmId := alarmId\<rparr>;
                             n = \<lparr>notifMessage = thresholdMessage, notifDef = alarmDef\<rparr>;
                             w3 = w2\<lparr>RICAlarmDefinitions :=
                                    (RICAlarmDefinitions w2)(sp \<mapsto> alarmDef)\<rparr>
                         in Ok True (append_history e n (append_active e n w3))))))"

text \<open>
  The two limits; \<open>>=\<close> compares the length, an \<open>int\<close>, as a signed number.  The threshold alarm
  is due when a limit is reached and its flag is not set yet.
\<close>

definition active_limit_reached :: "World \<Rightarrow> bool" where
  "active_limit_reached w \<longleftrightarrow>
     maxActiveAlarms w <=s of_nat (slice_len (activeAlarms w)) \<and> \<not> exceededActiveAlarmOn w"

definition history_limit_reached :: "World \<Rightarrow> bool" where
  "history_limit_reached w \<longleftrightarrow>
     maxAlarmHistory w <=s of_nat (slice_len (alarmHistory w)) \<and> \<not> exceededAlarmHistoryOn w"

definition UpdateActiveAlarmList ::
  "Env \<Rightarrow> AlarmNotification \<Rightarrow> World \<Rightarrow> (unit, World) result" where
  "UpdateActiveAlarmList e newAlarm w =
     bindR
       (if active_limit_reached w
        then bindR (GenerateThresholdAlarm e ACTIVE_ALARM_EXCEED_MAX_THRESHOLD ''active'' w)
               (\<lambda>b w1. Ok () (w1\<lparr>exceededActiveAlarmOn := b\<rparr>))
        else Ok () w)
       (\<lambda>_ w1. Ok () (append_active e newAlarm w1))"

definition UpdateAlarmHistoryList ::
  "Env \<Rightarrow> AlarmNotification \<Rightarrow> World \<Rightarrow> (unit, World) result" where
  "UpdateAlarmHistoryList e newAlarm w =
     bindR
       (if history_limit_reached w
        then bindR (GenerateThresholdAlarm e ALARM_HISTORY_EXCEED_MAX_THRESHOLD ''history'' w)
               (\<lambda>b w1. Ok () (w1\<lparr>exceededAlarmHistoryOn := b\<rparr>))
        else Ok () w)
       (\<lambda>_ w1. Ok () (append_history e newAlarm w1))"

section \<open>Searching and deleting\<close>

lemma IsMatchFound_key:
  "IsMatchFound w a = find_index (\<lambda>m. nKey m = alarm_key a) (active w)"
  unfolding IsMatchFound_def by (simp add: alarm_key_def)

lemma IsMatchFound_cong:
  "active w = active w' \<Longrightarrow> alarm_key a = alarm_key b \<Longrightarrow> IsMatchFound w a = IsMatchFound w' b"
  by (simp add: IsMatchFound_key)

lemma RemoveAlarm_in:
  assumes "i < length (elems s)"
  shows "RemoveAlarm s i =
     Some (Slice (old s) (remove_nth i (elems s)) (last (elems s) # spare s))"
  using assms
  by (simp add: RemoveAlarm_def slice_get_def slice_copy_down slice_prefix_def slice_len_def)

lemma RemoveAlarm_out: "length (elems s) \<le> i \<Longrightarrow> RemoveAlarm s i = None"
  by (simp add: RemoveAlarm_def slice_get_def)

text \<open>The tables are keyed sequences, whatever spare capacity the runtime chooses.\<close>

interpretation table: keyed_sequence elems "append_alarm e" RemoveAlarm nKey
  "\<lambda>s k. find_index (\<lambda>m. nKey m = k) (elems s)" for e
  by unfold_locales (simp_all add: RemoveAlarm_in RemoveAlarm_out)

lemma remove_active_Ok [outcome_simps]:
  "remove_active i w = Ok u w' \<longleftrightarrow>
     (\<exists>s. RemoveAlarm (activeAlarms w) i = Some s \<and> w' = w\<lparr>activeAlarms := s\<rparr>)"
  by (auto simp: remove_active_def split: option.splits)

lemma remove_active_in:
  "i < length (active w) \<Longrightarrow>
   remove_active i w = Ok () (w\<lparr>activeAlarms := Slice (old (activeAlarms w))
     (remove_nth i (active w)) (last (active w) # spare (activeAlarms w))\<rparr>)"
  by (simp add: remove_active_def RemoveAlarm_in)

lemma remove_active_out: "length (active w) \<le> i \<Longrightarrow> remove_active i w = Panic IndexOutOfRange w"
  by (simp add: remove_active_def RemoveAlarm_out)

section \<open>Threshold alarms\<close>

text \<open>The notification a threshold alarm stores, from the state it is generated in.\<close>

definition threshold_notification ::
  "Env \<Rightarrow> go_int \<Rightarrow> string \<Rightarrow> World \<Rightarrow> AlarmNotification" where
  "threshold_notification e sp data w =
     \<lparr>notifMessage = \<lparr>msgAlarm = NewAlarm (the (alarmClient w)) sp SeverityWarning ''threshold'' data,
        AlarmAction = AlarmActionRaise, AlarmTime = time_now e (clk w)\<rparr>,
      notifDef = (the (RICAlarmDefinitions w sp))\<lparr>AlarmId := uniqueAlarmId w + 1\<rparr>\<rparr>"

definition can_raise_threshold :: "go_int \<Rightarrow> World \<Rightarrow> bool" where
  "can_raise_threshold sp w \<longleftrightarrow> alarmClient w \<noteq> None \<and> RICAlarmDefinitions w sp \<noteq> None"

text \<open>The state after it.\<close>

definition with_threshold :: "Env \<Rightarrow> go_int \<Rightarrow> string \<Rightarrow> World \<Rightarrow> World" where
  "with_threshold e sp data w =
     (let n = threshold_notification e sp data w in
      append_history e n (append_active e n
        (w\<lparr>clk := Suc (clk w), uniqueAlarmId := uniqueAlarmId w + 1,
           RICAlarmDefinitions := (RICAlarmDefinitions w)(sp \<mapsto> notifDef n)\<rparr>)))"

lemma GenerateThresholdAlarm_ok:
  "can_raise_threshold sp w \<Longrightarrow> GenerateThresholdAlarm e sp data w = Ok True (with_threshold e sp data w)"
  by (auto simp: can_raise_threshold_def GenerateThresholdAlarm_def UnixNano_def GenerateAlarmId_def
      with_threshold_def threshold_notification_def Let_def)

lemma GenerateThresholdAlarm_panic:
  "\<not> can_raise_threshold sp w \<Longrightarrow> \<exists>w'. GenerateThresholdAlarm e sp data w = Panic NilDeref w'"
  by (auto simp: can_raise_threshold_def GenerateThresholdAlarm_def UnixNano_def GenerateAlarmId_def
      split: option.split)

lemma GenerateThresholdAlarm_Ok [outcome_simps]:
  "GenerateThresholdAlarm e sp data w = Ok b w' \<longleftrightarrow>
     can_raise_threshold sp w \<and> b \<and> w' = with_threshold e sp data w"
  using GenerateThresholdAlarm_ok [of sp w e data] GenerateThresholdAlarm_panic [of sp w e data]
  by (cases "can_raise_threshold sp w") auto

lemma with_threshold_simps [frame_simps]:
  "active (with_threshold e sp data w) = active w @ [threshold_notification e sp data w]"
  "history (with_threshold e sp data w) = history w @ [threshold_notification e sp data w]"
  "uniqueAlarmId (with_threshold e sp data w) = uniqueAlarmId w + 1"
  "mutex (with_threshold e sp data w) = mutex w"
  "alarmClient (with_threshold e sp data w) = alarmClient w"
  "exceededActiveAlarmOn (with_threshold e sp data w) = exceededActiveAlarmOn w"
  "exceededAlarmHistoryOn (with_threshold e sp data w) = exceededAlarmHistoryOn w"
  "pvFile (with_threshold e sp data w) = pvFile w"
  "outbox (with_threshold e sp data w) = outbox w"
  "clk (with_threshold e sp data w) = Suc (clk w)"
  "postClear (with_threshold e sp data w) = postClear w"
  "maxActiveAlarms (with_threshold e sp data w) = maxActiveAlarms w"
  "maxAlarmHistory (with_threshold e sp data w) = maxAlarmHistory w"
  "RICAlarmDefinitions (with_threshold e sp data w) =
     (RICAlarmDefinitions w)(sp \<mapsto> notifDef (threshold_notification e sp data w))"
  by (simp_all add: with_threshold_def Let_def append_history_def append_active_def)

lemma threshold_notification_simps [simp]:
  "nProblem (threshold_notification e sp data w) = sp"
  "nAction (threshold_notification e sp data w) = AlarmActionRaise"
  "nId (threshold_notification e sp data w) = uniqueAlarmId w + 1"
  "nKey (threshold_notification e sp data w) =
     (moId (the (alarmClient w)), appId (the (alarmClient w)), sp, data)"
  by (simp_all add: threshold_notification_def NewAlarm_def alarm_key_def)

section \<open>Adding to the tables\<close>

text \<open>The threshold alarms an addition raises, and the state before the addition itself.\<close>

definition active_thresholds :: "Env \<Rightarrow> World \<Rightarrow> AlarmNotification list" where
  "active_thresholds e w =
     (if active_limit_reached w
      then [threshold_notification e ACTIVE_ALARM_EXCEED_MAX_THRESHOLD ''active'' w] else [])"

definition history_thresholds :: "Env \<Rightarrow> World \<Rightarrow> AlarmNotification list" where
  "history_thresholds e w =
     (if history_limit_reached w
      then [threshold_notification e ALARM_HISTORY_EXCEED_MAX_THRESHOLD ''history'' w] else [])"

definition after_active_threshold :: "Env \<Rightarrow> World \<Rightarrow> World" where
  "after_active_threshold e w =
     (if active_limit_reached w
      then (with_threshold e ACTIVE_ALARM_EXCEED_MAX_THRESHOLD ''active'' w)
             \<lparr>exceededActiveAlarmOn := True\<rparr>
      else w)"

definition after_history_threshold :: "Env \<Rightarrow> World \<Rightarrow> World" where
  "after_history_threshold e w =
     (if history_limit_reached w
      then (with_threshold e ALARM_HISTORY_EXCEED_MAX_THRESHOLD ''history'' w)
             \<lparr>exceededAlarmHistoryOn := True\<rparr>
      else w)"

lemma UpdateActiveAlarmList_Ok [outcome_simps]:
  "UpdateActiveAlarmList e n w = Ok u w' \<longleftrightarrow>
     (active_limit_reached w \<longrightarrow> can_raise_threshold ACTIVE_ALARM_EXCEED_MAX_THRESHOLD w) \<and>
     w' = append_active e n (after_active_threshold e w)"
  by (auto simp: UpdateActiveAlarmList_def after_active_threshold_def outcome_simps)

lemma UpdateAlarmHistoryList_Ok [outcome_simps]:
  "UpdateAlarmHistoryList e n w = Ok u w' \<longleftrightarrow>
     (history_limit_reached w \<longrightarrow> can_raise_threshold ALARM_HISTORY_EXCEED_MAX_THRESHOLD w) \<and>
     w' = append_history e n (after_history_threshold e w)"
  by (auto simp: UpdateAlarmHistoryList_def after_history_threshold_def outcome_simps)

lemma after_active_threshold_simps [frame_simps]:
  "active (after_active_threshold e w) = active w @ active_thresholds e w"
  "history (after_active_threshold e w) = history w @ active_thresholds e w"
  "mutex (after_active_threshold e w) = mutex w"
  "alarmClient (after_active_threshold e w) = alarmClient w"
  "pvFile (after_active_threshold e w) = pvFile w"
  "outbox (after_active_threshold e w) = outbox w"
  "postClear (after_active_threshold e w) = postClear w"
  "maxActiveAlarms (after_active_threshold e w) = maxActiveAlarms w"
  "maxAlarmHistory (after_active_threshold e w) = maxAlarmHistory w"
  "exceededAlarmHistoryOn (after_active_threshold e w) = exceededAlarmHistoryOn w"
  "uniqueAlarmId (after_active_threshold e w) =
     uniqueAlarmId w + of_nat (length (active_thresholds e w))"
  by (simp_all add: after_active_threshold_def active_thresholds_def frame_simps)

lemma after_history_threshold_simps [frame_simps]:
  "active (after_history_threshold e w) = active w @ history_thresholds e w"
  "history (after_history_threshold e w) = history w @ history_thresholds e w"
  "mutex (after_history_threshold e w) = mutex w"
  "alarmClient (after_history_threshold e w) = alarmClient w"
  "pvFile (after_history_threshold e w) = pvFile w"
  "outbox (after_history_threshold e w) = outbox w"
  "postClear (after_history_threshold e w) = postClear w"
  "maxActiveAlarms (after_history_threshold e w) = maxActiveAlarms w"
  "maxAlarmHistory (after_history_threshold e w) = maxAlarmHistory w"
  "exceededActiveAlarmOn (after_history_threshold e w) = exceededActiveAlarmOn w"
  "uniqueAlarmId (after_history_threshold e w) =
     uniqueAlarmId w + of_nat (length (history_thresholds e w))"
  by (simp_all add: after_history_threshold_def history_thresholds_def frame_simps)

end
