(* ===== verification/Manager_Publish.thy ===== *)
theory Manager_Publish
  imports Manager_Table
begin

text \<open>
  What leaves the alarm manager: alerts to the Prometheus Alert Manager with their labels and
  annotations, notifications to NOMA, and the file on the persistent volume, from which a
  restarted manager recovers its tables.
\<close>

section \<open>Alerts and notifications\<close>

text \<open>The two label sets, from the alarm and its definition.\<close>

definition amLabels_of :: "Alarm \<Rightarrow> alert_status \<Rightarrow> AlarmDefinition \<Rightarrow> label_set" where
  "amLabels_of newAlarm status alarmDef =
     [(''status'', alert_status_string status),
      (''alertname'', AlarmText alarmDef),
      (''severity'', PerceivedSeverity newAlarm),
      (''service'', ManagedObjectId newAlarm @ ''/'' @ ApplicationId newAlarm),
      (''info'', IdentifyingInfo newAlarm),
      (''system_name'', ''RIC'')]"

definition amAnnotations_of ::
  "Env \<Rightarrow> go_int \<Rightarrow> Alarm \<Rightarrow> go_int \<Rightarrow> AlarmDefinition \<Rightarrow> label_set" where
  "amAnnotations_of e alarmId newAlarm alarmTime alarmDef =
     [(''alarm_id'', Sprint_d alarmId),
      (''specific_problem'', Sprint_d (SpecificProblem newAlarm)),
      (''event_type'', EventType alarmDef),
      (''identifying_info'', IdentifyingInfo newAlarm),
      (''additional_info'', AdditionalInfo newAlarm),
      (''description'', IdentifyingInfo newAlarm @ '':'' @ AdditionalInfo newAlarm),
      (''summary'', IdentifyingInfo newAlarm),
      (''instructions'', OperationInstructions alarmDef),
      (''timestamp'', fmt_time e alarmTime)]"

definition GenerateAlertLabels ::
  "Env \<Rightarrow> go_int \<Rightarrow> Alarm \<Rightarrow> alert_status \<Rightarrow> go_int \<Rightarrow> World \<Rightarrow> (label_set \<times> label_set, World) result"
where
  "GenerateAlertLabels e alarmId newAlarm status alarmTime w =
     (if strings_Contains (ApplicationId newAlarm) ''FM'' then Ok ([], []) w
      else case RICAlarmDefinitions w (SpecificProblem newAlarm) of
        None \<Rightarrow> Panic NilDeref w
      | Some alarmDef \<Rightarrow>
          Ok (amLabels_of newAlarm status alarmDef,
              amAnnotations_of e alarmId newAlarm alarmTime alarmDef) w)"

definition PostAlert :: "Env \<Rightarrow> label_set \<Rightarrow> label_set \<Rightarrow> World \<Rightarrow> (reply, World) result" where
  "PostAlert e amLabels amAnnotations w =
     (if amLabels = [] \<or> amAnnotations = [] then Ok (Some (), None) w
      else Ok (alert_post e (clk w))
        (w\<lparr>outbox := outbox w @ [AlertPost amLabels amAnnotations], clk := Suc (clk w)\<rparr>))"

definition PostAlarm :: "Env \<Rightarrow> AlarmNotification \<Rightarrow> World \<Rightarrow> (reply, World) result" where
  "PostAlarm e m w =
     (let fullUrl = noma_host e @ ''/'' @ noma_alarmUrl e in
      Ok (None, noma_post e (clk w))
        (w\<lparr>outbox := outbox w @ [NomaPost fullUrl (enc_AlarmNotification m)],
           clk := Suc (clk w)\<rparr>))"

section \<open>The persistent volume\<close>

definition persistent_info :: "World \<Rightarrow> AlarmPersistentInfo" where
  "persistent_info w =
     \<lparr>UniqueAlarmId = uniqueAlarmId w, ActiveAlarms = active w, AlarmHistory = history w\<rparr>"

definition WriteAlarmInfoToPersistentVolume :: "Env \<Rightarrow> World \<Rightarrow> World" where
  "WriteAlarmInfoToPersistentVolume e w =
     w\<lparr>pvFile := (case pv_write e (clk w) of
                    None \<Rightarrow> Some (enc_AlarmPersistentInfo (persistent_info w))
                  | Some f \<Rightarrow> f (pvFile w)),
       clk := Suc (clk w)\<rparr>"

definition ReadAlarmInfoFromPersistentVolume :: "World \<Rightarrow> World" where
  "ReadAlarmInfoFromPersistentVolume w =
     (case pvFile w of
        None \<Rightarrow> w
      | Some v \<Rightarrow>
          (case dec_struct AlarmPersistentInfo_fields v
                  \<lparr>UniqueAlarmId = 0, ActiveAlarms = [], AlarmHistory = []\<rparr> of
             (_, False) \<Rightarrow> w
           | (info, True) \<Rightarrow>
               w\<lparr>uniqueAlarmId := UniqueAlarmId info,
                 activeAlarms := slice_make (activeAlarms w) (ActiveAlarms info),
                 alarmHistory := slice_make (alarmHistory w) (AlarmHistory info)\<rparr>))"

lemma PostAlert_Ok [outcome_simps]:
  "PostAlert e l n w = Ok r w' \<longleftrightarrow>
     (if l = [] \<or> n = [] then r = (Some (), None) \<and> w' = w
      else r = alert_post e (clk w) \<and>
           w' = w\<lparr>outbox := outbox w @ [AlertPost l n], clk := Suc (clk w)\<rparr>)"
  by (auto simp: PostAlert_def)

lemma is_ok_PostAlert [simp]: "is_ok (PostAlert e l n w)"
  by (simp add: PostAlert_def)

lemma is_ok_PostAlarm [simp]: "is_ok (PostAlarm e m w)"
  by (simp add: PostAlarm_def Let_def)

lemma WriteAlarmInfo_simps [frame_simps]:
  "activeAlarms (WriteAlarmInfoToPersistentVolume e w) = activeAlarms w"
  "alarmHistory (WriteAlarmInfoToPersistentVolume e w) = alarmHistory w"
  "uniqueAlarmId (WriteAlarmInfoToPersistentVolume e w) = uniqueAlarmId w"
  "mutex (WriteAlarmInfoToPersistentVolume e w) = mutex w"
  "alarmClient (WriteAlarmInfoToPersistentVolume e w) = alarmClient w"
  "RICAlarmDefinitions (WriteAlarmInfoToPersistentVolume e w) = RICAlarmDefinitions w"
  "exceededActiveAlarmOn (WriteAlarmInfoToPersistentVolume e w) = exceededActiveAlarmOn w"
  "exceededAlarmHistoryOn (WriteAlarmInfoToPersistentVolume e w) = exceededAlarmHistoryOn w"
  "maxActiveAlarms (WriteAlarmInfoToPersistentVolume e w) = maxActiveAlarms w"
  "maxAlarmHistory (WriteAlarmInfoToPersistentVolume e w) = maxAlarmHistory w"
  "outbox (WriteAlarmInfoToPersistentVolume e w) = outbox w"
  "postClear (WriteAlarmInfoToPersistentVolume e w) = postClear w"
  by (simp_all add: WriteAlarmInfoToPersistentVolume_def)

lemma pvFile_Write:
  "pv_write e (clk w) = None \<Longrightarrow>
   pvFile (WriteAlarmInfoToPersistentVolume e w) = Some (enc_AlarmPersistentInfo (persistent_info w))"
  by (simp add: WriteAlarmInfoToPersistentVolume_def)

text \<open>A restarted manager that reads the file has the tables and the counter that were written.\<close>

lemma read_persistent_info:
  assumes "pvFile w' = Some (enc_AlarmPersistentInfo (persistent_info w))"
  shows "active (ReadAlarmInfoFromPersistentVolume w') = active w"
    and "history (ReadAlarmInfoFromPersistentVolume w') = history w"
    and "uniqueAlarmId (ReadAlarmInfoFromPersistentVolume w') = uniqueAlarmId w"
  using assms
  by (simp_all add: ReadAlarmInfoFromPersistentVolume_def persistent_info_def
      AlarmPersistentInfo_codec.roundtrip)

end
