(* ===== verification/Manager_Process.thy ===== *)
theory Manager_Process
  imports Manager_Publish
begin

text \<open>
  The handlers \<open>ProcessAlarm\<close>, \<open>ProcessRaiseAlarm\<close> and \<open>ProcessClearAlarm\<close>.  A handler is cut
  where its goroutine can be overtaken by others: at the delays, and where it goes on after
  releasing the mutex.  The piece up to the cut is one function; \<open>handler\<close> says where the
  goroutine stands after it:
  \<^item> \<open>SleepRaise m\<close>, \<open>SleepClear m\<close>: inside \<open>timerDelay\<close>, the mutex released;
  \<^item> \<open>Publish m\<close>: past the raise, the mutex released, history, file and posts still to come;
  \<^item> \<open>Return r\<close>: done, with the handler's result.
  Statements after the last \<open>Unlock\<close> of a clear touch none of the tables and stay with their
  piece.  The composed handlers \<open>ProcessAlarm_call\<close> and the like take what other goroutines do
  to the state during a delay as an argument.
\<close>

datatype handler =
  Return reply
| SleepRaise AlarmNotification
| SleepClear AlarmNotification
| Publish AlarmNotification

abbreviation nil_reply :: reply where
  "nil_reply \<equiv> (None, None)"

abbreviation set_nRaiseDelay :: "go_int \<Rightarrow> AlarmNotification \<Rightarrow> AlarmNotification" where
  "set_nRaiseDelay d n \<equiv> n\<lparr>notifDef := (notifDef n)\<lparr>RaiseDelay := d\<rparr>\<rparr>"

abbreviation set_nAction :: "alarm_action \<Rightarrow> AlarmNotification \<Rightarrow> AlarmNotification" where
  "set_nAction act n \<equiv> n\<lparr>notifMessage := (notifMessage n)\<lparr>AlarmAction := act\<rparr>\<rparr>"

abbreviation set_nTime :: "go_int \<Rightarrow> AlarmNotification \<Rightarrow> AlarmNotification" where
  "set_nTime t n \<equiv> n\<lparr>notifMessage := (notifMessage n)\<lparr>AlarmTime := t\<rparr>\<rparr>"

abbreviation set_nSeverity :: "severity \<Rightarrow> AlarmNotification \<Rightarrow> AlarmNotification" where
  "set_nSeverity s n \<equiv>
     n\<lparr>notifMessage := (notifMessage n)\<lparr>msgAlarm := (nAlarm n)\<lparr>PerceivedSeverity := s\<rparr>\<rparr>\<rparr>"

section \<open>The delay\<close>

text \<open>\<open>time.Duration(delay) * time.Second\<close>, in nanoseconds; the timer fires at once if not positive.\<close>

definition timerDelay_ns :: "go_int \<Rightarrow> go_int" where
  "timerDelay_ns delay = delay * 1000000000"

section \<open>Raising\<close>

definition ProcessRaiseAlarm ::
  "Env \<Rightarrow> AlarmNotification \<Rightarrow> AlarmDefinition \<Rightarrow> World \<Rightarrow> (handler, World) result" where
  "ProcessRaiseAlarm e m alarmDef w =
     (case GenerateAlarmId w of
        (alarmId, w1) \<Rightarrow>
          bindR (UpdateAlarmFields alarmId (set_nRaiseDelay (RaiseDelay alarmDef) m) w1) (\<lambda>m1 w2.
          bindR (UpdateActiveAlarmList e m1 w2) (\<lambda>_ w3.
          bindR (Unlock w3) (\<lambda>_ w4.
            Ok (if 0 <s RaiseDelay alarmDef then SleepRaise m1 else Publish m1) w4))))"

text \<open>After the delay: \<open>True\<close> when the alarm is still active and is to be published.\<close>

definition ProcessRaiseAlarm_wake :: "AlarmNotification \<Rightarrow> World \<Rightarrow> (bool, World) result" where
  "ProcessRaiseAlarm_wake m w =
     bindR (Lock w) (\<lambda>_ w1.
       case IsMatchFound w1 (nAlarm m) of
         Some idx \<Rightarrow>
           (case slice_get (activeAlarms w1) idx of
              None \<Rightarrow> Panic IndexOutOfRange w1
            | Some n \<Rightarrow>
                (case slice_set (activeAlarms w1) idx (set_nRaiseDelay 0 n) of
                   None \<Rightarrow> Panic IndexOutOfRange w1
                 | Some s \<Rightarrow>
                     bindR (Unlock (w1\<lparr>activeAlarms := s\<rparr>)) (\<lambda>_ w2. Ok True w2)))
       | None \<Rightarrow> bindR (Unlock w1) (\<lambda>_ w2. Ok False w2))"

text \<open>The rest of the raise, which runs without the mutex.\<close>

definition ProcessRaiseAlarm_publish ::
  "Env \<Rightarrow> AlarmNotification \<Rightarrow> World \<Rightarrow> (reply, World) result" where
  "ProcessRaiseAlarm_publish e m w =
     (let m1 = set_nRaiseDelay 0 m in
      bindR (UpdateAlarmHistoryList e m1 w) (\<lambda>_ w1.
        let w2 = WriteAlarmInfoToPersistentVolume e w1 in
        if noma_enabled e then PostAlarm e m1 w2
        else bindR (GenerateAlertLabels e (nId m1) (nAlarm m1) AlertStatusActive (nTime m1) w2)
               (\<lambda>(amLabels, amAnnotations) w3. PostAlert e amLabels amAnnotations w3)))"

section \<open>Clearing\<close>

text \<open>A cleared threshold problem, of whatever alarm, switches its flag off.\<close>

definition reset_threshold_flags :: "go_int \<Rightarrow> World \<Rightarrow> World" where
  "reset_threshold_flags sp w =
     (let w1 = (if exceededActiveAlarmOn w \<and> sp = ACTIVE_ALARM_EXCEED_MAX_THRESHOLD
                then w\<lparr>exceededActiveAlarmOn := False\<rparr> else w)
      in if exceededAlarmHistoryOn w1 \<and> sp = ALARM_HISTORY_EXCEED_MAX_THRESHOLD
         then w1\<lparr>exceededAlarmHistoryOn := False\<rparr> else w1)"

text \<open>From \<open>UpdateAlarmFields\<close> to the end, with the mutex held.\<close>

definition ProcessClearAlarm_commit ::
  "Env \<Rightarrow> AlarmNotification \<Rightarrow> nat \<Rightarrow> World \<Rightarrow> (reply, World) result" where
  "ProcessClearAlarm_commit e m idx w =
     (case slice_get (activeAlarms w) idx of
        None \<Rightarrow> Panic IndexOutOfRange w
      | Some n \<Rightarrow>
          bindR (UpdateAlarmFields (nId n) m w) (\<lambda>m1 w1.
          bindR (remove_active idx (append_history e m1 w1)) (\<lambda>_ w2.
          bindR (if history_limit_reached w2
                 then GenerateThresholdAlarm e ALARM_HISTORY_EXCEED_MAX_THRESHOLD ''history'' w2
                 else Ok False w2) (\<lambda>_ w3.
          bindR (Unlock (WriteAlarmInfoToPersistentVolume e
                  (reset_threshold_flags (nProblem m1) w3))) (\<lambda>_ w4.
            if postClear w4 \<and> noma_enabled e
            then PostAlarm e (set_nSeverity SeverityCleared m1) w4
            else Ok nil_reply w4)))))"

definition ProcessClearAlarm ::
  "Env \<Rightarrow> AlarmNotification \<Rightarrow> AlarmDefinition \<Rightarrow> nat \<Rightarrow> World \<Rightarrow> (handler, World) result" where
  "ProcessClearAlarm e m alarmDef idx w =
     (if 0 <s ClearDelay alarmDef then bindR (Unlock w) (\<lambda>_ w1. Ok (SleepClear m) w1)
      else bindR (ProcessClearAlarm_commit e m idx w) (\<lambda>r w1. Ok (Return r) w1))"

definition ProcessClearAlarm_wake ::
  "Env \<Rightarrow> AlarmNotification \<Rightarrow> World \<Rightarrow> (reply, World) result" where
  "ProcessClearAlarm_wake e m w =
     bindR (Lock w) (\<lambda>_ w1.
       case IsMatchFound w1 (nAlarm m) of
         None \<Rightarrow> bindR (Unlock w1) (\<lambda>_ w2. Ok nil_reply w2)
       | Some idx \<Rightarrow> ProcessClearAlarm_commit e m idx w1)"

section \<open>Processing a message\<close>

definition ProcessAlarm ::
  "Env \<Rightarrow> AlarmNotification \<Rightarrow> World \<Rightarrow> (handler, World) result" where
  "ProcessAlarm e m w =
     bindR (Lock w) (\<lambda>_ w1.
       case RICAlarmDefinitions w1 (nProblem m) of
         None \<Rightarrow> bindR (Unlock w1) (\<lambda>_ w2. Ok (Return nil_reply) w2)
       | Some alarmDef \<Rightarrow>
           (case IsMatchFound w1 (nAlarm m) of
              Some idx \<Rightarrow>
                if nAction m = AlarmActionRaise then
                  (case slice_get (activeAlarms w1) idx of
                     None \<Rightarrow> Panic IndexOutOfRange w1
                   | Some n \<Rightarrow>
                       if nSeverity m = nSeverity n
                       then bindR (Unlock w1) (\<lambda>_ w2. Ok (Return nil_reply) w2)
                       else bindR (remove_active idx w1) (\<lambda>_ w2.
                              ProcessRaiseAlarm e m alarmDef w2))
                else if nAction m = AlarmActionClear then ProcessClearAlarm e m alarmDef idx w1
                else bindR (Unlock w1) (\<lambda>_ w2. Ok (Return nil_reply) w2)
            | None \<Rightarrow>
                if nAction m = AlarmActionRaise then ProcessRaiseAlarm e m alarmDef w1
                else bindR (Unlock w1) (\<lambda>_ w2. Ok (Return nil_reply) w2)))"

section \<open>Whole handlers\<close>

text \<open>A handler run on to its end; \<open>others\<close> is what happens to the state during its delay.\<close>

definition run_on ::
  "Env \<Rightarrow> (World \<Rightarrow> World) \<Rightarrow> handler \<Rightarrow> World \<Rightarrow> (reply, World) result" where
  "run_on e others h w =
     (case h of
        Return r \<Rightarrow> Ok r w
      | Publish m \<Rightarrow> ProcessRaiseAlarm_publish e m w
      | SleepRaise m \<Rightarrow>
          bindR (ProcessRaiseAlarm_wake m (others w)) (\<lambda>still w1.
            if still then ProcessRaiseAlarm_publish e m w1 else Ok nil_reply w1)
      | SleepClear m \<Rightarrow> ProcessClearAlarm_wake e m (others w))"

definition ProcessAlarm_call ::
  "Env \<Rightarrow> (World \<Rightarrow> World) \<Rightarrow> AlarmNotification \<Rightarrow> World \<Rightarrow> (reply, World) result" where
  "ProcessAlarm_call e others m w = bindR (ProcessAlarm e m w) (run_on e others)"

text \<open>\<open>HandleAlarms\<close> and \<open>Consume\<close>: the RMR entry, whose payload is \<open>None\<close> when it is not JSON.\<close>

definition HandleAlarms ::
  "Env \<Rightarrow> (World \<Rightarrow> World) \<Rightarrow> json option \<Rightarrow> World \<Rightarrow> (reply, World) result" where
  "HandleAlarms e others payload w =
     (case payload of
        None \<Rightarrow> Ok (None, Some ''json.Unmarshal failed'') w
      | Some v \<Rightarrow>
          (case dec_struct AlarmMessage_fields v zero_AlarmMessage of
             (_, False) \<Rightarrow> Ok (None, Some ''json.Unmarshal failed'') w
           | (m, True) \<Rightarrow>
               ProcessAlarm_call e others
                 \<lparr>notifMessage = m, notifDef = zero_AlarmDefinition\<rparr> w))"

definition Consume ::
  "Env \<Rightarrow> (World \<Rightarrow> World) \<Rightarrow> go_int \<Rightarrow> json option \<Rightarrow> World \<Rightarrow> (string option, World) result" where
  "Consume e others mtype payload w =
     (if mtype = RIC_ALARM_UPDATE
      then bindR (HandleAlarms e others payload w) (\<lambda>_ w1. Ok None w1)
      else Ok None w)"

end
