(* ===== verification/Manager_Frame.thy ===== *)
theory Manager_Frame
  imports Manager_Process
begin

text \<open>
  What every handler does to the state, whatever the message and even if it panics.  The
  handlers write the state through a handful of elementary updates; a relation between states
  that is a preorder and holds over each elementary update holds over every handler.  That is
  proved once, in the locale \<open>state_relation\<close>, and interpreted for the relations of interest:
  the history only grows, the configuration stays, the definitions keep all but their ids, and
  the posted messages only grow.
\<close>

locale state_relation =
  fixes R :: "World \<Rightarrow> World \<Rightarrow> bool"
  assumes R_refl: "R w w"
    and R_trans: "R w w1 \<Longrightarrow> R w1 w2 \<Longrightarrow> R w w2"
    and R_clk: "R w (w\<lparr>clk := Suc (clk w)\<rparr>)"
    and R_mutex: "R w (w\<lparr>mutex := b\<rparr>)"
    and R_uid: "R w (w\<lparr>uniqueAlarmId := uniqueAlarmId w + 1\<rparr>)"
    and R_def_id: "RICAlarmDefinitions w sp = Some d \<Longrightarrow>
      R w (w\<lparr>RICAlarmDefinitions := (RICAlarmDefinitions w)(sp \<mapsto> d\<lparr>AlarmId := i\<rparr>)\<rparr>)"
    and R_active: "R w (w\<lparr>activeAlarms := s\<rparr>)"
    and R_history: "R w (append_history e n w)"
    and R_active_flag: "R w (w\<lparr>exceededActiveAlarmOn := b\<rparr>)"
    and R_history_flag: "R w (w\<lparr>exceededAlarmHistoryOn := b\<rparr>)"
    and R_pv: "R w (w\<lparr>pvFile := v\<rparr>)"
    and R_outbox: "R w (w\<lparr>outbox := outbox w @ [p]\<rparr>)"
begin

lemma R_bind:
  "R w (final r) \<Longrightarrow> (\<And>a w1. r = Ok a w1 \<Longrightarrow> R w1 (final (k a w1))) \<Longrightarrow> R w (final (bindR r k))"
  by (cases r) (auto intro: R_trans)

lemma R_append_active: "R w (append_active e n w)"
  unfolding append_active_def by (rule R_active)

lemma R_Lock: "R w (final (Lock w))"
  by (simp add: Lock_def R_mutex R_refl)

lemma R_Unlock: "R w (final (Unlock w))"
  by (simp add: Unlock_def R_mutex R_refl)

lemma R_remove_active: "R w (final (remove_active i w))"
  by (simp add: remove_active_def R_active R_refl split: option.split)

lemma R_UpdateAlarmFields: "R w (final (UpdateAlarmFields i n w))"
  by (simp add: UpdateAlarmFields_def R_refl split: option.split)

lemma R_Write: "R w (WriteAlarmInfoToPersistentVolume e w)"
proof -
  let ?v = "pvFile (WriteAlarmInfoToPersistentVolume e w)"
  have "WriteAlarmInfoToPersistentVolume e w =
      (w\<lparr>pvFile := ?v\<rparr>)\<lparr>clk := Suc (clk (w\<lparr>pvFile := ?v\<rparr>))\<rparr>"
    by (simp add: WriteAlarmInfoToPersistentVolume_def)
  then show ?thesis by (metis R_pv R_clk R_trans)
qed

lemma R_Post: "R w (w\<lparr>outbox := outbox w @ [p], clk := Suc (clk w)\<rparr>)"
  using R_trans [OF R_outbox R_clk, of w p] by simp

lemma R_PostAlarm: "R w (final (PostAlarm e m w))"
  by (simp add: PostAlarm_def Let_def R_Post)

lemma R_PostAlert: "R w (final (PostAlert e l n w))"
  by (simp add: PostAlert_def R_Post R_refl)

lemma R_GenerateAlertLabels: "R w (final (GenerateAlertLabels e i a st t w))"
  by (simp add: GenerateAlertLabels_def R_refl split: option.split)

lemma R_GenerateThresholdAlarm: "R w (final (GenerateThresholdAlarm e sp data w))"
proof (cases "alarmClient w")
  case None
  then show ?thesis by (simp add: GenerateThresholdAlarm_def R_refl)
next
  case (Some client)
  let ?w1 = "w\<lparr>clk := Suc (clk w)\<rparr>"
  let ?w2 = "?w1\<lparr>uniqueAlarmId := uniqueAlarmId w + 1\<rparr>"
  have w2: "R w ?w2"
    using R_trans [OF R_clk R_uid, of w] by simp
  show ?thesis
  proof (cases "RICAlarmDefinitions w sp")
    case None
    with Some w2 show ?thesis
      by (simp add: GenerateThresholdAlarm_def UnixNano_def GenerateAlarmId_def)
  next
    case (Some d)
    let ?w3 = "?w2\<lparr>RICAlarmDefinitions :=
      (RICAlarmDefinitions w)(sp \<mapsto> d\<lparr>AlarmId := uniqueAlarmId w + 1\<rparr>)\<rparr>"
    have "R ?w2 ?w3"
      using R_def_id [of ?w2 sp d "uniqueAlarmId w + 1"] Some by simp
    then have "R w (append_history e n (append_active e n ?w3))" for n
      by (blast intro: w2 R_trans R_append_active R_history)
    with \<open>alarmClient w = Some client\<close> Some show ?thesis
      by (simp add: GenerateThresholdAlarm_def UnixNano_def GenerateAlarmId_def Let_def)
  qed
qed

lemma R_UpdateActiveAlarmList: "R w (final (UpdateActiveAlarmList e n w))"
  unfolding UpdateActiveAlarmList_def
  by (intro R_bind) (simp_all add: R_bind R_GenerateThresholdAlarm R_active_flag
      R_append_active R_refl)

lemma R_UpdateAlarmHistoryList: "R w (final (UpdateAlarmHistoryList e n w))"
  unfolding UpdateAlarmHistoryList_def
  by (intro R_bind) (simp_all add: R_bind R_GenerateThresholdAlarm R_history_flag
      R_history R_refl)

lemma R_ProcessRaiseAlarm: "R w (final (ProcessRaiseAlarm e m d w))"
  unfolding ProcessRaiseAlarm_def GenerateAlarmId_def prod.case
  by (rule R_trans [OF R_uid])
    (intro R_bind R_UpdateAlarmFields R_UpdateActiveAlarmList R_Unlock; simp add: R_refl)

lemma R_wake: "R w (final (ProcessRaiseAlarm_wake m w))"
  unfolding ProcessRaiseAlarm_wake_def
proof (rule R_bind [OF R_Lock])
  fix a w1
  have no: "R w1 (final (bindR (Unlock w1) (\<lambda>_. Ok False)))"
    by (rule R_bind [OF R_Unlock]) (simp add: R_refl)
  have yes: "R w1 (final (bindR (Unlock (w1\<lparr>activeAlarms := s\<rparr>)) (\<lambda>_. Ok True)))" for s
    by (rule R_trans [OF R_active R_bind [OF R_Unlock]]) (simp add: R_refl)
  show "R w1 (final (case IsMatchFound w1 (nAlarm m) of
      None \<Rightarrow> bindR (Unlock w1) (\<lambda>_. Ok False)
    | Some idx \<Rightarrow>
        (case slice_get (activeAlarms w1) idx of
           None \<Rightarrow> Panic IndexOutOfRange w1
         | Some n \<Rightarrow>
             (case slice_set (activeAlarms w1) idx (set_nRaiseDelay 0 n) of
                None \<Rightarrow> Panic IndexOutOfRange w1
              | Some s \<Rightarrow>
                  bindR (Unlock (w1\<lparr>activeAlarms := s\<rparr>)) (\<lambda>_. Ok True)))))"
    using no yes by (simp add: R_refl split: option.split)
qed

lemma R_publish: "R w (final (ProcessRaiseAlarm_publish e m w))"
proof -
  show ?thesis
    unfolding ProcessRaiseAlarm_publish_def Let_def
  proof (rule R_bind [OF R_UpdateAlarmHistoryList])
    fix a w1
    let ?w2 = "WriteAlarmInfoToPersistentVolume e w1"
    show "R w1 (final (if noma_enabled e then PostAlarm e (set_nRaiseDelay 0 m) ?w2
        else bindR (GenerateAlertLabels e (nId (set_nRaiseDelay 0 m)) (nAlarm (set_nRaiseDelay 0 m))
               AlertStatusActive (nTime (set_nRaiseDelay 0 m)) ?w2)
               (\<lambda>(amLabels, amAnnotations). PostAlert e amLabels amAnnotations)))"
      by (rule R_trans [OF R_Write [where e = e]])
        (simp add: R_PostAlarm R_bind [OF R_GenerateAlertLabels] R_PostAlert split: prod.split)
  qed
qed

lemma R_reset_flags: "R w (reset_threshold_flags sp w)"
proof -
  have "R w1 (if c then w1\<lparr>exceededAlarmHistoryOn := False\<rparr> else w1)" for c w1
    by (simp add: R_history_flag R_refl)
  moreover have "R w (if c then w\<lparr>exceededActiveAlarmOn := False\<rparr> else w)" for c
    by (simp add: R_active_flag R_refl)
  ultimately show ?thesis
    unfolding reset_threshold_flags_def Let_def by (rule R_trans [rotated])
qed

lemma R_commit: "R w (final (ProcessClearAlarm_commit e m i w))"
proof (cases "slice_get (activeAlarms w) i")
  case None
  then show ?thesis by (simp add: ProcessClearAlarm_commit_def R_refl)
next
  case (Some n)
  have tail: "R w3 (final (bindR
      (Unlock (WriteAlarmInfoToPersistentVolume e (reset_threshold_flags sp w3)))
      (\<lambda>_ w4. if postClear w4 \<and> noma_enabled e then PostAlarm e x w4 else Ok nil_reply w4)))"
    for w3 sp x
    by (rule R_trans [OF R_reset_flags R_trans [OF R_Write R_bind [OF R_Unlock]]])
      (simp add: R_PostAlarm R_refl)
  have threshold: "R w2 (final (if c then GenerateThresholdAlarm e sp data w2 else Ok False w2))"
    for c w2 sp data
    by (simp add: R_GenerateThresholdAlarm R_refl)
  have remove: "R w1 (final (remove_active i (append_history e m1 w1)))" for w1 m1
    by (rule R_trans [OF R_history R_remove_active])
  from Some show ?thesis
    unfolding ProcessClearAlarm_commit_def
    by (simp only: option.case)
      (intro R_bind [OF R_UpdateAlarmFields] R_bind [OF remove] R_bind [OF threshold] tail)
qed

lemma R_ProcessClearAlarm: "R w (final (ProcessClearAlarm e m d i w))"
proof -
  have "R w (final (bindR (Unlock w) (\<lambda>_. Ok (SleepClear m))))"
    by (rule R_bind [OF R_Unlock]) (simp add: R_refl)
  moreover have "R w (final (bindR (ProcessClearAlarm_commit e m i w) (\<lambda>r. Ok (Return r))))"
    by (rule R_bind [OF R_commit]) (simp add: R_refl)
  ultimately show ?thesis by (simp add: ProcessClearAlarm_def)
qed

lemma R_unlock_return: "R w (final (bindR (Unlock w) (\<lambda>_. Ok x)))"
  by (rule R_bind [OF R_Unlock]) (simp add: R_refl)

lemma R_clear_wake: "R w (final (ProcessClearAlarm_wake e m w))"
  unfolding ProcessClearAlarm_wake_def
  by (rule R_bind [OF R_Lock]) (simp add: R_unlock_return R_commit split: option.split)

lemma R_ProcessAlarm: "R w (final (ProcessAlarm e m w))"
  unfolding ProcessAlarm_def
  by (rule R_bind [OF R_Lock])
    (simp add: R_unlock_return R_refl R_ProcessClearAlarm R_ProcessRaiseAlarm
      R_bind [OF R_remove_active] split: option.split)

text \<open>Whole handlers, when the other goroutines respect the relation too.\<close>

lemma R_run_on:
  assumes "\<And>w. R w (others w)"
  shows "R w (final (run_on e others h w))"
proof (cases h)
  case (SleepRaise m)
  then show ?thesis
    by (simp add: run_on_def)
      (rule R_trans [OF assms R_bind [OF R_wake]], simp add: R_publish R_refl)
next
  case (SleepClear m)
  then show ?thesis
    by (simp add: run_on_def R_trans [OF assms R_clear_wake])
qed (simp_all add: run_on_def R_refl R_publish)

lemma R_ProcessAlarm_call:
  "(\<And>w. R w (others w)) \<Longrightarrow> R w (final (ProcessAlarm_call e others m w))"
  unfolding ProcessAlarm_call_def by (rule R_bind [OF R_ProcessAlarm R_run_on])

lemma R_HandleAlarms:
  "(\<And>w. R w (others w)) \<Longrightarrow> R w (final (HandleAlarms e others p w))"
  by (simp add: HandleAlarms_def R_refl R_ProcessAlarm_call
      split: option.split prod.split bool.split)

lemma R_Consume:
  assumes "\<And>w. R w (others w)"
  shows "R w (final (Consume e others t p w))"
  unfolding Consume_def
  by (cases "t = RIC_ALARM_UPDATE")
    (simp_all add: R_refl R_bind [OF R_HandleAlarms [OF assms]])

end

section \<open>The relations\<close>

definition history_grows :: "World \<Rightarrow> World \<Rightarrow> bool" where
  "history_grows w w' \<longleftrightarrow> prefix (history w) (history w')"

definition posts_grow :: "World \<Rightarrow> World \<Rightarrow> bool" where
  "posts_grow w w' \<longleftrightarrow> prefix (outbox w) (outbox w')"

definition same_config :: "World \<Rightarrow> World \<Rightarrow> bool" where
  "same_config w w' \<longleftrightarrow>
     amHost w' = amHost w \<and> amBaseUrl w' = amBaseUrl w \<and> amSchemes w' = amSchemes w \<and>
     alertInterval w' = alertInterval w \<and> rmrReady w' = rmrReady w \<and>
     postClear w' = postClear w \<and> maxActiveAlarms w' = maxActiveAlarms w \<and>
     maxAlarmHistory w' = maxAlarmHistory w \<and> alarmClient w' = alarmClient w \<and>
     alarmInfoPvFile w' = alarmInfoPvFile w"

definition erase_id :: "AlarmDefinition \<Rightarrow> AlarmDefinition" where
  "erase_id d = d\<lparr>AlarmId := 0\<rparr>"

definition same_definitions :: "World \<Rightarrow> World \<Rightarrow> bool" where
  "same_definitions w w' \<longleftrightarrow>
     (\<forall>sp. map_option erase_id (RICAlarmDefinitions w' sp) =
           map_option erase_id (RICAlarmDefinitions w sp))"

interpretation history_relation: state_relation history_grows
  by unfold_locales (auto simp: history_grows_def frame_simps)

interpretation posts_relation: state_relation posts_grow
  by unfold_locales (auto simp: posts_grow_def frame_simps)

interpretation config_relation: state_relation same_config
  by unfold_locales (auto simp: same_config_def append_history_def)

interpretation definitions_relation: state_relation same_definitions
  by unfold_locales (auto simp: same_definitions_def erase_id_def frame_simps)

end
