(* ===== verification/Manager_Spec.thy ===== *)
theory Manager_Spec
  imports Manager_Frame
begin

text \<open>
  What the handlers do, branch by branch, as equations between the state before and after; and
  the abstract alarm table they implement, a map from alarm identities to severities.
\<close>

section \<open>Outcomes of the pieces\<close>

definition completed :: "AlarmNotification \<Rightarrow> AlarmDefinition \<Rightarrow> go_int \<Rightarrow> AlarmNotification" where
  "completed m d alarmId =
     m\<lparr>notifDef := (notifDef m)
       \<lparr>AlarmId := alarmId, AlarmText := AlarmText d, EventType := EventType d\<rparr>\<rparr>"

lemma UpdateAlarmFields_Ok [outcome_simps]:
  "UpdateAlarmFields i m w = Ok n w' \<longleftrightarrow>
     (\<exists>d. RICAlarmDefinitions w (nProblem m) = Some d \<and> n = completed m d i \<and> w' = w)"
  by (auto simp: UpdateAlarmFields_def completed_def split: option.splits)

lemma completed_simps [simp]:
  "notifMessage (completed m d i) = notifMessage m"
  "nId (completed m d i) = i"
  "nRaiseDelay (completed m d i) = nRaiseDelay m"
  by (simp_all add: completed_def)

lemma limit_reached_frame [simp]:
  "active_limit_reached (w\<lparr>mutex := b\<rparr>) = active_limit_reached w"
  "active_limit_reached (w\<lparr>uniqueAlarmId := i\<rparr>) = active_limit_reached w"
  "history_limit_reached (w\<lparr>mutex := b\<rparr>) = history_limit_reached w"
  "history_limit_reached (w\<lparr>uniqueAlarmId := i\<rparr>) = history_limit_reached w"
  by (simp_all add: active_limit_reached_def history_limit_reached_def)

lemma IsMatchFound_frame [simp]:
  "IsMatchFound (w\<lparr>mutex := b\<rparr>) a = IsMatchFound w a"
  "IsMatchFound (w\<lparr>uniqueAlarmId := i\<rparr>) a = IsMatchFound w a"
  by (simp_all add: IsMatchFound_def)

lemma can_raise_threshold_frame [simp]:
  "can_raise_threshold sp (w\<lparr>mutex := b\<rparr>) = can_raise_threshold sp w"
  "can_raise_threshold sp (w\<lparr>uniqueAlarmId := i\<rparr>) = can_raise_threshold sp w"
  "can_raise_threshold sp (w\<lparr>activeAlarms := s\<rparr>) = can_raise_threshold sp w"
  by (simp_all add: can_raise_threshold_def)

definition thresholds_defined :: "World \<Rightarrow> bool" where
  "thresholds_defined w \<longleftrightarrow>
     can_raise_threshold ACTIVE_ALARM_EXCEED_MAX_THRESHOLD w \<and>
     can_raise_threshold ALARM_HISTORY_EXCEED_MAX_THRESHOLD w"

text \<open>The notification a raise stores in the active table; history and posts get it without delay.\<close>

definition stored :: "AlarmNotification \<Rightarrow> AlarmDefinition \<Rightarrow> go_int \<Rightarrow> AlarmNotification" where
  "stored m d i = completed (set_nRaiseDelay (RaiseDelay d) m) d i"

lemma stored_simps [simp]:
  "notifMessage (stored m d i) = notifMessage m"
  "nId (stored m d i) = i"
  "nRaiseDelay (stored m d i) = RaiseDelay d"
  by (simp_all add: stored_def)

lemma ProcessRaiseAlarm_Ok [outcome_simps]:
  assumes "mutex w" "RICAlarmDefinitions w (nProblem m) = Some d"
  shows "ProcessRaiseAlarm e m d w = Ok h w' \<longleftrightarrow>
    (active_limit_reached w \<longrightarrow> can_raise_threshold ACTIVE_ALARM_EXCEED_MAX_THRESHOLD w) \<and>
    (let n = stored m d (uniqueAlarmId w + 1);
         w1 = w\<lparr>uniqueAlarmId := uniqueAlarmId w + 1\<rparr>
     in h = (if 0 <s RaiseDelay d then SleepRaise n else Publish n) \<and>
        w' = (append_active e n (after_active_threshold e w1))\<lparr>mutex := False\<rparr>)"
  using assms
  by (auto simp: ProcessRaiseAlarm_def GenerateAlarmId_def outcome_simps frame_simps stored_def
      Let_def)

lemma mutex_idle [simp]: "\<not> mutex w \<Longrightarrow> w\<lparr>mutex := False\<rparr> = w" for w :: World
  by simp

section \<open>The definition table under threshold alarms\<close>

text \<open>A threshold alarm overwrites an \<open>AlarmId\<close> of the table and nothing else of it.\<close>

lemma threshold_definitions:
  assumes "RICAlarmDefinitions w sp = Some d"
  shows "\<exists>d'. RICAlarmDefinitions (with_threshold e q data w) sp = Some d' \<and> erase_id d' = erase_id d"
  using assms by (auto simp: frame_simps threshold_notification_def erase_id_def)

lemma after_threshold_definitions:
  assumes "RICAlarmDefinitions w sp = Some d"
  shows "\<exists>d'. RICAlarmDefinitions (after_active_threshold e w) sp = Some d' \<and> erase_id d' = erase_id d"
    and "\<exists>d'. RICAlarmDefinitions (after_history_threshold e w) sp = Some d' \<and> erase_id d' = erase_id d"
  using assms threshold_definitions [OF assms]
  by (auto simp: after_active_threshold_def after_history_threshold_def)

lemma erase_id_fields:
  assumes "erase_id d' = erase_id d"
  shows "amLabels_of a st d' = amLabels_of a st d"
    and "amAnnotations_of e i a t d' = amAnnotations_of e i a t d"
    and "RaiseDelay d' = RaiseDelay d" "ClearDelay d' = ClearDelay d" "TimeToLive d' = TimeToLive d"
    and "AlarmText d' = AlarmText d" "EventType d' = EventType d"
  using assms
  by (cases d; cases d'; simp add: erase_id_def amLabels_of_def amAnnotations_of_def)+

lemma can_raise_after:
  "can_raise_threshold sp w \<Longrightarrow> can_raise_threshold sp (after_active_threshold e w)"
  "can_raise_threshold sp w \<Longrightarrow> can_raise_threshold sp (after_history_threshold e w)"
  using after_threshold_definitions [of w sp _ e]
  by (fastforce simp: can_raise_threshold_def frame_simps)+

section \<open>The end of a raise\<close>

text \<open>What goes out for a raised alarm: a NOMA notification or an alert, and nothing for FM's own.\<close>

definition raise_posts :: "Env \<Rightarrow> AlarmNotification \<Rightarrow> AlarmDefinition \<Rightarrow> outgoing list" where
  "raise_posts e n d =
     (if noma_enabled e
      then [NomaPost (noma_host e @ ''/'' @ noma_alarmUrl e)
              (enc_AlarmNotification (set_nRaiseDelay 0 n))]
      else if strings_Contains (ApplicationId (nAlarm n)) ''FM'' then []
      else [AlertPost (amLabels_of (nAlarm n) AlertStatusActive d)
              (amAnnotations_of e (nId n) (nAlarm n) (nTime n) d)])"

definition reliable_volume :: "Env \<Rightarrow> bool" where
  "reliable_volume e \<longleftrightarrow> (\<forall>n. pv_write e n = None)"

lemma persistent_info_frame [simp]:
  "persistent_info (w\<lparr>outbox := x\<rparr>) = persistent_info w"
  "persistent_info (w\<lparr>clk := c\<rparr>) = persistent_info w"
  "persistent_info (w\<lparr>mutex := b\<rparr>) = persistent_info w"
  "persistent_info (w\<lparr>pvFile := f\<rparr>) = persistent_info w"
  by (simp_all add: persistent_info_def)

lemma persistent_info_Write [simp]:
  "persistent_info (WriteAlarmInfoToPersistentVolume e w) = persistent_info w"
  by (simp add: WriteAlarmInfoToPersistentVolume_def)

lemma GenerateAlertLabels_known:
  assumes "RICAlarmDefinitions w (SpecificProblem a) = Some d'" "erase_id d' = erase_id d"
  shows "GenerateAlertLabels e i a st t w =
    Ok (if strings_Contains (ApplicationId a) ''FM'' then ([], [])
        else (amLabels_of a st d, amAnnotations_of e i a t d)) w"
  using assms(1) erase_id_fields(1,2) [OF assms(2)] by (simp add: GenerateAlertLabels_def)

lemma labels_nonempty [simp]: "amLabels_of a st d \<noteq> []" "amAnnotations_of e i a t d \<noteq> []"
  by (simp_all add: amLabels_of_def amAnnotations_of_def)

text \<open>The state a publication leaves, as its difference from the state before.\<close>

definition published ::
  "Env \<Rightarrow> AlarmNotification \<Rightarrow> AlarmDefinition \<Rightarrow> World \<Rightarrow> World \<Rightarrow> bool" where
  "published e m d w w' \<longleftrightarrow>
     active w' = active w @ history_thresholds e w \<and>
     history w' = history w @ history_thresholds e w @ [set_nRaiseDelay 0 m] \<and>
     uniqueAlarmId w' = uniqueAlarmId w + of_nat (length (history_thresholds e w)) \<and>
     mutex w' = mutex w \<and>
     outbox w' = outbox w @ raise_posts e m d \<and>
     (reliable_volume e \<longrightarrow> pvFile w' = Some (enc_AlarmPersistentInfo (persistent_info w')))"

lemma publish_result:
  assumes "history_limit_reached w \<longrightarrow> can_raise_threshold ALARM_HISTORY_EXCEED_MAX_THRESHOLD w"
    and d: "RICAlarmDefinitions w (nProblem m) = Some d0" "erase_id d0 = erase_id d"
  shows "\<exists>r w'. ProcessRaiseAlarm_publish e m w = Ok r w' \<and> published e m d w w'"
proof -
  let ?m = "set_nRaiseDelay 0 m"
  let ?w1 = "append_history e ?m (after_history_threshold e w)"
  let ?w2 = "WriteAlarmInfoToPersistentVolume e ?w1"
  have upd: "UpdateAlarmHistoryList e ?m w = Ok () ?w1"
    using assms(1) by (simp add: outcome_simps)
  obtain d' where d': "RICAlarmDefinitions ?w2 (nProblem m) = Some d'" "erase_id d' = erase_id d"
    using after_threshold_definitions(2) [OF d(1), of e] d(2) by (auto simp: frame_simps)
  have labels: "GenerateAlertLabels e i (nAlarm m) st t ?w2 =
      Ok (if strings_Contains (ApplicationId (nAlarm m)) ''FM'' then ([], [])
          else (amLabels_of (nAlarm m) st d, amAnnotations_of e i (nAlarm m) t d)) ?w2" for i st t
    using d' by (rule GenerateAlertLabels_known)
  show ?thesis
    using upd labels
    by (auto simp: ProcessRaiseAlarm_publish_def Let_def PostAlarm_def PostAlert_def raise_posts_def
        published_def frame_simps reliable_volume_def pvFile_Write)
qed

section \<open>Entering the active table\<close>

text \<open>The state when a raise releases the mutex, from the state in which the old entry is gone.\<close>

definition entered :: "Env \<Rightarrow> AlarmNotification \<Rightarrow> World \<Rightarrow> World" where
  "entered e n w =
     (append_active e n (after_active_threshold e (w\<lparr>uniqueAlarmId := uniqueAlarmId w + 1\<rparr>)))
       \<lparr>mutex := False\<rparr>"

abbreviation thresholds_on_entry :: "Env \<Rightarrow> World \<Rightarrow> AlarmNotification list" where
  "thresholds_on_entry e w \<equiv> active_thresholds e (w\<lparr>uniqueAlarmId := uniqueAlarmId w + 1\<rparr>)"

lemma entered_simps [frame_simps]:
  "active (entered e n w) = active w @ thresholds_on_entry e w @ [n]"
  "history (entered e n w) = history w @ thresholds_on_entry e w"
  "mutex (entered e n w) = False"
  "uniqueAlarmId (entered e n w) =
     uniqueAlarmId w + 1 + of_nat (length (thresholds_on_entry e w))"
  "outbox (entered e n w) = outbox w"
  "pvFile (entered e n w) = pvFile w"
  "alarmClient (entered e n w) = alarmClient w"
  "exceededAlarmHistoryOn (entered e n w) = exceededAlarmHistoryOn w"
  "maxAlarmHistory (entered e n w) = maxAlarmHistory w"
  "maxActiveAlarms (entered e n w) = maxActiveAlarms w"
  "postClear (entered e n w) = postClear w"
  by (simp_all add: entered_def frame_simps append_active_def)

lemma entered_definitions:
  assumes "RICAlarmDefinitions w sp = Some d"
  shows "\<exists>d'. RICAlarmDefinitions (entered e n w) sp = Some d' \<and> erase_id d' = erase_id d"
  using after_threshold_definitions(1) [of "w\<lparr>uniqueAlarmId := uniqueAlarmId w + 1\<rparr>" sp d e] assms
  by (simp add: entered_def append_active_def)

lemma entered_can_raise:
  "can_raise_threshold sp w \<Longrightarrow> can_raise_threshold sp (entered e n w)"
  using entered_definitions [of w sp _ e n]
  by (fastforce simp: can_raise_threshold_def frame_simps)

lemma thresholds_problems:
  "map nProblem (active_thresholds e w) =
     (if active_limit_reached w then [ACTIVE_ALARM_EXCEED_MAX_THRESHOLD] else [])"
  "map nProblem (history_thresholds e w) =
     (if history_limit_reached w then [ALARM_HISTORY_EXCEED_MAX_THRESHOLD] else [])"
  by (simp_all add: active_thresholds_def history_thresholds_def)

lemma history_limit_entered:
  "history_limit_reached (entered e n w) \<longleftrightarrow>
     maxAlarmHistory w <=s of_nat (length (history w @ thresholds_on_entry e w)) \<and>
     \<not> exceededAlarmHistoryOn w"
  by (simp add: history_limit_reached_def slice_len_def frame_simps)

lemma thresholds_defined_frame [simp]:
  "thresholds_defined (w\<lparr>mutex := b\<rparr>) = thresholds_defined w"
  "thresholds_defined (w\<lparr>activeAlarms := s\<rparr>) = thresholds_defined w"
  "thresholds_defined (w\<lparr>uniqueAlarmId := i\<rparr>) = thresholds_defined w"
  "thresholds_defined (w\<lparr>pvFile := f\<rparr>) = thresholds_defined w"
  by (simp_all add: thresholds_defined_def can_raise_threshold_def)

lemma thresholds_defined_entered: "thresholds_defined w \<Longrightarrow> thresholds_defined (entered e n w)"
  by (simp add: thresholds_defined_def entered_can_raise)

text \<open>A raise that is due: new, or of another severity than the stored alarm.\<close>

definition raise_due :: "AlarmNotification \<Rightarrow> World \<Rightarrow> bool" where
  "raise_due m w \<longleftrightarrow>
     nAction m = AlarmActionRaise \<and>
     (case IsMatchFound w (nAlarm m) of
        None \<Rightarrow> True | Some i \<Rightarrow> nSeverity m \<noteq> nSeverity (active w ! i))"

definition without_match :: "AlarmNotification \<Rightarrow> World \<Rightarrow> World" where
  "without_match m w =
     (case IsMatchFound w (nAlarm m) of
        None \<Rightarrow> w
      | Some i \<Rightarrow> w\<lparr>activeAlarms := Slice (old (activeAlarms w)) (remove_nth i (active w))
                    (last (active w) # spare (activeAlarms w))\<rparr>)"

lemma without_match_simps [simp]:
  "RICAlarmDefinitions (without_match m w) = RICAlarmDefinitions w"
  "alarmHistory (without_match m w) = alarmHistory w"
  "mutex (without_match m w) = mutex w"
  "uniqueAlarmId (without_match m w) = uniqueAlarmId w"
  "outbox (without_match m w) = outbox w"
  "pvFile (without_match m w) = pvFile w"
  "alarmClient (without_match m w) = alarmClient w"
  "exceededAlarmHistoryOn (without_match m w) = exceededAlarmHistoryOn w"
  "maxAlarmHistory (without_match m w) = maxAlarmHistory w"
  "thresholds_defined (without_match m w) = thresholds_defined w"
  "can_raise_threshold sp (without_match m w) = can_raise_threshold sp w"
  "without_match m (w\<lparr>mutex := b\<rparr>) = (without_match m w)\<lparr>mutex := b\<rparr>"
  by (simp_all add: without_match_def split: option.split)

lemma mutex_last: "w\<lparr>mutex := b, activeAlarms := s\<rparr> = w\<lparr>activeAlarms := s, mutex := b\<rparr>"
  for w :: World
  by simp

lemma IsMatchFound_bound: "IsMatchFound w a = Some i \<Longrightarrow> i < length (active w)"
  by (simp add: IsMatchFound_key find_index_bound)

lemma raise_first:
  assumes "\<not> mutex w" "RICAlarmDefinitions w (nProblem m) = Some d" "raise_due m w"
  shows "ProcessAlarm e m w = ProcessRaiseAlarm e m d ((without_match m w)\<lparr>mutex := True\<rparr>)"
  using assms
  by (auto simp: ProcessAlarm_def Lock_def raise_due_def without_match_def slice_get_def
      IsMatchFound_bound remove_active_in mutex_last split: option.splits)

lemma entered_mutex [simp]: "entered e n (w\<lparr>mutex := b\<rparr>) = entered e n w"
  by (simp add: entered_def after_active_threshold_def with_threshold_def Let_def
      append_active_def append_history_def threshold_notification_def)

lemma raise_enters:
  assumes "\<not> mutex w" "RICAlarmDefinitions w (nProblem m) = Some d" "raise_due m w"
    and "thresholds_defined w"
  shows "ProcessAlarm e m w =
    (let n = stored m d (uniqueAlarmId w + 1)
     in Ok (if 0 <s RaiseDelay d then SleepRaise n else Publish n) (entered e n (without_match m w)))"
proof -
  let ?n = "stored m d (uniqueAlarmId w + 1)"
  let ?w0 = "(without_match m w)\<lparr>mutex := True\<rparr>"
  have "ProcessRaiseAlarm e m d ?w0 =
      Ok (if 0 <s RaiseDelay d then SleepRaise ?n else Publish ?n) (entered e ?n ?w0)"
    using assms
    by (subst ProcessRaiseAlarm_Ok) (simp_all add: thresholds_defined_def entered_def Let_def)
  then show ?thesis
    by (simp add: Let_def raise_first [OF assms(1-3)])
qed

end
