(* ===== verification/Samples.thy ===== *)
theory Samples
  imports Manager_Spec
begin

text \<open>
  Concrete inputs on which the properties are instantiated: an environment in which every
  interaction succeeds, a freshly started manager that knows the problem 72004 and the two
  threshold problems, and a few messages.
\<close>

definition sample_env :: Env where
  "sample_env =
     \<lparr>time_now = of_nat, fmt_time = (\<lambda>_. ''''), noma_enabled = False, noma_host = ''h'',
      noma_alarmUrl = ''u'', noma_post = (\<lambda>_. None), alert_post = (\<lambda>_. (Some (), None)), get_alerts = (\<lambda>_. (Some [], None)),
      pv_write = (\<lambda>_. None), spare_slots = (\<lambda>_. 0)\<rparr>"

definition sample_definition :: "go_int \<Rightarrow> go_int \<Rightarrow> go_int \<Rightarrow> go_int \<Rightarrow> AlarmDefinition" where
  "sample_definition sp raise_delay clear_delay ttl =
     \<lparr>AlarmId = sp, AlarmText = ''t'', EventType = ''e'', OperationInstructions = ''i'',
      RaiseDelay = raise_delay, ClearDelay = clear_delay, TimeToLive = ttl\<rparr>"

definition sample_client :: RICAlarm where
  "sample_client =
     \<lparr>moId = ''SEP'', appId = ''ALARMMANAGER'', managerUrl = ''m'', rmrEndpoint = ''r'',
      rmrCtx = None, libReady = False\<rparr>"

definition sample_world :: "go_int \<Rightarrow> go_int \<Rightarrow> go_int \<Rightarrow> World" where
  "sample_world raise_delay clear_delay ttl =
     \<lparr>amHost = ''a'', amBaseUrl = ''b'', amSchemes = [''http''], alertInterval = 30000,
      activeAlarms = Slice [] [] [], alarmHistory = Slice [] [] [], uniqueAlarmId = 0,
      mutex = False, rmrReady = True, postClear = True, maxActiveAlarms = 5000,
      maxAlarmHistory = 20000, alarmClient = Some sample_client, exceededActiveAlarmOn = False,
      exceededAlarmHistoryOn = False, alarmInfoPvFile = ''f'',
      RICAlarmDefinitions = [
        72004 \<mapsto> sample_definition 72004 raise_delay clear_delay ttl,
        ACTIVE_ALARM_EXCEED_MAX_THRESHOLD \<mapsto> sample_definition ACTIVE_ALARM_EXCEED_MAX_THRESHOLD 0 0 0,
        ALARM_HISTORY_EXCEED_MAX_THRESHOLD \<mapsto> sample_definition ALARM_HISTORY_EXCEED_MAX_THRESHOLD 0 0 0],
      pvFile = None, outbox = [], clk = 0\<rparr>"

definition sample_alarm :: "go_int \<Rightarrow> severity \<Rightarrow> Alarm" where
  "sample_alarm sp sev =
     \<lparr>ManagedObjectId = ''RIC'', ApplicationId = ''UEEC'', SpecificProblem = sp,
      PerceivedSeverity = sev, IdentifyingInfo = ''eth0'', AdditionalInfo = ''x''\<rparr>"

definition sample_message :: "go_int \<Rightarrow> severity \<Rightarrow> alarm_action \<Rightarrow> AlarmNotification" where
  "sample_message sp sev act =
     \<lparr>notifMessage = \<lparr>msgAlarm = sample_alarm sp sev, AlarmAction = act, AlarmTime = 0\<rparr>,
      notifDef = zero_AlarmDefinition\<rparr>"

text \<open>The same manager with the alarm of the sample messages active, with id 1.\<close>

definition sample_entry :: "severity \<Rightarrow> AlarmNotification" where
  "sample_entry sev = completed (sample_message 72004 sev AlarmActionRaise)
     (sample_definition 72004 0 0 0) 1"

definition sample_world_active :: "go_int \<Rightarrow> go_int \<Rightarrow> go_int \<Rightarrow> World" where
  "sample_world_active raise_delay clear_delay ttl =
     (sample_world raise_delay clear_delay ttl)
       \<lparr>activeAlarms := Slice [] [sample_entry SeverityMajor] [], uniqueAlarmId := 1\<rparr>"

lemmas sample_defs = sample_env_def sample_definition_def sample_client_def sample_world_def
  sample_alarm_def sample_message_def sample_entry_def sample_world_active_def

section \<open>What the samples are\<close>

lemma sample_definition_simps [simp]:
  "RaiseDelay (sample_definition sp a b c) = a"
  "ClearDelay (sample_definition sp a b c) = b"
  "TimeToLive (sample_definition sp a b c) = c"
  "AlarmId (sample_definition sp a b c) = sp"
  by (simp_all add: sample_definition_def)

lemma sample_message_simps [simp]:
  "nProblem (sample_message sp sev act) = sp"
  "nSeverity (sample_message sp sev act) = sev"
  "nAction (sample_message sp sev act) = act"
  "nKey (sample_message sp sev act) = (''RIC'', ''UEEC'', sp, ''eth0'')"
  "alarm_key (sample_alarm sp sev) = (''RIC'', ''UEEC'', sp, ''eth0'')"
  by (simp_all add: sample_message_def sample_alarm_def alarm_key_def)

lemma sample_entry_simps [simp]:
  "nKey (sample_entry sev) = (''RIC'', ''UEEC'', 72004, ''eth0'')"
  "nSeverity (sample_entry sev) = sev"
  "nProblem (sample_entry sev) = 72004"
  "nId (sample_entry sev) = 1"
  by (simp_all add: sample_entry_def)

lemma sample_world_simps [simp]:
  "\<not> mutex (sample_world a b c)"
  "active (sample_world a b c) = []"
  "history (sample_world a b c) = []"
  "RICAlarmDefinitions (sample_world a b c) 72004 = Some (sample_definition 72004 a b c)"
  "thresholds_defined (sample_world a b c)"
  "IsMatchFound (sample_world a b c) x = None"
  "maxActiveAlarms (sample_world a b c) = 5000"
  "maxAlarmHistory (sample_world a b c) = 20000"
  "pvFile (sample_world a b c) = None"
  "outbox (sample_world a b c) = []"
  by (simp_all add: sample_world_def thresholds_defined_def can_raise_threshold_def IsMatchFound_def
      ACTIVE_ALARM_EXCEED_MAX_THRESHOLD_def ALARM_HISTORY_EXCEED_MAX_THRESHOLD_def)

lemma sample_world_active_simps [simp]:
  "\<not> mutex (sample_world_active a b c)"
  "active (sample_world_active a b c) = [sample_entry SeverityMajor]"
  "history (sample_world_active a b c) = []"
  "RICAlarmDefinitions (sample_world_active a b c) = RICAlarmDefinitions (sample_world a b c)"
  "thresholds_defined (sample_world_active a b c)"
  "IsMatchFound (sample_world_active a b c) x =
     (if alarm_key x = (''RIC'', ''UEEC'', 72004, ''eth0'') then Some 0 else None)"
  by (simp_all add: sample_world_active_def) (simp add: IsMatchFound_key eq_commute)

lemma sample_thresholds [simp]:
  "can_raise_threshold ACTIVE_ALARM_EXCEED_MAX_THRESHOLD (sample_world_active a b c)"
  "can_raise_threshold ALARM_HISTORY_EXCEED_MAX_THRESHOLD (sample_world_active a b c)"
  "can_raise_threshold ACTIVE_ALARM_EXCEED_MAX_THRESHOLD (sample_world a b c)"
  "can_raise_threshold ALARM_HISTORY_EXCEED_MAX_THRESHOLD (sample_world a b c)"
  using sample_world_active_simps(5) [of a b c] sample_world_simps(5) [of a b c]
  by (simp_all add: thresholds_defined_def)

lemma sample_delay [simp]: "(0 :: go_int) <s 5"
  by (simp add: word_sless_alt)

lemma sample_env_reliable [simp]: "reliable_volume sample_env"
  by (simp add: reliable_volume_def sample_env_def)

lemma severities_distinct [simp]:
  "SeverityMajor \<noteq> SeverityMinor" "SeverityMinor \<noteq> SeverityMajor"
  by (simp_all add: SeverityMajor_def SeverityMinor_def)

end
