(* ===== verification/Manager_Correct.thy ===== *)
theory Manager_Correct
  imports Manager_Spec Samples
begin

text \<open>
  What a whole handler does, branch by branch: raises that are new, duplicate or of another
  severity, clears, delays, and the messages that change nothing.  The results are stated on
  the tables, the counter, the mutex, the file and the posts.
\<close>

section \<open>Clears\<close>

definition cleared :: "AlarmNotification \<Rightarrow> AlarmDefinition \<Rightarrow> nat \<Rightarrow> World \<Rightarrow> AlarmNotification" where
  "cleared m d i w = completed m d (nId (active w ! i))"

lemma cleared_simps [simp]:
  "notifMessage (cleared m d i w) = notifMessage m"
  "nId (cleared m d i w) = nId (active w ! i)"
  "cleared m d i (w\<lparr>mutex := b\<rparr>) = cleared m d i w"
  by (simp_all add: cleared_def)

text \<open>The state a clear of entry \<open>i\<close> leaves, with the threshold alarms \<open>T\<close> it raised.\<close>

definition cleared_state ::
  "Env \<Rightarrow> AlarmNotification \<Rightarrow> AlarmDefinition \<Rightarrow> nat \<Rightarrow> AlarmNotification list \<Rightarrow> World \<Rightarrow> World \<Rightarrow> bool"
where
  "cleared_state e m d i T w w' \<longleftrightarrow>
     active w' = remove_nth i (active w) @ T \<and>
     history w' = history w @ [cleared m d i w] @ T \<and>
     map nProblem T =
       (if maxAlarmHistory w <=s of_nat (Suc (length (history w))) \<and> \<not> exceededAlarmHistoryOn w
        then [ALARM_HISTORY_EXCEED_MAX_THRESHOLD] else []) \<and>
     uniqueAlarmId w' = uniqueAlarmId w + of_nat (length T) \<and>
     \<not> mutex w' \<and>
     exceededActiveAlarmOn w' =
       (exceededActiveAlarmOn w \<and> nProblem m \<noteq> ACTIVE_ALARM_EXCEED_MAX_THRESHOLD) \<and>
     exceededAlarmHistoryOn w' =
       (exceededAlarmHistoryOn w \<and> nProblem m \<noteq> ALARM_HISTORY_EXCEED_MAX_THRESHOLD) \<and>
     outbox w' = outbox w @
       (if postClear w \<and> noma_enabled e
        then [NomaPost (noma_host e @ ''/'' @ noma_alarmUrl e)
                (enc_AlarmNotification (set_nSeverity SeverityCleared (cleared m d i w)))]
        else []) \<and>
     (reliable_volume e \<longrightarrow> pvFile w' = Some (enc_AlarmPersistentInfo (persistent_info w')))"

lemma reset_flags_simps [frame_simps]:
  "activeAlarms (reset_threshold_flags sp w) = activeAlarms w"
  "alarmHistory (reset_threshold_flags sp w) = alarmHistory w"
  "uniqueAlarmId (reset_threshold_flags sp w) = uniqueAlarmId w"
  "mutex (reset_threshold_flags sp w) = mutex w"
  "outbox (reset_threshold_flags sp w) = outbox w"
  "postClear (reset_threshold_flags sp w) = postClear w"
  "RICAlarmDefinitions (reset_threshold_flags sp w) = RICAlarmDefinitions w"
  "maxAlarmHistory (reset_threshold_flags sp w) = maxAlarmHistory w"
  "clk (reset_threshold_flags sp w) = clk w"
  "exceededActiveAlarmOn (reset_threshold_flags sp w) =
     (exceededActiveAlarmOn w \<and> sp \<noteq> ACTIVE_ALARM_EXCEED_MAX_THRESHOLD)"
  "exceededAlarmHistoryOn (reset_threshold_flags sp w) =
     (exceededAlarmHistoryOn w \<and> sp \<noteq> ALARM_HISTORY_EXCEED_MAX_THRESHOLD)"
  by (auto simp: reset_threshold_flags_def Let_def)

definition history_full :: "World \<Rightarrow> bool" where
  "history_full w \<longleftrightarrow>
     maxAlarmHistory w <=s of_nat (Suc (length (history w))) \<and> \<not> exceededAlarmHistoryOn w"

lemma commit_result_weak:
  assumes "mutex w" and d: "RICAlarmDefinitions w (nProblem m) = Some d"
    and i: "i < length (active w)"
    and th: "history_full w \<longrightarrow> can_raise_threshold ALARM_HISTORY_EXCEED_MAX_THRESHOLD w"
  shows "\<exists>r w' T. ProcessClearAlarm_commit e m i w = Ok r w' \<and> cleared_state e m d i T w w'"
proof -
  let ?c = "cleared m d i w"
  let ?w1 = "append_history e ?c w"
  let ?w2 = "?w1\<lparr>activeAlarms := Slice (old (activeAlarms ?w1)) (remove_nth i (active w))
    (last (active w) # spare (activeAlarms ?w1))\<rparr>"
  let ?T = "history_thresholds e ?w2"
  let ?w3 = "if history_limit_reached ?w2
    then with_threshold e ALARM_HISTORY_EXCEED_MAX_THRESHOLD ''history'' ?w2 else ?w2"
  let ?w4 = "(WriteAlarmInfoToPersistentVolume e (reset_threshold_flags (nProblem m) ?w3))\<lparr>mutex := False\<rparr>"
  have fields: "UpdateAlarmFields (nId (active w ! i)) m w = Ok ?c w"
    using d by (simp add: UpdateAlarmFields_Ok cleared_def)
  have rem: "remove_active i ?w1 = Ok () ?w2"
    using i by (simp add: remove_active_in frame_simps)
  have "history_limit_reached ?w2 = history_full w"
    by (simp add: history_limit_reached_def history_full_def slice_len_def append_history_def)
  then have "history_limit_reached ?w2 \<longrightarrow>
      can_raise_threshold ALARM_HISTORY_EXCEED_MAX_THRESHOLD ?w2"
    using th by (simp add: can_raise_threshold_def frame_simps)
  then have "\<exists>b. (if history_limit_reached ?w2
      then GenerateThresholdAlarm e ALARM_HISTORY_EXCEED_MAX_THRESHOLD ''history'' ?w2
      else Ok False ?w2) = Ok b ?w3"
    by (cases "history_limit_reached ?w2") (auto simp: GenerateThresholdAlarm_ok)
  then have run: "ProcessClearAlarm_commit e m i w =
      (if postClear ?w4 \<and> noma_enabled e then PostAlarm e (set_nSeverity SeverityCleared ?c) ?w4
       else Ok nil_reply ?w4)"
    using \<open>mutex w\<close> i fields rem
    by (auto simp: ProcessClearAlarm_commit_def slice_get_def Unlock_def frame_simps)
  have tables: "active ?w4 = remove_nth i (active w) @ ?T" "history ?w4 = history w @ [?c] @ ?T"
    "uniqueAlarmId ?w4 = uniqueAlarmId w + of_nat (length ?T)"
    by (simp_all add: frame_simps history_thresholds_def)
  have rest: "postClear ?w4 = postClear w" "outbox ?w4 = outbox w"
    by (simp_all add: frame_simps append_history_def)
  have flags: "exceededActiveAlarmOn ?w4 =
      (exceededActiveAlarmOn w \<and> nProblem m \<noteq> ACTIVE_ALARM_EXCEED_MAX_THRESHOLD)"
    "exceededAlarmHistoryOn ?w4 =
      (exceededAlarmHistoryOn w \<and> nProblem m \<noteq> ALARM_HISTORY_EXCEED_MAX_THRESHOLD)"
    by (simp_all add: frame_simps)
  have T: "map nProblem ?T =
      (if maxAlarmHistory w <=s of_nat (Suc (length (history w))) \<and> \<not> exceededAlarmHistoryOn w
       then [ALARM_HISTORY_EXCEED_MAX_THRESHOLD] else [])"
    unfolding thresholds_problems
    by (simp add: history_limit_reached_def slice_len_def append_history_def)
  have pv: "reliable_volume e \<Longrightarrow> pvFile ?w4 = Some (enc_AlarmPersistentInfo (persistent_info ?w4))"
    by (simp add: reliable_volume_def pvFile_Write)
  show ?thesis
    unfolding run cleared_state_def
    using tables rest flags T pv
    by (auto simp: PostAlarm_def Let_def intro!: exI [of _ ?T])
qed

lemma commit_result:
  assumes "mutex w" "RICAlarmDefinitions w (nProblem m) = Some d" "i < length (active w)"
    and "can_raise_threshold ALARM_HISTORY_EXCEED_MAX_THRESHOLD w"
  shows "\<exists>r w' T. ProcessClearAlarm_commit e m i w = Ok r w' \<and> cleared_state e m d i T w w'"
  using commit_result_weak [OF assms(1-3)] assms(4) by blast

text \<open>Every clear that returns has done that.\<close>

lemma commit_Ok:
  assumes "ProcessClearAlarm_commit e m i w = Ok r w'" "mutex w"
  shows "\<exists>d T. RICAlarmDefinitions w (nProblem m) = Some d \<and> i < length (active w) \<and>
    cleared_state e m d i T w w'"
proof -
  obtain n where n: "slice_get (activeAlarms w) i = Some n"
    using assms(1) by (cases "slice_get (activeAlarms w) i") (auto simp: ProcessClearAlarm_commit_def)
  then have i: "i < length (active w)" by (simp add: slice_get_Some)
  obtain m1 where "UpdateAlarmFields (nId n) m w = Ok m1 w"
    using assms(1) n by (auto simp: ProcessClearAlarm_commit_def outcome_simps)
  then obtain d where d: "RICAlarmDefinitions w (nProblem m) = Some d"
    by (auto simp: UpdateAlarmFields_Ok)
  have "history_full w \<longrightarrow> can_raise_threshold ALARM_HISTORY_EXCEED_MAX_THRESHOLD w"
  proof
    assume full: "history_full w"
    let ?w1 = "append_history e (completed m d (nId n)) w"
    let ?w2 = "?w1\<lparr>activeAlarms := Slice (old (activeAlarms ?w1)) (remove_nth i (active ?w1))
      (last (active ?w1) # spare (activeAlarms ?w1))\<rparr>"
    have limit: "history_limit_reached ?w2"
      using full by (simp add: history_limit_reached_def history_full_def slice_len_def append_history_def)
    have "remove_active i ?w1 = Ok () ?w2"
      using i by (simp add: remove_active_in frame_simps)
    moreover have "UpdateAlarmFields (nId n) m w = Ok (completed m d (nId n)) w"
      using d by (simp add: UpdateAlarmFields_Ok)
    ultimately obtain b w3 where
      "GenerateThresholdAlarm e ALARM_HISTORY_EXCEED_MAX_THRESHOLD ''history'' ?w2 = Ok b w3"
      using assms(1) n limit
      by (auto simp: ProcessClearAlarm_commit_def bindR_Ok_iff)
    then have "can_raise_threshold ALARM_HISTORY_EXCEED_MAX_THRESHOLD ?w2"
      by (simp add: GenerateThresholdAlarm_Ok)
    then show "can_raise_threshold ALARM_HISTORY_EXCEED_MAX_THRESHOLD w"
      by (simp add: can_raise_threshold_def frame_simps)
  qed
  from commit_result_weak [OF assms(2) d i this, of e] assms(1) d i show ?thesis by auto
qed

section \<open>Raises\<close>

text \<open>
  The state an undelayed raise leaves: \<open>base\<close> is the active table without the entry it
  replaces, \<open>T1\<close> and \<open>T2\<close> are the threshold alarms of the active table and of the history.
\<close>

definition raised_state ::
  "Env \<Rightarrow> AlarmNotification \<Rightarrow> AlarmDefinition \<Rightarrow> AlarmNotification list \<Rightarrow>
   AlarmNotification list \<Rightarrow> AlarmNotification list \<Rightarrow> World \<Rightarrow> World \<Rightarrow> bool"
where
  "raised_state e m d base T1 T2 w w' \<longleftrightarrow>
     (let n = stored m d (uniqueAlarmId w + 1) in
      active w' = base @ T1 @ [n] @ T2 \<and>
      history w' = history w @ T1 @ T2 @ [set_nRaiseDelay 0 n] \<and>
      map nProblem T1 =
        (if maxActiveAlarms w <=s of_nat (length base) \<and> \<not> exceededActiveAlarmOn w
         then [ACTIVE_ALARM_EXCEED_MAX_THRESHOLD] else []) \<and>
      map nProblem T2 =
        (if maxAlarmHistory w <=s of_nat (length (history w @ T1)) \<and> \<not> exceededAlarmHistoryOn w
         then [ALARM_HISTORY_EXCEED_MAX_THRESHOLD] else []) \<and>
      uniqueAlarmId w' = uniqueAlarmId w + 1 + of_nat (length (T1 @ T2)) \<and>
      \<not> mutex w' \<and>
      outbox w' = outbox w @ raise_posts e n d \<and>
      (reliable_volume e \<longrightarrow> pvFile w' = Some (enc_AlarmPersistentInfo (persistent_info w'))))"

lemma published_entered:
  assumes "thresholds_defined w" "RICAlarmDefinitions w (nProblem n) = Some d"
  shows "\<exists>r w'. ProcessRaiseAlarm_publish e n (entered e n w) = Ok r w' \<and>
    published e n d (entered e n w) w'"
proof -
  obtain d' where "RICAlarmDefinitions (entered e n w) (nProblem n) = Some d'" "erase_id d' = erase_id d"
    using entered_definitions [OF assms(2)] by blast
  moreover have "can_raise_threshold ALARM_HISTORY_EXCEED_MAX_THRESHOLD (entered e n w)"
    using thresholds_defined_entered [OF assms(1)] by (simp add: thresholds_defined_def)
  ultimately show ?thesis by (blast intro: publish_result)
qed

lemma without_match_limit:
  "active_limit_reached (without_match m w) \<longleftrightarrow>
     maxActiveAlarms w <=s of_nat (length (active (without_match m w))) \<and>
     \<not> exceededActiveAlarmOn w"
  by (simp add: active_limit_reached_def slice_len_def without_match_def split: option.split)

lemma raise_result:
  assumes "\<not> mutex w" "RICAlarmDefinitions w (nProblem m) = Some d" "raise_due m w"
    and "thresholds_defined w" "RaiseDelay d <=s 0"
  shows "\<exists>r w' T1 T2. ProcessAlarm_call e others m w = Ok r w' \<and>
    raised_state e m d (active (without_match m w)) T1 T2 w w'"
proof -
  let ?n = "stored m d (uniqueAlarmId w + 1)"
  let ?w0 = "without_match m w"
  let ?w1 = "entered e ?n ?w0"
  let ?T1 = "thresholds_on_entry e ?w0"
  let ?T2 = "history_thresholds e ?w1"
  have "\<not> 0 <s RaiseDelay d"
    using assms(5) by (simp add: word_sless_alt word_sle_eq)
  then have "ProcessAlarm e m w = Ok (Publish ?n) ?w1"
    using raise_enters [OF assms(1-4)] by (simp add: Let_def)
  then have call: "ProcessAlarm_call e others m w = ProcessRaiseAlarm_publish e ?n ?w1"
    by (simp add: ProcessAlarm_call_def run_on_def)
  obtain r w' where pub: "ProcessRaiseAlarm_publish e ?n ?w1 = Ok r w'" "published e ?n d ?w1 w'"
    using published_entered [of ?w0 ?n d e] assms by auto
  have T1: "map nProblem ?T1 = (if maxActiveAlarms w <=s of_nat (length (active ?w0)) \<and>
      \<not> exceededActiveAlarmOn w then [ACTIVE_ALARM_EXCEED_MAX_THRESHOLD] else [])"
    by (simp add: thresholds_problems without_match_limit)
  have T2: "map nProblem ?T2 = (if maxAlarmHistory w <=s of_nat (length (history w @ ?T1)) \<and>
      \<not> exceededAlarmHistoryOn w then [ALARM_HISTORY_EXCEED_MAX_THRESHOLD] else [])"
    unfolding thresholds_problems history_limit_entered by simp
  have "raised_state e m d (active ?w0) ?T1 ?T2 w w'"
    using pub(2) T1 T2
    by (simp add: raised_state_def published_def frame_simps Let_def ac_simps)
  with call pub(1) show ?thesis by auto
qed

section \<open>Properties of one message\<close>

text \<open>C8: An undelayed raise of an alarm that is not active appends it to the active table
  with the next id, its text and its event type, appends it to the history, publishes it,
  saves both tables, and releases the mutex; the only other entries are the two threshold
  alarms, each exactly when its limit is reached and not yet reported.\<close>
theorem raise_new_alarm:
  assumes "\<not> mutex w" "thresholds_defined w"
    and "RICAlarmDefinitions w (nProblem m) = Some d" "RaiseDelay d <=s 0"
    and "nAction m = AlarmActionRaise" "IsMatchFound w (nAlarm m) = None"
  shows "\<exists>r w' T1 T2. ProcessAlarm_call e others m w = Ok r w' \<and>
    raised_state e m d (active w) T1 T2 w w'"
  using raise_result [of w m d e others] assms by (simp add: raise_due_def without_match_def)

theorem raise_new_alarm_witness:
  "\<exists>r w' T1 T2. ProcessAlarm_call sample_env (\<lambda>w. w)
      (sample_message 72004 SeverityMajor AlarmActionRaise) (sample_world 0 0 0) = Ok r w' \<and>
    raised_state sample_env (sample_message 72004 SeverityMajor AlarmActionRaise)
      (sample_definition 72004 0 0 0) [] T1 T2 (sample_world 0 0 0) w'"
  using raise_new_alarm [of "sample_world 0 0 0" "sample_message 72004 SeverityMajor AlarmActionRaise"
      "sample_definition 72004 0 0 0" sample_env "\<lambda>w. w"]
  by simp

text \<open>C9: A raise of an active alarm with another severity replaces the entry: the old one is
  deleted, the new one, with an id of its own, is appended, and the rest is as for a new
  alarm.\<close>
theorem severity_change_replaces:
  assumes "\<not> mutex w" "thresholds_defined w"
    and "RICAlarmDefinitions w (nProblem m) = Some d" "RaiseDelay d <=s 0"
    and "nAction m = AlarmActionRaise" "IsMatchFound w (nAlarm m) = Some i"
    and "nSeverity (active w ! i) \<noteq> nSeverity m"
  shows "\<exists>r w' T1 T2. ProcessAlarm_call e others m w = Ok r w' \<and>
    raised_state e m d (remove_nth i (active w)) T1 T2 w w'"
  using raise_result [of w m d e others] assms by (simp add: raise_due_def without_match_def)

theorem severity_change_replaces_witness:
  "\<exists>r w' T1 T2. ProcessAlarm_call sample_env (\<lambda>w. w)
      (sample_message 72004 SeverityMinor AlarmActionRaise) (sample_world_active 0 0 0) = Ok r w' \<and>
    raised_state sample_env (sample_message 72004 SeverityMinor AlarmActionRaise)
      (sample_definition 72004 0 0 0) [] T1 T2 (sample_world_active 0 0 0) w'"
  using severity_change_replaces [of "sample_world_active 0 0 0"
      "sample_message 72004 SeverityMinor AlarmActionRaise" "sample_definition 72004 0 0 0" 0
      sample_env "\<lambda>w. w"]
  by simp

text \<open>The messages that change nothing.\<close>

definition ineffective :: "AlarmNotification \<Rightarrow> World \<Rightarrow> bool" where
  "ineffective m w \<longleftrightarrow>
     RICAlarmDefinitions w (nProblem m) = None \<or>
     (if nAction m = AlarmActionRaise
      then \<exists>i<length (active w). IsMatchFound w (nAlarm m) = Some i \<and>
             nSeverity (active w ! i) = nSeverity m
      else nAction m = AlarmActionClear \<longrightarrow> IsMatchFound w (nAlarm m) = None)"

lemma ineffective_first:
  assumes "\<not> mutex w" "ineffective m w"
  shows "ProcessAlarm e m w = Ok (Return nil_reply) w"
proof -
  have unlock: "Unlock (w\<lparr>mutex := True\<rparr>) = Ok () w"
    using assms(1) by (simp add: Unlock_def)
  show ?thesis
  proof (cases "RICAlarmDefinitions w (nProblem m)")
    case None
    then show ?thesis
      using assms(1) unlock by (simp add: ProcessAlarm_def Lock_def)
  next
    case (Some d)
    then show ?thesis
      using assms unlock
      by (cases "IsMatchFound w (nAlarm m)")
        (auto simp: ProcessAlarm_def Lock_def ineffective_def slice_get_def split: if_splits)
  qed
qed

text \<open>C11: A message is suppressed without any effect on the manager when its problem has no
  definition, when it raises an active alarm again with the same severity, when it clears an
  alarm that is not active, or when its action is neither RAISE nor CLEAR (so CLEARALL does
  nothing).\<close>
theorem ineffective_message_ignored:
  assumes "\<not> mutex w" "ineffective m w"
  shows "ProcessAlarm_call e others m w = Ok nil_reply w"
  using ineffective_first [OF assms] by (simp add: ProcessAlarm_call_def run_on_def)

theorem ineffective_message_ignored_witness:
  "ProcessAlarm_call sample_env (\<lambda>w. w)
     (sample_message 72004 SeverityMajor AlarmActionRaise) (sample_world_active 0 0 0)
   = Ok nil_reply (sample_world_active 0 0 0)"
  by (rule ineffective_message_ignored) (simp_all add: ineffective_def)

text \<open>C10: An undelayed clear of an active alarm deletes exactly its entry, appends the clear,
  with the id of the cleared alarm, to the history, saves the tables, and releases the mutex;
  NOMA alone is told, and only if clears are posted.  A clear whose history entry reaches the
  limit raises the history threshold alarm but does not set its flag.\<close>
theorem clear_active_alarm:
  assumes "\<not> mutex w" "can_raise_threshold ALARM_HISTORY_EXCEED_MAX_THRESHOLD w"
    and "RICAlarmDefinitions w (nProblem m) = Some d" "ClearDelay d <=s 0"
    and "nAction m = AlarmActionClear" "IsMatchFound w (nAlarm m) = Some i"
  shows "\<exists>r w' T. ProcessAlarm_call e others m w = Ok r w' \<and> cleared_state e m d i T w w'"
proof -
  let ?w1 = "w\<lparr>mutex := True\<rparr>"
  have "\<not> 0 <s ClearDelay d"
    using assms(4) by (simp add: word_sless_alt word_sle_eq)
  then have run: "ProcessAlarm e m w =
      bindR (ProcessClearAlarm_commit e m i ?w1) (\<lambda>r w1. Ok (Return r) w1)"
    using assms by (simp add: ProcessAlarm_def Lock_def ProcessClearAlarm_def)
  obtain r w' T where "ProcessClearAlarm_commit e m i ?w1 = Ok r w'" "cleared_state e m d i T ?w1 w'"
    using commit_result [of ?w1 m d i e] assms IsMatchFound_bound [OF assms(6)] by auto
  then show ?thesis
    using run by (auto simp: ProcessAlarm_call_def run_on_def cleared_state_def)
qed

theorem clear_active_alarm_witness:
  "\<exists>r w' T. ProcessAlarm_call sample_env (\<lambda>w. w)
      (sample_message 72004 SeverityMajor AlarmActionClear) (sample_world_active 0 0 0) = Ok r w' \<and>
    cleared_state sample_env (sample_message 72004 SeverityMajor AlarmActionClear)
      (sample_definition 72004 0 0 0) 0 T (sample_world_active 0 0 0) w'"
  using clear_active_alarm [of "sample_world_active 0 0 0"
      "sample_message 72004 SeverityMajor AlarmActionClear" "sample_definition 72004 0 0 0" 0
      sample_env "\<lambda>w. w"]
  by simp

section \<open>Delays\<close>

text \<open>C13: A raise whose problem has a raise delay enters the active table at once, marked as
  pending by its positive delay, and sends, saves and records nothing yet: the goroutine sleeps
  with the mutex free.\<close>
theorem delayed_raise_is_pending:
  assumes "\<not> mutex w" "thresholds_defined w" "raise_due m w"
    and "RICAlarmDefinitions w (nProblem m) = Some d" "0 <s RaiseDelay d"
  shows "\<exists>n w' T. ProcessAlarm e m w = Ok (SleepRaise n) w' \<and>
    n = stored m d (uniqueAlarmId w + 1) \<and> 0 <s nRaiseDelay n \<and>
    active w' = active (without_match m w) @ T @ [n] \<and> history w' = history w @ T \<and>
    map nProblem T =
      (if maxActiveAlarms w <=s of_nat (length (active (without_match m w))) \<and>
          \<not> exceededActiveAlarmOn w
       then [ACTIVE_ALARM_EXCEED_MAX_THRESHOLD] else []) \<and>
    outbox w' = outbox w \<and> pvFile w' = pvFile w \<and> \<not> mutex w'"
  using raise_enters [OF assms(1,4,3,2), of e] assms(5)
  by (auto simp: Let_def frame_simps thresholds_problems without_match_limit
      intro!: exI [of _ "thresholds_on_entry e (without_match m w)"])

theorem delayed_raise_is_pending_witness:
  "\<exists>n w'. ProcessAlarm sample_env (sample_message 72004 SeverityMajor AlarmActionRaise)
     (sample_world 5 0 0) = Ok (SleepRaise n) w' \<and> 0 <s nRaiseDelay n \<and> outbox w' = []"
  using delayed_raise_is_pending [of "sample_world 5 0 0"
      "sample_message 72004 SeverityMajor AlarmActionRaise" "sample_definition 72004 5 0 0" sample_env]
  by (auto simp: raise_due_def)

lemma wake_found:
  assumes "\<not> mutex w" "IsMatchFound w (nAlarm n) = Some i"
  shows "ProcessRaiseAlarm_wake n w =
    Ok True (w\<lparr>activeAlarms := Slice (old (activeAlarms w))
      ((active w)[i := set_nRaiseDelay 0 (active w ! i)]) (spare (activeAlarms w))\<rparr>)"
  using assms IsMatchFound_bound [OF assms(2)]
  by (simp add: ProcessRaiseAlarm_wake_def Lock_def Unlock_def slice_get_def slice_set_def)

lemma wake_lost:
  "\<not> mutex w \<Longrightarrow> IsMatchFound w (nAlarm n) = None \<Longrightarrow> ProcessRaiseAlarm_wake n w = Ok False w"
  by (simp add: ProcessRaiseAlarm_wake_def Lock_def Unlock_def)

lemma raise_completes:
  assumes "\<not> mutex w" "thresholds_defined w" "RICAlarmDefinitions w (nProblem n) = Some d"
  shows "\<exists>r w'. run_on e (\<lambda>_. w) (SleepRaise n) w0 = Ok r w' \<and>
    (case IsMatchFound w (nAlarm n) of
       None \<Rightarrow> r = nil_reply \<and> w' = w
     | Some i \<Rightarrow>
         (\<exists>T. active w' = (active w)[i := set_nRaiseDelay 0 (active w ! i)] @ T \<and>
           history w' = history w @ T @ [set_nRaiseDelay 0 n] \<and>
           map nProblem T = (if history_limit_reached w
             then [ALARM_HISTORY_EXCEED_MAX_THRESHOLD] else []) \<and>
           outbox w' = outbox w @ raise_posts e n d \<and> \<not> mutex w' \<and>
           (reliable_volume e \<longrightarrow>
             pvFile w' = Some (enc_AlarmPersistentInfo (persistent_info w')))))"
proof (cases "IsMatchFound w (nAlarm n)")
  case None
  then show ?thesis
    using assms(1) by (simp add: run_on_def wake_lost)
next
  case (Some i)
  let ?w1 = "w\<lparr>activeAlarms := Slice (old (activeAlarms w))
      ((active w)[i := set_nRaiseDelay 0 (active w ! i)]) (spare (activeAlarms w))\<rparr>"
  have "can_raise_threshold ALARM_HISTORY_EXCEED_MAX_THRESHOLD ?w1"
    using assms(2) by (simp add: thresholds_defined_def)
  then obtain r w' where p: "ProcessRaiseAlarm_publish e n ?w1 = Ok r w'" "published e n d ?w1 w'"
    using publish_result [of ?w1 n d d e] assms(3) by auto
  have limit: "history_limit_reached ?w1 = history_limit_reached w"
    by (simp add: history_limit_reached_def)
  have "map nProblem (history_thresholds e ?w1) =
      (if history_limit_reached w then [ALARM_HISTORY_EXCEED_MAX_THRESHOLD] else [])"
    by (simp only: thresholds_problems limit)
  then show ?thesis
    using Some p assms(1)
    by (auto simp: run_on_def wake_found published_def
        intro!: exI [of _ "history_thresholds e ?w1"])
qed



text \<open>C15: A clear whose problem has a clear delay changes nothing before the delay is over; then
  it clears the entry at the index the alarm has by then, and does nothing if another goroutine
  has removed it.\<close>
theorem delayed_clear:
  assumes "\<not> mutex w0" "RICAlarmDefinitions w0 (nProblem m) = Some d0" "0 <s ClearDelay d0"
    and "nAction m = AlarmActionClear" "IsMatchFound w0 (nAlarm m) = Some i0"
    and "\<not> mutex w" "can_raise_threshold ALARM_HISTORY_EXCEED_MAX_THRESHOLD w"
    and "RICAlarmDefinitions w (nProblem m) = Some d"
  shows "ProcessAlarm e m w0 = Ok (SleepClear m) w0 \<and>
    (\<exists>r w'. run_on e (\<lambda>_. w) (SleepClear m) w0 = Ok r w' \<and>
      (case IsMatchFound w (nAlarm m) of
         None \<Rightarrow> r = nil_reply \<and> w' = w
       | Some i \<Rightarrow> \<exists>T. cleared_state e m d i T w w'))"
proof
  show "ProcessAlarm e m w0 = Ok (SleepClear m) w0"
    using assms(1-5) by (simp add: ProcessAlarm_def Lock_def Unlock_def ProcessClearAlarm_def)
  show "\<exists>r w'. run_on e (\<lambda>_. w) (SleepClear m) w0 = Ok r w' \<and>
      (case IsMatchFound w (nAlarm m) of
         None \<Rightarrow> r = nil_reply \<and> w' = w
       | Some i \<Rightarrow> \<exists>T. cleared_state e m d i T w w')"
  proof (cases "IsMatchFound w (nAlarm m)")
    case None
    then show ?thesis
      using assms(6)
      by (simp add: run_on_def ProcessClearAlarm_wake_def Lock_def Unlock_def)
  next
    case (Some i)
    let ?w1 = "w\<lparr>mutex := True\<rparr>"
    obtain r w' T where
      "ProcessClearAlarm_commit e m i ?w1 = Ok r w'" "cleared_state e m d i T ?w1 w'"
      using commit_result [of ?w1 m d i e] assms IsMatchFound_bound [OF Some] by auto
    then show ?thesis
      using Some assms(6)
      by (auto simp: run_on_def ProcessClearAlarm_wake_def Lock_def cleared_state_def)
  qed
qed

theorem delayed_clear_witness:
  "ProcessAlarm sample_env (sample_message 72004 SeverityMajor AlarmActionClear) (sample_world_active 0 5 0)
     = Ok (SleepClear (sample_message 72004 SeverityMajor AlarmActionClear)) (sample_world_active 0 5 0) \<and>
   run_on sample_env (\<lambda>_. sample_world 0 5 0)
     (SleepClear (sample_message 72004 SeverityMajor AlarmActionClear)) (sample_world_active 0 5 0)
     = Ok nil_reply (sample_world 0 5 0)"
  using delayed_clear [of "sample_world_active 0 5 0"
      "sample_message 72004 SeverityMajor AlarmActionClear" "sample_definition 72004 0 5 0" 0
      "sample_world 0 5 0" "sample_definition 72004 0 5 0" sample_env]
  by simp

text \<open>C16: If the definition of the problem is deleted while a delayed clear sleeps, the goroutine
  dereferences a nil pointer when it wakes up, and leaves the mutex locked.\<close>
theorem delayed_clear_of_deleted_definition_panics:
  assumes "\<not> mutex w" "RICAlarmDefinitions w (nProblem m) = None"
    and "IsMatchFound w (nAlarm m) = Some i"
  shows "run_on e (\<lambda>_. w) (SleepClear m) w0 = Panic NilDeref (w\<lparr>mutex := True\<rparr>)"
  using assms IsMatchFound_bound [OF assms(3)]
  by (simp add: run_on_def ProcessClearAlarm_wake_def Lock_def ProcessClearAlarm_commit_def
      slice_get_def UpdateAlarmFields_def)

theorem delayed_clear_of_deleted_definition_panics_witness:
  "run_on sample_env (\<lambda>_. (sample_world_active 0 5 0)\<lparr>RICAlarmDefinitions := Map.empty\<rparr>)
     (SleepClear (sample_message 72004 SeverityMajor AlarmActionClear)) (sample_world_active 0 5 0)
   = Panic NilDeref
       ((sample_world_active 0 5 0)\<lparr>RICAlarmDefinitions := Map.empty, mutex := True\<rparr>)"
  using delayed_clear_of_deleted_definition_panics
    [of "(sample_world_active 0 5 0)\<lparr>RICAlarmDefinitions := Map.empty\<rparr>"
      "sample_message 72004 SeverityMajor AlarmActionClear" 0 sample_env "sample_world_active 0 5 0"]
  by (simp add: IsMatchFound_key)

end
