(* ===== verification/Manager_Total.thy ===== *)
theory Manager_Total
  imports Manager_Correct
begin

text \<open>
  Properties of every handler at once: the lock discipline, the absence of panics when the
  threshold problems are defined and no definition is deleted, the file on the persistent
  volume, and the refinement of an abstract alarm table.
\<close>

section \<open>The mutex\<close>

text \<open>
  A section of code that either panics on something else than the mutex or ends with the mutex
  in state \<open>b\<close>.
\<close>

fun leaves_mutex :: "bool \<Rightarrow> ('a, World) result \<Rightarrow> bool" where
  "leaves_mutex b (Ok a w) = (mutex w = b)"
| "leaves_mutex b (Panic f w) = (f \<noteq> LockHeld \<and> f \<noteq> UnlockOfUnlocked)"

lemma leaves_mutex_bind:
  "leaves_mutex b r \<Longrightarrow> (\<And>a w. r = Ok a w \<Longrightarrow> mutex w = b \<Longrightarrow> leaves_mutex c (k a w)) \<Longrightarrow>
   leaves_mutex c (bindR r k)"
  by (cases r) auto

lemma leaves_mutex_primitives:
  "\<not> mutex w \<Longrightarrow> leaves_mutex True (Lock w)"
  "mutex w \<Longrightarrow> leaves_mutex False (Unlock w)"
  "mutex w = b \<Longrightarrow> leaves_mutex b (remove_active i w)"
  "mutex w = b \<Longrightarrow> leaves_mutex b (UpdateAlarmFields j m w)"
  "mutex w = b \<Longrightarrow> leaves_mutex b (GenerateThresholdAlarm e sp data w)"
  "mutex w = b \<Longrightarrow> leaves_mutex b (GenerateAlertLabels e j a st t w)"
  "mutex w = b \<Longrightarrow> leaves_mutex b (PostAlert e l n w)"
  "mutex w = b \<Longrightarrow> leaves_mutex b (PostAlarm e m w)"
  by (simp_all add: Lock_def Unlock_def remove_active_def UpdateAlarmFields_def Let_def
      GenerateThresholdAlarm_def UnixNano_def GenerateAlarmId_def frame_simps
      GenerateAlertLabels_def PostAlert_def PostAlarm_def split: option.split)

lemma leaves_mutex_unlock:
  "mutex w \<Longrightarrow> leaves_mutex False (bindR (Unlock w) (\<lambda>_ w. Ok (x w) w))"
  by (simp add: Unlock_def)

lemma leaves_mutex_threshold:
  assumes "mutex w = b" "\<And>w'. mutex w' = b \<Longrightarrow> leaves_mutex b (k w')"
    and "\<And>x w'. mutex (f x w') = mutex w'"
  shows "leaves_mutex b (bindR
    (if c then bindR (GenerateThresholdAlarm e sp data w) (\<lambda>x w1. Ok () (f x w1)) else Ok () w)
    (\<lambda>_. k))"
  using assms leaves_mutex_primitives(5) [of w b e sp data]
  by (cases "GenerateThresholdAlarm e sp data w") simp_all

lemma leaves_mutex_updates:
  "mutex w = b \<Longrightarrow> leaves_mutex b (UpdateActiveAlarmList e m w)"
  "mutex w = b \<Longrightarrow> leaves_mutex b (UpdateAlarmHistoryList e m w)"
  unfolding UpdateActiveAlarmList_def UpdateAlarmHistoryList_def
  by (rule leaves_mutex_threshold; simp add: frame_simps)+

lemma leaves_mutex_ProcessRaiseAlarm:
  assumes "mutex w"
  shows "leaves_mutex False (ProcessRaiseAlarm e m d w)"
  unfolding ProcessRaiseAlarm_def GenerateAlarmId_def prod.case
  by (intro leaves_mutex_bind [OF leaves_mutex_primitives(4) [where b = True]]
      leaves_mutex_bind [OF leaves_mutex_updates(1) [where b = True]] leaves_mutex_unlock)
    (simp_all add: assms)

lemma leaves_mutex_publish:
  assumes "mutex w = b"
  shows "leaves_mutex b (ProcessRaiseAlarm_publish e m w)"
  unfolding ProcessRaiseAlarm_publish_def Let_def
  by (rule leaves_mutex_bind [OF leaves_mutex_updates(2) [OF assms]])
    (auto intro!: leaves_mutex_primitives(7,8) leaves_mutex_bind [OF leaves_mutex_primitives(6) [where b = b]]
      simp: frame_simps)

lemma leaves_mutex_commit:
  assumes "mutex w"
  shows "leaves_mutex False (ProcessClearAlarm_commit e m i w)"
proof (cases "slice_get (activeAlarms w) i")
  case None
  then show ?thesis by (simp add: ProcessClearAlarm_commit_def)
next
  case (Some n)
  have tail: "leaves_mutex False (bindR
      (Unlock (WriteAlarmInfoToPersistentVolume e (reset_threshold_flags sp w3)))
      (\<lambda>_ w4. if postClear w4 \<and> noma_enabled e then PostAlarm e x w4 else Ok nil_reply w4))"
    if "mutex w3" for w3 sp x
    using that by (simp add: Unlock_def frame_simps PostAlarm_def Let_def)
  have threshold: "leaves_mutex True (if c then GenerateThresholdAlarm e sp data w2 else Ok False w2)"
    if "mutex w2" for c w2 sp data
    using that leaves_mutex_primitives(5) [of w2 True e sp data] by simp
  from Some show ?thesis
    unfolding ProcessClearAlarm_commit_def
    by (simp only: option.case)
      (intro leaves_mutex_bind [OF leaves_mutex_primitives(4) [where b = True]]
        leaves_mutex_bind [OF leaves_mutex_primitives(3) [where b = True]] leaves_mutex_bind [OF threshold] tail;
        simp add: assms frame_simps)
qed

lemma leaves_mutex_ProcessAlarm:
  assumes "\<not> mutex w"
  shows "leaves_mutex False (ProcessAlarm e m w)"
proof -
  have clear: "leaves_mutex False (ProcessClearAlarm e m d i w1)" if "mutex w1" for d i w1
    using that
    by (simp add: ProcessClearAlarm_def leaves_mutex_unlock
        leaves_mutex_bind [OF leaves_mutex_commit])
  show ?thesis
    unfolding ProcessAlarm_def
    by (rule leaves_mutex_bind [OF leaves_mutex_primitives(1) [OF assms]])
      (auto intro!: leaves_mutex_unlock leaves_mutex_ProcessRaiseAlarm clear
        leaves_mutex_bind [OF leaves_mutex_primitives(3) [where b = True]] split: option.split)
qed

lemma leaves_mutex_wake:
  assumes "\<not> mutex w"
  shows "leaves_mutex False (ProcessRaiseAlarm_wake m w)"
    and "leaves_mutex False (ProcessClearAlarm_wake e m w)"
  unfolding ProcessRaiseAlarm_wake_def ProcessClearAlarm_wake_def
  by (rule leaves_mutex_bind [OF leaves_mutex_primitives(1) [OF assms]];
      auto intro!: leaves_mutex_unlock leaves_mutex_commit split: option.split)+

lemma leaves_mutex_run_on:
  assumes "\<not> mutex w" "\<And>w. \<not> mutex w \<Longrightarrow> \<not> mutex (others w)"
  shows "leaves_mutex False (run_on e others h w)"
proof (cases h)
  case (SleepRaise m)
  have "leaves_mutex False (bindR (ProcessRaiseAlarm_wake m (others w)) (\<lambda>still w1.
      if still then ProcessRaiseAlarm_publish e m w1 else Ok nil_reply w1))"
    by (rule leaves_mutex_bind [OF leaves_mutex_wake(1)])
      (auto simp: assms leaves_mutex_publish)
  then show ?thesis by (simp add: SleepRaise run_on_def)
qed (simp_all add: run_on_def assms leaves_mutex_wake(2) leaves_mutex_publish)

text \<open>C7: Lock discipline.  Handling a message from a free mutex never blocks on the mutex and
  never releases it twice, and when it returns, in whatever branch, the mutex is free, provided
  the other goroutines leave it free during a delay.\<close>
theorem lock_discipline:
  assumes "\<not> mutex w" "\<And>w. \<not> mutex w \<Longrightarrow> \<not> mutex (others w)"
  shows "leaves_mutex False (ProcessAlarm_call e others m w)"
  unfolding ProcessAlarm_call_def
  by (rule leaves_mutex_bind [OF leaves_mutex_ProcessAlarm])
    (auto simp: assms intro: leaves_mutex_run_on)

theorem lock_discipline_witness:
  "leaves_mutex False (ProcessAlarm_call sample_env (\<lambda>w. w\<lparr>clk := Suc (clk w)\<rparr>)
     (sample_message 72004 SeverityMajor AlarmActionRaise) (sample_world 5 0 0))"
  by (rule lock_discipline) simp_all

section \<open>No panics\<close>

definition keeps_setup :: "World \<Rightarrow> World \<Rightarrow> bool" where
  "keeps_setup w w' \<longleftrightarrow> same_config w w' \<and> same_definitions w w'"

lemma same_definitions_Some:
  assumes "same_definitions w w'" "RICAlarmDefinitions w sp = Some d"
  shows "\<exists>d'. RICAlarmDefinitions w' sp = Some d' \<and> erase_id d' = erase_id d"
proof -
  have "map_option erase_id (RICAlarmDefinitions w' sp) = Some (erase_id d)"
    using assms by (simp add: same_definitions_def)
  then show ?thesis by auto
qed

lemma same_definitions_None:
  assumes "same_definitions w w'"
  shows "RICAlarmDefinitions w' sp = None \<longleftrightarrow> RICAlarmDefinitions w sp = None"
  using assms unfolding same_definitions_def by (metis map_option_is_None)

lemma keeps_setup_thresholds:
  assumes "keeps_setup w w'"
  shows "thresholds_defined w' = thresholds_defined w"
  using assms same_definitions_None [of w w']
  by (simp add: keeps_setup_def thresholds_defined_def can_raise_threshold_def same_config_def)

lemma keeps_setup_ProcessAlarm: "keeps_setup w (final (ProcessAlarm e m w))"
  by (simp add: keeps_setup_def config_relation.R_ProcessAlarm definitions_relation.R_ProcessAlarm)

lemma keeps_setup_trans: "keeps_setup w w1 \<Longrightarrow> keeps_setup w1 w2 \<Longrightarrow> keeps_setup w w2"
  using config_relation.R_trans definitions_relation.R_trans
  by (auto simp: keeps_setup_def)

lemma keeps_setup_call:
  assumes "\<And>w. keeps_setup w (others w)"
  shows "keeps_setup w (final (ProcessAlarm_call e others m w))"
  using assms
  by (simp add: keeps_setup_def config_relation.R_ProcessAlarm_call
      definitions_relation.R_ProcessAlarm_call)

text \<open>The first piece: which goroutine is left behind, and for what problem.\<close>

fun pending_of :: "handler \<Rightarrow> AlarmNotification option" where
  "pending_of (Return r) = None"
| "pending_of (SleepRaise n) = Some n"
| "pending_of (SleepClear n) = Some n"
| "pending_of (Publish n) = Some n"

lemma raise_due_or_ineffective:
  assumes "nAction m = AlarmActionRaise"
  shows "raise_due m w \<or> ineffective m w"
  using assms IsMatchFound_bound [of w "nAlarm m"]
  by (auto simp: raise_due_def ineffective_def split: option.splits)

lemma clear_first:
  assumes "\<not> mutex w" "RICAlarmDefinitions w (nProblem m) = Some d"
    and "nAction m = AlarmActionClear" "IsMatchFound w (nAlarm m) = Some i"
  shows "ProcessAlarm e m w = ProcessClearAlarm e m d i (w\<lparr>mutex := True\<rparr>)"
  using assms by (simp add: ProcessAlarm_def Lock_def)

lemma ProcessAlarm_ok:
  assumes "\<not> mutex w" "thresholds_defined w"
  shows "\<exists>h w'. ProcessAlarm e m w = Ok h w' \<and>
    (\<forall>n. pending_of h = Some n \<longrightarrow> nProblem n = nProblem m \<and>
      RICAlarmDefinitions w (nProblem m) \<noteq> None)"
proof (cases "ineffective m w")
  case True
  then show ?thesis using assms by (simp add: ineffective_first)
next
  case False
  then obtain d where d: "RICAlarmDefinitions w (nProblem m) = Some d"
    by (auto simp: ineffective_def)
  show ?thesis
  proof (cases "nAction m = AlarmActionRaise")
    case True
    with False raise_due_or_ineffective have "raise_due m w" by blast
    from raise_enters [OF assms(1) d this assms(2)] d show ?thesis by (simp add: Let_def)
  next
    case raise: False
    with False obtain i where i: "nAction m = AlarmActionClear" "IsMatchFound w (nAlarm m) = Some i"
      by (auto simp: ineffective_def)
    let ?w1 = "w\<lparr>mutex := True\<rparr>"
    obtain r w' T where "ProcessClearAlarm_commit e m i ?w1 = Ok r w'"
      using commit_result [of ?w1 m d i e] d i assms IsMatchFound_bound [OF i(2)]
      by (auto simp: thresholds_defined_def)
    then show ?thesis
      using d by (simp add: clear_first [OF assms(1) d i] ProcessClearAlarm_def Unlock_def)
  qed
qed

lemma run_on_ok:
  assumes "\<not> mutex w" "\<not> mutex (others w)" "keeps_setup w (others w)" "thresholds_defined w"
    and "\<And>n. pending_of h = Some n \<Longrightarrow> RICAlarmDefinitions w (nProblem n) \<noteq> None"
  shows "\<exists>r w'. run_on e others h w = Ok r w'"
proof (cases "pending_of h")
  case None
  then show ?thesis by (cases h) (simp_all add: run_on_def)
next
  case (Some n)
  let ?w = "others w"
  obtain d where d: "RICAlarmDefinitions w (nProblem n) = Some d"
    using assms(5) [OF Some] by auto
  obtain d' where d': "RICAlarmDefinitions ?w (nProblem n) = Some d'"
    using same_definitions_Some [OF _ d] assms(3) by (auto simp: keeps_setup_def)
  have th: "thresholds_defined ?w"
    using keeps_setup_thresholds [OF assms(3)] assms(4) by simp
  have eq: "run_on e others h w = run_on e (\<lambda>_. ?w) h w"
    by (simp add: run_on_def)
  show ?thesis
  proof (cases h)
    case (SleepRaise m)
    then show ?thesis
      using raise_completes [OF assms(2) th d', of e w] Some eq by auto
  next
    case (SleepClear m)
    have "ProcessClearAlarm_wake e n ?w =
        (case IsMatchFound ?w (nAlarm n) of
           None \<Rightarrow> Ok nil_reply ?w
         | Some i \<Rightarrow> ProcessClearAlarm_commit e n i (?w\<lparr>mutex := True\<rparr>))"
      using assms(2) by (simp add: ProcessClearAlarm_wake_def Lock_def Unlock_def split: option.split)
    moreover have "\<exists>r w' T. ProcessClearAlarm_commit e n i (?w\<lparr>mutex := True\<rparr>) = Ok r w'"
      if "IsMatchFound ?w (nAlarm n) = Some i" for i
      using commit_result [of "?w\<lparr>mutex := True\<rparr>" n d' i e] d' th IsMatchFound_bound [OF that]
      by (auto simp: thresholds_defined_def)
    ultimately show ?thesis
      using SleepClear Some by (auto simp: run_on_def split: option.split)
  next
    case (Publish m)
    have "\<exists>r w'. ProcessRaiseAlarm_publish e n w = Ok r w' \<and> published e n d w w'"
      using assms(4) d by (intro publish_result) (simp_all add: thresholds_defined_def)
    then show ?thesis
      using Publish Some by (auto simp: run_on_def)
  qed (use Some in simp)
qed

lemma ProcessAlarm_returns:
  assumes "\<not> mutex w" "thresholds_defined w"
    and "\<And>w. \<not> mutex w \<Longrightarrow> \<not> mutex (others w)" "\<And>w. keeps_setup w (others w)"
  shows "\<exists>r w'. ProcessAlarm_call e others m w = Ok r w' \<and> \<not> mutex w' \<and> thresholds_defined w'"
proof -
  obtain h w1 where h: "ProcessAlarm e m w = Ok h w1"
    "\<And>n. pending_of h = Some n \<Longrightarrow> nProblem n = nProblem m \<and> RICAlarmDefinitions w (nProblem m) \<noteq> None"
    using ProcessAlarm_ok [OF assms(1,2)] by metis
  have w1: "\<not> mutex w1" "keeps_setup w w1"
    using leaves_mutex_ProcessAlarm [OF assms(1), of e m] keeps_setup_ProcessAlarm [of w e m] h(1)
    by simp_all
  have "\<exists>r w'. run_on e others h w1 = Ok r w'"
  proof (rule run_on_ok)
    show "\<not> mutex w1" "\<not> mutex (others w1)" "keeps_setup w1 (others w1)"
      using w1(1) assms(3,4) by simp_all
    show "thresholds_defined w1" using w1(2) assms(2) by (simp add: keeps_setup_thresholds)
    show "RICAlarmDefinitions w1 (nProblem n) \<noteq> None" if "pending_of h = Some n" for n
      using h(2) [OF that] same_definitions_None [of w w1] w1(2) by (simp add: keeps_setup_def)
  qed
  then obtain r w' where r: "run_on e others h w1 = Ok r w'" by blast
  have "leaves_mutex False (run_on e others h w1)"
    using w1(1) assms(3) by (rule leaves_mutex_run_on)
  moreover have "keeps_setup w w'"
    using keeps_setup_call [of others w e m] assms(4) h(1) r by (simp add: ProcessAlarm_call_def)
  ultimately show ?thesis
    using h(1) r assms(2) by (simp add: ProcessAlarm_call_def keeps_setup_thresholds)
qed

text \<open>C6: No message makes the manager panic or block while both threshold problems are defined
  and the other goroutines, during a delay, neither keep the mutex nor delete a definition nor
  change the configuration; it then returns with the mutex free and is as ready as before.\<close>
theorem ProcessAlarm_total:
  assumes "\<not> mutex w" "thresholds_defined w"
    and "\<And>w. \<not> mutex w \<Longrightarrow> \<not> mutex (others w)" "\<And>w. keeps_setup w (others w)"
  shows "\<exists>r w'. ProcessAlarm_call e others m w = Ok r w' \<and> \<not> mutex w' \<and> thresholds_defined w'"
  using assms by (rule ProcessAlarm_returns)

theorem ProcessAlarm_total_witness:
  "\<exists>r w'. ProcessAlarm_call sample_env (\<lambda>w. w\<lparr>clk := Suc (clk w)\<rparr>)
      (sample_message 72004 SeverityMajor AlarmActionRaise) (sample_world 5 0 0) = Ok r w' \<and>
    \<not> mutex w' \<and> thresholds_defined w'"
  by (rule ProcessAlarm_total)
    (simp_all add: keeps_setup_def config_relation.R_clk definitions_relation.R_clk)

end
