(* ===== verification/Manager_Refinement.thy ===== *)
theory Manager_Refinement
  imports Manager_Total
begin

text \<open>
  The abstract alarm table the manager implements: a finite map from alarm identities to
  severities, in which a raise overwrites and a clear deletes.  The manager's own threshold
  alarms are outside it, so the refinement holds at every fill level of the tables.  The same
  walk through the branches shows that the file on the persistent volume follows the tables.
\<close>

section \<open>The abstract table\<close>

definition ordinary :: "AlarmNotification \<Rightarrow> bool" where
  "ordinary n \<longleftrightarrow> nProblem n \<noteq> ACTIVE_ALARM_EXCEED_MAX_THRESHOLD \<and>
     nProblem n \<noteq> ALARM_HISTORY_EXCEED_MAX_THRESHOLD"

type_synonym alarm_table = "alarm_key \<rightharpoonup> severity"

definition table_of :: "AlarmNotification list \<Rightarrow> alarm_table" where
  "table_of ns = map_of (map (\<lambda>n. (nKey n, nSeverity n)) (filter ordinary ns))"

abbreviation abs_table :: "World \<Rightarrow> alarm_table" where
  "abs_table w \<equiv> table_of (active w)"

text \<open>The identities of the ordinary alarms do not repeat.\<close>

definition tidy :: "World \<Rightarrow> bool" where
  "tidy w \<longleftrightarrow> distinct (map nKey (filter ordinary (active w)))"

definition abs_step :: "(go_int \<Rightarrow> bool) \<Rightarrow> AlarmNotification \<Rightarrow> alarm_table \<Rightarrow> alarm_table" where
  "abs_step known m t =
     (if known (nProblem m) \<and> ordinary m
      then if nAction m = AlarmActionRaise then t(nKey m \<mapsto> nSeverity m)
           else if nAction m = AlarmActionClear then t(nKey m := None)
           else t
      else t)"

lemma ordinary_frame [simp]:
  "ordinary (stored m d i) = ordinary m"
  "ordinary (cleared m d j w) = ordinary m"
  by (simp_all add: ordinary_def)

lemma ordinary_key: "nKey n = nKey m \<Longrightarrow> ordinary n = ordinary m"
  by (simp add: ordinary_def alarm_key_def)

lemma no_ordinary_thresholds:
  assumes "map nProblem T = (if c then [ACTIVE_ALARM_EXCEED_MAX_THRESHOLD] else []) \<or>
    map nProblem T = (if c then [ALARM_HISTORY_EXCEED_MAX_THRESHOLD] else [])"
  shows "filter ordinary T = []"
proof -
  have "\<forall>sp\<in>set (map nProblem T).
      sp = ACTIVE_ALARM_EXCEED_MAX_THRESHOLD \<or> sp = ALARM_HISTORY_EXCEED_MAX_THRESHOLD"
    using assms by (auto split: if_splits)
  then show ?thesis by (auto simp: filter_empty_conv ordinary_def)
qed

section \<open>The table under additions and deletions\<close>

lemma match_key:
  "IsMatchFound w a = Some i \<Longrightarrow> nKey (active w ! i) = alarm_key a"
  by (simp add: IsMatchFound_key find_index_Some)

lemma table_lookup:
  assumes "IsMatchFound w (nAlarm m) = Some i" "ordinary m"
  shows "abs_table w (nKey m) = Some (nSeverity (active w ! i))"
  using assms unfolding table_of_def IsMatchFound_key
  by (rule_tac map_of_find) (auto dest: ordinary_key)

lemma table_miss:
  assumes "IsMatchFound w (nAlarm m) = None"
  shows "abs_table w (nKey m) = None" "nKey m \<notin> nKey ` set (active w)"
  using assms
  by (auto simp: table_of_def IsMatchFound_key find_index_None map_of_eq_None_iff image_image)

lemma delete_match:
  assumes "IsMatchFound w (nAlarm m) = Some i" "tidy w"
  shows "table_of (remove_nth i (active w)) =
      (if ordinary m then (abs_table w)(nKey m := None) else abs_table w)"
    and "distinct (map nKey (filter ordinary (remove_nth i (active w))))"
    and "ordinary m \<Longrightarrow> nKey m \<notin> nKey ` set (remove_nth i (active w))"
proof -
  have i: "i < length (active w)" "nKey (active w ! i) = nKey m"
    using assms(1) by (simp_all add: IsMatchFound_bound match_key)
  have find: "find_index (\<lambda>n. nKey n = nKey m) (active w) = Some i"
    using assms(1) by (simp only: IsMatchFound_key)
  have dist: "distinct (map nKey (filter ordinary (active w)))"
    using assms(2) by (simp only: tidy_def)
  show "table_of (remove_nth i (active w)) =
      (if ordinary m then (abs_table w)(nKey m := None) else abs_table w)"
  proof (cases "ordinary m")
    case True
    have "map_of (map (\<lambda>n. (nKey n, nSeverity n)) (filter ordinary (remove_nth i (active w)))) =
        (map_of (map (\<lambda>n. (nKey n, nSeverity n)) (filter ordinary (active w))))(nKey m := None)"
      using dist _ find by (rule map_of_remove_nth) (use True in \<open>auto dest: ordinary_key\<close>)
    with True show ?thesis by (simp add: table_of_def)
  next
    case False
    then show ?thesis
      using i ordinary_key [OF i(2)] by (simp add: table_of_def filter_remove_nth)
  qed
  show "distinct (map nKey (filter ordinary (remove_nth i (active w))))"
    using dist by (rule distinct_filter_remove_nth)
  show "nKey m \<notin> nKey ` set (remove_nth i (active w))" if "ordinary m"
  proof -
    have "\<forall>n\<in>set (remove_nth i (active w)). nKey n \<noteq> nKey m"
      using dist _ find by (rule find_index_remove_nth) (use that ordinary_key in blast)
    then show ?thesis by auto
  qed
qed

lemma table_add:
  assumes "filter ordinary T1 = []" "filter ordinary T2 = []"
    and "ordinary n \<Longrightarrow> nKey n \<notin> nKey ` set ns"
    and "distinct (map nKey (filter ordinary ns))"
  shows "table_of (ns @ T1 @ [n] @ T2) =
      (if ordinary n then (table_of ns)(nKey n \<mapsto> nSeverity n) else table_of ns)"
    and "distinct (map nKey (filter ordinary (ns @ T1 @ [n] @ T2)))"
proof -
  have "map_of (map (\<lambda>n. (nKey n, nSeverity n)) (filter ordinary ns)) (nKey n) = None"
    if "ordinary n"
    using assms(3) [OF that] by (auto simp: map_of_eq_None_iff image_image)
  then show "table_of (ns @ T1 @ [n] @ T2) =
      (if ordinary n then (table_of ns)(nKey n \<mapsto> nSeverity n) else table_of ns)"
    using assms(1,2) by (auto simp: table_of_def map_add_def fun_eq_iff split: option.split)
  show "distinct (map nKey (filter ordinary (ns @ T1 @ [n] @ T2)))"
    using assms by auto
qed

section \<open>One message\<close>

definition known :: "World \<Rightarrow> go_int \<Rightarrow> bool" where
  "known w sp \<longleftrightarrow> RICAlarmDefinitions w sp \<noteq> None"

definition undelayed :: "World \<Rightarrow> AlarmNotification \<Rightarrow> bool" where
  "undelayed w m \<longleftrightarrow>
     (case RICAlarmDefinitions w (nProblem m) of
        None \<Rightarrow> True | Some d \<Rightarrow> RaiseDelay d <=s 0 \<and> ClearDelay d <=s 0)"

text \<open>The three ways an undelayed message goes.\<close>

lemma message_cases:
  assumes "\<not> mutex w" "thresholds_defined w" "undelayed w m"
  obtains (ignored) "ineffective m w" "ProcessAlarm_call e others m w = Ok nil_reply w"
  | (raised) r w' d T1 T2 where "ProcessAlarm_call e others m w = Ok r w'" "raise_due m w"
      "RICAlarmDefinitions w (nProblem m) = Some d"
      "raised_state e m d (active (without_match m w)) T1 T2 w w'"
  | (cleared) r w' d i T where "ProcessAlarm_call e others m w = Ok r w'"
      "nAction m = AlarmActionClear" "RICAlarmDefinitions w (nProblem m) = Some d"
      "IsMatchFound w (nAlarm m) = Some i" "cleared_state e m d i T w w'"
proof (cases "ineffective m w")
  case True
  then show ?thesis
    using ignored ineffective_first [OF assms(1)] by (simp add: ProcessAlarm_call_def run_on_def)
next
  case False
  then obtain d where d: "RICAlarmDefinitions w (nProblem m) = Some d"
    by (auto simp: ineffective_def)
  with assms(3) have delays: "RaiseDelay d <=s 0" "ClearDelay d <=s 0"
    by (simp_all add: undelayed_def)
  show ?thesis
  proof (cases "nAction m = AlarmActionRaise")
    case True
    with False raise_due_or_ineffective have due: "raise_due m w" by blast
    from raise_result [OF assms(1) d due assms(2) delays(1), of e others] obtain r w' T1 T2
      where "ProcessAlarm_call e others m w = Ok r w'"
        "raised_state e m d (active (without_match m w)) T1 T2 w w'" by blast
    then show ?thesis using raised due d by blast
  next
    case raise: False
    with False obtain i where i: "nAction m = AlarmActionClear" "IsMatchFound w (nAlarm m) = Some i"
      by (auto simp: ineffective_def)
    let ?w1 = "w\<lparr>mutex := True\<rparr>"
    obtain r w' T where c: "ProcessClearAlarm_commit e m i ?w1 = Ok r w'" "cleared_state e m d i T ?w1 w'"
      using commit_result [of ?w1 m d i e] d i assms IsMatchFound_bound [OF i(2)]
      by (auto simp: thresholds_defined_def)
    have "\<not> 0 <s ClearDelay d"
      using delays(2) by (simp add: word_sless_alt word_sle_eq)
    then have "ProcessAlarm_call e others m w = Ok r w'"
      using c(1)
      by (simp add: ProcessAlarm_call_def clear_first [OF assms(1) d i] ProcessClearAlarm_def
          run_on_def)
    moreover have "cleared_state e m d i T w w'"
      using c(2) by (simp add: cleared_state_def)
    ultimately show ?thesis using cleared i d by blast
  qed
qed

lemma ineffective_abs_step:
  assumes "ineffective m w"
  shows "abs_step (known w) m (abs_table w) = abs_table w"
proof -
  consider "\<not> known w (nProblem m)" | "\<not> ordinary m"
    | i where "ordinary m" "nAction m = AlarmActionRaise"
        "IsMatchFound w (nAlarm m) = Some i" "nSeverity (active w ! i) = nSeverity m"
    | "nAction m = AlarmActionClear" "IsMatchFound w (nAlarm m) = None"
    | "nAction m \<noteq> AlarmActionRaise" "nAction m \<noteq> AlarmActionClear"
    using assms by (auto simp: ineffective_def known_def split: if_splits)
  then show ?thesis
    by cases (auto simp: abs_step_def fun_upd_idem_iff table_lookup table_miss(1))
qed

lemma message_step:
  assumes "\<not> mutex w" "thresholds_defined w" "undelayed w m" "tidy w"
  shows "\<exists>r w'. ProcessAlarm_call e others m w = Ok r w' \<and>
    abs_table w' = abs_step (known w) m (abs_table w) \<and> tidy w'"
  using assms(1-3)
proof (cases rule: message_cases [where e = e and others = others])
  case ignored
  then show ?thesis using ineffective_abs_step assms(4) by simp
next
  case (raised r w' d T1 T2)
  let ?n = "stored m d (uniqueAlarmId w + 1)"
  let ?base = "active (without_match m w)"
  have T: "filter ordinary T1 = []" "filter ordinary T2 = []"
    using raised(4) by (auto simp: raised_state_def Let_def intro!: no_ordinary_thresholds)
  have base: "table_of ?base =
      (if ordinary m then (abs_table w)(nKey m := None) else abs_table w)"
    "distinct (map nKey (filter ordinary ?base))"
    "ordinary m \<Longrightarrow> nKey m \<notin> nKey ` set ?base"
    using delete_match [of w m] table_miss [of w m] assms(4)
    by (auto simp: without_match_def tidy_def fun_upd_idem split: option.split)
  have "active w' = ?base @ T1 @ [?n] @ T2"
    using raised(4) by (simp add: raised_state_def Let_def)
  moreover have "table_of (?base @ T1 @ [?n] @ T2) =
      (if ordinary m then (abs_table w)(nKey m \<mapsto> nSeverity m) else abs_table w)"
    "distinct (map nKey (filter ordinary (?base @ T1 @ [?n] @ T2)))"
    using table_add [of T1 T2 ?n ?base] T base by auto
  ultimately show ?thesis
    using raised(1-3) by (auto simp: abs_step_def known_def raise_due_def tidy_def)
next
  case (cleared r w' d i T)
  have T: "filter ordinary T = []"
    using cleared(5) by (auto simp: cleared_state_def intro!: no_ordinary_thresholds)
  have "active w' = remove_nth i (active w) @ T"
    using cleared(5) by (simp add: cleared_state_def)
  then have "abs_table w' = table_of (remove_nth i (active w))"
    "tidy w' = distinct (map nKey (filter ordinary (remove_nth i (active w))))"
    using T by (simp_all add: table_of_def tidy_def)
  then show ?thesis
    using cleared(1-4) delete_match [OF cleared(4) assms(4)]
    by (auto simp: abs_step_def known_def)
qed

lemma sample_undelayed [simp]:
  "undelayed (sample_world 0 0 c) (sample_message 72004 sev act)"
  "undelayed ((sample_world 0 0 c)\<lparr>pvFile := f\<rparr>) (sample_message 72004 sev act)"
  by (simp_all add: undelayed_def)

lemma sample_tidy [simp]: "tidy (sample_world a b c)"
  by (simp add: tidy_def)



section \<open>Sequences of messages\<close>

text \<open>Messages handled one after the other, as the receiver of RMR messages delivers them.\<close>

fun process_all :: "Env \<Rightarrow> AlarmNotification list \<Rightarrow> World \<Rightarrow> (unit, World) result" where
  "process_all e [] w = Ok () w"
| "process_all e (m # ms) w =
     bindR (ProcessAlarm_call e (\<lambda>w. w) m w) (\<lambda>_ w1. process_all e ms w1)"

lemma keeps_setup_refl [simp]: "keeps_setup w w"
  by (simp add: keeps_setup_def config_relation.R_refl definitions_relation.R_refl)

lemma keeps_setup_known: "keeps_setup w w' \<Longrightarrow> known w' = known w"
  using same_definitions_None [of w w'] by (auto simp: keeps_setup_def known_def fun_eq_iff)

lemma keeps_setup_undelayed:
  assumes "keeps_setup w w'"
  shows "undelayed w' m = undelayed w m"
proof (cases "RICAlarmDefinitions w (nProblem m)")
  case None
  then have "RICAlarmDefinitions w' (nProblem m) = None"
    using assms same_definitions_None [of w w'] unfolding keeps_setup_def by blast
  with None show ?thesis by (simp add: undelayed_def)
next
  case (Some d)
  then obtain d' where "RICAlarmDefinitions w' (nProblem m) = Some d'" "erase_id d' = erase_id d"
    using assms same_definitions_Some [of w w'] by (auto simp: keeps_setup_def)
  then show ?thesis
    using Some erase_id_fields(3,4) [of d' d] by (simp add: undelayed_def)
qed

text \<open>Any invariant of single messages holds of sequences.\<close>

lemma process_all_invariant:
  assumes "\<And>m w. I w \<Longrightarrow> Q m w \<Longrightarrow> \<not> mutex w \<Longrightarrow> thresholds_defined w \<Longrightarrow>
      \<exists>r w'. ProcessAlarm_call e (\<lambda>w. w) m w = Ok r w' \<and> I w'"
    and "\<And>m w w'. Q m w \<Longrightarrow> keeps_setup w w' \<Longrightarrow> Q m w'"
    and "I w" "\<not> mutex w" "thresholds_defined w" "\<forall>m\<in>set ms. Q m w"
  shows "\<exists>w'. process_all e ms w = Ok () w' \<and> I w' \<and> \<not> mutex w' \<and> keeps_setup w w'"
  using assms(3-6)
proof (induction ms arbitrary: w)
  case (Cons m ms)
  obtain r w1 where w1: "ProcessAlarm_call e (\<lambda>w. w) m w = Ok r w1" "I w1"
    using assms(1) [of w m] Cons.prems by auto
  have kept: "keeps_setup w w1"
    using keeps_setup_call [of "\<lambda>w. w" w e m] w1(1) by simp
  have free: "\<not> mutex w1" "thresholds_defined w1"
    using ProcessAlarm_returns [OF Cons.prems(2,3), of "\<lambda>w. w" e m] w1(1) by auto
  have "\<forall>x\<in>set ms. Q x w1"
    using Cons.prems(4) kept assms(2) by auto
  from Cons.IH [OF w1(2) free this] obtain w2 where
    "process_all e ms w1 = Ok () w2" "I w2" "\<not> mutex w2" "keeps_setup w1 w2" by blast
  then show ?case
    using w1(1) kept keeps_setup_trans by auto
qed simp

lemma messages_step:
  assumes "\<not> mutex w" "thresholds_defined w" "tidy w" "\<forall>m\<in>set ms. undelayed w m"
  shows "\<exists>w'. process_all e ms w = Ok () w' \<and>
    abs_table w' = fold (abs_step (known w)) ms (abs_table w) \<and> tidy w'"
  using assms
proof (induction ms arbitrary: w)
  case (Cons m ms)
  from message_step [OF Cons.prems(1,2) _ Cons.prems(3), of m e "\<lambda>w. w"] Cons.prems(4)
  obtain r w1 where w1: "ProcessAlarm_call e (\<lambda>w. w) m w = Ok r w1"
    "abs_table w1 = abs_step (known w) m (abs_table w)" "tidy w1" by auto
  have kept: "keeps_setup w w1"
    using keeps_setup_call [of "\<lambda>w. w" w e m] w1(1) by simp
  have free: "\<not> mutex w1" "thresholds_defined w1"
    using ProcessAlarm_returns [OF Cons.prems(1,2), of "\<lambda>w. w" e m] w1(1) by auto
  have "\<forall>x\<in>set ms. undelayed w1 x"
    using Cons.prems(4) keeps_setup_undelayed [OF kept] by simp
  from Cons.IH [OF free w1(3) this] show ?case
    using w1 keeps_setup_known [OF kept] by auto
qed simp

text \<open>C2: The refinement for any sequence of undelayed messages: the manager handles them all,
  and its table is the abstract table after the same steps.\<close>
theorem messages_refine_table:
  assumes "\<not> mutex w" "thresholds_defined w" "tidy w" "\<forall>m\<in>set ms. undelayed w m"
  shows "\<exists>w'. process_all e ms w = Ok () w' \<and>
    abs_table w' = fold (abs_step (known w)) ms (abs_table w) \<and> tidy w'"
  using assms by (rule messages_step)

theorem messages_refine_table_witness:
  "\<exists>w'. process_all sample_env
      [sample_message 72004 SeverityMajor AlarmActionRaise,
       sample_message 72004 SeverityMajor AlarmActionClear] (sample_world 0 0 0) = Ok () w' \<and>
    abs_table w' = Map.empty \<and> tidy w'"
  using messages_refine_table [of "sample_world 0 0 0"
      "[sample_message 72004 SeverityMajor AlarmActionRaise,
        sample_message 72004 SeverityMajor AlarmActionClear]" sample_env]
  by (simp add: abs_step_def known_def ordinary_def table_of_def
      ACTIVE_ALARM_EXCEED_MAX_THRESHOLD_def ALARM_HISTORY_EXCEED_MAX_THRESHOLD_def)

section \<open>The file follows the tables\<close>

definition saved :: "World \<Rightarrow> bool" where
  "saved w \<longleftrightarrow> pvFile w = Some (enc_AlarmPersistentInfo (persistent_info w))"

lemma message_saves:
  assumes "\<not> mutex w" "thresholds_defined w" "undelayed w m" "reliable_volume e" "saved w"
  shows "\<exists>r w'. ProcessAlarm_call e others m w = Ok r w' \<and> saved w'"
  using assms(1-3)
proof (cases rule: message_cases [where e = e and others = others])
  case ignored
  then show ?thesis using assms(5) by simp
next
  case raised
  then show ?thesis using assms(4) by (simp add: raised_state_def saved_def Let_def)
next
  case cleared
  then show ?thesis using assms(4) by (simp add: cleared_state_def saved_def)
qed

text \<open>C17: Restart.  After any sequence of undelayed messages, a manager started on the same file
  recovers the active table, the history and the id counter exactly, through the JSON text the
  file holds.\<close>
theorem restart_recovers_tables:
  assumes "\<not> mutex w" "thresholds_defined w" "saved w" "reliable_volume e"
    and "\<forall>m\<in>set ms. undelayed w m"
  shows "\<exists>w'. process_all e ms w = Ok () w' \<and>
    (\<forall>w0. pvFile w0 = pvFile w' \<longrightarrow>
       persistent_info (ReadAlarmInfoFromPersistentVolume w0) = persistent_info w')"
proof -
  have "\<exists>w'. process_all e ms w = Ok () w' \<and> saved w' \<and> \<not> mutex w' \<and> keeps_setup w w'"
    by (rule process_all_invariant [where Q = "\<lambda>m w. undelayed w m"])
      (use assms message_saves keeps_setup_undelayed in auto)
  then obtain w' where w': "process_all e ms w = Ok () w'" "saved w'" by blast
  have "persistent_info (ReadAlarmInfoFromPersistentVolume w0) = persistent_info w'"
    if "pvFile w0 = pvFile w'" for w0
    using read_persistent_info [of w0 w'] that w'(2) by (simp add: saved_def persistent_info_def)
  with w'(1) show ?thesis by blast
qed

definition sample_saved :: World where
  "sample_saved = (sample_world 0 0 0)
     \<lparr>pvFile := Some (enc_AlarmPersistentInfo (persistent_info (sample_world 0 0 0)))\<rparr>"

theorem restart_recovers_tables_witness:
  "\<exists>w'. process_all sample_env [sample_message 72004 SeverityMajor AlarmActionRaise] sample_saved = Ok () w' \<and>
    (\<forall>w0. pvFile w0 = pvFile w' \<longrightarrow>
       persistent_info (ReadAlarmInfoFromPersistentVolume w0) = persistent_info w')"
  by (rule restart_recovers_tables)
    (simp_all add: sample_saved_def saved_def)

section \<open>Raise and clear\<close>

lemma raise_with_room:
  assumes "\<not> mutex w" "thresholds_defined w" "undelayed w m"
    and "RICAlarmDefinitions w (nProblem m) = Some d"
    and "nAction m = AlarmActionRaise" "IsMatchFound w (nAlarm m) = None"
    and "\<not> maxActiveAlarms w <=s of_nat (length (active w))"
    and "\<not> maxAlarmHistory w <=s of_nat (length (history w))"
  obtains r w' where "ProcessAlarm_call e (\<lambda>w. w) m w = Ok r w'"
    "active w' = active w @ [stored m d (uniqueAlarmId w + 1)]"
    "history w' = history w @ [set_nRaiseDelay 0 (stored m d (uniqueAlarmId w + 1))]"
    "\<not> mutex w'" "thresholds_defined w'" "keeps_setup w w'"
proof -
  obtain r w1 T1 T2 where w1: "ProcessAlarm_call e (\<lambda>w. w) m w = Ok r w1"
    "raised_state e m d (active w) T1 T2 w w1"
    using raise_result [OF assms(1,4) _ assms(2), of e "\<lambda>w. w"] assms(3-6)
    by (auto simp: undelayed_def raise_due_def without_match_def)
  have kept: "keeps_setup w w1"
    using keeps_setup_call [of "\<lambda>w. w" w e m] w1(1) by simp
  then have "thresholds_defined w1"
    using keeps_setup_thresholds assms(2) by blast
  moreover have "active w1 = active w @ [stored m d (uniqueAlarmId w + 1)]"
    "history w1 = history w @ [set_nRaiseDelay 0 (stored m d (uniqueAlarmId w + 1))]" "\<not> mutex w1"
    using w1(2) assms(7,8) by (auto simp: raised_state_def Let_def)
  ultimately show thesis using that w1(1) kept by blast
qed

lemma clear_with_room:
  assumes "\<not> mutex w" "thresholds_defined w" "undelayed w c"
    and "RICAlarmDefinitions w (nProblem c) = Some d"
    and "nAction c = AlarmActionClear" "IsMatchFound w (nAlarm c) = Some i"
    and "\<not> maxAlarmHistory w <=s of_nat (Suc (length (history w)))"
  shows "\<exists>r w'. ProcessAlarm_call e others c w = Ok r w' \<and>
    active w' = remove_nth i (active w) \<and> history w' = history w @ [cleared c d i w]"
  using assms(1-3)
proof (cases rule: message_cases [where e = e and others = others])
  case ignored
  then show ?thesis using assms(4-6) by (simp add: ineffective_def)
next
  case raised
  then show ?thesis using assms(5) by (simp add: raise_due_def)
next
  case (cleared r w' d2 j T)
  then show ?thesis using assms(4,6,7) by (simp add: cleared_state_def)
qed

text \<open>C12: Round trip.  While both tables have room, raising a new alarm and clearing it gives
  back the active table, and leaves the raise and the clear, with the same id, in the
  history.\<close>
theorem raise_then_clear:
  assumes "\<not> mutex w" "thresholds_defined w" "undelayed w m"
    and "RICAlarmDefinitions w (nProblem m) = Some d"
    and "nAction m = AlarmActionRaise" "IsMatchFound w (nAlarm m) = None"
    and "nAction c = AlarmActionClear" "nKey c = nKey m"
    and "\<not> maxActiveAlarms w <=s of_nat (length (active w))"
    and "\<not> maxAlarmHistory w <=s of_nat (length (history w))"
    and "\<not> maxAlarmHistory w <=s of_nat (length (history w) + 2)"
  shows "\<exists>w'. process_all e [m, c] w = Ok () w' \<and> active w' = active w \<and>
    history w' = history w @
      [set_nRaiseDelay 0 (stored m d (uniqueAlarmId w + 1)), completed c d (uniqueAlarmId w + 1)]"
proof -
  let ?n = "stored m d (uniqueAlarmId w + 1)"
  have sp: "nProblem c = nProblem m"
    using assms(8) by (simp add: alarm_key_def)
  obtain r w1 where w1: "ProcessAlarm_call e (\<lambda>w. w) m w = Ok r w1" "active w1 = active w @ [?n]"
    "history w1 = history w @ [set_nRaiseDelay 0 ?n]" "\<not> mutex w1" "thresholds_defined w1"
    and kept: "keeps_setup w w1"
    using raise_with_room [OF assms(1-6,9,10)] .
  obtain d1 where d1: "RICAlarmDefinitions w1 (nProblem c) = Some d1" "erase_id d1 = erase_id d"
    using same_definitions_Some [of w w1 "nProblem m" d] kept assms(4) sp
    by (auto simp: keeps_setup_def)
  have found: "IsMatchFound w1 (nAlarm c) = Some (length (active w))"
    using assms(6,8) w1(2) by (simp add: IsMatchFound_key find_index_append)
  have und: "undelayed w1 c"
    using keeps_setup_undelayed [OF kept, of c] assms(3) sp by (simp add: undelayed_def)
  have "maxAlarmHistory w1 = maxAlarmHistory w"
    using kept by (simp add: keeps_setup_def same_config_def)
  then have room: "\<not> maxAlarmHistory w1 <=s of_nat (Suc (length (history w1)))"
    using assms(11) w1(3) by simp
  have "remove_nth (length (active w)) (active w @ [?n]) = active w"
    by (simp add: remove_nth_def)
  with clear_with_room [OF w1(4,5) und d1(1) assms(7) found room, of e "\<lambda>w. w"] w1(1-3) show ?thesis
    using erase_id_fields(6,7) [OF d1(2)] by (auto simp: cleared_def completed_def)
qed

theorem raise_then_clear_witness:
  "\<exists>w'. process_all sample_env
      [sample_message 72004 SeverityMajor AlarmActionRaise,
       sample_message 72004 SeverityMajor AlarmActionClear] (sample_world 0 0 0) = Ok () w' \<and>
    active w' = []"
  using raise_then_clear [of "sample_world 0 0 0"
      "sample_message 72004 SeverityMajor AlarmActionRaise" "sample_definition 72004 0 0 0"
      "sample_message 72004 SeverityMajor AlarmActionClear" sample_env]
  by (auto simp: word_sle_eq)

end
