(* ===== verification/Manager_Config.thy ===== *)
theory Manager_Config
  imports Manager_Refinement
begin

text \<open>
  Configuration and start of the alarm manager (\<open>manager/cmd/manager.go\<close>): its construction
  with the defaults of the limits, the reaction to a configuration change, the table of alarm
  definitions read from a file, and the order in which \<open>Run\<close> sets up the state before messages
  arrive.  The configuration store (viper, and the xapp framework's wrapper \<open>app.Config\<close>) is the
  parameter \<open>Config\<close>, which gives zero for a missing value.
\<close>

record Config =
  app_GetInt :: "string \<Rightarrow> go_int"
  app_GetString :: "string \<Rightarrow> string"
  viper_GetInt :: "string \<Rightarrow> go_int"
  viper_GetString :: "string \<Rightarrow> string"

section \<open>Operations\<close>

definition configured_limit :: "Config \<Rightarrow> string \<Rightarrow> go_int \<Rightarrow> go_int" where
  "configured_limit cfg key dflt =
     (let n = app_GetInt cfg key in if n = 0 then dflt else n)"

definition NewAlarmManager :: "Config \<Rightarrow> string \<Rightarrow> go_int \<Rightarrow> bool \<Rightarrow> AlarmManager" where
  "NewAlarmManager cfg host interval clearAlarm =
     \<lparr>amHost = (if host = [] then viper_GetString cfg ''controls.promAlertManager.address'' else host),
      amBaseUrl = app_GetString cfg ''controls.promAlertManager.baseUrl'',
      amSchemes = [app_GetString cfg ''controls.promAlertManager.schemes''],
      alertInterval = (if interval = 0
        then viper_GetInt cfg ''controls.promAlertManager.alertInterval'' else interval),
      activeAlarms = Slice [] [] [], alarmHistory = Slice [] [] [], uniqueAlarmId = 0,
      mutex = False, rmrReady = False, postClear = clearAlarm,
      maxActiveAlarms = configured_limit cfg ''controls.maxActiveAlarms'' 5000,
      maxAlarmHistory = configured_limit cfg ''controls.maxAlarmHistory'' 20000,
      alarmClient = None, exceededActiveAlarmOn = False, exceededAlarmHistoryOn = False,
      alarmInfoPvFile = app_GetString cfg ''controls.alarmInfoPvFile''\<rparr>"

definition ConfigChangeCB :: "Config \<Rightarrow> World \<Rightarrow> World" where
  "ConfigChangeCB cfg w =
     w\<lparr>maxActiveAlarms := configured_limit cfg ''controls.maxActiveAlarms'' 5000,
       maxAlarmHistory := configured_limit cfg ''controls.maxAlarmHistory'' 20000,
       alertInterval := viper_GetInt cfg ''controls.promAlertManager.alertInterval'',
       amHost := viper_GetString cfg ''controls.promAlertManager.address''\<rparr>"

definition StatusCB :: "World \<Rightarrow> bool" where
  "StatusCB w = rmrReady w"

text \<open>
  The loop that enters a list of definitions, shared by the start and by the REST interface:
  a fresh copy of every definition whose id is not in the table yet.  A nil pointer in the list
  is dereferenced.
\<close>

definition copy_definition :: "AlarmDefinition \<Rightarrow> AlarmDefinition" where
  "copy_definition alarmDefinition =
     \<lparr>AlarmId = AlarmId alarmDefinition, AlarmText = AlarmText alarmDefinition,
      EventType = EventType alarmDefinition,
      OperationInstructions = OperationInstructions alarmDefinition,
      RaiseDelay = RaiseDelay alarmDefinition, ClearDelay = ClearDelay alarmDefinition,
      TimeToLive = TimeToLive alarmDefinition\<rparr>"

fun add_definitions :: "AlarmDefinition option list \<Rightarrow> World \<Rightarrow> (unit, World) result" where
  "add_definitions [] w = Ok () w"
| "add_definitions (None # rest) w = Panic NilDeref w"
| "add_definitions (Some alarmDefinition # rest) w =
     (case RICAlarmDefinitions w (AlarmId alarmDefinition) of
        Some _ \<Rightarrow> add_definitions rest w
      | None \<Rightarrow>
          add_definitions rest
            (w\<lparr>RICAlarmDefinitions := (RICAlarmDefinitions w)
                 (AlarmId alarmDefinition \<mapsto> copy_definition alarmDefinition)\<rparr>))"

text \<open>\<open>file\<close> is the content of \<open>DEF_FILE\<close>: unreadable, not JSON, or a JSON value.\<close>

datatype file_content = Unreadable | NotJson | Json json

definition ReadAlarmDefinitionFromJson :: "file_content \<Rightarrow> World \<Rightarrow> (unit, World) result" where
  "ReadAlarmDefinitionFromJson file w =
     (case file of
        Unreadable \<Rightarrow> Ok () w
      | NotJson \<Rightarrow> Ok () w
      | Json v \<Rightarrow>
          (case dec_struct RicAlarmDefinitions_fields v \<lparr>AlarmDefinitions = []\<rparr> of
             (_, False) \<Rightarrow> Ok () w
           | (data, True) \<Rightarrow> add_definitions (AlarmDefinitions data) w))"

text \<open>
  \<open>Run\<close> up to the message loop; \<open>le\<close> is the environment of the alarm library.  The two timers
  are goroutines of their own.
\<close>

definition Run :: "LibEnv \<Rightarrow> file_content \<Rightarrow> World \<Rightarrow> (unit, World) result" where
  "Run le file w =
     bindR (ReadAlarmDefinitionFromJson file (w\<lparr>RICAlarmDefinitions := Map.empty\<rparr>)) (\<lambda>_ w1.
       Ok () (ReadAlarmInfoFromPersistentVolume
         (w1\<lparr>alarmClient := Some (InitAlarm le ''SEP'' ''ALARMMANAGER'')\<rparr>)))"

section \<open>The definition table\<close>

lemma copy_definition_id [simp]: "copy_definition d = d"
  by (simp add: copy_definition_def)

text \<open>What a list of definitions says about a problem: its first entry for it.\<close>

definition first_definition :: "AlarmDefinition option list \<Rightarrow> go_int \<Rightarrow> AlarmDefinition option" where
  "first_definition ds sp = find (\<lambda>d. AlarmId d = sp) (map the ds)"

lemma add_definitions_result:
  "None \<notin> set ds \<Longrightarrow>
   add_definitions ds w = Ok () (w\<lparr>RICAlarmDefinitions := (\<lambda>sp.
     case RICAlarmDefinitions w sp of Some d \<Rightarrow> Some d | None \<Rightarrow> first_definition ds sp)\<rparr>)"
proof (induction ds arbitrary: w)
  case Nil
  have "(\<lambda>sp. case RICAlarmDefinitions w sp of Some d \<Rightarrow> Some d | None \<Rightarrow> first_definition [] sp) =
      RICAlarmDefinitions w"
    by (auto simp: fun_eq_iff first_definition_def split: option.split)
  then show ?case by simp
next
  case (Cons p ds)
  then obtain d where p: "p = Some d" by (cases p) auto
  show ?case
  proof (cases "RICAlarmDefinitions w (AlarmId d)")
    case None
    let ?defs = "(RICAlarmDefinitions w)(AlarmId d \<mapsto> d)"
    have "(\<lambda>sp. case ?defs sp of Some x \<Rightarrow> Some x | None \<Rightarrow> first_definition ds sp) =
        (\<lambda>sp. case RICAlarmDefinitions w sp of Some x \<Rightarrow> Some x
          | None \<Rightarrow> first_definition (Some d # ds) sp)"
      using None by (auto simp: fun_eq_iff first_definition_def split: option.split)
    then show ?thesis
      using Cons None unfolding p by simp
  next
    case (Some d0)
    have "(\<lambda>sp. case RICAlarmDefinitions w sp of Some x \<Rightarrow> Some x | None \<Rightarrow> first_definition ds sp) =
        (\<lambda>sp. case RICAlarmDefinitions w sp of Some x \<Rightarrow> Some x
          | None \<Rightarrow> first_definition (Some d # ds) sp)"
      using Some by (auto simp: fun_eq_iff first_definition_def split: option.split)
    then show ?thesis
      using Cons Some unfolding p by simp
  qed
qed

lemma add_definitions_nil:
  "None \<in> set ds \<Longrightarrow> \<exists>w'. add_definitions ds w = Panic NilDeref w'"
  by (induction ds w rule: add_definitions.induct) (auto split: option.splits)

lemma read_definitions_file:
  "ReadAlarmDefinitionFromJson (Json (enc_RicAlarmDefinitions \<lparr>AlarmDefinitions = ds\<rparr>)) w =
     add_definitions ds w"
  by (simp add: ReadAlarmDefinitionFromJson_def RicAlarmDefinitions_codec.roundtrip)

section \<open>Start\<close>

text \<open>A file that defines both threshold problems.\<close>

definition defines_thresholds :: "AlarmDefinition option list \<Rightarrow> bool" where
  "defines_thresholds ds \<longleftrightarrow> None \<notin> set ds \<and>
     first_definition ds ACTIVE_ALARM_EXCEED_MAX_THRESHOLD \<noteq> None \<and>
     first_definition ds ALARM_HISTORY_EXCEED_MAX_THRESHOLD \<noteq> None"

lemma Read_PV_frame [simp]:
  "mutex (ReadAlarmInfoFromPersistentVolume w) = mutex w"
  "alarmClient (ReadAlarmInfoFromPersistentVolume w) = alarmClient w"
  "RICAlarmDefinitions (ReadAlarmInfoFromPersistentVolume w) = RICAlarmDefinitions w"
  by (simp_all add: ReadAlarmInfoFromPersistentVolume_def split: option.split prod.split bool.split)

text \<open>C27: Start.  A manager started with a definition file that defines both threshold problems
  comes up with exactly the definitions of the file, the first of each id, with the tables of the
  file on the persistent volume, and in the state in which no message can make it panic; without
  a readable definition file it knows no problem at all.\<close>
theorem Run_ready:
  assumes "\<not> mutex w" "defines_thresholds ds"
  shows "\<exists>w'. Run le (Json (enc_RicAlarmDefinitions \<lparr>AlarmDefinitions = ds\<rparr>)) w = Ok () w' \<and>
    RICAlarmDefinitions w' = first_definition ds \<and>
    (\<forall>w0. pvFile w = Some (enc_AlarmPersistentInfo (persistent_info w0)) \<longrightarrow>
       persistent_info w' = persistent_info w0) \<and>
    \<not> mutex w' \<and> thresholds_defined w' \<and>
    (\<forall>u. Run le Unreadable w = Ok () u \<longrightarrow> RICAlarmDefinitions u = Map.empty)"
proof -
  let ?w1 = "w\<lparr>RICAlarmDefinitions := first_definition ds,
    alarmClient := Some (InitAlarm le ''SEP'' ''ALARMMANAGER'')\<rparr>"
  let ?w' = "ReadAlarmInfoFromPersistentVolume ?w1"
  have "None \<notin> set ds" using assms(2) by (simp add: defines_thresholds_def)
  then have "Run le (Json (enc_RicAlarmDefinitions \<lparr>AlarmDefinitions = ds\<rparr>)) w = Ok () ?w'"
    by (simp add: Run_def read_definitions_file add_definitions_result)
  moreover have "persistent_info ?w' = persistent_info w0"
    if "pvFile w = Some (enc_AlarmPersistentInfo (persistent_info w0))" for w0
    using read_persistent_info [of ?w1 w0] that by (simp add: persistent_info_def)
  moreover have "thresholds_defined ?w'"
    using assms(2) by (simp add: thresholds_defined_def can_raise_threshold_def defines_thresholds_def)
  moreover have "\<forall>u. Run le Unreadable w = Ok () u \<longrightarrow> RICAlarmDefinitions u = Map.empty"
    by (simp add: Run_def ReadAlarmDefinitionFromJson_def)
  ultimately show ?thesis using assms(1) by auto
qed

text \<open>Limits.  Neither the construction nor a configuration change leaves a limit at zero: an
  absent or zero setting means 5000 active alarms and 20000 events, and anything else, negative
  values included, is taken as it is; a change touches no table, counter or definition.\<close>

lemma limits_configured:
  "maxActiveAlarms (NewAlarmManager cfg h i c) \<noteq> 0 \<and> maxAlarmHistory (NewAlarmManager cfg h i c) \<noteq> 0 \<and>
   maxActiveAlarms (ConfigChangeCB cfg w) = maxActiveAlarms (NewAlarmManager cfg h i c) \<and>
   maxAlarmHistory (ConfigChangeCB cfg w) = maxAlarmHistory (NewAlarmManager cfg h i c) \<and>
   maxActiveAlarms (ConfigChangeCB cfg w) =
     (if app_GetInt cfg ''controls.maxActiveAlarms'' = 0 then 5000
      else app_GetInt cfg ''controls.maxActiveAlarms'') \<and>
   maxAlarmHistory (ConfigChangeCB cfg w) =
     (if app_GetInt cfg ''controls.maxAlarmHistory'' = 0 then 20000
      else app_GetInt cfg ''controls.maxAlarmHistory'') \<and>
   persistent_info (ConfigChangeCB cfg w) = persistent_info w \<and>
   RICAlarmDefinitions (ConfigChangeCB cfg w) = RICAlarmDefinitions w \<and>
   mutex (ConfigChangeCB cfg w) = mutex w"
  by (simp add: NewAlarmManager_def ConfigChangeCB_def configured_limit_def persistent_info_def Let_def)

section \<open>A sample start\<close>

definition sample_lib_env :: LibEnv where
  "sample_lib_env =
     \<lparr>getenv = (\<lambda>_. ''''), RMR_OK = 0, RMR_ERR_RETRY = 10, rmr_send_msg = (\<lambda>_. Some 0),
      rmr_rcv_msg = (\<lambda>_. None), rmr_init = Some 1, rmr_ready = (\<lambda>_. True),
      http_post = (\<lambda>_ _. None), write_file = (\<lambda>_ _. None)\<rparr>"

theorem Run_ready_witness:
  "\<exists>w'. Run sample_lib_env (Json (enc_RicAlarmDefinitions \<lparr>AlarmDefinitions =
      [Some (sample_definition ACTIVE_ALARM_EXCEED_MAX_THRESHOLD 0 0 0),
       Some (sample_definition ALARM_HISTORY_EXCEED_MAX_THRESHOLD 0 0 0)]\<rparr>)) (sample_world 0 0 0)
    = Ok () w' \<and> thresholds_defined w'"
  using Run_ready [of "sample_world 0 0 0"
      "[Some (sample_definition ACTIVE_ALARM_EXCEED_MAX_THRESHOLD 0 0 0),
        Some (sample_definition ALARM_HISTORY_EXCEED_MAX_THRESHOLD 0 0 0)]" sample_lib_env]
  by (auto simp: defines_thresholds_def first_definition_def)

end
