(* ===== verification/Manager_Alerts.thy ===== *)
theory Manager_Alerts
  imports Manager_Refinement
begin

text \<open>
  The alert timer of \<open>manager/cmd/manager.go\<close>: fetching the alerts of the Prometheus Alert
  Manager (\<open>GetAlerts\<close>), turning those of the fault manager FM into messages
  (\<open>ProcessAlerts\<close>), and re-posting every active alarm (\<open>StartAlertTimer\<close>).  The messages
  go to goroutines of their own: here they are the list of spawned notifications.
\<close>

section \<open>Operations\<close>

text \<open>\<open>GetAlerts\<close> returns a nil error also when the request failed.\<close>

definition GetAlerts :: "Env \<Rightarrow> World \<Rightarrow> alerts_reply \<times> World" where
  "GetAlerts e w =
     (case get_alerts e (clk w) of
        (resp, Some err) \<Rightarrow> ((resp, None), w\<lparr>clk := Suc (clk w)\<rparr>)
      | (resp, None) \<Rightarrow> ((resp, None), w\<lparr>clk := Suc (clk w)\<rparr>))"

definition buildAlarm :: "GettableAlert \<Rightarrow> Alarm" where
  "buildAlarm alert =
     (let a = zero_Alarm\<lparr>ManagedObjectId := ''SEP'', ApplicationId := ''FM''\<rparr>;
          a = (case alertLabels alert ''specific_problem'' of
                 Some v \<Rightarrow> a\<lparr>SpecificProblem := fst (Atoi v)\<rparr> | None \<Rightarrow> a);
          a = (case alertLabels alert ''severity'' of
                 Some v \<Rightarrow> a\<lparr>PerceivedSeverity := v\<rparr> | None \<Rightarrow> a);
          a = (case alertLabels alert ''name'' of
                 Some v \<Rightarrow> a\<lparr>AdditionalInfo := v\<rparr> | None \<Rightarrow> a)
      in case alertAnnotations alert ''description'' of
           Some v \<Rightarrow> a\<lparr>IdentifyingInfo := v\<rparr> | None \<Rightarrow> a)"

definition from_FM :: "GettableAlert \<Rightarrow> bool" where
  "from_FM alert =
     (case alertLabels alert ''service'' of None \<Rightarrow> False | Some v \<Rightarrow> strings_Contains v ''FM'')"

text \<open>The inner search loop; \<open>None\<close> is the dereference of a nil alert.\<close>

fun alert_found :: "AlarmNotification \<Rightarrow> GettableAlert option list \<Rightarrow> bool option" where
  "alert_found m [] = Some False"
| "alert_found m (None # rest) = None"
| "alert_found m (Some alert # rest) =
     (if \<not> from_FM alert then alert_found m rest
      else let a = buildAlarm alert in
        if ManagedObjectId (nAlarm m) = ManagedObjectId a \<and>
           ApplicationId (nAlarm m) = ApplicationId a \<and>
           SpecificProblem (nAlarm m) = SpecificProblem a \<and>
           IdentifyingInfo (nAlarm m) = IdentifyingInfo a
        then Some True else alert_found m rest)"

text \<open>The first loop: the clears it spawns.\<close>

fun cleared_alerts ::
  "GettableAlert option list \<Rightarrow> AlarmNotification list \<Rightarrow> AlarmNotification list option"
where
  "cleared_alerts payload [] = Some []"
| "cleared_alerts payload (m # ms) =
     (if ApplicationId (nAlarm m) \<noteq> ''FM'' then cleared_alerts payload ms
      else case alert_found m payload of
        None \<Rightarrow> None
      | Some True \<Rightarrow> cleared_alerts payload ms
      | Some False \<Rightarrow>
          map_option (\<lambda>rest. set_nAction AlarmActionClear m # rest) (cleared_alerts payload ms))"

text \<open>The second loop: the raises it spawns, each with a reading of the clock.\<close>

fun raised_alerts ::
  "Env \<Rightarrow> GettableAlert option list \<Rightarrow> World \<Rightarrow> (AlarmNotification list, World) result"
where
  "raised_alerts e [] w = Ok [] w"
| "raised_alerts e (None # rest) w = Panic NilDeref w"
| "raised_alerts e (Some alert # rest) w =
     (if from_FM alert then
        (case UnixNano e w of
           (now, w1) \<Rightarrow>
             let m = \<lparr>notifMessage = \<lparr>msgAlarm = buildAlarm alert, AlarmAction = AlarmActionRaise,
                        AlarmTime = now\<rparr>, notifDef = zero_AlarmDefinition\<rparr>
             in bindR (raised_alerts e rest w1) (\<lambda>ms w2. Ok (m # ms) w2))
      else raised_alerts e rest w)"

definition ProcessAlerts :: "Env \<Rightarrow> World \<Rightarrow> (AlarmNotification list, World) result" where
  "ProcessAlerts e w =
     (case GetAlerts e w of
        ((resp, err), w1) \<Rightarrow>
          (case resp of
             None \<Rightarrow> Ok [] w1
           | Some payload \<Rightarrow>
               if err \<noteq> None then Ok [] w1
               else case cleared_alerts payload (active w1) of
                 None \<Rightarrow> Panic NilDeref w1
               | Some clears \<Rightarrow>
                   bindR (raised_alerts e payload w1) (\<lambda>raises w2. Ok (clears @ raises) w2)))"

fun repost_alarms :: "Env \<Rightarrow> AlarmNotification list \<Rightarrow> World \<Rightarrow> (unit, World) result" where
  "repost_alarms e [] w = Ok () w"
| "repost_alarms e (m # ms) w =
     bindR (GenerateAlertLabels e (nId m) (nAlarm m) AlertStatusActive (nTime m) w)
       (\<lambda>(amLabels, amAnnotations) w1.
          bindR (PostAlert e amLabels amAnnotations w1) (\<lambda>_ w2. repost_alarms e ms w2))"

definition StartAlertTimer_tick :: "Env \<Rightarrow> World \<Rightarrow> (AlarmNotification list, World) result" where
  "StartAlertTimer_tick e w =
     bindR (Lock w) (\<lambda>_ w1.
     bindR (ProcessAlerts e w1) (\<lambda>spawned w2.
     bindR (repost_alarms e (active w2) w2) (\<lambda>_ w3.
     bindR (Unlock w3) (\<lambda>_ w4. Ok spawned w4))))"

section \<open>Messages from alerts\<close>

lemma buildAlarm_source [simp]:
  "ManagedObjectId (buildAlarm a) = ''SEP''" "ApplicationId (buildAlarm a) = ''FM''"
  by (simp_all add: buildAlarm_def Let_def split: option.split)

text \<open>The alerts of FM in a payload.\<close>

definition FM_alerts :: "GettableAlert option list \<Rightarrow> GettableAlert list" where
  "FM_alerts payload = filter from_FM (map the payload)"

abbreviation FM_keys :: "GettableAlert option list \<Rightarrow> alarm_key set" where
  "FM_keys payload \<equiv> (alarm_key \<circ> buildAlarm) ` set (FM_alerts payload)"

lemma alert_found_Some:
  "None \<notin> set payload \<Longrightarrow> alert_found m payload = Some (nKey m \<in> FM_keys payload)"
proof (induction payload)
  case (Cons p rest)
  then obtain alert where p: "p = Some alert" by (cases p) auto
  have IH: "alert_found m rest = Some (nKey m \<in> FM_keys rest)"
    using Cons by simp
  have "alert_found m (Some alert # rest) =
      (if from_FM alert \<and> nKey m = alarm_key (buildAlarm alert) then Some True else alert_found m rest)"
    by (auto simp: alarm_key_def Let_def)
  moreover have "FM_keys (Some alert # rest) =
      (if from_FM alert then insert (alarm_key (buildAlarm alert)) (FM_keys rest) else FM_keys rest)"
    by (simp add: FM_alerts_def)
  ultimately show ?case by (simp only: p IH) simp
qed (simp add: FM_alerts_def)

definition vanished :: "GettableAlert option list \<Rightarrow> AlarmNotification \<Rightarrow> bool" where
  "vanished payload m \<longleftrightarrow> ApplicationId (nAlarm m) = ''FM'' \<and> nKey m \<notin> FM_keys payload"

lemma cleared_alerts_Some:
  "None \<notin> set payload \<Longrightarrow>
   cleared_alerts payload ms = Some (map (set_nAction AlarmActionClear) (filter (vanished payload) ms))"
proof (induction ms)
  case (Cons m ms)
  show ?case
  proof (cases "nKey m \<in> FM_keys payload")
    case True
    then have "alert_found m payload = Some True" "\<not> vanished payload m"
      using alert_found_Some [OF Cons.prems, of m] by (simp_all only: vanished_def) auto
    then show ?thesis using Cons.IH [OF Cons.prems] by simp
  next
    case False
    then have "alert_found m payload = Some False"
      "vanished payload m = (ApplicationId (nAlarm m) = ''FM'')"
      using alert_found_Some [OF Cons.prems, of m] by (simp_all only: vanished_def) auto
    then show ?thesis using Cons.IH [OF Cons.prems] by simp
  qed
qed simp

lemma raised_alerts_Ok:
  "None \<notin> set payload \<Longrightarrow>
   \<exists>ms c. raised_alerts e payload w = Ok ms (w\<lparr>clk := c\<rparr>) \<and>
     map nAlarm ms = map buildAlarm (FM_alerts payload) \<and>
     (\<forall>m\<in>set ms. nAction m = AlarmActionRaise \<and> notifDef m = zero_AlarmDefinition)"
proof (induction payload arbitrary: w)
  case Nil
  show ?case
    by (rule exI [of _ "[]"], rule exI [of _ "clk w"]) (simp add: FM_alerts_def)
next
  case (Cons p rest)
  then obtain alert where p: "p = Some alert" by (cases p) auto
  have rest: "None \<notin> set rest" using Cons.prems by simp
  show ?case
  proof (cases "from_FM alert")
    case True
    from Cons.IH [OF rest, of "w\<lparr>clk := Suc (clk w)\<rparr>"] obtain ms c where
      ms: "raised_alerts e rest (w\<lparr>clk := Suc (clk w)\<rparr>) = Ok ms (w\<lparr>clk := c\<rparr>)"
      "map nAlarm ms = map buildAlarm (FM_alerts rest)"
      "\<forall>m\<in>set ms. nAction m = AlarmActionRaise \<and> notifDef m = zero_AlarmDefinition" by auto
    let ?m = "\<lparr>notifMessage = \<lparr>msgAlarm = buildAlarm alert, AlarmAction = AlarmActionRaise,
      AlarmTime = time_now e (clk w)\<rparr>, notifDef = zero_AlarmDefinition\<rparr>"
    have "raised_alerts e (p # rest) w = Ok (?m # ms) (w\<lparr>clk := c\<rparr>)"
      using True ms(1) by (simp add: p UnixNano_def Let_def)
    moreover have "map nAlarm (?m # ms) = map buildAlarm (FM_alerts (p # rest))"
      using True ms(2) by (simp add: p FM_alerts_def)
    moreover have "\<forall>m\<in>set (?m # ms). nAction m = AlarmActionRaise \<and> notifDef m = zero_AlarmDefinition"
      using ms(3) by simp
    ultimately show ?thesis by blast
  next
    case False
    then have "raised_alerts e (p # rest) w = raised_alerts e rest w"
      "FM_alerts (p # rest) = FM_alerts rest"
      by (simp_all add: p FM_alerts_def)
    then show ?thesis using Cons.IH [OF rest, of w] by simp
  qed
qed

lemma GetAlerts_simp: "GetAlerts e w = ((fst (get_alerts e (clk w)), None), w\<lparr>clk := Suc (clk w)\<rparr>)"
  by (cases "get_alerts e (clk w)") (simp add: GetAlerts_def split: option.split)

lemma ProcessAlerts_failed:
  "fst (get_alerts e (clk w)) = None \<Longrightarrow> ProcessAlerts e w = Ok [] (w\<lparr>clk := Suc (clk w)\<rparr>)"
  by (simp add: ProcessAlerts_def GetAlerts_simp)

text \<open>The messages an answered request spawns: clears, then raises.\<close>

definition spawned_for ::
  "GettableAlert option list \<Rightarrow> World \<Rightarrow> AlarmNotification list \<Rightarrow> bool" where
  "spawned_for payload w ms \<longleftrightarrow>
     (\<exists>raises. ms = map (set_nAction AlarmActionClear) (filter (vanished payload) (active w)) @ raises \<and>
        map nAlarm raises = map buildAlarm (FM_alerts payload) \<and>
        (\<forall>m\<in>set raises. nAction m = AlarmActionRaise))"

lemma ProcessAlerts_answered:
  assumes "fst (get_alerts e (clk w)) = Some payload" "None \<notin> set payload"
  shows "\<exists>ms c. ProcessAlerts e w = Ok ms (w\<lparr>clk := c\<rparr>) \<and> spawned_for payload w ms"
proof -
  let ?w1 = "w\<lparr>clk := Suc (clk w)\<rparr>"
  let ?clears = "map (set_nAction AlarmActionClear) (filter (vanished payload) (active w))"
  obtain ms c where ms: "raised_alerts e payload ?w1 = Ok ms (?w1\<lparr>clk := c\<rparr>)"
    "map nAlarm ms = map buildAlarm (FM_alerts payload)" "\<forall>m\<in>set ms. nAction m = AlarmActionRaise"
    using raised_alerts_Ok [OF assms(2), of e ?w1] by blast
  have "ProcessAlerts e w = Ok (?clears @ ms) (w\<lparr>clk := c\<rparr>)"
    using ms(1) by (simp add: ProcessAlerts_def GetAlerts_simp assms(1) cleared_alerts_Some [OF assms(2)])
  moreover have "spawned_for payload w (?clears @ ms)"
    using ms(2,3) by (simp add: spawned_for_def)
  ultimately show ?thesis by blast
qed

section \<open>Re-posting\<close>

definition reposts :: "Env \<Rightarrow> World \<Rightarrow> AlarmNotification list \<Rightarrow> outgoing list" where
  "reposts e w ms =
     map (\<lambda>m. let d = the (RICAlarmDefinitions w (nProblem m)) in
            AlertPost (amLabels_of (nAlarm m) AlertStatusActive d)
              (amAnnotations_of e (nId m) (nAlarm m) (nTime m) d))
       (filter (\<lambda>m. \<not> strings_Contains (ApplicationId (nAlarm m)) ''FM'') ms)"

definition postable :: "World \<Rightarrow> AlarmNotification \<Rightarrow> bool" where
  "postable w m \<longleftrightarrow> strings_Contains (ApplicationId (nAlarm m)) ''FM'' \<or>
     RICAlarmDefinitions w (nProblem m) \<noteq> None"

lemma repost_alarms_Ok:
  "\<forall>m\<in>set ms. postable w m \<Longrightarrow>
   \<exists>c. repost_alarms e ms w = Ok () (w\<lparr>outbox := outbox w @ reposts e w ms, clk := c\<rparr>)"
proof (induction ms arbitrary: w)
  case Nil
  show ?case by (rule exI [of _ "clk w"]) (simp add: reposts_def)
next
  case (Cons m ms)
  show ?case
  proof (cases "strings_Contains (ApplicationId (nAlarm m)) ''FM''")
    case True
    then have "repost_alarms e (m # ms) w = repost_alarms e ms w"
      "reposts e w (m # ms) = reposts e w ms"
      by (simp_all add: GenerateAlertLabels_def PostAlert_def reposts_def)
    then show ?thesis using Cons.IH [of w] Cons.prems by simp
  next
    case False
    then obtain d where d: "RICAlarmDefinitions w (nProblem m) = Some d"
      using Cons.prems by (auto simp: postable_def)
    let ?p = "AlertPost (amLabels_of (nAlarm m) AlertStatusActive d)
      (amAnnotations_of e (nId m) (nAlarm m) (nTime m) d)"
    let ?w1 = "w\<lparr>outbox := outbox w @ [?p], clk := Suc (clk w)\<rparr>"
    have "\<forall>m\<in>set ms. postable ?w1 m"
      using Cons.prems by (simp add: postable_def)
    from Cons.IH [OF this] obtain c where
      "repost_alarms e ms ?w1 = Ok () (?w1\<lparr>outbox := outbox ?w1 @ reposts e ?w1 ms, clk := c\<rparr>)"
      by blast
    moreover have "reposts e ?w1 ms = reposts e w ms"
      by (simp add: reposts_def)
    ultimately have "repost_alarms e (m # ms) w =
        Ok () (w\<lparr>outbox := outbox w @ reposts e w (m # ms), clk := c\<rparr>)"
      using False d by (simp add: GenerateAlertLabels_def PostAlert_def reposts_def)
    then show ?thesis by blast
  qed
qed

lemma repost_alarms_panics:
  "\<exists>m\<in>set ms. \<not> postable w m \<Longrightarrow>
   \<exists>w'. repost_alarms e ms w = Panic NilDeref w' \<and> mutex w' = mutex w"
proof (induction ms arbitrary: w)
  case (Cons m ms)
  show ?case
  proof (cases "postable w m")
    case False
    then show ?thesis by (simp add: postable_def GenerateAlertLabels_def)
  next
    case True
    then have "\<exists>w1. repost_alarms e (m # ms) w = repost_alarms e ms w1 \<and>
        mutex w1 = mutex w \<and> RICAlarmDefinitions w1 = RICAlarmDefinitions w"
      by (auto simp: postable_def GenerateAlertLabels_def PostAlert_def)
    then obtain w1 where w1: "repost_alarms e (m # ms) w = repost_alarms e ms w1"
      "mutex w1 = mutex w" "RICAlarmDefinitions w1 = RICAlarmDefinitions w" by blast
    have "\<exists>x\<in>set ms. \<not> postable w1 x"
      using Cons.prems True w1(3) by (auto simp: postable_def)
    from Cons.IH [OF this] show ?thesis using w1 by auto
  qed
qed simp

section \<open>A whole tick\<close>


lemma sample_application [simp]:
  "ApplicationId (nAlarm (sample_entry sev)) = ''UEEC''"
  "\<not> strings_Contains ''UEEC'' ''FM''"
  by (simp_all add: sample_entry_def sample_message_def sample_alarm_def)

lemma sample_alerts [simp]: "get_alerts sample_env n = (Some [], None)"
  by (simp add: sample_env_def)


text \<open>C22: If the definition of an active alarm that is not FM's has been deleted, the next tick of
  the alert timer dereferences a nil pointer, with the mutex held.\<close>
theorem alert_tick_panics_without_definition:
  assumes "\<not> mutex w" "\<exists>m\<in>set (active w). \<not> postable w m"
    and "\<And>payload. fst (get_alerts e (clk w)) = Some payload \<Longrightarrow> None \<notin> set payload"
  shows "\<exists>w'. StartAlertTimer_tick e w = Panic NilDeref w' \<and> mutex w'"
proof -
  let ?w1 = "w\<lparr>mutex := True\<rparr>"
  have "\<exists>ms c. ProcessAlerts e ?w1 = Ok ms (?w1\<lparr>clk := c\<rparr>)"
  proof (cases "fst (get_alerts e (clk w))")
    case None
    then show ?thesis using ProcessAlerts_failed [of e ?w1] by auto
  next
    case (Some payload)
    then have "fst (get_alerts e (clk ?w1)) = Some payload" by simp
    from ProcessAlerts_answered [OF this assms(3) [OF Some]] show ?thesis by blast
  qed
  then obtain ms c where ms: "ProcessAlerts e ?w1 = Ok ms (?w1\<lparr>clk := c\<rparr>)" by blast
  let ?w2 = "?w1\<lparr>clk := c\<rparr>"
  have "\<exists>m\<in>set (active ?w2). \<not> postable ?w2 m"
    using assms(2) by (simp add: postable_def)
  from repost_alarms_panics [OF this, of e] show ?thesis
    using assms(1) ms by (auto simp: StartAlertTimer_tick_def Lock_def)
qed

theorem alert_tick_panics_without_definition_witness:
  "\<exists>w'. StartAlertTimer_tick sample_env ((sample_world_active 0 0 0)\<lparr>RICAlarmDefinitions := Map.empty\<rparr>)
    = Panic NilDeref w' \<and> mutex w'"
  by (rule alert_tick_panics_without_definition) (simp_all add: postable_def)

section \<open>Reconciliation with FM\<close>

text \<open>Every problem FM's alarms and alerts name is defined, undelayed and not a threshold.\<close>

definition fm_ready :: "World \<Rightarrow> go_int \<Rightarrow> bool" where
  "fm_ready w sp \<longleftrightarrow>
     sp \<noteq> ACTIVE_ALARM_EXCEED_MAX_THRESHOLD \<and> sp \<noteq> ALARM_HISTORY_EXCEED_MAX_THRESHOLD \<and>
     (\<exists>d. RICAlarmDefinitions w sp = Some d \<and> RaiseDelay d <=s 0 \<and> ClearDelay d <=s 0)"

lemma fm_ready_step:
  "fm_ready w (nProblem m) \<Longrightarrow> undelayed w m \<and> known w (nProblem m) \<and> ordinary m"
  by (auto simp: fm_ready_def undelayed_def known_def ordinary_def)

lemma fold_clears:
  "\<forall>m\<in>set ms. nAction m = AlarmActionClear \<and> kn (nProblem m) \<and> ordinary m \<Longrightarrow>
   fold (abs_step kn) ms t k = (if k \<in> nKey ` set ms then None else t k)"
  by (induction ms arbitrary: t) (auto simp: abs_step_def)

lemma fold_raises:
  "\<forall>m\<in>set ms. nAction m = AlarmActionRaise \<and> kn (nProblem m) \<and> ordinary m \<Longrightarrow>
   fold (abs_step kn) ms t k = None \<longleftrightarrow> k \<notin> nKey ` set ms \<and> t k = None"
  by (induction ms arbitrary: t) (auto simp: abs_step_def)

lemma table_key_listed:
  assumes "abs_table w k \<noteq> None"
  shows "\<exists>m\<in>set (active w). nKey m = k \<and> ordinary m"
proof -
  obtain s where "abs_table w k = Some s" using assms by blast
  then have "(k, s) \<in> set (map (\<lambda>n. (nKey n, nSeverity n)) (filter ordinary (active w)))"
    unfolding table_of_def by (rule map_of_SomeD)
  then show ?thesis by auto
qed


definition sample_alert :: GettableAlert where
  "sample_alert =
     \<lparr>alertLabels = [''service'' \<mapsto> ''FM/x'', ''specific_problem'' \<mapsto> Sprint_d 72004,
        ''severity'' \<mapsto> ''MAJOR''], alertAnnotations = [''description'' \<mapsto> ''eth0'']\<rparr>"

definition sample_alert_raise :: AlarmNotification where
  "sample_alert_raise =
     \<lparr>notifMessage = \<lparr>msgAlarm = buildAlarm sample_alert, AlarmAction = AlarmActionRaise, AlarmTime = 0\<rparr>,
      notifDef = zero_AlarmDefinition\<rparr>"

lemma sample_alert_simps:
  "from_FM sample_alert"
  "alarm_key (buildAlarm sample_alert) = (''SEP'', ''FM'', 72004, ''eth0'')"
  "SpecificProblem (buildAlarm sample_alert) = 72004"
  by (simp_all add: sample_alert_def from_FM_def buildAlarm_def Let_def
      Atoi_Sprint_d alarm_key_def)


end
