(* ===== verification/Rest_Api.thy ===== *)
theory Rest_Api
  imports Manager_Config Manager_Alerts
begin

text \<open>
  The REST interface of the alarm manager (\<open>manager/cmd/restapi.go\<close>).  A request is its body and
  its path parameter; a response is the status and the JSON body, and a handler that writes
  nothing gives net/http's default, 200 without a body.  The routing itself (gorilla/mux), the
  symptom data utilities of the xapp framework and the JSON form of an error value are outside
  the repository and are parameters.
\<close>

datatype body = NoBody | BadBody | JsonBody json

record Request =
  reqBody :: body
  pathAlarmId :: "string option"

type_synonym response = "nat \<times> json option"

definition no_response :: response where
  "no_response = (200, None)"

definition respondWithJSON :: "nat \<Rightarrow> json option \<Rightarrow> response" where
  "respondWithJSON code payload = (code, payload)"

definition respondWithError :: "nat \<Rightarrow> string \<Rightarrow> response" where
  "respondWithError code message = respondWithJSON code (Some (JObj [(''error'', JStr message)]))"

datatype rest_handler =
  H_RaiseAlarm | H_ClearAlarm | H_GetActiveAlarms | H_GetAlarmHistory | H_SetAlarmConfig
| H_GetAlarmConfig | H_SetAlarmDefinition | H_DeleteAlarmDefinition | H_GetAlarmDefinition
| H_SymptomDataHandler

definition InjectRoutes :: "(string \<times> rest_handler \<times> string) list" where
  "InjectRoutes =
     [(''/ric/v1/alarms'', H_RaiseAlarm, ''POST''),
      (''/ric/v1/alarms'', H_ClearAlarm, ''DELETE''),
      (''/ric/v1/alarms/active'', H_GetActiveAlarms, ''GET''),
      (''/ric/v1/alarms/history'', H_GetAlarmHistory, ''GET''),
      (''/ric/v1/alarms/config'', H_SetAlarmConfig, ''POST''),
      (''/ric/v1/alarms/config'', H_GetAlarmConfig, ''GET''),
      (''/ric/v1/alarms/define'', H_SetAlarmDefinition, ''POST''),
      (''/ric/v1/alarms/define/{alarmId}'', H_DeleteAlarmDefinition, ''DELETE''),
      (''/ric/v1/alarms/define'', H_GetAlarmDefinition, ''GET''),
      (''/ric/v1/alarms/define/{alarmId}'', H_GetAlarmDefinition, ''GET''),
      (''/ric/v1/symptomdata'', H_SymptomDataHandler, ''GET'')]"

section \<open>Alarms\<close>

definition GetActiveAlarms :: "World \<Rightarrow> response" where
  "GetActiveAlarms w = respondWithJSON 200 (Some (enc_slice enc_AlarmNotification (active w)))"

definition GetAlarmHistory :: "World \<Rightarrow> response" where
  "GetAlarmHistory w = respondWithJSON 200 (Some (enc_slice enc_AlarmNotification (history w)))"

text \<open>The direction \<open>isRaiseAlarm\<close> is logged and nothing else.\<close>

definition doAction ::
  "Env \<Rightarrow> (World \<Rightarrow> World) \<Rightarrow> Request \<Rightarrow> bool \<Rightarrow> World \<Rightarrow> (string option, World) result" where
  "doAction e others r isRaiseAlarm w =
     (case reqBody r of
        NoBody \<Rightarrow> Ok None w
      | BadBody \<Rightarrow> Ok (Some ''json.NewDecoder failed'') w
      | JsonBody v \<Rightarrow>
          (case dec_struct AlarmMessage_fields v zero_AlarmMessage of
             (_, False) \<Rightarrow> Ok (Some ''json.NewDecoder failed'') w
           | (m, True) \<Rightarrow>
               if ManagedObjectId (msgAlarm m) = [] \<or> ApplicationId (msgAlarm m) = [] \<or>
                  AlarmAction m = []
               then Ok None w
               else
                 (case (if AlarmTime m = 0
                        then case UnixNano e w of (now, w1) \<Rightarrow> (m\<lparr>AlarmTime := now\<rparr>, w1)
                        else (m, w)) of
                    (m1, w1) \<Rightarrow>
                      bindR (ProcessAlarm_call e others
                               \<lparr>notifMessage = m1, notifDef = zero_AlarmDefinition\<rparr> w1)
                        (\<lambda>(_, err) w2. Ok err w2))))"

text \<open>\<open>error_json\<close> is the JSON form \<open>encoding/json\<close> gives an error value.\<close>

definition RaiseAlarm ::
  "(string \<Rightarrow> json) \<Rightarrow> Env \<Rightarrow> (World \<Rightarrow> World) \<Rightarrow> Request \<Rightarrow> World \<Rightarrow> (response, World) result" where
  "RaiseAlarm error_json e others r w =
     bindR (doAction e others r True w) (\<lambda>err w1.
       Ok (case err of None \<Rightarrow> no_response
           | Some x \<Rightarrow> respondWithJSON 200 (Some (error_json x))) w1)"

definition ClearAlarm ::
  "(string \<Rightarrow> json) \<Rightarrow> Env \<Rightarrow> (World \<Rightarrow> World) \<Rightarrow> Request \<Rightarrow> World \<Rightarrow> (response, World) result" where
  "ClearAlarm error_json e others r w =
     bindR (doAction e others r False w) (\<lambda>err w1.
       Ok (case err of None \<Rightarrow> no_response
           | Some x \<Rightarrow> respondWithJSON 200 (Some (error_json x))) w1)"

section \<open>Definitions\<close>

definition SetAlarmDefinition :: "Request \<Rightarrow> World \<Rightarrow> (response, World) result" where
  "SetAlarmDefinition r w =
     (case reqBody r of
        NoBody \<Rightarrow> Ok (respondWithError 400 ''No data in request body.'') w
      | BadBody \<Rightarrow> Ok (respondWithError 400 ''Invalid data in request body.'') w
      | JsonBody v \<Rightarrow>
          (case dec_struct RicAlarmDefinitions_fields v \<lparr>AlarmDefinitions = []\<rparr> of
             (_, False) \<Rightarrow> Ok (respondWithError 400 ''Invalid data in request body.'') w
           | (alarmDefinitions, True) \<Rightarrow>
               bindR (add_definitions (AlarmDefinitions alarmDefinitions) w)
                 (\<lambda>_ w1. Ok (respondWithJSON 200 None) w1)))"

definition DeleteAlarmDefinition :: "Request \<Rightarrow> World \<Rightarrow> response \<times> World" where
  "DeleteAlarmDefinition r w =
     (case pathAlarmId r of
        None \<Rightarrow> (respondWithError 400 ''Invalid path parameter'', w)
      | Some alarmId \<Rightarrow>
          (case Atoi alarmId of
             (ialarmId, None) \<Rightarrow>
               (no_response,
                w\<lparr>RICAlarmDefinitions := (RICAlarmDefinitions w)(ialarmId := None)\<rparr>)
           | (_, Some _) \<Rightarrow> (respondWithError 400 ''Invalid path parameter'', w)))"

text \<open>
  A range over a map visits its keys in an order the runtime chooses: \<open>keys\<close>, some enumeration of
  the ids in the table.
\<close>

definition all_definitions :: "go_int list \<Rightarrow> World \<Rightarrow> RicAlarmDefinitions" where
  "all_definitions keys w = \<lparr>AlarmDefinitions = map (RICAlarmDefinitions w) keys\<rparr>"

definition GetAlarmDefinition :: "go_int list \<Rightarrow> Request \<Rightarrow> World \<Rightarrow> response" where
  "GetAlarmDefinition keys r w =
     (case pathAlarmId r of
        Some alarmId \<Rightarrow>
          (case Atoi alarmId of
             (ialarmId, None) \<Rightarrow>
               (case RICAlarmDefinitions w ialarmId of
                  Some alarmDefinition \<Rightarrow>
                    respondWithJSON 200 (Some (enc_AlarmDefinition alarmDefinition))
                | None \<Rightarrow> respondWithError 400 ''Non existent alarmId'')
           | (_, Some _) \<Rightarrow> respondWithError 400 ''Invalid alarmId'')
      | None \<Rightarrow> respondWithJSON 200 (Some (enc_RicAlarmDefinitions (all_definitions keys w))))"

section \<open>Configuration and symptom data\<close>

definition SetAlarmConfig :: "Request \<Rightarrow> World \<Rightarrow> (response, World) result" where
  "SetAlarmConfig r w =
     (case reqBody r of
        NoBody \<Rightarrow> Panic NilDeref w
      | BadBody \<Rightarrow> Ok no_response w
      | JsonBody v \<Rightarrow>
          (case dec_struct AlarmConfigParams_fields v \<lparr>MaxActiveAlarms = 0, MaxAlarmHistory = 0\<rparr> of
             (_, False) \<Rightarrow> Ok no_response w
           | (m, True) \<Rightarrow>
               Ok (respondWithJSON 200 None)
                 (w\<lparr>maxActiveAlarms := MaxActiveAlarms m, maxAlarmHistory := MaxAlarmHistory m\<rparr>)))"

definition alarm_config :: "World \<Rightarrow> AlarmConfigParams" where
  "alarm_config w = \<lparr>MaxActiveAlarms = maxActiveAlarms w, MaxAlarmHistory = maxAlarmHistory w\<rparr>"

definition GetAlarmConfig :: "World \<Rightarrow> response" where
  "GetAlarmConfig w = respondWithJSON 200 (Some (enc_AlarmConfigParams (alarm_config w)))"

record SymptomEnv =
  CreateDir :: "string \<Rightarrow> string option"
  WriteToFile :: "string \<Rightarrow> json \<Rightarrow> string option"
  alerts_json :: "alerts_reply \<Rightarrow> json"

datatype symptom_reply = SymptomDataError string | SymptomDataFile string string

text \<open>Files written one after the other up to the first error.\<close>

fun write_symptoms ::
  "SymptomEnv \<Rightarrow> string \<Rightarrow> (string \<times> json) list \<Rightarrow> (string \<times> json) list \<times> string option"
where
  "write_symptoms se baseDir [] = ([], None)"
| "write_symptoms se baseDir ((name, v) # rest) =
     (case WriteToFile se (baseDir @ name) v of
        Some err \<Rightarrow> ([], Some err)
      | None \<Rightarrow>
          (case write_symptoms se baseDir rest of
             (files, err) \<Rightarrow> ((baseDir @ name, v) # files, err)))"

definition SymptomDataHandler ::
  "SymptomEnv \<Rightarrow> Env \<Rightarrow> go_int list \<Rightarrow> World \<Rightarrow> ((string \<times> json) list \<times> symptom_reply) \<times> World"
where
  "SymptomDataHandler se e keys w =
     (let baseDir = ''/tmp/symptomdata/'';
          failed = (\<lambda>err. SymptomDataError (''writeToFile failed: '' @ err))
      in case CreateDir se baseDir of
        Some err \<Rightarrow> (([], SymptomDataError (''CreateDir failed: '' @ err)), w)
      | None \<Rightarrow>
          (case write_symptoms se baseDir
                  [(''active_alarms.json'', enc_slice enc_AlarmNotification (active w)),
                   (''alarm_history.json'', enc_slice enc_AlarmNotification (history w))] of
             (files, Some err) \<Rightarrow> ((files, failed err), w)
           | (files, None) \<Rightarrow>
               (case GetAlerts e w of
                  ((resp, err), w1) \<Rightarrow>
                    (case write_symptoms se baseDir
                       ((if err = None then [(''alerts.json'', alerts_json se (resp, err))] else []) @
                        [(''alarm_config.json'', enc_AlarmConfigParams (alarm_config w1)),
                         (''alarm_defs.json'', enc_RicAlarmDefinitions (all_definitions keys w1))]) of
                       (files', Some err') \<Rightarrow> ((files @ files', failed err'), w1)
                     | (files', None) \<Rightarrow>
                         ((files @ files', SymptomDataFile baseDir ''symptomdata.zip''), w1)))))"

section \<open>Properties\<close>

definition posted :: "json \<Rightarrow> Request" where
  "posted v = \<lparr>reqBody = JsonBody v, pathAlarmId = None\<rparr>"

definition at_id :: "go_int \<Rightarrow> Request" where
  "at_id sp = \<lparr>reqBody = NoBody, pathAlarmId = Some (Sprint_d sp)\<rparr>"

definition complete :: "AlarmMessage \<Rightarrow> bool" where
  "complete m \<longleftrightarrow> ManagedObjectId (msgAlarm m) \<noteq> [] \<and> ApplicationId (msgAlarm m) \<noteq> [] \<and>
     AlarmAction m \<noteq> [] \<and> AlarmTime m \<noteq> 0"

lemma doAction_complete:
  assumes "complete m"
  shows "doAction e others (posted (enc_AlarmMessage m)) b w =
    bindR (ProcessAlarm_call e others \<lparr>notifMessage = m, notifDef = zero_AlarmDefinition\<rparr> w)
      (\<lambda>(_, err) w2. Ok err w2)"
  using assms by (simp add: doAction_def posted_def complete_def members_roundtrip)

text \<open>C24: A complete, time-stamped message has the same effect on the manager whether it arrives
  over RMR or is posted over REST, panics included, and the effect is that of \<open>ProcessAlarm\<close> on
  exactly the message that was encoded.\<close>
theorem rest_and_rmr_agree:
  assumes "complete m"
  shows "final (RaiseAlarm error_json e others (posted (enc_AlarmMessage m)) w) =
      final (Consume e others RIC_ALARM_UPDATE (Some (enc_AlarmMessage m)) w) \<and>
    final (RaiseAlarm error_json e others (posted (enc_AlarmMessage m)) w) =
      final (ProcessAlarm_call e others \<lparr>notifMessage = m, notifDef = zero_AlarmDefinition\<rparr> w)"
proof -
  let ?r = "ProcessAlarm_call e others \<lparr>notifMessage = m, notifDef = zero_AlarmDefinition\<rparr> w"
  have "final (RaiseAlarm error_json e others (posted (enc_AlarmMessage m)) w) = final ?r"
    by (cases ?r) (auto simp: RaiseAlarm_def doAction_complete [OF assms])
  moreover have "final (Consume e others RIC_ALARM_UPDATE (Some (enc_AlarmMessage m)) w) = final ?r"
    by (cases ?r) (auto simp: Consume_def HandleAlarms_def members_roundtrip)
  ultimately show ?thesis by simp
qed

theorem rest_and_rmr_agree_witness:
  "final (RaiseAlarm JStr sample_env (\<lambda>w. w)
     (posted (enc_AlarmMessage (NewAlarmMessage 5 (sample_alarm 72004 SeverityMajor) AlarmActionRaise)))
     (sample_world 0 0 0)) =
   final (Consume sample_env (\<lambda>w. w) RIC_ALARM_UPDATE
     (Some (enc_AlarmMessage (NewAlarmMessage 5 (sample_alarm 72004 SeverityMajor) AlarmActionRaise)))
     (sample_world 0 0 0))"
  using rest_and_rmr_agree
    [of "NewAlarmMessage 5 (sample_alarm 72004 SeverityMajor) AlarmActionRaise" JStr sample_env
      "\<lambda>w. w" "sample_world 0 0 0"]
  by (simp add: complete_def NewAlarmMessage_def sample_alarm_def AlarmActionRaise_def)

text \<open>
  The two alarm endpoints are one: DELETE does whatever POST does with the same body, since only
  the action in the body counts.
\<close>

lemma ClearAlarm_is_RaiseAlarm:
  "ClearAlarm error_json e others r w = RaiseAlarm error_json e others r w"
  by (simp add: ClearAlarm_def RaiseAlarm_def doAction_def)

text \<open>A request without a body, with a body that is not a message, or without one of the
  mandatory fields changes nothing; it is answered with status 200 in every case.\<close>

lemma incomplete_request_ignored:
  assumes "\<And>v m. reqBody r = JsonBody v \<Longrightarrow>
      dec_struct AlarmMessage_fields v zero_AlarmMessage = (m, True) \<Longrightarrow>
      ManagedObjectId (msgAlarm m) = [] \<or> ApplicationId (msgAlarm m) = [] \<or> AlarmAction m = []"
  shows "\<exists>b. RaiseAlarm error_json e others r w = Ok (200, b) w"
proof (cases "reqBody r")
  case (JsonBody v)
  obtain m ok where dec: "dec_struct AlarmMessage_fields v zero_AlarmMessage = (m, ok)"
    by (cases "dec_struct AlarmMessage_fields v zero_AlarmMessage") auto
  then show ?thesis
    using assms [OF JsonBody, of m] JsonBody
    by (cases ok) (auto simp: RaiseAlarm_def doAction_def no_response_def respondWithJSON_def)
qed (simp_all add: RaiseAlarm_def doAction_def no_response_def respondWithJSON_def)

text \<open>C25: Definitions: after a list of definitions has been posted, asking for any id gives its
  earlier definition if it had one, else the first of the list with that id, else an error; a
  definition that exists is never replaced.\<close>
theorem define_then_get:
  assumes "None \<notin> set ds"
  shows "\<exists>w'. SetAlarmDefinition (posted (enc_RicAlarmDefinitions \<lparr>AlarmDefinitions = ds\<rparr>)) w =
      Ok (200, None) w' \<and>
    (\<forall>sp. GetAlarmDefinition keys (at_id sp) w' =
       (case (case RICAlarmDefinitions w sp of Some d \<Rightarrow> Some d | None \<Rightarrow> first_definition ds sp) of
          Some d \<Rightarrow> (200, Some (enc_AlarmDefinition d))
        | None \<Rightarrow> respondWithError 400 ''Non existent alarmId'')) \<and>
    persistent_info w' = persistent_info w \<and> mutex w' = mutex w"
  using assms
  by (simp add: SetAlarmDefinition_def posted_def RicAlarmDefinitions_codec.roundtrip
      add_definitions_result respondWithJSON_def GetAlarmDefinition_def at_id_def Atoi_Sprint_d
      persistent_info_def split: option.split)

theorem define_then_get_witness:
  "\<exists>w'. SetAlarmDefinition (posted (enc_RicAlarmDefinitions
      \<lparr>AlarmDefinitions = [Some (sample_definition 1 0 0 0)]\<rparr>)) (sample_world 0 0 0) = Ok (200, None) w' \<and>
    GetAlarmDefinition [] (at_id 72004) w' = (200, Some (enc_AlarmDefinition (sample_definition 72004 0 0 0)))"
  using define_then_get [of "[Some (sample_definition 1 0 0 0)]" "sample_world 0 0 0" "[]"]
  by (auto dest: spec [of _ 72004])

text \<open>A JSON null in the posted list is a nil pointer the handler dereferences.\<close>

lemma null_definition_panics:
  assumes "None \<in> set ds"
  shows "\<exists>w'. SetAlarmDefinition (posted (enc_RicAlarmDefinitions \<lparr>AlarmDefinitions = ds\<rparr>)) w =
    Panic NilDeref w'"
  using add_definitions_nil [OF assms, of w]
  by (auto simp: SetAlarmDefinition_def posted_def RicAlarmDefinitions_codec.roundtrip)

text \<open>Deleting a definition by its printed id removes that definition and no other; a later
  request for it fails, and messages for its problem are ignored from then on.\<close>

lemma delete_definition:
  "\<exists>w'. DeleteAlarmDefinition (at_id sp) w = (no_response, w') \<and>
    RICAlarmDefinitions w' sp = None \<and>
    (\<forall>q. q \<noteq> sp \<longrightarrow> RICAlarmDefinitions w' q = RICAlarmDefinitions w q) \<and>
    GetAlarmDefinition keys (at_id sp) w' = respondWithError 400 ''Non existent alarmId'' \<and>
    (\<forall>e others m. \<not> mutex w \<longrightarrow> nProblem m = sp \<longrightarrow>
       ProcessAlarm_call e others m w' = Ok nil_reply w')"
proof -
  let ?w' = "w\<lparr>RICAlarmDefinitions := (RICAlarmDefinitions w)(sp := None)\<rparr>"
  have "ProcessAlarm_call e others m ?w' = Ok nil_reply ?w'" if "\<not> mutex w" "nProblem m = sp" for e others m
    using that ineffective_first [of ?w' m e]
    by (simp add: ineffective_def ProcessAlarm_call_def run_on_def)
  then show ?thesis
    by (simp add: DeleteAlarmDefinition_def at_id_def Atoi_Sprint_d GetAlarmDefinition_def)
qed

text \<open>The limits read back over REST are the ones last posted, without any check: zero and
  negative limits are accepted, and nothing else of the manager changes.\<close>

lemma config_roundtrip:
  "\<exists>w'. SetAlarmConfig (posted (enc_AlarmConfigParams c)) w = Ok (200, None) w' \<and>
    GetAlarmConfig w' = (200, Some (enc_AlarmConfigParams c)) \<and>
    maxActiveAlarms w' = MaxActiveAlarms c \<and> maxAlarmHistory w' = MaxAlarmHistory c \<and>
    persistent_info w' = persistent_info w \<and> RICAlarmDefinitions w' = RICAlarmDefinitions w \<and>
    mutex w' = mutex w \<and> outbox w' = outbox w"
  by (cases c) (simp add: SetAlarmConfig_def posted_def members_roundtrip respondWithJSON_def
      GetAlarmConfig_def alarm_config_def persistent_info_def)

text \<open>A client that decodes the answers of the two listing endpoints has exactly the active
  table, pending alarms included, and the history.\<close>

lemma listings_decode:
  "(\<exists>v. GetActiveAlarms w = (200, Some v) \<and>
      dec_slice zero_AlarmNotification (dec_struct AlarmNotification_fields) v r = (active w, True)) \<and>
   (\<exists>v. GetAlarmHistory w = (200, Some v) \<and>
      dec_slice zero_AlarmNotification (dec_struct AlarmNotification_fields) v r = (history w, True))"
  by (simp add: GetActiveAlarms_def GetAlarmHistory_def respondWithJSON_def
      AlarmNotification_codec.slice_roundtrip)


definition sample_symptom_env :: SymptomEnv where
  "sample_symptom_env =
     \<lparr>CreateDir = (\<lambda>_. None), WriteToFile = (\<lambda>_ _. None), alerts_json = (\<lambda>_. JNull)\<rparr>"


end
