(* ===== verification/Manager_Timers.thy ===== *)
theory Manager_Timers
  imports Manager_Refinement
begin

text \<open>
  The time-to-live timer of \<open>manager/cmd/manager.go\<close>: \<open>ClearExpiredAlarms\<close> and one tick of
  \<open>StartTTLTimer\<close>.  The tick ranges over a snapshot of the slice header while each clear shifts
  the elements of the same array, so what the loop sees is read from the array
  (\<open>array_of\<close>), not from the table.  The theorems say exactly what a tick clears, skips, and
  when it panics.
\<close>

section \<open>Operations\<close>

text \<open>
  The piece up to a possible clear delay, with the mutex held by the caller or taken here, and
  the whole function; \<open>others\<close> is what the other goroutines do while a delayed clear sleeps.
\<close>

definition ClearExpiredAlarms_start ::
  "Env \<Rightarrow> AlarmNotification \<Rightarrow> nat \<Rightarrow> bool \<Rightarrow> World \<Rightarrow> (handler option, World) result"
where
  "ClearExpiredAlarms_start e m idx mLocked w =
     (case RICAlarmDefinitions w (nProblem m) of
        None \<Rightarrow> Ok None w
      | Some d \<Rightarrow>
          if TimeToLive d = 0 then Ok None w
          else case UnixNano e w of
            (now, w1) \<Rightarrow>
              if TimeToLive d <=s go_div (now - nTime m) 1000000000 then
                (case UnixNano e w1 of
                   (now', w2) \<Rightarrow>
                     let m' = set_nTime now' (set_nAction AlarmActionClear m) in
                     bindR (if mLocked then Ok () w2 else Lock w2) (\<lambda>_ w3.
                     bindR (ProcessClearAlarm e m' d idx w3) (\<lambda>h w4. Ok (Some h) w4)))
              else Ok None w1)"

definition ClearExpiredAlarms ::
  "Env \<Rightarrow> (World \<Rightarrow> World) \<Rightarrow> AlarmNotification \<Rightarrow> nat \<Rightarrow> bool \<Rightarrow> World \<Rightarrow> (bool, World) result"
where
  "ClearExpiredAlarms e others m idx mLocked w =
     bindR (ClearExpiredAlarms_start e m idx mLocked w) (\<lambda>ho w1.
       case ho of
         None \<Rightarrow> Ok False w1
       | Some h \<Rightarrow> bindR (run_on e others h w1) (\<lambda>_ w2. Ok True w2))"

text \<open>The loop of a tick over the remaining indices; \<open>k\<close> is the array of the snapshot.\<close>

fun ttl_loop ::
  "Env \<Rightarrow> (World \<Rightarrow> World) \<Rightarrow> nat \<Rightarrow> nat list \<Rightarrow> World \<Rightarrow> (unit, World) result"
where
  "ttl_loop e others k [] w = Ok () w"
| "ttl_loop e others k (idx # rest) w =
     bindR (ClearExpiredAlarms e others (array_of (activeAlarms w) k ! idx) idx True w)
       (\<lambda>cleared w1.
          if cleared then bindR (Lock w1) (\<lambda>_ w2. ttl_loop e others k rest w2)
          else ttl_loop e others k rest w1)"

definition StartTTLTimer_tick :: "Env \<Rightarrow> (World \<Rightarrow> World) \<Rightarrow> World \<Rightarrow> (unit, World) result" where
  "StartTTLTimer_tick e others w =
     bindR (Lock w) (\<lambda>_ w1.
     bindR (ttl_loop e others (array_id (activeAlarms w1)) [0..<slice_len (activeAlarms w1)] w1)
       (\<lambda>_ w2. Unlock w2))"

section \<open>One alarm\<close>

text \<open>Whether alarm \<open>m\<close> has outlived its definition at the \<open>n\<close>-th reading of the clock.\<close>

definition expired :: "Env \<Rightarrow> (go_int \<rightharpoonup> AlarmDefinition) \<Rightarrow> nat \<Rightarrow> AlarmNotification \<Rightarrow> bool" where
  "expired e defs n m \<longleftrightarrow>
     (case defs (nProblem m) of
        None \<Rightarrow> False
      | Some d \<Rightarrow> TimeToLive d \<noteq> 0 \<and>
                  TimeToLive d <=s go_div (time_now e n - nTime m) 1000000000)"

lemma not_expired:
  assumes "\<not> expired e (RICAlarmDefinitions w) (clk w) m"
  shows "\<exists>c\<ge>clk w. ClearExpiredAlarms e others m i b w = Ok False (w\<lparr>clk := c\<rparr>)"
proof (cases "RICAlarmDefinitions w (nProblem m)")
  case None
  then have "ClearExpiredAlarms e others m i b w = Ok False (w\<lparr>clk := clk w\<rparr>)"
    by (simp add: ClearExpiredAlarms_def ClearExpiredAlarms_start_def)
  then show ?thesis by blast
next
  case (Some d)
  let ?c = "if TimeToLive d = 0 then clk w else Suc (clk w)"
  have "ClearExpiredAlarms e others m i b w = Ok False (w\<lparr>clk := ?c\<rparr>)"
    using Some assms by (auto simp: ClearExpiredAlarms_def ClearExpiredAlarms_start_def expired_def UnixNano_def)
  moreover have "clk w \<le> ?c" by simp
  ultimately show ?thesis by blast
qed

definition expiry_message :: "Env \<Rightarrow> AlarmNotification \<Rightarrow> World \<Rightarrow> AlarmNotification" where
  "expiry_message e m w =
     set_nTime (time_now e (Suc (clk w))) (set_nAction AlarmActionClear m)"

lemma expired_clears:
  assumes "expired e (RICAlarmDefinitions w) (clk w) m"
    and "RICAlarmDefinitions w (nProblem m) = Some d" "ClearDelay d <=s 0"
  shows "ClearExpiredAlarms e others m i True w =
    bindR (ProcessClearAlarm_commit e (expiry_message e m w) i (w\<lparr>clk := clk w + 2\<rparr>))
      (\<lambda>_ w1. Ok True w1)"
proof -
  have "\<not> 0 <s ClearDelay d"
    using assms(3) by (simp add: word_sless_alt word_sle_eq)
  then show ?thesis
    using assms
    by (simp add: ClearExpiredAlarms_def ClearExpiredAlarms_start_def expired_def UnixNano_def ProcessClearAlarm_def
        run_on_def expiry_message_def bindR_assoc Let_def)
qed

text \<open>A clear that reaches no limit, down to the array.\<close>

lemma commit_quiet:
  assumes "mutex w" "RICAlarmDefinitions w (nProblem m) = Some d" "i < length (active w)"
    and "\<not> maxAlarmHistory w <=s of_nat (Suc (length (history w)))"
  shows "\<exists>r w'. ProcessClearAlarm_commit e m i w = Ok r w' \<and>
    activeAlarms w' = Slice (old (activeAlarms w)) (remove_nth i (active w))
      (last (active w) # spare (activeAlarms w)) \<and>
    history w' = history w @ [cleared m d i w] \<and>
    RICAlarmDefinitions w' = RICAlarmDefinitions w \<and>
    maxAlarmHistory w' = maxAlarmHistory w \<and> \<not> mutex w' \<and> clk w \<le> clk w'"
proof -
  let ?c = "cleared m d i w"
  let ?w1 = "append_history e ?c w"
  let ?w2 = "?w1\<lparr>activeAlarms := Slice (old (activeAlarms w)) (remove_nth i (active w))
    (last (active w) # spare (activeAlarms w))\<rparr>"
  let ?w3 = "(WriteAlarmInfoToPersistentVolume e (reset_threshold_flags (nProblem m) ?w2))\<lparr>mutex := False\<rparr>"
  have "\<not> history_limit_reached ?w2"
    using assms(4) by (simp add: history_limit_reached_def slice_len_def append_history_def)
  moreover have "UpdateAlarmFields (nId (active w ! i)) m w = Ok ?c w"
    using assms(2) by (simp add: UpdateAlarmFields_Ok cleared_def)
  moreover have "remove_active i ?w1 = Ok () ?w2"
    using assms(3) by (simp add: remove_active_in frame_simps)
  ultimately have run: "ProcessClearAlarm_commit e m i w =
      (if postClear ?w3 \<and> noma_enabled e then PostAlarm e (set_nSeverity SeverityCleared ?c) ?w3
       else Ok nil_reply ?w3)"
    using assms(1,3)
    by (simp add: ProcessClearAlarm_commit_def slice_get_def Unlock_def frame_simps)
  have "RICAlarmDefinitions (reset_threshold_flags (nProblem m) ?w2) = RICAlarmDefinitions w"
    "maxAlarmHistory (reset_threshold_flags (nProblem m) ?w2) = maxAlarmHistory w"
    "clk (reset_threshold_flags (nProblem m) ?w2) = clk w"
    by (simp_all add: frame_simps append_history_def)
  then show ?thesis
    unfolding run
    by (auto simp: PostAlarm_def Let_def frame_simps WriteAlarmInfoToPersistentVolume_def)
qed

section \<open>The loop\<close>

text \<open>
  A tick over alarms of which those with \<open>P\<close> have expired: a cleared entry is replaced in its
  place by the next one, which the loop therefore does not visit.
\<close>

fun sweep :: "('a \<Rightarrow> bool) \<Rightarrow> 'a list \<Rightarrow> 'a list" where
  "sweep P [] = []"
| "sweep P (x # xs) =
     (if P x then (case xs of [] \<Rightarrow> [] | y # ys \<Rightarrow> y # sweep P ys) else x # sweep P xs)"

fun swept :: "('a \<Rightarrow> bool) \<Rightarrow> 'a list \<Rightarrow> 'a list" where
  "swept P [] = []"
| "swept P (x # xs) =
     (if P x then x # (case xs of [] \<Rightarrow> [] | y # ys \<Rightarrow> swept P ys) else swept P xs)"

lemma sweep_none: "\<forall>x\<in>set xs. \<not> P x \<Longrightarrow> sweep P xs = xs \<and> swept P xs = []"
  by (induction xs) auto

lemma sweep_one:
  "i < length xs \<Longrightarrow> P (xs ! i) \<Longrightarrow> \<forall>j<length xs. j \<noteq> i \<longrightarrow> \<not> P (xs ! j) \<Longrightarrow>
   sweep P xs = remove_nth i xs \<and> swept P xs = [xs ! i]"
proof (induction xs arbitrary: i)
  case (Cons x xs)
  show ?case
  proof (cases i)
    case 0
    have "\<forall>y\<in>set xs. \<not> P y"
    proof
      fix y assume "y \<in> set xs"
      then obtain j where "j < length xs" "xs ! j = y" by (auto simp: in_set_conv_nth)
      then show "\<not> P y" using Cons.prems(3) 0 by (auto dest: spec [of _ "Suc j"])
    qed
    then show ?thesis
      using Cons.prems(2) 0 by (cases xs) (auto dest: sweep_none)
  next
    case (Suc j)
    have "\<not> P x"
      using Cons.prems(3) Suc by (auto dest: spec [of _ 0])
    moreover have "\<forall>l<length xs. l \<noteq> j \<longrightarrow> \<not> P (xs ! l)"
      using Cons.prems(3) Suc by (auto dest: spec [of _ "Suc l" for l])
    ultimately show ?thesis
      using Cons.IH [of j] Cons.prems(1,2) Suc by simp
  qed
qed simp

text \<open>What stays fixed over a tick: the definitions, the verdicts, the delays and the room.\<close>

definition tick_setting ::
  "Env \<Rightarrow> (go_int \<rightharpoonup> AlarmDefinition) \<Rightarrow> go_int \<Rightarrow> AlarmNotification set \<Rightarrow>
   (AlarmNotification \<Rightarrow> bool) \<Rightarrow> nat \<Rightarrow> nat \<Rightarrow> World \<Rightarrow> bool"
where
  "tick_setting e defs maxh M P c n w \<longleftrightarrow>
     RICAlarmDefinitions w = defs \<and> maxAlarmHistory w = maxh \<and> c \<le> clk w \<and> mutex w \<and>
     (\<forall>h\<le>length (history w) + n. \<not> maxh <=s of_nat h) \<and>
     (\<forall>t\<ge>c. \<forall>m\<in>M. expired e defs t m = P m) \<and>
     (\<forall>sp d. defs sp = Some d \<longrightarrow> ClearDelay d <=s 0)"

text \<open>The slice in mid-loop: \<open>pre\<close> visited, \<open>suf\<close> to come, \<open>r\<close> stale copies of the last.\<close>

definition mid_loop ::
  "nat \<Rightarrow> AlarmNotification \<Rightarrow> AlarmNotification list \<Rightarrow> AlarmNotification list \<Rightarrow> nat \<Rightarrow> World \<Rightarrow> bool"
where
  "mid_loop k xl pre suf r w \<longleftrightarrow>
     (suf \<noteq> [] \<longrightarrow> last suf = xl) \<and>
     (\<exists>os sp. length os = k \<and> activeAlarms w = Slice os (pre @ suf) (replicate r xl @ sp))"

lemma mid_loop_read:
  assumes "mid_loop k xl pre suf r w"
  shows "suf \<noteq> [] \<Longrightarrow> array_of (activeAlarms w) k ! length pre = hd suf"
    and "j < r \<Longrightarrow> array_of (activeAlarms w) k ! (length pre + length suf + j) = xl"
proof -
  obtain os sp where s: "length os = k" "activeAlarms w = Slice os (pre @ suf) (replicate r xl @ sp)"
    using assms by (auto simp: mid_loop_def)
  then have read: "array_of (activeAlarms w) k = pre @ suf @ replicate r xl @ sp"
    by (simp add: array_of_def backing_def)
  show "suf \<noteq> [] \<Longrightarrow> array_of (activeAlarms w) k ! length pre = hd suf"
    by (simp add: read nth_append hd_conv_nth)
  show "j < r \<Longrightarrow> array_of (activeAlarms w) k ! (length pre + length suf + j) = xl"
    by (simp add: read nth_append)
qed

lemma mid_loop_frame [simp]:
  "mid_loop k xl pre suf r (w\<lparr>clk := c\<rparr>) = mid_loop k xl pre suf r w"
  "mid_loop k xl pre suf r (w\<lparr>mutex := b\<rparr>) = mid_loop k xl pre suf r w"
  by (simp_all add: mid_loop_def)

lemma mid_loop_advance: "mid_loop k xl pre (x # suf) r w \<Longrightarrow> mid_loop k xl (pre @ [x]) suf r w"
  by (auto simp: mid_loop_def split: if_splits)

lemma mid_loop_active: "mid_loop k xl pre suf r w \<Longrightarrow> active w = pre @ suf"
  by (auto simp: mid_loop_def)

text \<open>An iteration on an alarm that has expired and is in the table clears it and locks again.\<close>

lemma loop_clears:
  assumes "tick_setting e defs maxh M P c (Suc n) w" "mid_loop k xl pre (x # suf) r w" "P x" "x \<in> M"
  shows "\<exists>w'. ttl_loop e others k (length pre # is) w = ttl_loop e others k is w' \<and>
    tick_setting e defs maxh M P c n w' \<and> mid_loop k xl pre suf (Suc r) w' \<and>
    (\<exists>h. history w' = history w @ [h] \<and> nAction h = AlarmActionClear \<and> nKey h = nKey x \<and>
         nId h = nId x)"
proof -
  let ?m = "expiry_message e x w" and ?w1 = "w\<lparr>clk := clk w + 2\<rparr>"
  have read: "array_of (activeAlarms w) k ! length pre = x"
    using mid_loop_read(1) [OF assms(2)] by simp
  have act: "active w = pre @ x # suf"
    using assms(2) by (rule mid_loop_active)
  have x: "expired e (RICAlarmDefinitions w) (clk w) x"
    using assms(1,3,4) by (simp add: tick_setting_def)
  then obtain d where d: "RICAlarmDefinitions w (nProblem x) = Some d"
    by (auto simp: expired_def split: option.splits)
  have "ClearDelay d <=s 0"
    using assms(1) d by (auto simp: tick_setting_def)
  note step = expired_clears [OF x d this, of others "length pre"]
  have "\<not> maxAlarmHistory ?w1 <=s of_nat (Suc (length (history ?w1)))"
    using assms(1) by (auto simp: tick_setting_def dest: spec [of _ "Suc (length (history w))"])
  then obtain q w2 where w2: "ProcessClearAlarm_commit e ?m (length pre) ?w1 = Ok q w2"
    "activeAlarms w2 = Slice (old (activeAlarms w)) (remove_nth (length pre) (active w))
      (last (active w) # spare (activeAlarms w))"
    "history w2 = history w @ [cleared ?m d (length pre) ?w1]"
    "RICAlarmDefinitions w2 = RICAlarmDefinitions w"
    "maxAlarmHistory w2 = maxAlarmHistory w" "\<not> mutex w2" "clk w + 2 \<le> clk w2"
    using commit_quiet [of ?w1 ?m d "length pre" e] assms(1) d act
    by (auto simp: tick_setting_def expiry_message_def)
  let ?w3 = "w2\<lparr>mutex := True\<rparr>"
  obtain os sp where os: "length os = k" "activeAlarms w = Slice os (pre @ x # suf) (replicate r xl @ sp)"
    using assms(2) by (auto simp: mid_loop_def)
  have "last (pre @ x # suf) = xl"
    using assms(2) by (simp add: mid_loop_def)
  moreover have "remove_nth (length pre) (pre @ x # suf) = pre @ suf"
    by (simp add: remove_nth_def)
  ultimately have "activeAlarms w2 = Slice os (pre @ suf) (replicate (Suc r) xl @ sp)"
    using w2(2) by (simp add: os(2))
  then have "mid_loop k xl pre suf (Suc r) ?w3"
    using assms(2) os(1) by (auto simp: mid_loop_def split: if_splits)
  moreover have "tick_setting e defs maxh M P c n ?w3"
    using assms(1) w2(3-5,7) by (auto simp: tick_setting_def)
  moreover have "ttl_loop e others k (length pre # is) w = ttl_loop e others k is ?w3"
    using w2(1,6) by (simp add: read step Lock_def)
  moreover have "nAction (cleared ?m d (length pre) ?w1) = AlarmActionClear"
    "nKey (cleared ?m d (length pre) ?w1) = nKey x" "nId (cleared ?m d (length pre) ?w1) = nId x"
    by (simp_all add: expiry_message_def act)
  ultimately show ?thesis using w2(3) by auto
qed

text \<open>An iteration on an alarm that has not expired, in the table or stale.\<close>

lemma loop_skips:
  assumes "tick_setting e defs maxh M P c n w"
    and "\<not> P (array_of (activeAlarms w) k ! idx)" "array_of (activeAlarms w) k ! idx \<in> M"
  shows "\<exists>t. ttl_loop e others k (idx # is) w = ttl_loop e others k is (w\<lparr>clk := t\<rparr>) \<and>
    tick_setting e defs maxh M P c n (w\<lparr>clk := t\<rparr>)"
proof -
  have "\<not> expired e (RICAlarmDefinitions w) (clk w) (array_of (activeAlarms w) k ! idx)"
    using assms by (simp add: tick_setting_def)
  from not_expired [OF this, of others idx True] obtain t where
    "t \<ge> clk w" "ClearExpiredAlarms e others (array_of (activeAlarms w) k ! idx) idx True w =
      Ok False (w\<lparr>clk := t\<rparr>)" by blast
  then show ?thesis
    using assms(1) by (auto simp: tick_setting_def)
qed

lemma tick_setting_mono: "tick_setting e defs maxh M P c n w \<Longrightarrow> m \<le> n \<Longrightarrow> tick_setting e defs maxh M P c m w"
  by (simp add: tick_setting_def)

text \<open>Past the table the loop reads stale copies of the last alarm.\<close>

lemma loop_stale_alive:
  assumes "tick_setting e defs maxh M P c n w" "mid_loop k xl pre [] r w" "\<not> P xl" "xl \<in> M"
    and "set is \<subseteq> {length pre..<length pre + r}"
  shows "\<exists>t. ttl_loop e others k is w = Ok () (w\<lparr>clk := t\<rparr>) \<and>
    tick_setting e defs maxh M P c n (w\<lparr>clk := t\<rparr>)"
  using assms(1,2,5)
proof (induction "is" arbitrary: w)
  case Nil
  show ?case by (rule exI [of _ "clk w"]) (use Nil(1) in simp)
next
  case (Cons i "is")
  then obtain j where "i = length pre + j" "j < r"
    by (metis add_diff_inverse_nat atLeastLessThan_iff list.set_intros(1) nat_add_left_cancel_less
        not_le subset_iff)
  then have "array_of (activeAlarms w) k ! i = xl"
    using mid_loop_read(2) [OF Cons.prems(2)] by simp
  with loop_skips [OF Cons.prems(1), of k i others "is"] assms(3,4) obtain t where
    t: "ttl_loop e others k (i # is) w = ttl_loop e others k is (w\<lparr>clk := t\<rparr>)"
    "tick_setting e defs maxh M P c n (w\<lparr>clk := t\<rparr>)" by auto
  from Cons.IH [OF t(2)] Cons.prems(2,3) t(1) show ?case by simp
qed

lemma loop_stale_expired:
  assumes "tick_setting e defs maxh M P c n w" "mid_loop k xl pre [] r w" "P xl" "xl \<in> M"
    and "j < r"
  shows "\<exists>w'. ttl_loop e others k ((length pre + j) # is) w = Panic IndexOutOfRange w'"
proof -
  have read: "array_of (activeAlarms w) k ! (length pre + j) = xl"
    using mid_loop_read(2) [OF assms(2,5)] by simp
  have x: "expired e (RICAlarmDefinitions w) (clk w) xl"
    using assms(1,3,4) by (simp add: tick_setting_def)
  then obtain d where d: "RICAlarmDefinitions w (nProblem xl) = Some d"
    by (auto simp: expired_def split: option.splits)
  have "ClearDelay d <=s 0"
    using assms(1) d by (auto simp: tick_setting_def)
  moreover have "slice_get (activeAlarms w) (length pre + j) = None"
    using mid_loop_active [OF assms(2)] by (simp add: slice_get_def)
  ultimately show ?thesis
    using expired_clears [OF x d, of others "length pre + j"]
    by (simp add: read ProcessClearAlarm_commit_def)
qed

definition clear_events :: "AlarmNotification list \<Rightarrow> AlarmNotification list \<Rightarrow> bool" where
  "clear_events xs hs \<longleftrightarrow>
     list_all2 (\<lambda>x h. nKey h = nKey x \<and> nId h = nId x \<and> nAction h = AlarmActionClear) xs hs"

lemma clear_events_Cons:
  "clear_events (x # xs) (h # hs) \<longleftrightarrow>
     nKey h = nKey x \<and> nId h = nId x \<and> nAction h = AlarmActionClear \<and> clear_events xs hs"
  by (simp add: clear_events_def)

text \<open>
  One alarm of the table, from its index to the next the loop reads: one that has not expired is
  passed over; one that has is cleared, and its successor, which moves down, is not looked at.
\<close>

lemma sweep_skips:
  assumes "tick_setting e defs maxh M P c (length (x # xs)) w" "mid_loop k xl pre (x # xs) r w"
    and "x \<in> M" "\<not> P x"
  obtains t where
    "ttl_loop e others k [length pre..<length pre + length (x # xs) + r] w =
     ttl_loop e others k [length (pre @ [x])..<length (pre @ [x]) + length xs + r] (w\<lparr>clk := t\<rparr>)"
    "tick_setting e defs maxh M P c (length xs) (w\<lparr>clk := t\<rparr>)"
    "mid_loop k xl (pre @ [x]) xs r (w\<lparr>clk := t\<rparr>)"
proof -
  let ?is = "[length (pre @ [x])..<length (pre @ [x]) + length xs + r]"
  have "[length pre..<length pre + length (x # xs) + r] =
      length pre # [Suc (length pre)..<length pre + length (x # xs) + r]"
    by (rule upt_conv_Cons) simp
  then have range: "[length pre..<length pre + length (x # xs) + r] = length pre # ?is" by simp
  have "array_of (activeAlarms w) k ! length pre = x"
    using mid_loop_read(1) [OF assms(2)] by simp
  with loop_skips [OF assms(1), of k "length pre" others ?is] assms(3,4) obtain t where
    "ttl_loop e others k (length pre # ?is) w = ttl_loop e others k ?is (w\<lparr>clk := t\<rparr>)"
    "tick_setting e defs maxh M P c (length (x # xs)) (w\<lparr>clk := t\<rparr>)" by auto
  moreover from this(2) have "tick_setting e defs maxh M P c (length xs) (w\<lparr>clk := t\<rparr>)"
    by (rule tick_setting_mono) simp
  moreover have "mid_loop k xl (pre @ [x]) xs r (w\<lparr>clk := t\<rparr>)"
    using assms(2) by (simp add: mid_loop_advance)
  ultimately show thesis using that by (simp only: range)
qed

lemma sweep_clears:
  assumes "tick_setting e defs maxh M P c (length (x # xs)) w" "mid_loop k xl pre (x # xs) r w"
    and "x \<in> M" "P x"
  obtains w' h where
    "ttl_loop e others k [length pre..<length pre + length (x # xs) + r] w =
     ttl_loop e others k [Suc (length pre)..<length pre + length (x # xs) + r] w'"
    "tick_setting e defs maxh M P c (length xs) w'" "mid_loop k xl pre xs (Suc r) w'"
    "history w' = history w @ [h]" "clear_events [x] [h]"
proof -
  let ?is = "[Suc (length pre)..<length pre + length (x # xs) + r]"
  have range: "[length pre..<length pre + length (x # xs) + r] = length pre # ?is"
    by (rule upt_conv_Cons) simp
  have now: "tick_setting e defs maxh M P c (Suc (length xs)) w" using assms(1) by simp
  from loop_clears [where P = P and M = M, OF now assms(2,4,3), of others ?is] that show thesis
    unfolding range by (auto simp: clear_events_def)
qed

lemma sweep_clears_Cons:
  assumes "tick_setting e defs maxh M P c (length (x # y # ys)) w" "mid_loop k xl pre (x # y # ys) r w"
    and "x \<in> M" "P x"
  obtains w' h where
    "ttl_loop e others k [length pre..<length pre + length (x # y # ys) + r] w =
     ttl_loop e others k [length (pre @ [y])..<length (pre @ [y]) + length ys + Suc r] w'"
    "tick_setting e defs maxh M P c (length ys) w'" "mid_loop k xl (pre @ [y]) ys (Suc r) w'"
    "history w' = history w @ [h]" "clear_events [x] [h]"
proof -
  obtain w' h where w': "ttl_loop e others k [length pre..<length pre + length (x # y # ys) + r] w =
      ttl_loop e others k [Suc (length pre)..<length pre + length (x # y # ys) + r] w'"
    "tick_setting e defs maxh M P c (length (y # ys)) w'" "mid_loop k xl pre (y # ys) (Suc r) w'"
    "history w' = history w @ [h]" "clear_events [x] [h]"
    using sweep_clears [OF assms] .
  have "tick_setting e defs maxh M P c (length ys) w'"
    using w'(2) by (rule tick_setting_mono) simp
  moreover have "[Suc (length pre)..<length pre + length (x # y # ys) + r] =
      [length (pre @ [y])..<length (pre @ [y]) + length ys + Suc r]" by simp
  ultimately show thesis
    using that w'(1,4,5) mid_loop_advance [OF w'(3)] by (simp only:)
qed

lemma loop_sweeps:
  assumes "tick_setting e defs maxh M P c (length suf) w" "mid_loop k xl pre suf r w"
    and "set suf \<subseteq> M" "xl \<in> M" "P xl \<longrightarrow> r = 0 \<and> (\<forall>x\<in>set (butlast suf). \<not> P x)"
  shows "\<exists>w' hs.
    ttl_loop e others k [length pre..<length pre + length suf + r] w = Ok () w' \<and>
    active w' = pre @ sweep P suf \<and> mutex w' \<and> history w' = history w @ hs \<and>
    clear_events (swept P suf) hs"
  using assms
proof (induction P suf arbitrary: pre r w rule: sweep.induct)
  case (1 P)
  obtain t where "ttl_loop e others k [length pre..<length pre + r] w = Ok () (w\<lparr>clk := t\<rparr>)"
    "tick_setting e defs maxh M P c (length []) (w\<lparr>clk := t\<rparr>)"
  proof (cases "P xl")
    case True
    then show thesis using 1 that [of "clk w"] by simp
  next
    case False
    from loop_stale_alive [OF 1(1,2) False 1(4), of "[length pre..<length pre + r]" others] that
    show thesis by auto
  qed
  then show ?case
    using mid_loop_active [OF 1(2)] by (auto simp: tick_setting_def clear_events_def)
next
  case (2 P x xs)
  have x: "x \<in> M" using 2(5) by simp
  consider (skip) "\<not> P x" | (final) "P x" "xs = []" | (more) y ys where "P x" "xs = y # ys"
    by (cases xs) auto
  then show ?case
  proof cases
    case skip
    obtain t where t: "ttl_loop e others k [length pre..<length pre + length (x # xs) + r] w =
        ttl_loop e others k [length (pre @ [x])..<length (pre @ [x]) + length xs + r] (w\<lparr>clk := t\<rparr>)"
      "tick_setting e defs maxh M P c (length xs) (w\<lparr>clk := t\<rparr>)"
      "mid_loop k xl (pre @ [x]) xs r (w\<lparr>clk := t\<rparr>)"
      using sweep_skips [OF 2(3,4) x skip] .
    have "P xl \<longrightarrow> r = 0 \<and> (\<forall>x\<in>set (butlast xs). \<not> P x)" using 2(7) by (cases xs) auto
    from 2(2) [OF skip t(2,3) _ 2(6) this] 2(5) skip show ?thesis by (simp only: t(1)) auto
  next
    case final
    obtain w1 h where w1: "ttl_loop e others k [length pre..<length pre + length (x # xs) + r] w =
        ttl_loop e others k [Suc (length pre)..<length pre + length (x # xs) + r] w1"
      "tick_setting e defs maxh M P c (length xs) w1" "mid_loop k xl pre xs (Suc r) w1"
      "history w1 = history w @ [h]" "clear_events [x] [h]"
      using sweep_clears [OF 2(3,4) x final(1)] .
    have "r = 0" using 2(4,7) final by (simp add: mid_loop_def)
    then show ?thesis
      using w1 final mid_loop_active [OF w1(3)] by (auto simp: tick_setting_def simp del: upt_Suc)
  next
    case more
    obtain w1 h where w1: "ttl_loop e others k [length pre..<length pre + length (x # y # ys) + r] w =
        ttl_loop e others k [length (pre @ [y])..<length (pre @ [y]) + length ys + Suc r] w1"
      "tick_setting e defs maxh M P c (length ys) w1" "mid_loop k xl (pre @ [y]) ys (Suc r) w1"
      "history w1 = history w @ [h]" "clear_events [x] [h]"
      using sweep_clears_Cons [OF 2(3,4) [unfolded more(2)] x more(1)] .
    have "\<not> P xl" using 2(7) more by auto
    with 2(1) [OF more w1(2,3) _ 2(6)] 2(5) more w1(4,5) show ?thesis
      unfolding more(2) w1(1) by (auto simp: clear_events_Cons clear_events_def)
  qed
qed

lemma loop_panics:
  assumes "tick_setting e defs maxh M P c (length suf) w" "mid_loop k xl pre suf r w"
    and "set suf \<subseteq> M" "xl \<in> M" "P xl" "r > 0 \<or> (\<exists>x\<in>set (butlast suf). P x)"
  shows "\<exists>w'. ttl_loop e others k [length pre..<length pre + length suf + r] w =
    Panic IndexOutOfRange w'"
  using assms
proof (induction P suf arbitrary: pre r w rule: sweep.induct)
  case (1 P)
  then have "[length pre..<length pre + length [] + r] = (length pre + 0) # [Suc (length pre)..<length pre + r]"
    by (simp add: upt_conv_Cons)
  with loop_stale_expired [OF 1(1,2,5,4), of 0] 1(6) show ?case by auto
next
  case (2 P x xs)
  have x: "x \<in> M" using 2(5) by simp
  consider (skip) "\<not> P x" | (final) "P x" "xs = []" | (more) y ys where "P x" "xs = y # ys"
    by (cases xs) auto
  then show ?case
  proof cases
    case skip
    obtain t where t: "ttl_loop e others k [length pre..<length pre + length (x # xs) + r] w =
        ttl_loop e others k [length (pre @ [x])..<length (pre @ [x]) + length xs + r] (w\<lparr>clk := t\<rparr>)"
      "tick_setting e defs maxh M P c (length xs) (w\<lparr>clk := t\<rparr>)"
      "mid_loop k xl (pre @ [x]) xs r (w\<lparr>clk := t\<rparr>)"
      using sweep_skips [OF 2(3,4) x skip] .
    have "r > 0 \<or> (\<exists>x\<in>set (butlast xs). P x)" using 2(8) skip by (cases xs) auto
    from 2(2) [OF skip t(2,3) _ 2(6,7) this] 2(5) show ?thesis unfolding t(1) by auto
  next
    case final
    obtain w1 h where w1: "ttl_loop e others k [length pre..<length pre + length (x # xs) + r] w =
        ttl_loop e others k [Suc (length pre)..<length pre + length (x # xs) + r] w1"
      "tick_setting e defs maxh M P c (length xs) w1" "mid_loop k xl pre xs (Suc r) w1"
      using sweep_clears [OF 2(3,4) x final(1)] by metis
    have "r > 0" using 2(8) final by simp
    then have "[Suc (length pre)..<length pre + length (x # xs) + r] =
        (length pre + 1) # [Suc (Suc (length pre))..<length pre + length (x # xs) + r]"
      using final by (simp add: upt_conv_Cons)
    with loop_stale_expired [OF w1(2,3) [unfolded final(2)] 2(7,6), of 1] \<open>r > 0\<close> show ?thesis
      unfolding w1(1) by simp
  next
    case more
    obtain w1 h where w1: "ttl_loop e others k [length pre..<length pre + length (x # y # ys) + r] w =
        ttl_loop e others k [length (pre @ [y])..<length (pre @ [y]) + length ys + Suc r] w1"
      "tick_setting e defs maxh M P c (length ys) w1" "mid_loop k xl (pre @ [y]) ys (Suc r) w1"
      using sweep_clears_Cons [OF 2(3,4) [unfolded more(2)] x more(1)] by metis
    from 2(1) [OF more w1(2,3) _ 2(6,7)] 2(5) more show ?thesis unfolding more(2) w1(1) by auto
  qed
qed

section \<open>A whole tick\<close>

text \<open>
  A tick during which the verdict on each active alarm does not change, no clear is delayed and
  the history has room for all of them.
\<close>

definition steady_tick :: "Env \<Rightarrow> (AlarmNotification \<Rightarrow> bool) \<Rightarrow> World \<Rightarrow> bool" where
  "steady_tick e P w \<longleftrightarrow>
     (\<forall>t\<ge>clk w. \<forall>m\<in>set (active w). expired e (RICAlarmDefinitions w) t m = P m) \<and>
     (\<forall>sp d. RICAlarmDefinitions w sp = Some d \<longrightarrow> ClearDelay d <=s 0) \<and>
     (\<forall>h\<le>length (history w) + length (active w). \<not> maxAlarmHistory w <=s of_nat h)"

lemma tick_start:
  assumes "\<not> mutex w" "steady_tick e P w" "active w \<noteq> []"
  defines "w1 \<equiv> w\<lparr>mutex := True\<rparr>" and "k \<equiv> array_id (activeAlarms w)"
  shows "tick_setting e (RICAlarmDefinitions w) (maxAlarmHistory w) (set (active w)) P (clk w)
      (length (active w)) w1"
    and "mid_loop k (last (active w)) [] (active w) 0 w1"
    and "StartTTLTimer_tick e others w =
      bindR (ttl_loop e others k [0..<length (active w)] w1) (\<lambda>_ w2. Unlock w2)"
proof -
  show "tick_setting e (RICAlarmDefinitions w) (maxAlarmHistory w) (set (active w)) P (clk w)
      (length (active w)) w1"
    using assms(2) by (simp add: w1_def tick_setting_def steady_tick_def)
  obtain os xs sp where s: "activeAlarms w = Slice os xs sp" by (cases "activeAlarms w")
  then show "mid_loop k (last (active w)) [] (active w) 0 w1"
    by (simp add: mid_loop_def k_def w1_def array_id_def)
  show "StartTTLTimer_tick e others w =
      bindR (ttl_loop e others k [0..<length (active w)] w1) (\<lambda>_ w2. Unlock w2)"
    using assms(1) by (simp add: StartTTLTimer_tick_def Lock_def k_def w1_def slice_len_def)
qed

section \<open>Sample ticks\<close>

text \<open>Ten seconds after the epoch, two alarms of time to live five: one raised at 0, one at \<open>t\<close>.\<close>

definition late_env :: Env where
  "late_env = sample_env\<lparr>time_now := (\<lambda>_. 10000000000)\<rparr>"

definition second_entry :: "go_int \<Rightarrow> AlarmNotification" where
  "second_entry t =
     (let n = sample_entry SeverityMajor in
      n\<lparr>notifMessage := (notifMessage n)\<lparr>AlarmTime := t,
          msgAlarm := (nAlarm n)\<lparr>IdentifyingInfo := ''eth1''\<rparr>\<rparr>\<rparr>)"

definition two_alarms :: "go_int \<Rightarrow> World" where
  "two_alarms t = (sample_world 0 0 5)
     \<lparr>activeAlarms := Slice [] [sample_entry SeverityMajor, second_entry t] []\<rparr>"

lemma two_alarms_simps [simp]:
  "\<not> mutex (two_alarms t)"
  "active (two_alarms t) = [sample_entry SeverityMajor, second_entry t]"
  "history (two_alarms t) = []"
  "RICAlarmDefinitions (two_alarms t) = RICAlarmDefinitions (sample_world 0 0 5)"
  "maxAlarmHistory (two_alarms t) = 20000"
  by (simp_all add: two_alarms_def)

lemma two_alarms_fields [simp]:
  "nProblem (second_entry t) = 72004" "nTime (second_entry t) = t"
  "nTime (sample_entry sev) = 0"
  by (simp_all add: second_entry_def sample_entry_def sample_message_def sample_alarm_def Let_def)

lemma two_alarms_verdict:
  "expired late_env (RICAlarmDefinitions (sample_world 0 0 5)) n m \<longleftrightarrow>
     nTime m = 0" if "m \<in> {sample_entry SeverityMajor, second_entry 0, second_entry 10000000000}"
  using that by (auto simp: expired_def late_env_def go_div_def word_sle_eq)

lemma two_alarms_steady:
  assumes "t = 0 \<or> t = 10000000000"
  shows "steady_tick late_env (\<lambda>m. nTime m = 0) (two_alarms t)"
proof -
  have "\<forall>sp d. RICAlarmDefinitions (sample_world 0 0 5) sp = Some d \<longrightarrow> ClearDelay d <=s 0"
    by (auto simp: sample_world_def split: if_splits)
  moreover have "\<forall>h\<le>Suc (Suc 0). \<not> (20000 :: go_int) <=s of_nat h"
    by (auto simp: le_Suc_eq word_sle_eq)
  ultimately show ?thesis
    using assms two_alarms_verdict by (auto simp: steady_tick_def)
qed

text \<open>C18: A tick of the time-to-live timer, unless the last active alarm and another one have both
  expired, clears expired alarms, each with its own id, but not one that directly follows an
  alarm it has just cleared, which moves into the place the loop has passed; the mutex is free
  afterwards.  In particular nothing happens if nothing has expired, and a single expired alarm
  is cleared wherever it stands.\<close>
theorem ttl_tick_clears:
  assumes "\<not> mutex w" "steady_tick e P w"
    and "active w \<noteq> [] \<Longrightarrow> P (last (active w)) \<Longrightarrow> \<forall>m\<in>set (butlast (active w)). \<not> P m"
  shows "\<exists>w' hs. StartTTLTimer_tick e others w = Ok () w' \<and> \<not> mutex w' \<and>
    active w' = sweep P (active w) \<and> history w' = history w @ hs \<and>
    clear_events (swept P (active w)) hs"
proof (cases "active w = []")
  case True
  then show ?thesis
    using assms(1)
    by (simp add: StartTTLTimer_tick_def Lock_def Unlock_def slice_len_def clear_events_def)
next
  case False
  note start = tick_start [OF assms(1,2) False]
  have "P (last (active w)) \<longrightarrow> (0 :: nat) = 0 \<and> (\<forall>m\<in>set (butlast (active w)). \<not> P m)"
    using assms(3) False by simp
  from loop_sweeps [OF start(1,2) subset_refl last_in_set [OF False] this, of others]
  obtain w2 hs where loop: "ttl_loop e others (array_id (activeAlarms w))
      [length ([] :: AlarmNotification list)..<length ([] :: AlarmNotification list) + length (active w) + 0]
      (w\<lparr>mutex := True\<rparr>) = Ok () w2"
    and w2: "active w2 = [] @ sweep P (active w)" "mutex w2"
      "history w2 = history (w\<lparr>mutex := True\<rparr>) @ hs" "clear_events (swept P (active w)) hs"
    by blast
  have "StartTTLTimer_tick e others w = Unlock w2"
    using loop by (simp add: start(3))
  then show ?thesis
    using w2 by (simp add: Unlock_def)
qed

theorem ttl_tick_clears_witness:
  "\<exists>w'. StartTTLTimer_tick late_env (\<lambda>w. w) (two_alarms 10000000000) = Ok () w' \<and>
    active w' = [second_entry 10000000000]"
  using ttl_tick_clears [of "two_alarms 10000000000" late_env "\<lambda>m. nTime m = 0" "\<lambda>w. w"]
    two_alarms_steady [of 10000000000]
  by auto

text \<open>C19: If the last active alarm and another one expire in the same tick, the timer goroutine
  panics with an index out of range: after a clear the loop, which ranges over the old length,
  reads the stale copy of the last alarm beyond the end of the table and clears it by its
  index.\<close>
theorem ttl_tick_two_expired_panics:
  assumes "\<not> mutex w" "steady_tick e P w" "active w \<noteq> []"
    and "P (last (active w))" "\<exists>m\<in>set (butlast (active w)). P m"
  shows "\<exists>w'. StartTTLTimer_tick e others w = Panic IndexOutOfRange w'"
proof -
  note start = tick_start [OF assms(1-3)]
  from loop_panics [OF start(1,2), of others] assms(3-5)
  obtain w' where "ttl_loop e others (array_id (activeAlarms w))
      [0..<length (active w)] (w\<lparr>mutex := True\<rparr>) = Panic IndexOutOfRange w'"
    by auto
  then have "StartTTLTimer_tick e others w = Panic IndexOutOfRange w'"
    by (simp only: start(3) bindR.simps)
  then show ?thesis by blast
qed

theorem ttl_tick_two_expired_panics_witness:
  "\<exists>w'. StartTTLTimer_tick late_env (\<lambda>w. w) (two_alarms 0) = Panic IndexOutOfRange w'"
  by (rule ttl_tick_two_expired_panics [where P = "\<lambda>m. nTime m = 0"])
    (simp_all add: two_alarms_steady)

text \<open>C20: An alarm is found expired exactly when its problem is defined with a non-zero time to live
  and the truncated seconds since its time stamp reach it; otherwise \<open>ClearExpiredAlarms\<close>
  touches nothing but the clock.\<close>
theorem ClearExpiredAlarms_verdict:
  assumes "\<not> mutex w" "thresholds_defined w" "idx < length (active w)" "nProblem (active w ! idx) = nProblem m"
    and "\<And>d. RICAlarmDefinitions w (nProblem m) = Some d \<Longrightarrow> ClearDelay d <=s 0"
  shows "\<exists>w'. ClearExpiredAlarms e others m idx False w =
      Ok (expired e (RICAlarmDefinitions w) (clk w) m) w' \<and>
    (if expired e (RICAlarmDefinitions w) (clk w) m
     then \<exists>T. active w' = remove_nth idx (active w) @ T \<and> \<not> mutex w'
     else \<exists>c. w' = w\<lparr>clk := c\<rparr>)"
proof (cases "expired e (RICAlarmDefinitions w) (clk w) m")
  case False
  then show ?thesis using not_expired [OF False, of others idx False] by auto
next
  case True
  then obtain d where d: "RICAlarmDefinitions w (nProblem m) = Some d"
    by (auto simp: expired_def split: option.splits)
  have delay: "\<not> 0 <s ClearDelay d"
    using assms(5) [OF d] by (simp add: word_sless_alt word_sle_eq)
  let ?w1 = "w\<lparr>clk := clk w + 2, mutex := True\<rparr>"
  let ?m = "expiry_message e m w"
  have "can_raise_threshold ALARM_HISTORY_EXCEED_MAX_THRESHOLD ?w1"
    using assms(2) by (simp add: thresholds_defined_def can_raise_threshold_def)
  then obtain r w' T where c: "ProcessClearAlarm_commit e ?m idx ?w1 = Ok r w'"
    "cleared_state e ?m d idx T ?w1 w'"
    using commit_result [of ?w1 ?m d idx e] d assms(3) by (auto simp: expiry_message_def)
  have "ClearExpiredAlarms e others m idx False w =
      bindR (ProcessClearAlarm_commit e ?m idx ?w1) (\<lambda>_ w1. Ok True w1)"
    using True d delay assms(1)
    by (simp add: ClearExpiredAlarms_def ClearExpiredAlarms_start_def expired_def UnixNano_def ProcessClearAlarm_def
        run_on_def expiry_message_def bindR_assoc Let_def Lock_def)
  then show ?thesis
    using True c by (auto simp: cleared_state_def)
qed

theorem ClearExpiredAlarms_verdict_witness:
  "\<exists>w'. ClearExpiredAlarms late_env (\<lambda>w. w) (sample_entry SeverityMajor) 0 False
      (sample_world_active 0 0 5) = Ok True w' \<and> \<not> mutex w'"
  using ClearExpiredAlarms_verdict [of "sample_world_active 0 0 5" 0 "sample_entry SeverityMajor"
      late_env "\<lambda>w. w"]
  by (auto simp: expired_def late_env_def go_div_def word_sle_eq)

end
