(* ===== verification/Manager_Concurrency.thy ===== *)
theory Manager_Concurrency
  imports Rest_Api Manager_Timers "HOL-Library.Multiset"
begin

text \<open>
  The manager as a concurrent system.  Its state is the shared \<open>World\<close> and the goroutines that
  are between two sections: asleep in a delay, about to publish, or in the loop of the
  time-to-live timer.  A step is one section of one goroutine, in any order, or one handler of
  the REST interface.  Sections that hold the mutex are atomic.  The end of a raise runs without
  it and is cut between its statements: the history, the file, the post.  Each of the three is
  one step; the last section of this theory says what that leaves out.  A panic ends the process,
  so it has no successor.
\<close>

datatype thread =
  T_raise AlarmNotification        \<comment> \<open>in the delay of \<open>ProcessRaiseAlarm\<close>\<close>
| T_publish AlarmNotification      \<comment> \<open>at the end of \<open>ProcessRaiseAlarm\<close>, history to come\<close>
| T_save AlarmNotification         \<comment> \<open>file to come\<close>
| T_post AlarmNotification         \<comment> \<open>post to come\<close>
| T_clear AlarmNotification        \<comment> \<open>in the delay of \<open>ProcessClearAlarm\<close>\<close>
| T_ttl handler nat "nat list"     \<comment> \<open>in the timer loop, array and remaining indices\<close>

fun threads_of :: "handler \<Rightarrow> thread multiset" where
  "threads_of (Return r) = {#}"
| "threads_of (SleepRaise n) = {#T_raise n#}"
| "threads_of (SleepClear n) = {#T_clear n#}"
| "threads_of (Publish n) = {#T_publish n#}"

text \<open>
  The loop of the time-to-live timer up to the next point at which the mutex is free: the start
  of a clear's delay, the end of a clear, or the end of the tick.
\<close>

fun ttl_run :: "Env \<Rightarrow> nat \<Rightarrow> nat list \<Rightarrow> World \<Rightarrow> ((handler \<times> nat list) option, World) result" where
  "ttl_run e k [] w = bindR (Unlock w) (\<lambda>_ w1. Ok None w1)"
| "ttl_run e k (idx # rest) w =
     bindR (ClearExpiredAlarms_start e (array_of (activeAlarms w) k ! idx) idx True w)
       (\<lambda>ho w1. case ho of None \<Rightarrow> ttl_run e k rest w1 | Some h \<Rightarrow> Ok (Some (h, rest)) w1)"

fun ttl_threads :: "nat \<Rightarrow> (handler \<times> nat list) option \<Rightarrow> thread multiset" where
  "ttl_threads k None = {#}"
| "ttl_threads k (Some (h, rest)) = {#T_ttl h k rest#}"

text \<open>The sections of a tick put together are the tick.\<close>

lemma ttl_run_loop:
  "bindR (ttl_loop e others k is w) (\<lambda>_. Unlock) =
   bindR (ttl_run e k is w) (\<lambda>x w1.
     case x of
       None \<Rightarrow> Ok () w1
     | Some (h, rest) \<Rightarrow>
         bindR (run_on e others h w1) (\<lambda>_ w2. bindR (Lock w2) (\<lambda>_ w3.
           bindR (ttl_loop e others k rest w3) (\<lambda>_. Unlock))))"
proof (induction "is" arbitrary: w)
  case Nil
  show ?case by (cases "Unlock w") auto
next
  case (Cons i "is")
  let ?m = "array_of (activeAlarms w) k ! i"
  show ?case
  proof (cases "ClearExpiredAlarms_start e ?m i True w")
    case (Ok ho w1)
    then show ?thesis
      using Cons by (cases ho) (simp_all add: ClearExpiredAlarms_def bindR_assoc)
  qed (simp add: ClearExpiredAlarms_def)
qed

text \<open>The end of a raise in its three statements.\<close>

definition publish_history ::
  "Env \<Rightarrow> AlarmNotification \<Rightarrow> World \<Rightarrow> (unit, World) result" where
  "publish_history e m w = UpdateAlarmHistoryList e (set_nRaiseDelay 0 m) w"

definition publish_post :: "Env \<Rightarrow> AlarmNotification \<Rightarrow> World \<Rightarrow> (reply, World) result" where
  "publish_post e m w =
     (let m1 = set_nRaiseDelay 0 m in
      if noma_enabled e then PostAlarm e m1 w
      else bindR (GenerateAlertLabels e (nId m1) (nAlarm m1) AlertStatusActive (nTime m1) w)
             (\<lambda>(amLabels, amAnnotations) w1. PostAlert e amLabels amAnnotations w1))"

lemma publish_statements:
  "ProcessRaiseAlarm_publish e m w =
     bindR (publish_history e m w) (\<lambda>_ w1. publish_post e m (WriteAlarmInfoToPersistentVolume e w1))"
  by (simp add: ProcessRaiseAlarm_publish_def publish_history_def publish_post_def Let_def)

inductive sys_step ::
  "Env \<Rightarrow> World \<times> thread multiset \<Rightarrow> World \<times> thread multiset \<Rightarrow> bool" for e where
  message: "ProcessAlarm e m w = Ok h w' \<Longrightarrow> sys_step e (w, ts) (w', threads_of h + ts)"
| raise_wake: "ProcessRaiseAlarm_wake n w = Ok still w' \<Longrightarrow>
    sys_step e (w, add_mset (T_raise n) ts) (w', if still then add_mset (T_publish n) ts else ts)"
| publish: "publish_history e n w = Ok u w' \<Longrightarrow>
    sys_step e (w, add_mset (T_publish n) ts) (w', add_mset (T_save n) ts)"
| save: "sys_step e (w, add_mset (T_save n) ts)
    (WriteAlarmInfoToPersistentVolume e w, add_mset (T_post n) ts)"
| post: "publish_post e n w = Ok r w' \<Longrightarrow> sys_step e (w, add_mset (T_post n) ts) (w', ts)"
| clear_wake: "ProcessClearAlarm_wake e m w = Ok r w' \<Longrightarrow>
    sys_step e (w, add_mset (T_clear m) ts) (w', ts)"
| ttl_begin: "Lock w = Ok () w1 \<Longrightarrow> k = array_id (activeAlarms w) \<Longrightarrow>
    ttl_run e k [0..<slice_len (activeAlarms w)] w1 = Ok x w' \<Longrightarrow>
    sys_step e (w, ts) (w', ttl_threads k x + ts)"
| ttl_wake: "ProcessClearAlarm_wake e m w = Ok r w' \<Longrightarrow>
    sys_step e (w, add_mset (T_ttl (SleepClear m) k rest) ts)
      (w', add_mset (T_ttl (Return r) k rest) ts)"
| ttl_resume: "Lock w = Ok () w1 \<Longrightarrow> ttl_run e k rest w1 = Ok x w' \<Longrightarrow>
    sys_step e (w, add_mset (T_ttl (Return r) k rest) ts) (w', ttl_threads k x + ts)"
| alert_tick: "StartAlertTimer_tick e w = Ok ms w' \<Longrightarrow> sys_step e (w, ts) (w', ts)"
| definitions_added: "SetAlarmDefinition rq w = Ok resp w' \<Longrightarrow> sys_step e (w, ts) (w', ts)"
| definition_deleted: "DeleteAlarmDefinition rq w = (resp, w') \<Longrightarrow> sys_step e (w, ts) (w', ts)"
| limits_set: "SetAlarmConfig rq w = Ok resp w' \<Longrightarrow> sys_step e (w, ts) (w', ts)"
| config_change: "sys_step e (w, ts) (ConfigChangeCB cfg w, ts)"
| clock: "sys_step e (w, ts) (w\<lparr>clk := Suc (clk w)\<rparr>, ts)"

inductive reachable ::
  "Env \<Rightarrow> World \<times> thread multiset \<Rightarrow> World \<times> thread multiset \<Rightarrow> bool" for e c where
  start: "reachable e c c"
| more: "reachable e c c1 \<Longrightarrow> sys_step e c1 c2 \<Longrightarrow> reachable e c c2"

section \<open>Sections that leave the tables alone\<close>

lemma raised_alerts_frame:
  "raised_alerts e payload w = Ok ms w' \<Longrightarrow>
   active w' = active w \<and> alarmHistory w' = alarmHistory w \<and> mutex w' = mutex w"
  by (induction e payload w arbitrary: ms rule: raised_alerts.induct)
    (auto simp: bindR_Ok_iff UnixNano_def Let_def split: if_splits)

lemma repost_alarms_frame:
  "repost_alarms e ns w = Ok u w' \<Longrightarrow>
   active w' = active w \<and> alarmHistory w' = alarmHistory w \<and> mutex w' = mutex w"
proof (induction ns arbitrary: w)
  case (Cons n ns)
  obtain w1 where "repost_alarms e ns w1 = Ok u w'"
    "active w1 = active w" "alarmHistory w1 = alarmHistory w" "mutex w1 = mutex w"
    using Cons.prems
    by (auto simp: bindR_Ok_iff GenerateAlertLabels_def PostAlert_def split: if_splits option.splits)
  then show ?case using Cons.IH by simp
qed simp

lemma ProcessAlerts_frame:
  "ProcessAlerts e w = Ok ms w' \<Longrightarrow>
   active w' = active w \<and> alarmHistory w' = alarmHistory w \<and> mutex w' = mutex w"
  by (auto simp: ProcessAlerts_def GetAlerts_simp bindR_Ok_iff dest!: raised_alerts_frame
      split: option.splits if_splits)

lemma StartAlertTimer_tick_frame:
  "StartAlertTimer_tick e w = Ok ms w' \<Longrightarrow>
   active w' = active w \<and> alarmHistory w' = alarmHistory w \<and> \<not> mutex w'"
  by (auto simp: StartAlertTimer_tick_def outcome_simps dest!: ProcessAlerts_frame repost_alarms_frame)

lemma add_definitions_frame:
  "add_definitions ds w = Ok u w' \<Longrightarrow>
   active w' = active w \<and> alarmHistory w' = alarmHistory w \<and> mutex w' = mutex w"
  by (induction ds w rule: add_definitions.induct) (auto split: option.splits)

lemma SetAlarmDefinition_frame:
  "SetAlarmDefinition r w = Ok resp w' \<Longrightarrow>
   active w' = active w \<and> alarmHistory w' = alarmHistory w \<and> mutex w' = mutex w"
  by (auto simp: SetAlarmDefinition_def bindR_Ok_iff dest!: add_definitions_frame
      split: body.splits prod.splits bool.splits)

lemma publish_post_frame:
  "publish_post e n w = Ok r w' \<Longrightarrow>
   active w' = active w \<and> alarmHistory w' = alarmHistory w \<and> mutex w' = mutex w"
  by (auto simp: publish_post_def Let_def outcome_simps PostAlarm_def GenerateAlertLabels_def
      PostAlert_def split: if_splits option.splits)

section \<open>The mutex between sections\<close>

lemma ttl_run_mutex: "mutex w \<Longrightarrow> leaves_mutex False (ttl_run e k is w)"
proof (induction "is" arbitrary: w)
  case Nil
  then show ?case by (simp add: Unlock_def)
next
  case (Cons i "is")
  let ?m = "array_of (activeAlarms w) k ! i"
  have clear: "leaves_mutex False (ProcessClearAlarm e m d j w1)" if "mutex w1" for m d j w1
    using that
    by (simp add: ProcessClearAlarm_def leaves_mutex_unlock leaves_mutex_bind [OF leaves_mutex_commit])
  have st: "case ClearExpiredAlarms_start e ?m i True w of
      Ok ho w1 \<Rightarrow> mutex w1 = (ho = None) | Panic f w1 \<Rightarrow> f \<noteq> LockHeld \<and> f \<noteq> UnlockOfUnlocked"
  proof (cases "RICAlarmDefinitions w (nProblem ?m)")
    case None
    then show ?thesis using Cons.prems by (simp add: ClearExpiredAlarms_start_def)
  next
    case (Some d)
    let ?r = "ProcessClearAlarm e (expiry_message e ?m w) d i (w\<lparr>clk := Suc (Suc (clk w))\<rparr>)"
    have "leaves_mutex False ?r" using Cons.prems by (simp add: clear)
    then show ?thesis
      using Some Cons.prems
      by (cases ?r) (simp_all add: ClearExpiredAlarms_start_def UnixNano_def Let_def expiry_message_def)
  qed
  then show ?case
    using Cons.IH by (cases "ClearExpiredAlarms_start e ?m i True w") (auto split: option.split)
qed

lemma sys_step_mutex:
  assumes "sys_step e (w, ts) (w', ts')" "\<not> mutex w"
  shows "\<not> mutex w'"
  using assms(1)
proof (cases rule: sys_step.cases)
  case (message m h)
  then show ?thesis using leaves_mutex_ProcessAlarm [OF assms(2), of e m] by simp
next
  case (raise_wake n b us)
  then show ?thesis using leaves_mutex_wake(1) [OF assms(2), of n] by simp
next
  case (publish n u us)
  then show ?thesis using assms(2) by (simp add: publish_history_def UpdateAlarmHistoryList_Ok frame_simps)
next
  case (save n us)
  then show ?thesis using assms(2) by (simp add: frame_simps)
next
  case (post n r)
  then show ?thesis using assms(2) publish_post_frame by blast
next
  case (clear_wake m r)
  then show ?thesis using leaves_mutex_wake(2) [OF assms(2), of e m] by simp
next
  case (ttl_begin w1 k x)
  then show ?thesis
    using ttl_run_mutex [of w1 e k "[0..<slice_len (activeAlarms w)]"] by (auto simp: Lock_Ok)
next
  case (ttl_wake m r k rest us)
  then show ?thesis using leaves_mutex_wake(2) [OF assms(2), of e m] by simp
next
  case (ttl_resume w1 k rest x r us)
  then show ?thesis using ttl_run_mutex [of w1 e k rest] by (auto simp: Lock_Ok)
next
  case (alert_tick ms)
  then show ?thesis using StartAlertTimer_tick_frame by blast
next
  case (definitions_added rq resp)
  then show ?thesis using SetAlarmDefinition_frame assms(2) by blast
next
  case (definition_deleted rq resp)
  then show ?thesis
    using assms(2) by (auto simp: DeleteAlarmDefinition_def split: option.splits prod.splits)
next
  case (limits_set rq resp)
  then show ?thesis
    using assms(2) by (auto simp: SetAlarmConfig_def split: body.splits prod.splits bool.splits)
next
  case config_change
  then show ?thesis using assms(2) by (simp add: ConfigChangeCB_def)
next
  case clock
  then show ?thesis using assms(2) by simp
qed

section \<open>Invariants of the system\<close>

text \<open>
  What a property of system states has to survive to be an invariant: one assumption per kind of
  section, stated on the tables alone.
\<close>

fun bystander :: "thread \<Rightarrow> bool" where
  "bystander (T_save n) = True"
| "bystander (T_post n) = True"
| "bystander (T_ttl h k is) = True"
| "bystander _ = False"

locale system_invariant =
  fixes I :: "World \<Rightarrow> thread multiset \<Rightarrow> bool"
  assumes message: "I w ts \<Longrightarrow> \<not> mutex w \<Longrightarrow> ProcessAlarm e m w = Ok h w' \<Longrightarrow> I w' (threads_of h + ts)"
    and raise_wake: "I w (add_mset (T_raise n) ts) \<Longrightarrow> \<not> mutex w \<Longrightarrow>
      ProcessRaiseAlarm_wake n w = Ok b w' \<Longrightarrow> I w' (if b then add_mset (T_publish n) ts else ts)"
    and publish: "I w (add_mset (T_publish n) ts) \<Longrightarrow> \<not> mutex w \<Longrightarrow>
      publish_history e n w = Ok u w' \<Longrightarrow> I w' ts"
    and commit: "I w ts \<Longrightarrow> \<not> mutex w \<Longrightarrow>
      ProcessClearAlarm_commit e m i (w\<lparr>mutex := True\<rparr>) = Ok r w' \<Longrightarrow> I w' ts"
    and aside: "I w (add_mset (T_clear m) ts) \<Longrightarrow> I w ts"
    and bystanders: "I w (ts' + ts) \<Longrightarrow> \<forall>t\<in>#ts' + us. bystander t \<Longrightarrow> I w (us + ts)"
    and other: "I w ts \<Longrightarrow> active w' = active w \<Longrightarrow> alarmHistory w' = alarmHistory w \<Longrightarrow> I w' ts"
begin

lemma clear_wake:
  assumes "I w ts" "\<not> mutex w" "ProcessClearAlarm_wake e m w = Ok r w'"
  shows "I w' ts"
proof (cases "IsMatchFound w (nAlarm m)")
  case None
  then show ?thesis
    using assms by (simp add: ProcessClearAlarm_wake_def Lock_def Unlock_def)
next
  case (Some i)
  then show ?thesis
    using assms commit by (auto simp: ProcessClearAlarm_wake_def Lock_def)
qed

text \<open>The timer loop, which starts with the mutex taken.\<close>

lemma ttl_run:
  assumes "I w ts" "ttl_run e k is (w\<lparr>mutex := True\<rparr>) = Ok x w'"
  shows "I w' ts"
  using assms
proof (induction "is" arbitrary: w)
  case Nil
  then show ?case by (auto simp: Unlock_def intro: other)
next
  case (Cons i "is")
  let ?w = "w\<lparr>mutex := True\<rparr>"
  let ?m = "array_of (activeAlarms w) k ! i"
  obtain ho w1 where st: "ClearExpiredAlarms_start e ?m i True ?w = Ok ho w1"
    using Cons.prems(2) by (auto simp: bindR_Ok_iff)
  show ?case
  proof (cases ho)
    case None
    then have "\<exists>c. w1 = w\<lparr>mutex := True, clk := c\<rparr>"
      using st by (auto simp: ClearExpiredAlarms_start_def UnixNano_def bindR_Ok_iff Let_def
          split: option.splits if_splits prod.splits intro: exI [of _ "clk w"])
    then obtain c where "w1 = w\<lparr>mutex := True, clk := c\<rparr>" by blast
    then have "w1 = (w\<lparr>clk := c\<rparr>)\<lparr>mutex := True\<rparr>" by simp
    then show ?thesis
      using Cons.IH [of "w\<lparr>clk := c\<rparr>"] other [OF Cons.prems(1), of "w\<lparr>clk := c\<rparr>"] Cons.prems(2) st None
      by simp
  next
    case (Some h)
    then obtain d where run: "ProcessClearAlarm e (expiry_message e ?m ?w) d i
        (w\<lparr>mutex := True, clk := clk w + 2\<rparr>) = Ok h w1"
      using st by (auto simp: ClearExpiredAlarms_start_def UnixNano_def bindR_Ok_iff Let_def
          expiry_message_def split: option.splits if_splits)
    have same: "w\<lparr>mutex := True, clk := clk w + 2\<rparr> =
        (w\<lparr>clk := clk w + 2, mutex := False\<rparr>)\<lparr>mutex := True\<rparr>" by simp
    have "I (w\<lparr>clk := clk w + 2, mutex := False\<rparr>) ts"
      using Cons.prems(1) by (rule other) simp_all
    then have "I w1 ts"
      using run [unfolded same] commit [of "w\<lparr>clk := clk w + 2, mutex := False\<rparr>" ts e]
      by (auto simp: ProcessClearAlarm_def bindR_Ok_iff Unlock_def split: if_splits)
    then show ?thesis using Cons.prems(2) st Some by simp
  qed
qed

lemma timer_threads:
  "I w ts \<Longrightarrow> I w (ttl_threads k x + ts)"
  "I w ts \<Longrightarrow> I w (add_mset (T_ttl h k is) ts)"
  "I w (add_mset (T_ttl h k is) ts) \<Longrightarrow> I w ts"
  using bystanders [of w "{#}" ts "ttl_threads k x"] bystanders [of w "{#}" ts "{#T_ttl h k is#}"]
    bystanders [of w "{#T_ttl h k is#}" ts "{#}"]
  by (cases x; auto)+

lemma publish_threads:
  "I w ts \<Longrightarrow> I w (add_mset (T_save n) ts)"
  "I w (add_mset (T_save n) ts) \<Longrightarrow> I w (add_mset (T_post n) ts)"
  "I w (add_mset (T_post n) ts) \<Longrightarrow> I w ts"
  using bystanders [of w "{#}" ts "{#T_save n#}"] bystanders [of w "{#T_save n#}" ts "{#T_post n#}"]
    bystanders [of w "{#T_post n#}" ts "{#}"]
  by auto

lemma preserved:
  assumes "sys_step e (w, ts) (w', ts')" "I w ts" "\<not> mutex w"
  shows "I w' ts'"
  using assms(1)
proof (cases rule: sys_step.cases)
  case message
  then show ?thesis using system_invariant.message [OF system_invariant_axioms] assms by blast
next
  case raise_wake
  then show ?thesis using system_invariant.raise_wake [OF system_invariant_axioms] assms by blast
next
  case publish
  then show ?thesis
    using system_invariant.publish [OF system_invariant_axioms] publish_threads(1) assms by blast
next
  case (save n us)
  have "I w' (add_mset (T_save n) us)"
    using assms(2) save by (auto intro: other simp: frame_simps)
  then show ?thesis using save publish_threads(2) by blast
next
  case (post n r)
  have "I w ts'" using assms(2) post(1) publish_threads(3) by blast
  then show ?thesis using other publish_post_frame [OF post(2)] by blast
next
  case clear_wake
  then show ?thesis
    using assms aside system_invariant.clear_wake [OF system_invariant_axioms] by blast
next
  case ttl_begin
  then have "I w' ts"
    using assms ttl_run by (auto simp: Lock_Ok)
  then show ?thesis using ttl_begin timer_threads(1) by blast
next
  case ttl_wake
  then show ?thesis
    using assms timer_threads(2,3) system_invariant.clear_wake [OF system_invariant_axioms] by blast
next
  case (ttl_resume w1 k rest x r us)
  then have "I w us" using assms(2) timer_threads(3) by blast
  then have "I w' us"
    using ttl_resume ttl_run by (auto simp: Lock_Ok)
  then show ?thesis using ttl_resume timer_threads(1) by blast
next
  case (alert_tick ms)
  have "active w' = active w \<and> alarmHistory w' = alarmHistory w"
    using StartAlertTimer_tick_frame [OF alert_tick(2)] by simp
  then show ?thesis using other assms(2) alert_tick(1) by auto
next
  case (definitions_added rq resp)
  have "active w' = active w \<and> alarmHistory w' = alarmHistory w"
    using SetAlarmDefinition_frame [OF definitions_added(2)] by simp
  then show ?thesis using other assms(2) definitions_added(1) by auto
next
  case (definition_deleted rq resp)
  then have "active w' = active w \<and> alarmHistory w' = alarmHistory w"
    by (auto simp: DeleteAlarmDefinition_def split: option.splits prod.splits)
  then show ?thesis using other assms(2) definition_deleted(1) by auto
next
  case (limits_set rq resp)
  then have "active w' = active w \<and> alarmHistory w' = alarmHistory w"
    by (auto simp: SetAlarmConfig_def split: body.splits prod.splits bool.splits)
  then show ?thesis using other assms(2) limits_set(1) by auto
next
  case config_change
  then show ?thesis using other assms(2) by (auto simp: ConfigChangeCB_def)
next
  case clock
  then show ?thesis using other assms(2) by auto
qed

lemma reachable_invariant:
  assumes "reachable e (w, ts) (w', ts')" "I w ts" "\<not> mutex w"
  shows "I w' ts' \<and> \<not> mutex w'"
  using assms(1)
proof (induction "(w', ts')" arbitrary: w' ts' rule: reachable.induct)
  case start
  then show ?case using assms(2,3) by simp
next
  case (more c)
  obtain v us where c: "c = (v, us)" by (cases c) auto
  then show ?case using more preserved sys_step_mutex by blast
qed

end

section \<open>What each section does to the tables\<close>

lemma ProcessAlarm_outcome:
  assumes "ProcessAlarm e m w = Ok h w'" "\<not> mutex w"
  obtains (same) "w' = w" "threads_of h = {#} \<or> threads_of h = {#T_clear m#}"
  | (raised) d where "RICAlarmDefinitions w (nProblem m) = Some d" "raise_due m w"
      "w' = entered e (stored m d (uniqueAlarmId w + 1)) (without_match m w)"
      "h = (if 0 <s RaiseDelay d then SleepRaise (stored m d (uniqueAlarmId w + 1))
            else Publish (stored m d (uniqueAlarmId w + 1)))"
  | (committed) i r where "h = Return r"
      "ProcessClearAlarm_commit e m i (w\<lparr>mutex := True\<rparr>) = Ok r w'"
proof (cases "ineffective m w")
  case True
  then have "h = Return nil_reply" "w' = w"
    using assms by (simp_all add: ineffective_first)
  then show ?thesis using same by simp
next
  case False
  then obtain d where d: "RICAlarmDefinitions w (nProblem m) = Some d"
    by (auto simp: ineffective_def)
  show ?thesis
  proof (cases "nAction m = AlarmActionRaise")
    case True
    with False raise_due_or_ineffective have due: "raise_due m w" by blast
    let ?w0 = "(without_match m w)\<lparr>mutex := True\<rparr>"
    have "ProcessRaiseAlarm e m d ?w0 = Ok h w'"
      using assms(1) raise_first [OF assms(2) d due] by simp
    then have "h = (if 0 <s RaiseDelay d then SleepRaise (stored m d (uniqueAlarmId w + 1))
            else Publish (stored m d (uniqueAlarmId w + 1)))"
      "w' = entered e (stored m d (uniqueAlarmId w + 1)) ?w0"
      using d by (simp_all add: ProcessRaiseAlarm_Ok Let_def entered_def)
    then show ?thesis using raised [OF d due] by simp
  next
    case raise: False
    with False obtain i where i: "nAction m = AlarmActionClear" "IsMatchFound w (nAlarm m) = Some i"
      by (auto simp: ineffective_def)
    then have "ProcessClearAlarm e m d i (w\<lparr>mutex := True\<rparr>) = Ok h w'"
      using assms clear_first [OF assms(2) d] by simp
    then show ?thesis
      using assms(2) same committed
      by (auto simp: ProcessClearAlarm_def bindR_Ok_iff Unlock_def split: if_splits)
  qed
qed

lemma publish_tables:
  assumes "publish_history e n w = Ok u w'"
  shows "active w' = active w @ history_thresholds e w"
    and "history w' = history w @ history_thresholds e w @ [set_nRaiseDelay 0 n]"
  using assms by (auto simp: publish_history_def UpdateAlarmHistoryList_Ok frame_simps)

lemma wake_tables:
  assumes "ProcessRaiseAlarm_wake n w = Ok b w'" "\<not> mutex w"
  shows "alarmHistory w' = alarmHistory w"
    and "case IsMatchFound w (nAlarm n) of
        None \<Rightarrow> \<not> b \<and> active w' = active w
      | Some i \<Rightarrow> b \<and> active w' = (active w)[i := set_nRaiseDelay 0 (active w ! i)]"
proof -
  have "alarmHistory w' = alarmHistory w \<and>
    (case IsMatchFound w (nAlarm n) of
        None \<Rightarrow> \<not> b \<and> active w' = active w
      | Some i \<Rightarrow> b \<and> active w' = (active w)[i := set_nRaiseDelay 0 (active w ! i)])"
  proof (cases "IsMatchFound w (nAlarm n)")
    case None
    then show ?thesis using assms(1) wake_lost [OF assms(2) None] by auto
  next
    case (Some i)
    then show ?thesis using assms(1) wake_found [OF assms(2) Some] by auto
  qed
  then show "alarmHistory w' = alarmHistory w"
    "case IsMatchFound w (nAlarm n) of
        None \<Rightarrow> \<not> b \<and> active w' = active w
      | Some i \<Rightarrow> b \<and> active w' = (active w)[i := set_nRaiseDelay 0 (active w ! i)]"
    by blast+
qed

lemma ordinary_thresholds [simp]:
  "filter ordinary (active_thresholds e w) = []"
  "filter ordinary (history_thresholds e w) = []"
  by (rule no_ordinary_thresholds [where c = "active_limit_reached w"], simp add: thresholds_problems)
    (rule no_ordinary_thresholds [where c = "history_limit_reached w"], simp add: thresholds_problems)

lemma commit_tables:
  assumes "ProcessClearAlarm_commit e m i (w\<lparr>mutex := True\<rparr>) = Ok r w'"
  shows "\<exists>T h. active w' = remove_nth i (active w) @ T \<and> filter ordinary T = [] \<and>
    history w' = history w @ h # T"
proof -
  obtain d T where "cleared_state e m d i T (w\<lparr>mutex := True\<rparr>) w'"
    using commit_Ok [OF assms] by auto
  then show ?thesis
    using no_ordinary_thresholds [of T] by (auto simp: cleared_state_def)
qed

section \<open>The invariants\<close>

interpretation past: system_invariant "\<lambda>w ts. prefix h0 (history w)" for h0
proof
  fix w ts e m h w'
  assume "prefix h0 (history w)" "ProcessAlarm e m w = Ok h w'"
  then show "prefix h0 (history w')"
    using history_relation.R_ProcessAlarm [of w e m] by (auto simp: history_grows_def)
qed (auto simp: wake_tables(1) publish_tables(2) dest: commit_tables)

text \<open>Ordinary identities are distinct, and every pending one has a goroutine to reveal it.\<close>

definition pending :: "AlarmNotification \<Rightarrow> bool" where
  "pending n \<longleftrightarrow> ordinary n \<and> 0 <s nRaiseDelay n"

definition sound :: "World \<Rightarrow> thread multiset \<Rightarrow> bool" where
  "sound w ts \<longleftrightarrow> tidy w \<and>
     (\<forall>n\<in>set (active w). pending n \<longrightarrow> (\<exists>s. T_raise s \<in># ts \<and> nKey s = nKey n))"

lemma sound_less:
  assumes "sound w ts" "tidy w'" "\<And>n. n \<in> set (active w') \<Longrightarrow> pending n \<Longrightarrow> n \<in> set (active w)"
    and "\<And>s. T_raise s \<in># ts \<Longrightarrow> T_raise s \<in># ts'"
  shows "sound w' ts'"
  using assms unfolding sound_def by blast

lemma not_pending: "filter ordinary T = [] \<Longrightarrow> n \<in> set T \<Longrightarrow> \<not> pending n"
  by (auto simp: pending_def filter_empty_conv)

lemma tidy_messages:
  "map notifMessage (active w') = map notifMessage (active w) \<Longrightarrow> tidy w' = tidy w"
proof -
  have "map nKey (filter ordinary xs) = map (alarm_key \<circ> msgAlarm)
      (filter (\<lambda>m. SpecificProblem (msgAlarm m) \<noteq> ACTIVE_ALARM_EXCEED_MAX_THRESHOLD \<and>
        SpecificProblem (msgAlarm m) \<noteq> ALARM_HISTORY_EXCEED_MAX_THRESHOLD) (map notifMessage xs))" for xs
    by (induction xs) (auto simp: ordinary_def)
  then show "map notifMessage (active w') = map notifMessage (active w) \<Longrightarrow> tidy w' = tidy w"
    by (simp add: tidy_def)
qed

lemma without_match_tables:
  assumes "tidy w"
  shows "distinct (map nKey (filter ordinary (active (without_match m w))))"
    and "ordinary m \<Longrightarrow> nKey m \<notin> nKey ` set (active (without_match m w))"
    and "set (active (without_match m w)) \<subseteq> set (active w)"
  using assms delete_match [of w m] table_miss [of w m]
  by (auto simp: without_match_def tidy_def split: option.split dest: subsetD [OF set_remove_nth])

lemma sound_message:
  assumes "sound w ts" "\<not> mutex w" "ProcessAlarm e m w = Ok h w'"
  shows "sound w' (threads_of h + ts)"
  using assms(3,2)
proof (cases rule: ProcessAlarm_outcome)
  case same
  then show ?thesis using assms(1) by (auto simp: sound_def)
next
  case (raised d)
  let ?n = "stored m d (uniqueAlarmId w + 1)"
  let ?base = "active (without_match m w)"
  let ?T = "thresholds_on_entry e (without_match m w)"
  have act: "active w' = ?base @ ?T @ [?n] @ []"
    using raised(3) by (simp add: frame_simps)
  have tidy: "tidy w" using assms(1) by (simp add: sound_def)
  have "distinct (map nKey (filter ordinary (?base @ ?T @ [?n] @ [])))"
    by (rule table_add(2)) (use without_match_tables [OF tidy, of m] in auto)
  then have "tidy w'" by (simp only: tidy_def act)
  moreover have "\<exists>s. T_raise s \<in># threads_of h + ts \<and> nKey s = nKey n"
    if n: "n \<in> set (active w')" "pending n" for n
  proof (cases "n \<in> set ?base")
    case True
    then have "n \<in> set (active w)" using without_match_tables(3) [OF tidy] by blast
    then show ?thesis using assms(1) n(2) by (auto simp: sound_def)
  next
    case False
    then have "n = ?n"
      using n not_pending [of ?T n] by (auto simp: act)
    then show ?thesis using raised(4) n(2) by (auto simp: pending_def)
  qed
  ultimately show ?thesis by (simp add: sound_def)
next
  case (committed i r)
  obtain T where act: "active w' = remove_nth i (active w) @ T" "filter ordinary T = []"
    using commit_tables [OF committed(2)] by blast
  have "tidy w'"
    using assms(1) act by (simp add: sound_def tidy_def distinct_filter_remove_nth)
  with assms(1) show ?thesis
    by (rule sound_less) (use act not_pending set_remove_nth in \<open>fastforce+\<close>)
qed

lemma sound_wake:
  assumes "sound w (add_mset (T_raise n) ts)" "\<not> mutex w" "ProcessRaiseAlarm_wake n w = Ok b w'"
  shows "sound w' (if b then add_mset (T_publish n) ts else ts)"
proof (cases "IsMatchFound w (nAlarm n)")
  case None
  then have w': "active w' = active w" "\<not> b" using wake_tables(2) [OF assms(3,2)] by simp_all
  have "nKey n \<notin> nKey ` set (active w)" using None by (rule table_miss(2))
  then show ?thesis
    using assms(1) w' by (fastforce simp: sound_def tidy_def)
next
  case (Some i)
  let ?x = "set_nRaiseDelay 0 (active w ! i)"
  have w': "active w' = (active w)[i := ?x]" "b"
    using wake_tables(2) [OF assms(3,2)] Some by simp_all
  have i: "i < length (active w)" "nKey (active w ! i) = nKey n"
    using Some by (simp_all add: IsMatchFound_bound match_key)
  have tidy: "tidy w" using assms(1) by (simp add: sound_def)
  have "map notifMessage (active w') = map notifMessage (active w)"
    using i(1) by (simp add: w'(1) map_update list_update_same_conv)
  then have "tidy w'" using tidy tidy_messages by blast
  moreover have "\<exists>s. T_raise s \<in># add_mset (T_publish n) ts \<and> nKey s = nKey y"
    if y: "y \<in> set (active w')" "pending y" for y
  proof -
    obtain j where j: "j < length (active w')" "active w' ! j = y"
      using y(1) by (auto simp: in_set_conv_nth)
    have "j \<noteq> i" using j y(2) i(1) by (auto simp: w'(1) pending_def)
    then have yj: "active w ! j = y" "j < length (active w)" using j by (simp_all add: w'(1))
    then obtain s where s: "T_raise s \<in># add_mset (T_raise n) ts" "nKey s = nKey y"
      using assms(1) y(2) by (auto simp: sound_def dest: nth_mem)
    have "nKey n \<noteq> nKey y"
    proof
      assume "nKey n = nKey y"
      then have "ordinary (active w ! i)" "ordinary (active w ! j)" "nKey (active w ! i) = nKey (active w ! j)"
        using y(2) yj i(2) ordinary_key [of "active w ! i" y] by (auto simp: pending_def)
      then have "i = j"
        using distinct_filter_nth [of nKey ordinary "active w" i j] tidy i(1) yj(2)
        by (simp add: tidy_def)
      then show False using \<open>j \<noteq> i\<close> by simp
    qed
    then show ?thesis using s by auto
  qed
  ultimately show ?thesis using w'(2) by (simp add: sound_def)
qed

lemma sound_publish:
  assumes "sound w (add_mset (T_publish n) ts)" "publish_history e n w = Ok u w'"
  shows "sound w' ts"
proof (rule sound_less [OF assms(1)])
  note act = publish_tables(1) [OF assms(2)]
  show "tidy w'" using assms(1) by (simp add: sound_def tidy_def act)
  show "y \<in> set (active w)" if "y \<in> set (active w')" "pending y" for y
    using that not_pending [of "history_thresholds e w" y] by (auto simp: act)
qed simp

lemma sound_commit:
  assumes "sound w ts" "ProcessClearAlarm_commit e m i (w\<lparr>mutex := True\<rparr>) = Ok r w'"
  shows "sound w' ts"
proof (rule sound_less [OF assms(1)])
  obtain T where act: "active w' = remove_nth i (active w) @ T" "filter ordinary T = []"
    using commit_tables [OF assms(2)] by blast
  show "tidy w'"
    using assms(1) act by (simp add: sound_def tidy_def distinct_filter_remove_nth)
  show "y \<in> set (active w)" if "y \<in> set (active w')" "pending y" for y
    using that not_pending [OF act(2)] set_remove_nth [of i "active w"] by (auto simp: act(1))
qed simp

interpretation soundness: system_invariant sound
proof
  show "sound w (us + ts)"
    if "sound w (ts' + ts)" "\<forall>t\<in>#ts' + us. bystander t" for w ts' ts us
  proof (rule sound_less [OF that(1)])
    show "tidy w" using that(1) by (simp add: sound_def)
    show "T_raise s \<in># us + ts" if "T_raise s \<in># ts' + ts" for s
      using that \<open>\<forall>t\<in>#ts' + us. bystander t\<close> by (auto dest: bspec [of _ _ "T_raise s"])
  qed simp
  show "sound w ts" if "sound w (add_mset (T_clear m) ts)" for w m ts
    using that by (fastforce simp: sound_def)
  show "sound w' ts" if "sound w ts" "active w' = active w" for w w' ts
    using that by (simp add: sound_def tidy_def)
  show "sound w' (if b then add_mset (T_publish n) ts else ts)"
    if "sound w (add_mset (T_raise n) ts)" "\<not> mutex w" "ProcessRaiseAlarm_wake n w = Ok b w'"
    for w n ts b w'
    using that by (rule sound_wake)
qed (auto intro: sound_message sound_publish sound_commit)

section \<open>Theorems about all interleavings\<close>




section \<open>What the statements of the unlocked end leave out\<close>

text \<open>
  A step is a whole statement.  The statement that appends to the history loads the slice header,
  builds the longer slice and stores its header, without the mutex, so another goroutine may run
  between load and store.  If that is a clear, its entry in the history is lost although the alarm
  is cleared: \<open>w\<close> is the state at the load, \<open>w'\<close> the state after the clear.
\<close>

lemma unlocked_append_loses_clear:
  assumes "ProcessClearAlarm_commit e m i (w\<lparr>mutex := True\<rparr>) = Ok r w'"
  shows "\<exists>h T. history w' = history w @ h # T \<and>
    history (w'\<lparr>alarmHistory := append_alarm e (alarmHistory w) n\<rparr>) = history w @ [n] \<and>
    active (w'\<lparr>alarmHistory := append_alarm e (alarmHistory w) n\<rparr>) = active w'"
  using commit_tables [OF assms] by auto

section \<open>A sample run\<close>

text \<open>A raise with a delay of five seconds has arrived.\<close>

definition sample_pending :: AlarmNotification where
  "sample_pending =
     stored (sample_message 72004 SeverityMajor AlarmActionRaise) (sample_definition 72004 5 0 0)
       (uniqueAlarmId (sample_world 5 0 0) + 1)"

definition sample_after :: World where
  "sample_after = entered sample_env sample_pending
     (without_match (sample_message 72004 SeverityMajor AlarmActionRaise) (sample_world 5 0 0))"

lemma sample_run:
  "reachable sample_env (sample_world 5 0 0, {#}) (sample_after, {#T_raise sample_pending#})"
proof -
  have "ProcessAlarm sample_env (sample_message 72004 SeverityMajor AlarmActionRaise) (sample_world 5 0 0)
      = Ok (SleepRaise sample_pending) sample_after"
    using raise_enters [of "sample_world 5 0 0" "sample_message 72004 SeverityMajor AlarmActionRaise"
        "sample_definition 72004 5 0 0" sample_env]
    by (simp add: raise_due_def Let_def sample_pending_def sample_after_def)
  from sys_step.message [OF this, of "{#}"] show ?thesis
    by (auto intro: reachable.intros)
qed




end
