(* ===== verification/Polling.thy ===== *)
theory Polling
  imports Main
begin

text \<open>
  Loops that ask the outside world again and again until it gives an answer: round \<open>k\<close> ends the
  loop with \<open>stop k\<close> unless that is \<open>None\<close>.  Such a loop may never return, so it is a partial
  function; it returns exactly when some round ends it, and then with the first that does.
\<close>

definition first_stop :: "(nat \<Rightarrow> 'a option) \<Rightarrow> nat \<Rightarrow> nat \<Rightarrow> 'a \<Rightarrow> bool" where
  "first_stop stop k j r \<longleftrightarrow> k \<le> j \<and> stop j = Some r \<and> (\<forall>i. k \<le> i \<and> i < j \<longrightarrow> stop i = None)"

lemma first_stop_here: "stop k = Some r \<Longrightarrow> first_stop stop k k r"
  by (auto simp: first_stop_def)

lemma first_stop_later: "stop k = None \<Longrightarrow> first_stop stop (Suc k) j r \<Longrightarrow> first_stop stop k j r"
  unfolding first_stop_def by (metis Suc_leD le_antisym not_less_eq_eq)

lemma first_stop_unique: "first_stop stop k j r \<Longrightarrow> first_stop stop k j' r' \<Longrightarrow> j = j' \<and> r = r'"
  by (auto simp: first_stop_def) (metis linorder_neqE_nat option.distinct(1) option.inject)+

lemma first_stop_exists:
  assumes "k \<le> j" "stop j = Some r"
  shows "\<exists>j r. first_stop stop k j r"
  using assms(1)
proof (induction rule: inc_induct)
  case base
  have "first_stop stop j j r" using assms(2) by (rule first_stop_here)
  then show ?case by (intro exI)
next
  case (step n)
  show ?case
  proof (cases "stop n")
    case None
    from step.IH obtain j' r' where "first_stop stop (Suc n) j' r'" by (elim exE)
    then have "first_stop stop n j' r'" by (rule first_stop_later [of stop, OF None])
    then show ?thesis by (intro exI)
  next
    case (Some x)
    have "first_stop stop n n x" using Some by (rule first_stop_here)
    then show ?thesis by (intro exI)
  qed
qed

locale polling =
  fixes loop :: "nat \<Rightarrow> 'a option" and stop :: "nat \<Rightarrow> 'a option"
  assumes unfold: "loop k = (case stop k of None \<Rightarrow> loop (Suc k) | Some r \<Rightarrow> Some r)"
    and returned: "loop k = Some r \<Longrightarrow> \<exists>j. first_stop stop k j r"
begin

lemma returns: "first_stop stop k j r \<Longrightarrow> loop k = Some r"
proof (induction "j - k" arbitrary: k)
  case 0
  then show ?case by (subst unfold) (auto simp: first_stop_def)
next
  case (Suc n)
  then have "stop k = None" "first_stop stop (Suc k) j r" by (auto simp: first_stop_def)
  moreover have "n = j - Suc k" using Suc.hyps(2) by simp
  ultimately show ?case using Suc.hyps(1) by (subst unfold) simp
qed

lemma iff: "loop k = Some r \<longleftrightarrow> (\<exists>j. first_stop stop k j r)"
  using returned returns by blast

lemma never: "loop k = None \<longleftrightarrow> (\<forall>j\<ge>k. stop j = None)"
  by (metis first_stop_def first_stop_exists iff not_Some_eq)

end

end
