(* ===== verification/Alarm_Lib_Spec.thy ===== *)
theory Alarm_Lib_Spec
  imports Alarm_Lib Polling
begin

text \<open>
  What the alarm library promises an application: how often it tries RMR and when it falls back
  to HTTP, the order of the two messages of a re-raise, and when its blocking calls return.
\<close>

section \<open>The send loop\<close>

text \<open>The \<open>j\<close>-th call asks for another attempt.\<close>

definition asks_retry :: "LibEnv \<Rightarrow> nat \<Rightarrow> bool" where
  "asks_retry e j \<longleftrightarrow> rmr_send_msg e j = Some (RMR_ERR_RETRY e) \<and> RMR_ERR_RETRY e \<noteq> RMR_OK e"

text \<open>The retries made: the calls that ask for one, counted up to the first that does not, but 9.\<close>

definition retries :: "LibEnv \<Rightarrow> nat \<Rightarrow> nat" where
  "retries e k = length (takeWhile (asks_retry e) [k..<k + 9])"

text \<open>The state of the last call, -1 when RMR gave the buffer away.\<close>

definition last_state :: "LibEnv \<Rightarrow> nat \<Rightarrow> go_int" where
  "last_state e j = (case rmr_send_msg e j of None \<Rightarrow> -1 | Some s \<Rightarrow> s)"

lemma rmrSend_loop_retries:
  assumes "c \<le> 9"
  shows "rmrSend_loop e k c =
    (let n = length (takeWhile (asks_retry e) [k..<k + (9 - c)])
     in (last_state e (k + n), Suc (k + n)))"
  using assms
proof (induction e k c rule: rmrSend_loop.induct)
  case (1 e k c)
  show ?case
  proof (cases "asks_retry e k \<and> c < 9")
    case True
    then have retry: "rmr_send_msg e k = Some (RMR_ERR_RETRY e)" "RMR_ERR_RETRY e \<noteq> RMR_OK e"
      by (auto simp: asks_retry_def)
    have range: "[k..<k + (9 - c)] = k # [Suc k..<Suc k + (9 - Suc c)]"
    proof -
      have "k + (9 - c) = Suc k + (9 - Suc c)" "k < k + (9 - c)" using True by arith+
      then show ?thesis by (metis upt_conv_Cons)
    qed
    have "rmrSend_loop e k c = rmrSend_loop e (Suc k) (Suc c)"
      using retry True by (subst rmrSend_loop.simps) simp
    also have "\<dots> = (let n = length (takeWhile (asks_retry e) [Suc k..<Suc k + (9 - Suc c)])
        in (last_state e (Suc k + n), Suc (Suc k + n)))"
      using "1.IH" [of "RMR_ERR_RETRY e"] retry True by simp
    finally show ?thesis using True by (simp only: range) (simp add: Let_def)
  next
    case False
    then have none: "takeWhile (asks_retry e) [k..<k + (9 - c)] = []"
      using "1.prems" by (cases "c < 9") (auto simp: upt_rec [of k])
    show ?thesis
      unfolding none using False "1.prems"
      by (subst rmrSend_loop.simps) (auto simp: last_state_def asks_retry_def split: option.split)
  qed
qed

lemma retries_le: "retries e k \<le> 9"
  using length_takeWhile_le [of "asks_retry e" "[k..<k + 9]"] by (simp add: retries_def)

lemma retries_asked: "j < retries e k \<Longrightarrow> asks_retry e (k + j)"
proof -
  assume j: "j < retries e k"
  then have "takeWhile (asks_retry e) [k..<k + 9] ! j = k + j"
    using retries_le [of e k] by (simp add: takeWhile_nth retries_def)
  then show ?thesis
    using nth_mem [of j "takeWhile (asks_retry e) [k..<k + 9]"] j set_takeWhileD
    by (fastforce simp: retries_def)
qed

lemma retries_stop: "retries e k < 9 \<Longrightarrow> \<not> asks_retry e (k + retries e k)"
  using nth_length_takeWhile [of "asks_retry e" "[k..<k + 9]"] by (simp add: retries_def)

lemma rmrSend_retries: "rmrSend e k = (last_state e (k + retries e k), Suc (k + retries e k))"
  using rmrSend_loop_retries [of 0 e k] by (simp add: rmrSend_def retries_def Let_def)

text \<open>C30: Sending over RMR calls the router at least once and at most ten times, goes on only while
  the answer asks for a retry, stops early only at an answer that does not, and returns the
  state of the last call, -1 if there was no buffer.\<close>
theorem rmrSend_attempts:
  "\<exists>n. n \<le> 9 \<and> rmrSend e k = (last_state e (k + n), Suc (k + n)) \<and>
     (\<forall>j<n. asks_retry e (k + j)) \<and> (n < 9 \<longrightarrow> \<not> asks_retry e (k + n))"
  using rmrSend_retries retries_le retries_asked retries_stop by blast

text \<open>A library in a process where RMR always asks for a retry, or always takes the message.\<close>

definition rmr_env :: "go_int \<Rightarrow> string option \<Rightarrow> LibEnv" where
  "rmr_env answer http_error =
     \<lparr>getenv = (\<lambda>_. []), RMR_OK = 0, RMR_ERR_RETRY = 10, rmr_send_msg = (\<lambda>_. Some answer),
      rmr_rcv_msg = (\<lambda>k. if k = 2 then Some (0, None) else None), rmr_init = Some 7,
      rmr_ready = (\<lambda>k. k = 3), http_post = (\<lambda>_ _. http_error), write_file = (\<lambda>_ _. None)\<rparr>"

theorem rmrSend_attempts_witness:
  "snd (rmrSend (rmr_env 10 None) 5) = 15"
proof -
  have retry: "asks_retry (rmr_env 10 None) j" for j by (simp add: asks_retry_def rmr_env_def)
  obtain n where "n \<le> 9" "snd (rmrSend (rmr_env 10 None) 5) = Suc (5 + n)"
    "n < 9 \<longrightarrow> \<not> asks_retry (rmr_env 10 None) (5 + n)"
    using rmrSend_attempts [of "rmr_env 10 None" 5] by auto
  then show ?thesis using retry by auto
qed

section \<open>RMR first, HTTP if that fails\<close>

definition usable :: "RICAlarm \<Rightarrow> bool" where
  "usable r \<longleftrightarrow> rmrCtx r \<noteq> None \<and> libReady r"

definition rmr_takes :: "LibEnv \<Rightarrow> nat \<Rightarrow> bool" where
  "rmr_takes e k \<longleftrightarrow> last_state e (k + retries e k) = RMR_OK e"

definition alarms_url :: "RICAlarm \<Rightarrow> string" where
  "alarms_url r = managerUrl r @ ''/ric/v1/alarms''"

lemma sendAlarmUpdateReqWithRmr_cases:
  "sendAlarmUpdateReqWithRmr e k r p =
     (if \<not> usable r then (k, [], Some ''RmrError=rmr not ready'')
      else (Suc (k + retries e k), [ViaRmr p (Suc (retries e k))],
        if rmr_takes e k then None
        else Some (''RmrError=rmrSend via '' @ rmrEndpoint r @ '' failed with error: '' @
                   Sprint_d (last_state e (k + retries e k)))))"
  by (auto simp: sendAlarmUpdateReqWithRmr_def rmrSend_retries usable_def rmr_takes_def)

lemma sendAlarmUpdateReqWithHttp_simp:
  "sendAlarmUpdateReqWithHttp e r p =
     ([ViaHttp (alarms_url r) p],
      map_option (\<lambda>err. ''HttpError=Post failed with error: '' @ err) (http_post e (alarms_url r) p))"
  by (simp add: sendAlarmUpdateReqWithHttp_def alarms_url_def Let_def)

text \<open>C31: Sending a message.  A client that is ready tries RMR first; exactly when RMR is not ready
  or does not take the message it is posted once over HTTP; the send succeeds exactly when one
  of the two does, and an error tells both reasons.  Every transmission carries the message.\<close>
theorem send_rmr_then_http:
  "\<exists>k' tr err. sendAlarmUpdateReq e k r a = (k', tr, err) \<and>
     k' = (if usable r then Suc (k + retries e k) else k) \<and>
     tr = (if usable r then [ViaRmr (enc_AlarmMessage a) (k' - k)] else []) @
       (if usable r \<and> rmr_takes e k then [] else [ViaHttp (alarms_url r) (enc_AlarmMessage a)]) \<and>
     (err = None \<longleftrightarrow> (usable r \<and> rmr_takes e k) \<or> http_post e (alarms_url r) (enc_AlarmMessage a) = None) \<and>
     (\<forall>x. err = Some x \<longrightarrow>
        (\<exists>y h. x = ''RmrError='' @ y @ '' and  HttpError=Post failed with error: '' @ h \<and>
           http_post e (alarms_url r) (enc_AlarmMessage a) = Some h))"
  by (cases "http_post e (alarms_url r) (enc_AlarmMessage a)")
    (auto simp: sendAlarmUpdateReq_def sendAlarmUpdateReqWithRmr_cases
      sendAlarmUpdateReqWithHttp_simp Let_def)

definition ready_client :: RICAlarm where
  "ready_client = \<lparr>moId = ''m'', appId = ''a'', managerUrl = ''u'', rmrEndpoint = ''r'',
     rmrCtx = Some 7, libReady = True\<rparr>"

theorem send_rmr_then_http_witness:
  "\<exists>h. snd (snd (sendAlarmUpdateReq (rmr_env 10 (Some ''x'')) 0 ready_client zero_AlarmMessage)) = Some h \<and>
     (\<exists>y. h = ''RmrError='' @ y @ '' and  HttpError=Post failed with error: x'')"
proof -
  have "\<not> rmr_takes (rmr_env 10 (Some ''x'')) 0"
    by (simp add: rmr_takes_def last_state_def rmr_env_def)
  then show ?thesis
    using send_rmr_then_http [of "rmr_env 10 (Some ''x'')" 0 ready_client zero_AlarmMessage]
    by (fastforce simp: rmr_env_def)
qed

section \<open>Receiving\<close>

definition rcv_stop :: "LibEnv \<Rightarrow> nat \<Rightarrow> (json option \<times> nat) option" where
  "rcv_stop e k =
     (case rmr_rcv_msg e k of
        None \<Rightarrow> None
      | Some (state, payload) \<Rightarrow> if state = RMR_OK e then Some (payload, Suc k) else None)"

lemma rmrRcv_returned:
  assumes "rmrRcv e k = Some r"
  shows "\<exists>j. first_stop (rcv_stop e) k j r"
proof (rule rmrRcv.raw_induct [where P = "\<lambda>e k r. \<exists>j. first_stop (rcv_stop e) k j r", OF _ assms])
  fix f e k r
  assume IH: "\<And>e k r. f e k = Some r \<Longrightarrow> \<exists>j. first_stop (rcv_stop e) k j r"
    and eq: "(case rmr_rcv_msg e k of None \<Rightarrow> f e (Suc k)
      | Some (state, payload) \<Rightarrow>
          if state = RMR_OK e then Some (payload, Suc k) else f e (Suc k)) = Some r"
  show "\<exists>j. first_stop (rcv_stop e) k j r"
  proof (cases "rcv_stop e k")
    case None
    then have "f e (Suc k) = Some r" using eq by (auto simp: rcv_stop_def split: option.splits if_splits)
    from IH [OF this] obtain j where "first_stop (rcv_stop e) (Suc k) j r" by (elim exE)
    then have "first_stop (rcv_stop e) k j r" by (rule first_stop_later [of "rcv_stop e", OF None])
    then show ?thesis by (intro exI)
  next
    case (Some x)
    then have "x = r" using eq by (auto simp: rcv_stop_def split: option.splits if_splits)
    then have "first_stop (rcv_stop e) k k r" using Some by (simp add: first_stop_here)
    then show ?thesis by (intro exI)
  qed
qed

interpretation rcv: polling "rmrRcv e" "rcv_stop e" for e
proof
  show "rmrRcv e k = (case rcv_stop e k of None \<Rightarrow> rmrRcv e (Suc k) | Some r \<Rightarrow> Some r)" for k
    by (subst rmrRcv.simps) (auto simp: rcv_stop_def split: option.split)
qed (rule rmrRcv_returned)

text \<open>What the callback gets of a payload: the message, if it decodes.\<close>

definition messages_in :: "json option \<Rightarrow> AlarmMessage list" where
  "messages_in p =
     (case p of None \<Rightarrow> []
      | Some v \<Rightarrow> (case dec_struct AlarmMessage_fields v zero_AlarmMessage of
                   (a, True) \<Rightarrow> [a] | (_, False) \<Rightarrow> []))"

lemma messages_in_enc [simp]: "messages_in (Some (enc_AlarmMessage m)) = [m]"
  by (simp add: messages_in_def members_roundtrip)

text \<open>C32: Receiving blocks until RMR delivers a buffer without error, so it never returns if there
  is none; else the callback gets the message of the first such buffer, if it decodes, and the
  caller an error, whether it did or not.\<close>
theorem ReceiveMessage_first_buffer:
  "(ReceiveMessage e k = None \<longleftrightarrow> (\<forall>j\<ge>k. \<forall>p. rmr_rcv_msg e j \<noteq> Some (RMR_OK e, p))) \<and>
   (k \<le> j \<and> rmr_rcv_msg e j = Some (RMR_OK e, p) \<and>
      (\<forall>i. k \<le> i \<and> i < j \<longrightarrow> (\<forall>q. rmr_rcv_msg e i \<noteq> Some (RMR_OK e, q))) \<longrightarrow>
    ReceiveMessage e k = Some (messages_in p, ''rmrRcv failed!''))"
proof -
  have stop: "rcv_stop e j = None \<longleftrightarrow> (\<forall>p. rmr_rcv_msg e j \<noteq> Some (RMR_OK e, p))" for j
    by (auto simp: rcv_stop_def split: option.split)
  have "ReceiveMessage e k = Some (messages_in p, ''rmrRcv failed!'')"
    if "k \<le> j" "rmr_rcv_msg e j = Some (RMR_OK e, p)"
      "\<forall>i. k \<le> i \<and> i < j \<longrightarrow> (\<forall>q. rmr_rcv_msg e i \<noteq> Some (RMR_OK e, q))"
  proof -
    have "first_stop (rcv_stop e) k j (p, Suc j)"
      using that stop by (simp add: first_stop_def) (simp add: rcv_stop_def)
    then show ?thesis
      by (simp add: ReceiveMessage_def messages_in_def rcv.returns)
  qed
  moreover have "ReceiveMessage e k = None \<longleftrightarrow> rmrRcv e k = None"
    by (simp add: ReceiveMessage_def)
  ultimately show ?thesis by (simp add: rcv.never stop)
qed

theorem ReceiveMessage_first_buffer_witness:
  "ReceiveMessage (rmr_env 0 None) 0 = Some ([], ''rmrRcv failed!'')"
  using ReceiveMessage_first_buffer [of "rmr_env 0 None" 0 2 None]
  by (simp add: rmr_env_def messages_in_def)

section \<open>Connecting\<close>

definition ready_stop :: "LibEnv \<Rightarrow> nat \<Rightarrow> nat option" where
  "ready_stop e k = (if rmr_ready e k then Some k else None)"

lemma rmr_wait_ready_returned:
  assumes "rmr_wait_ready e k = Some r"
  shows "\<exists>j. first_stop (ready_stop e) k j r"
proof (rule rmr_wait_ready.raw_induct
    [where P = "\<lambda>e k r. \<exists>j. first_stop (ready_stop e) k j r", OF _ assms])
  fix f e k r
  assume IH: "\<And>e k r. f e k = Some r \<Longrightarrow> \<exists>j. first_stop (ready_stop e) k j r"
    and eq: "(if rmr_ready e k then Some k else f e (Suc k)) = Some r"
  show "\<exists>j. first_stop (ready_stop e) k j r"
  proof (cases "rmr_ready e k")
    case False
    then have "f e (Suc k) = Some r" using eq by simp
    from IH [OF this] obtain j where "first_stop (ready_stop e) (Suc k) j r" by (elim exE)
    then have "first_stop (ready_stop e) k j r"
      using False by (simp add: first_stop_later ready_stop_def)
    then show ?thesis by (intro exI)
  next
    case True
    then have "first_stop (ready_stop e) k k r" using eq by (simp add: first_stop_here ready_stop_def)
    then show ?thesis by (intro exI)
  qed
qed

interpretation ready: polling "rmr_wait_ready e" "ready_stop e" for e
proof
  show "rmr_wait_ready e k =
      (case ready_stop e k of None \<Rightarrow> rmr_wait_ready e (Suc k) | Some r \<Rightarrow> Some r)" for k
    by (subst rmr_wait_ready.simps) (simp add: ready_stop_def)
qed (rule rmr_wait_ready_returned)

lemma rmrInit_cases:
  "rmrInit e =
     (case rmr_init e of None \<Rightarrow> Some None
      | Some ctx \<Rightarrow> if \<exists>j. rmr_ready e j then Some (Some ctx) else None)"
proof -
  have "rmr_wait_ready e 0 = None \<longleftrightarrow> \<not> (\<exists>j. rmr_ready e j)"
    using ready.never [of e 0] by (simp add: ready_stop_def)
  then show ?thesis
    by (cases "rmr_wait_ready e 0") (auto simp: rmrInit_def split: option.split)
qed

text \<open>C33: The connecting goroutine returns exactly when the route file cannot be written, RMR cannot
  be initialised, or RMR is ready in some round of polling.  In the last case only, the client
  is usable and without error; in the others it is left as it was, with an error.\<close>
theorem InitRMR_returns:
  "(InitRMR e r = None \<longleftrightarrow>
      write_file e ''/tmp/alarm.rt'' (alarm_route_table r) = None \<and> rmr_init e \<noteq> None \<and>
      (\<forall>j. \<not> rmr_ready e j)) \<and>
   (InitRMR e r = Some (r', None) \<longrightarrow>
      usable r' \<and> IsRMRReady r' \<and> (\<exists>j. rmr_ready e j) \<and>
      r' = r\<lparr>rmrCtx := rmr_init e, libReady := True\<rparr>) \<and>
   (InitRMR e r = Some (r', Some err) \<longrightarrow> r' = r)"
  by (auto simp: InitRMR_def rmrInit_cases usable_def IsRMRReady_def split: option.splits if_splits)

theorem InitRMR_returns_witness:
  "\<exists>r'. InitRMR (rmr_env 0 None) ready_client = Some (r', None) \<and> usable r'"
proof -
  have "InitRMR (rmr_env 0 None) ready_client =
      Some (ready_client\<lparr>rmrCtx := Some 7, libReady := True\<rparr>, None)"
    by (simp add: InitRMR_def rmrInit_cases rmr_env_def)
  then show ?thesis using InitRMR_returns by blast
qed

section \<open>Re-raising\<close>

text \<open>
  The raise of a re-raise is sent only after the clear has been, and its time is read then; if
  the clear cannot be sent, nothing follows it.
\<close>

lemma Reraise_Clear_Raise:
  "Reraise e k now now' r a =
     (case Clear e k now r a of
        (k', tr, Some err) \<Rightarrow> (k', tr, Some (''Reraise failed: '' @ err))
      | (k', tr, None) \<Rightarrow> (case Raise e k' now' r a of (k'', tr', err) \<Rightarrow> (k'', tr @ tr', err)))"
  unfolding Reraise_def Clear_def Raise_def by (rule refl)

end
