(* ===== verification/Lib_Manager.thy ===== *)
theory Lib_Manager
  imports Rest_Api Alarm_Lib_Spec
begin

text \<open>
  The alarm library of an application against the alarm manager: what the manager does with the
  transmission that carried a message, over RMR or over HTTP.
\<close>

text \<open>The manager's state after a transmission has been handled.\<close>

fun delivered :: "(string \<Rightarrow> json) \<Rightarrow> Env \<Rightarrow> (World \<Rightarrow> World) \<Rightarrow> transmission \<Rightarrow> World \<Rightarrow> World" where
  "delivered error_json env others (ViaRmr v attempts) w =
     final (Consume env others RIC_ALARM_UPDATE (Some v) w)"
| "delivered error_json env others (ViaHttp url v) w =
     final (RaiseAlarm error_json env others (posted v) w)"

lemma delivered_complete:
  assumes "complete m" "tr = ViaRmr (enc_AlarmMessage m) n \<or> tr = ViaHttp url (enc_AlarmMessage m)"
  shows "delivered error_json env others tr w =
    final (ProcessAlarm_call env others \<lparr>notifMessage = m, notifDef = zero_AlarmDefinition\<rparr> w)"
proof -
  let ?call = "ProcessAlarm_call env others \<lparr>notifMessage = m, notifDef = zero_AlarmDefinition\<rparr> w"
  have "final (RaiseAlarm error_json env others (posted (enc_AlarmMessage m)) w) = final ?call"
    by (cases ?call) (auto simp: RaiseAlarm_def doAction_complete [OF assms(1)])
  moreover have "final (Consume env others RIC_ALARM_UPDATE (Some (enc_AlarmMessage m)) w) = final ?call"
    by (cases ?call) (auto simp: Consume_def HandleAlarms_def members_roundtrip)
  ultimately show ?thesis using assms(2) by auto
qed

text \<open>A send that succeeds ends with the transmission that was taken.\<close>

lemma send_last:
  assumes "sendAlarmUpdateReq e k r a = (k', tr, None)"
  obtains n url where "tr \<noteq> []" "last tr = ViaRmr (enc_AlarmMessage a) n \<or> last tr = ViaHttp url (enc_AlarmMessage a)"
proof -
  have "tr \<noteq> [] \<and> (\<exists>n url. last tr = ViaRmr (enc_AlarmMessage a) n \<or> last tr = ViaHttp url (enc_AlarmMessage a))"
    using assms
    by (auto simp: sendAlarmUpdateReq_def sendAlarmUpdateReqWithRmr_cases
        sendAlarmUpdateReqWithHttp_simp Let_def split: option.splits if_splits)
  then show thesis using that by blast
qed

definition app_message :: "go_int \<Rightarrow> Alarm \<Rightarrow> alarm_action \<Rightarrow> AlarmNotification" where
  "app_message now a act =
     \<lparr>notifMessage = NewAlarmMessage now a act, notifDef = zero_AlarmDefinition\<rparr>"

definition sendable :: "go_int \<Rightarrow> Alarm \<Rightarrow> bool" where
  "sendable now a \<longleftrightarrow> now \<noteq> 0 \<and> ManagedObjectId a \<noteq> [] \<and> ApplicationId a \<noteq> []"

lemma sendable_complete:
  "sendable now a \<Longrightarrow> act \<in> {AlarmActionRaise, AlarmActionClear, AlarmActionClearAll} \<Longrightarrow>
   complete (NewAlarmMessage now a act)"
  by (auto simp: sendable_def complete_def NewAlarmMessage_def AlarmActionRaise_def
      AlarmActionClear_def AlarmActionClearAll_def)

lemma sent_reaches_manager:
  assumes "sendAlarmUpdateReq e k r (NewAlarmMessage now a act) = (k', tr, None)" "sendable now a"
    and "act \<in> {AlarmActionRaise, AlarmActionClear, AlarmActionClearAll}"
  shows "tr \<noteq> [] \<and> delivered error_json env others (last tr) w =
    final (ProcessAlarm_call env others (app_message now a act) w)"
  using send_last [OF assms(1)] delivered_complete [OF sendable_complete [OF assms(2,3)]]
  by (metis app_message_def)

text \<open>C28: An application's alarm reaches the manager.  When \<open>Raise\<close> or \<open>Clear\<close> of the library
  reports success, over RMR or over the HTTP fallback, the last transmission has on the manager
  the effect of \<open>ProcessAlarm\<close> on the application's alarm with that action and time.\<close>
theorem library_reaches_manager:
  assumes "sendable now a"
    and "(if act = AlarmActionRaise then Raise e k now r a else Clear e k now r a) = (k', tr, None)"
    and "act = AlarmActionRaise \<or> act = AlarmActionClear"
  shows "tr \<noteq> [] \<and> delivered error_json env others (last tr) w =
    final (ProcessAlarm_call env others (app_message now a act) w)"
  using sent_reaches_manager [of e k r now a act k' tr] assms
  by (auto simp: Raise_def Clear_def split: if_splits)

theorem library_reaches_manager_witness:
  "\<exists>k' tr. Raise (rmr_env 0 None) 0 5 ready_client (sample_alarm 72004 SeverityMajor) = (k', tr, None) \<and>
    delivered JStr sample_env (\<lambda>w. w) (last tr) (sample_world 0 0 0) =
      final (ProcessAlarm_call sample_env (\<lambda>w. w)
        (app_message 5 (sample_alarm 72004 SeverityMajor) AlarmActionRaise) (sample_world 0 0 0))"
proof -
  have ok: "sendable 5 (sample_alarm 72004 SeverityMajor)"
    by (simp add: sendable_def sample_alarm_def)
  have "rmr_takes (rmr_env 0 None) 0" by (simp add: rmr_takes_def last_state_def rmr_env_def)
  then obtain k' tr where sent:
    "Raise (rmr_env 0 None) 0 5 ready_client (sample_alarm 72004 SeverityMajor) = (k', tr, None)"
    by (simp add: Raise_def sendAlarmUpdateReq_def sendAlarmUpdateReqWithRmr_cases usable_def ready_client_def)
  then show ?thesis
    using library_reaches_manager [OF ok, of AlarmActionRaise "rmr_env 0 None" 0 ready_client k' tr]
    by auto
qed

text \<open>C29: \<open>ClearAll\<close> clears nothing: the manager has no case for its action, so a successful
  \<open>ClearAll\<close> leaves every alarm of the application, and the rest of the manager's state, as it
  was.\<close>
theorem ClearAll_clears_nothing:
  assumes "ClearAll e k now r = (k', tr, None)" "\<not> mutex w"
    and "now \<noteq> 0" "moId r \<noteq> []" "appId r \<noteq> []"
  shows "tr \<noteq> [] \<and> delivered error_json env others (last tr) w = w"
proof -
  let ?a = "NewAlarm r 0 SeverityDefault [] []"
  let ?m = "app_message now ?a AlarmActionClearAll"
  have "sendable now ?a" using assms(3-5) by (simp add: sendable_def NewAlarm_def)
  moreover have "sendAlarmUpdateReq e k r (NewAlarmMessage now ?a AlarmActionClearAll) = (k', tr, None)"
    using assms(1) by (simp add: ClearAll_def Let_def)
  ultimately have sent: "tr \<noteq> [] \<and> delivered error_json env others (last tr) w =
      final (ProcessAlarm_call env others ?m w)"
    using sent_reaches_manager by blast
  have "ineffective ?m w"
    by (simp add: ineffective_def app_message_def NewAlarmMessage_def)
  then have "ProcessAlarm_call env others ?m w = Ok nil_reply w"
    using ineffective_first [OF assms(2)] by (simp add: ProcessAlarm_call_def run_on_def)
  with sent show ?thesis by simp
qed

theorem ClearAll_clears_nothing_witness:
  "\<exists>k' tr. ClearAll (rmr_env 0 None) 0 5 ready_client = (k', tr, None) \<and>
    delivered JStr sample_env (\<lambda>w. w) (last tr) (sample_world_active 0 0 0) = sample_world_active 0 0 0"
proof -
  have "rmr_takes (rmr_env 0 None) 0" by (simp add: rmr_takes_def last_state_def rmr_env_def)
  then obtain k' tr where sent: "ClearAll (rmr_env 0 None) 0 5 ready_client = (k', tr, None)"
    by (simp add: ClearAll_def Let_def sendAlarmUpdateReq_def sendAlarmUpdateReqWithRmr_cases
        usable_def ready_client_def)
  then show ?thesis
    using ClearAll_clears_nothing [OF sent, of "sample_world_active 0 0 0" JStr sample_env "\<lambda>w. w"]
    by (simp add: ready_client_def)
qed

end
