(* ===== verification/Cli.thy ===== *)
theory Cli
  imports Alarm_Lib_Spec
begin

text \<open>
  The command line tool (\<open>cli/alarm-cli.go\<close>): the table of its commands and their flags, and the
  actions behind them, the performance test apart.  Parsing the command line (the commando
  library), the network, the table printer and the clients of other systems are outside the
  repository: \<open>Flags\<close> is what the getters of the parsed flags return, with their errors dropped as
  the code drops them, and \<open>CliEnv\<close> is how the outside answers.

  An action leaves a trace of what it does to the outside, in order: requests, RMR transmissions
  and what it prints.  \<open>None\<close> as the outcome of an action means that it never returns.
\<close>

section \<open>Flags, outside and state\<close>

record Flags =
  GetString :: "string \<Rightarrow> string"
  GetInt :: "string \<Rightarrow> go_int"
  GetBool :: "string \<Rightarrow> bool"

text \<open>
  The answer to a GET: an error, a body that cannot be read, or a body, \<open>None\<close> if it is not JSON.
  \<open>http_post\<close> of the library's environment answers the posts.
\<close>

datatype http_reply = NoReply string | Unreadable_body string | Body "json option"

datatype file_reply = NoFile string | BadJson string | JsonFile json

text \<open>What the code reads of an alert; a nil pointer is \<open>None\<close>.\<close>

record AlertStatus =
  InhibitedBy :: "string list"
  SilencedBy :: "string list"
  State :: "string option"

record CliAlert =
  Annotations :: "string \<rightharpoonup> string"
  Labels :: "string \<rightharpoonup> string"
  GeneratorURL :: string
  EndsAt :: "string option"
  Fingerprint :: "string option"
  Receivers :: "string option list"
  StartsAt :: "string option"
  Status :: "AlertStatus option"
  UpdatedAt :: "string option"

record AlertQuery =
  amAddress :: string
  qBaseUrl :: string
  qSchemes :: "string list"
  qActive :: bool
  qInhibited :: bool
  qSilenced :: bool
  qUnprocessed :: bool

text \<open>
  \<open>init_round\<close> is the polling round in which the goroutine that connects a new client is through.
  \<open>unmarshal_error\<close> is the error of \<open>json.Unmarshal\<close> on a value of the wrong form.
\<close>

record CliEnv =
  lib :: LibEnv
  http_get :: "string \<Rightarrow> http_reply"
  new_request :: "string \<Rightarrow> string option"
  http_delete :: "string \<Rightarrow> string option"
  query_alerts :: "AlertQuery \<Rightarrow> CliAlert option list option \<times> string option"
  read_file :: "string \<Rightarrow> file_reply"
  unmarshal_error :: "json \<Rightarrow> string"
  working_directory :: string
  local_time :: "go_int \<Rightarrow> string"
  now_at :: "nat \<Rightarrow> go_int"
  init_round :: nat

datatype cell = CInt go_int | CNat nat | CStr string | CStrs "string list"

datatype effect =
  Get string
| Post string json
| Delete string
| Sent transmission
| Println string
| Render "string list" "cell list list"

text \<open>
  \<open>sends\<close> and \<open>readings\<close> count the RMR calls and clock readings of the process so far.
  \<open>known_definitions\<close> is the table \<open>alarm.RICAlarmDefinitions\<close> of this process.
\<close>

record Cli =
  sends :: nat
  readings :: nat
  trace :: "effect list"
  CliPerfAlarmDefinitions :: RicAlarmDefinitions
  CLIPerfAlarmObjects :: "go_int \<rightharpoonup> Alarm"
  known_definitions :: "go_int \<rightharpoonup> AlarmDefinition"

text \<open>The process at its start.\<close>

definition fresh_cli :: Cli where
  "fresh_cli = \<lparr>sends = 0, readings = 0, trace = [],
     CliPerfAlarmDefinitions = \<lparr>AlarmDefinitions = []\<rparr>, CLIPerfAlarmObjects = Map.empty,
     known_definitions = Map.empty\<rparr>"

definition emit :: "effect list \<Rightarrow> Cli \<Rightarrow> Cli" where
  "emit xs c = c\<lparr>trace := trace c @ xs\<rparr>"

definition manager_url :: "Flags \<Rightarrow> string \<Rightarrow> string" where
  "manager_url flags path =
     ''http://'' @ GetString flags ''host'' @ '':'' @ GetString flags ''port'' @ path"

section \<open>Reading alarms\<close>

definition getAlarms ::
  "CliEnv \<Rightarrow> Flags \<Rightarrow> alarm_action \<Rightarrow> Cli \<Rightarrow> AlarmNotification list \<times> Cli" where
  "getAlarms e flags action c =
     (let targetUrl = manager_url flags (''/ric/v1/alarms/'' @ action);
          c1 = emit [Get targetUrl] c
      in case http_get e targetUrl of
        NoReply err \<Rightarrow>
          ([], emit [Println (''Couldn't fetch active alarm list due to error:  '' @ err)] c1)
      | Unreadable_body err \<Rightarrow> ([], emit [Println (''ioutil.ReadAll failed:  '' @ err)] c1)
      | Body None \<Rightarrow> ([], c1)
      | Body (Some v) \<Rightarrow>
          (fst (dec_slice zero_AlarmNotification (dec_struct AlarmNotification_fields) v []), c1))"

definition alarm_row :: "AlarmNotification \<Rightarrow> cell list" where
  "alarm_row a =
     [CInt (nId a), CInt (nProblem a), CStr (ManagedObjectId (nAlarm a)),
      CStr (ApplicationId (nAlarm a)), CStr (IdentifyingInfo (nAlarm a)), CStr (nSeverity a),
      CStr (AdditionalInfo (nAlarm a))]"

definition displayAlarms :: "CliEnv \<Rightarrow> AlarmNotification list \<Rightarrow> bool \<Rightarrow> Cli \<Rightarrow> Cli" where
  "displayAlarms e alarms isHistory c =
     (if isHistory
      then emit [Render [''ID'', ''SP'', ''MOID'', ''APPID'', ''IINFO'', ''SEVERITY'', ''AAI'', ''ACTION'', ''TIME'']
             (map (\<lambda>a. alarm_row a @ [CStr (nAction a), CStr (local_time e (nTime a))]) alarms)] c
      else emit [Render [''ID'', ''SP'', ''MOID'', ''APPID'', ''IINFO'', ''SEVERITY'', ''AAI'', ''TIME'']
             (concat (map (\<lambda>a.
                if nRaiseDelay a = 0 then [alarm_row a @ [CStr (local_time e (nTime a))]] else [])
              alarms))] c)"

section \<open>Raising and clearing\<close>

definition readAlarmParams :: "Flags \<Rightarrow> bool \<Rightarrow> Alarm" where
  "readAlarmParams flags clear =
     \<lparr>ManagedObjectId = GetString flags ''moid'', ApplicationId = GetString flags ''apid'',
      SpecificProblem = GetInt flags ''sp'',
      PerceivedSeverity = (if clear then [] else GetString flags ''severity''),
      IdentifyingInfo = GetString flags ''iinfo'',
      AdditionalInfo = (if clear then [] else GetString flags ''aai'')\<rparr>"

text \<open>
  A client is read while the goroutine of \<open>InitAlarm\<close> connects it: \<open>client j\<close> is the client as it
  is in polling round \<open>j\<close>.  \<open>InitAlarm\<close> has no error to return.
\<close>

type_synonym AlarmClient = "nat \<Rightarrow> RICAlarm"

definition NewAlarmClient :: "CliEnv \<Rightarrow> string \<Rightarrow> string \<Rightarrow> AlarmClient" where
  "NewAlarmClient e moid appid =
     (let alarmInstance = InitAlarm (lib e) moid appid in
      (\<lambda>j. if j < init_round e then alarmInstance
           else case InitRMR (lib e) alarmInstance of
                  Some (r, _) \<Rightarrow> r | None \<Rightarrow> alarmInstance))"

partial_function (option) wait_rmr :: "AlarmClient \<Rightarrow> nat \<Rightarrow> RICAlarm option" where
  "wait_rmr client j =
     (if \<not> IsRMRReady (client j) then wait_rmr client (Suc j) else Some (client j))"

definition postAlarmWithRmrIf ::
  "CliEnv \<Rightarrow> Alarm \<Rightarrow> alarm_action \<Rightarrow> AlarmClient option \<Rightarrow> Cli \<Rightarrow> Cli option" where
  "postAlarmWithRmrIf e a action alarmClient c =
     (let client = (case alarmClient of
            None \<Rightarrow> NewAlarmClient e ''my-pod'' ''my-app'' | Some cl \<Rightarrow> cl)
      in case wait_rmr client 0 of
        None \<Rightarrow> None
      | Some alarmer \<Rightarrow>
          let c1 = (if action = AlarmActionRaise
                    then case Raise (lib e) (sends c) (now_at e (readings c)) alarmer a of
                           (k, tr, _) \<Rightarrow>
                             emit (map Sent tr) (c\<lparr>sends := k, readings := Suc (readings c)\<rparr>)
                    else c);
              c2 = (if action = AlarmActionClear
                    then case Clear (lib e) (sends c1) (now_at e (readings c1)) alarmer a of
                           (k, tr, _) \<Rightarrow>
                             emit (map Sent tr) (c1\<lparr>sends := k, readings := Suc (readings c1)\<rparr>)
                    else c1)
          in Some c2)"

definition postAlarmWithHttpIf :: "CliEnv \<Rightarrow> string \<Rightarrow> Alarm \<Rightarrow> alarm_action \<Rightarrow> Cli \<Rightarrow> Cli" where
  "postAlarmWithHttpIf e targetUrl a action c =
     (let m = \<lparr>msgAlarm = a, AlarmAction = action, AlarmTime = 0\<rparr>;
          jsonData = enc_AlarmMessage m;
          c1 = emit [Post targetUrl jsonData] c
      in case http_post (lib e) targetUrl jsonData of
        Some err \<Rightarrow>
          emit [Println (''Couldn't fetch active alarm list due to error:  '' @ err)] c1
      | None \<Rightarrow> c1)"

definition postAlarm ::
  "CliEnv \<Rightarrow> Flags \<Rightarrow> Alarm \<Rightarrow> alarm_action \<Rightarrow> AlarmClient option \<Rightarrow> Cli \<Rightarrow> Cli option" where
  "postAlarm e flags a action alarmClient c =
     map_option (emit [Println ''command executed successfully!''])
       (if GetString flags ''if'' = ''rmr'' then postAlarmWithRmrIf e a action alarmClient c
        else Some (postAlarmWithHttpIf e (manager_url flags ''/ric/v1/alarms'') a action c))"

section \<open>Configuration and definitions\<close>

definition postAlarmConfig :: "CliEnv \<Rightarrow> Flags \<Rightarrow> Cli \<Rightarrow> Cli" where
  "postAlarmConfig e flags c =
     (let targetUrl = manager_url flags ''/ric/v1/alarms/config'';
          m = \<lparr>MaxActiveAlarms = GetInt flags ''mal'', MaxAlarmHistory = GetInt flags ''mah''\<rparr>;
          jsonData = enc_AlarmConfigParams m;
          c1 = emit [Post targetUrl jsonData] c
      in case http_post (lib e) targetUrl jsonData of
        Some err \<Rightarrow>
          emit [Println (''Couldn't fetch post alarm configuration due to error:  '' @ err)] c1
      | None \<Rightarrow> c1)"

definition postAlarmDefinition :: "CliEnv \<Rightarrow> Flags \<Rightarrow> Cli \<Rightarrow> Cli" where
  "postAlarmDefinition e flags c =
     (let targetUrl = manager_url flags ''/ric/v1/alarms/define'';
          alarmdefinition =
            \<lparr>AlarmId = GetInt flags ''aid'', AlarmText = GetString flags ''atx'',
             EventType = GetString flags ''ety'', OperationInstructions = GetString flags ''oin'',
             RaiseDelay = GetInt flags ''rad'', ClearDelay = GetInt flags ''cad'', TimeToLive = 0\<rparr>;
          jsonData = enc_RicAlarmDefinitions \<lparr>AlarmDefinitions = [Some alarmdefinition]\<rparr>;
          c1 = emit [Post targetUrl jsonData] c
      in case http_post (lib e) targetUrl jsonData of
        Some err \<Rightarrow>
          emit [Println (''Couldn't post alarm definition due to error:  '' @ err)] c1
      | None \<Rightarrow> c1)"

text \<open>A failed request is reported with the error of making it, which is nil.\<close>

definition deleteAlarmDefinition :: "CliEnv \<Rightarrow> Flags \<Rightarrow> Cli \<Rightarrow> Cli" where
  "deleteAlarmDefinition e flags c =
     (let salarmid = FormatUint10 (GetInt flags ''aid'');
          targetUrl = manager_url flags (''/ric/v1/alarms/define/'' @ salarmid)
      in case new_request e targetUrl of
        Some err \<Rightarrow> emit [Println (''Couldn't make delete request due to error:  '' @ err)] c
      | None \<Rightarrow>
          let c1 = emit [Delete targetUrl] c in
          (case http_delete e targetUrl of
             Some errr \<Rightarrow> emit [Println ''Couldn't send delete request due to error:  <nil>''] c1
           | None \<Rightarrow> c1))"

section \<open>Alerts\<close>

definition entry :: "(string \<rightharpoonup> string) \<Rightarrow> string \<Rightarrow> cell list" where
  "entry m key = [CStr key, CStr (case m key of Some item \<Rightarrow> item | None \<Rightarrow> [])]"

definition dispalyAlertAnnotations :: "CliAlert \<Rightarrow> cell list list" where
  "dispalyAlertAnnotations gettableAlert =
     map (entry (Annotations gettableAlert))
       [''alarm_id'', ''specific_problem'', ''timestamp'', ''event_type'', ''description'',
        ''additional_info'', ''identifying_info'', ''instructions'']"

definition displayAlertLabels :: "CliAlert \<Rightarrow> cell list list" where
  "displayAlertLabels gettableAlert =
     map (entry (Labels gettableAlert)) [''alertname'', ''status'', ''severity'', ''system_name'', ''service'']"

text \<open>The rows of an alert; \<open>None\<close> when a nil pointer is dereferenced.\<close>

definition row_if_set :: "string \<Rightarrow> string option \<Rightarrow> cell list list" where
  "row_if_set name p = (case p of Some x \<Rightarrow> [[CStr name, CStr x]] | None \<Rightarrow> [])"

fun receiver_rows :: "nat \<Rightarrow> string option list \<Rightarrow> cell list list option" where
  "receiver_rows key [] = Some []"
| "receiver_rows key (None # items) = None"
| "receiver_rows key (Some item # items) =
     map_option ((#) [CNat key, CStr item]) (receiver_rows (Suc key) items)"

definition displaySingleAlert :: "CliAlert \<Rightarrow> cell list list option" where
  "displaySingleAlert a =
     (case receiver_rows 0 (Receivers a) of
        None \<Rightarrow> None
      | Some receivers \<Rightarrow>
          map_option
            (\<lambda>status.
               [[CStr ''------------------------------------'']] @ dispalyAlertAnnotations a @
               row_if_set ''EndsAt'' (EndsAt a) @ row_if_set ''Fingerprint'' (Fingerprint a) @
               receivers @ row_if_set ''StartsAt'' (StartsAt a) @ status @
               row_if_set ''UpdatedAt'' (UpdatedAt a) @
               [[CStr ''GeneratorURL'', CStr (GeneratorURL a)]] @ displayAlertLabels a)
            (case Status a of
               None \<Rightarrow> Some []
             | Some s \<Rightarrow>
                 (case State s of
                    None \<Rightarrow> None
                  | Some x \<Rightarrow>
                      Some [[CStr ''InhibitedBy'', CStrs (InhibitedBy s)],
                            [CStr ''SilencedBy'', CStrs (SilencedBy s)], [CStr ''State'', CStr x]])))"

definition getAlerts :: "CliEnv \<Rightarrow> Flags \<Rightarrow> CliAlert option list option \<times> string option" where
  "getAlerts e flags =
     (let q = \<lparr>amAddress = GetString flags ''host'' @ '':'' @ GetString flags ''port'',
               qBaseUrl = ''api/v2'', qSchemes = [''http''],
               qActive = GetBool flags ''active'', qInhibited = GetBool flags ''inhibited'',
               qSilenced = GetBool flags ''silenced'', qUnprocessed = GetBool flags ''unprocessed''\<rparr>
      in case query_alerts e q of
        (resp, Some err) \<Rightarrow>
          (resp, Some (''GetAlerts from amAddress = '' @ amAddress q @ '' with amBaseUrl = '' @
                       qBaseUrl q @ '' failed with error: '' @ err))
      | (resp, None) \<Rightarrow> (resp, None))"

fun alert_rows :: "CliAlert option list \<Rightarrow> cell list list option" where
  "alert_rows [] = Some []"
| "alert_rows (None # payload) = alert_rows payload"
| "alert_rows (Some gettableAlert # payload) =
     (case displaySingleAlert gettableAlert of
        None \<Rightarrow> None
      | Some rows \<Rightarrow> map_option ((@) rows) (alert_rows payload))"

definition displayAlerts :: "CliEnv \<Rightarrow> Flags \<Rightarrow> Cli \<Rightarrow> (unit, Cli) result" where
  "displayAlerts e flags c =
     (case getAlerts e flags of
        (_, Some err) \<Rightarrow> Ok () (emit [Println err] c)
      | (None, None) \<Rightarrow> Ok () (emit [Println ''resp= nil''] c)
      | (Some payload, None) \<Rightarrow>
          (case alert_rows payload of
             None \<Rightarrow> Panic NilDeref c
           | Some rows \<Rightarrow> Ok () (emit [Render [''Alerts from Prometheus Alert Manager''] rows] c)))"

section \<open>Waiting for RMR\<close>

definition rmr_stop :: "AlarmClient \<Rightarrow> nat \<Rightarrow> RICAlarm option" where
  "rmr_stop client j = (if IsRMRReady (client j) then Some (client j) else None)"

lemma wait_rmr_returned:
  assumes "wait_rmr client j = Some r"
  shows "\<exists>i. first_stop (rmr_stop client) j i r"
proof (rule wait_rmr.raw_induct
    [where P = "\<lambda>client j r. \<exists>i. first_stop (rmr_stop client) j i r", OF _ assms])
  fix f client j r
  assume IH: "\<And>client j r. f client j = Some r \<Longrightarrow> \<exists>i. first_stop (rmr_stop client) j i r"
    and eq: "(if \<not> IsRMRReady (client j) then f client (Suc j) else Some (client j)) = Some r"
  show "\<exists>i. first_stop (rmr_stop client) j i r"
  proof (cases "IsRMRReady (client j)")
    case False
    then have "f client (Suc j) = Some r" using eq by simp
    from IH [OF this] obtain i where "first_stop (rmr_stop client) (Suc j) i r" by (elim exE)
    then have "first_stop (rmr_stop client) j i r"
      using False by (simp add: first_stop_later rmr_stop_def)
    then show ?thesis by (intro exI)
  next
    case True
    then have "first_stop (rmr_stop client) j j r" using eq by (simp add: first_stop_here rmr_stop_def)
    then show ?thesis by (intro exI)
  qed
qed

interpretation waiting: polling "wait_rmr client" "rmr_stop client" for client
proof
  show "wait_rmr client k =
      (case rmr_stop client k of None \<Rightarrow> wait_rmr client (Suc k) | Some r \<Rightarrow> Some r)" for k
    by (subst wait_rmr.simps) (simp add: rmr_stop_def)
qed (rule wait_rmr_returned)

text \<open>The wait for a new client ends exactly when its goroutine connects it, and gives that client.\<close>

lemma wait_for_new_client:
  "wait_rmr (NewAlarmClient e moid appid) 0 =
     (case InitRMR (lib e) (InitAlarm (lib e) moid appid) of
        Some (r, None) \<Rightarrow> Some r | _ \<Rightarrow> None)"
proof -
  let ?client = "NewAlarmClient e moid appid"
  let ?init = "InitAlarm (lib e) moid appid"
  have unready: "\<not> libReady ?init" by (simp add: InitAlarm_def Let_def)
  have view: "?client j = (if j < init_round e then ?init
      else case InitRMR (lib e) ?init of Some (r, _) \<Rightarrow> r | None \<Rightarrow> ?init)" for j
    by (simp add: NewAlarmClient_def Let_def)
  show ?thesis
  proof (cases "\<exists>r. InitRMR (lib e) ?init = Some (r, None)")
    case True
    then obtain r where r: "InitRMR (lib e) ?init = Some (r, None)" ..
    then have "libReady r"
      by (auto simp: InitRMR_def rmrInit_cases split: option.splits if_splits)
    then have "first_stop (rmr_stop ?client) 0 (init_round e) r"
      using unready r by (auto simp: first_stop_def rmr_stop_def view IsRMRReady_def)
    then show ?thesis using waiting.returns r by simp
  next
    case False
    then have "\<not> libReady (?client j)" for j
      using unready by (auto simp: view InitRMR_def rmrInit_cases split: option.splits if_splits)
    then have "wait_rmr ?client 0 = None"
      by (simp add: waiting.never rmr_stop_def IsRMRReady_def)
    with False show ?thesis by (auto split: option.splits)
  qed
qed

text \<open>A command over RMR hands the alarm to the library once the client is connected.\<close>

lemma postAlarmWithRmrIf_raise:
  "postAlarmWithRmrIf e a AlarmActionRaise None c =
     (case InitRMR (lib e) (InitAlarm (lib e) ''my-pod'' ''my-app'') of
        Some (r, None) \<Rightarrow>
          (case Raise (lib e) (sends c) (now_at e (readings c)) r a of
             (k, tr, _) \<Rightarrow> Some (emit (map Sent tr) (c\<lparr>sends := k, readings := Suc (readings c)\<rparr>)))
      | _ \<Rightarrow> None)"
  by (simp add: postAlarmWithRmrIf_def wait_for_new_client Let_def split: option.split prod.split)

end
