(* ===== verification/Cli_Perf.thy ===== *)
theory Cli_Perf
  imports Cli "HOL-Library.Multiset"
begin

text \<open>
  The performance test of the command line tool (\<open>cli/alarm-cli.go\<close>): reading and posting its
  definitions, reading its alarms, starting one worker goroutine per alarm, and the workers,
  which post raises and clears of their alarm as timer goroutines tell them through a channel of
  capacity one.  Failures go to the caller as an error string.
\<close>

definition RaiseMsg :: string where "RaiseMsg = ''RAISE''"
definition ClearMsg :: string where "ClearMsg = ''CLEAR''"
definition EndMsg :: string where "EndMsg = ''END''"
definition PeakTestDuration :: go_int where "PeakTestDuration = 60"
definition OneSecondDuration :: go_int where "OneSecondDuration = 1"

section \<open>Definitions and alarms of the test\<close>

fun store_objects :: "Alarm option list \<Rightarrow> Cli \<Rightarrow> (unit, Cli) result" where
  "store_objects [] c = Ok () c"
| "store_objects (None # rest) c = Panic NilDeref c"
| "store_objects (Some alarmObject # rest) c =
     (let ricAlarmObject =
        \<lparr>ManagedObjectId = ManagedObjectId alarmObject, ApplicationId = ApplicationId alarmObject,
         SpecificProblem = SpecificProblem alarmObject,
         PerceivedSeverity = PerceivedSeverity alarmObject,
         IdentifyingInfo = IdentifyingInfo alarmObject, AdditionalInfo = AdditionalInfo alarmObject\<rparr>
      in store_objects rest
           (c\<lparr>CLIPerfAlarmObjects :=
               (CLIPerfAlarmObjects c)(SpecificProblem alarmObject \<mapsto> ricAlarmObject)\<rparr>))"

definition readPerfAlarmObjectFromJson :: "CliEnv \<Rightarrow> Cli \<Rightarrow> (string option, Cli) result" where
  "readPerfAlarmObjectFromJson e c =
     (let filename = getenv (lib e) ''PERF_OBJ_FILE'';
          c1 = emit [Println (''readPerfAlarmObjectFromJson: filename = '' @ filename)] c;
          malformed = (\<lambda>err c. Ok (Some err) (emit [Println
            (''readPerfAlarmObjectFromJson: json.Unmarshal failed with error:  '' @ err)] c))
      in case read_file e filename of
        NoFile err \<Rightarrow>
          Ok (Some err) (emit
            [Println (''readPerfAlarmObjectFromJson: ioutil.ReadFile failed with error: '' @ err @
               '', filename: '' @ filename),
             Println (''readPerfAlarmObjectFromJson: current directory: '' @ working_directory e)] c1)
      | BadJson err \<Rightarrow> malformed err c1
      | JsonFile v \<Rightarrow>
          (case dec_struct RicPerfAlarmObjects_fields v \<lparr>AlarmObjects = []\<rparr> of
             (_, False) \<Rightarrow> malformed (unmarshal_error e v) c1
           | (objects, True) \<Rightarrow>
               bindR (store_objects (AlarmObjects objects) c1) (\<lambda>_ c2. Ok None c2)))"

fun collect_definitions :: "AlarmDefinition option list \<Rightarrow> Cli \<Rightarrow> (unit, Cli) result" where
  "collect_definitions [] c = Ok () c"
| "collect_definitions (None # rest) c = Panic NilDeref c"
| "collect_definitions (Some alarmDefinition # rest) c =
     (case known_definitions c (AlarmId alarmDefinition) of
        Some _ \<Rightarrow>
          collect_definitions rest (emit [Println
            (''ReadPerfAlarmDefinitionFromJson: alarm definition already exists for  '' @
             Sprint_d (AlarmId alarmDefinition))] c)
      | None \<Rightarrow>
          (let ricAlarmDefintion =
             \<lparr>AlarmId = AlarmId alarmDefinition, AlarmText = AlarmText alarmDefinition,
              EventType = EventType alarmDefinition,
              OperationInstructions = OperationInstructions alarmDefinition,
              RaiseDelay = RaiseDelay alarmDefinition, ClearDelay = ClearDelay alarmDefinition,
              TimeToLive = 0\<rparr>;
             c1 = emit [Println (''ReadPerfAlarmDefinitionFromJson: alarm  '' @
                    Sprint_d (AlarmId alarmDefinition))] c
           in collect_definitions rest (c1\<lparr>CliPerfAlarmDefinitions :=
                \<lparr>AlarmDefinitions =
                  AlarmDefinitions (CliPerfAlarmDefinitions c) @ [Some ricAlarmDefintion]\<rparr>\<rparr>)))"

definition readPerfAlarmDefinitionFromJson :: "CliEnv \<Rightarrow> Cli \<Rightarrow> (string option, Cli) result" where
  "readPerfAlarmDefinitionFromJson e c =
     (let filename = getenv (lib e) ''PERF_DEF_FILE'';
          c1 = emit [Println (''ReadPerfAlarmDefinitionFromJson: filename = '' @ filename)] c;
          malformed = (\<lambda>err c. Ok (Some err) (emit [Println
            (''ReadPerfAlarmDefinitionFromJson: json.Unmarshal failed with error:  '' @ err)] c))
      in case read_file e filename of
        NoFile err \<Rightarrow>
          Ok (Some err) (emit
            [Println (''ReadPerfAlarmDefinitionFromJson: ioutil.ReadFile failed with error: '' @ err @
               '', filename: '' @ filename),
             Println (''ReadPerfAlarmDefinitionFromJson: current directory: '' @
               working_directory e)] c1)
      | BadJson err \<Rightarrow> malformed err c1
      | JsonFile v \<Rightarrow>
          (case dec_struct RicAlarmDefinitions_fields v \<lparr>AlarmDefinitions = []\<rparr> of
             (_, False) \<Rightarrow> malformed (unmarshal_error e v) c1
           | (definitions, True) \<Rightarrow>
               bindR (collect_definitions (AlarmDefinitions definitions) c1) (\<lambda>_ c2. Ok None c2)))"

definition sendPerfAlarmDefinitionToAlarmManager ::
  "CliEnv \<Rightarrow> string \<Rightarrow> Cli \<Rightarrow> string option \<times> Cli" where
  "sendPerfAlarmDefinitionToAlarmManager e targetUrl c =
     (let jsonData = enc_RicAlarmDefinitions (CliPerfAlarmDefinitions c);
          c1 = emit [Post targetUrl jsonData] c
      in case http_post (lib e) targetUrl jsonData of
        Some err \<Rightarrow>
          (Some err, emit [Println (''sendPerfAlarmDefinitionToAlarmManager: '' @
             ''Couldn't post alarm definition to targeturl due to error:  '' @ targetUrl @ '' '' @ err)] c1)
      | None \<Rightarrow> (None, c1))"

section \<open>Starting the workers\<close>

definition Sprint_Alarm :: "Alarm \<Rightarrow> string" where
  "Sprint_Alarm a =
     ''{'' @ ManagedObjectId a @ '' '' @ ApplicationId a @ '' '' @ Sprint_d (SpecificProblem a) @
     '' '' @ PerceivedSeverity a @ '' '' @ IdentifyingInfo a @ '' '' @ AdditionalInfo a @ ''}''"

text \<open>
  The loop of both tests over the alarms, in the order the runtime gives the map's entries:
  \<open>limit\<close> is the flag, the first component of the result the alarms that get a worker.
\<close>

fun start_workers ::
  "string \<Rightarrow> go_int \<Rightarrow> go_int \<Rightarrow> (go_int \<times> Alarm) list \<Rightarrow> Cli \<Rightarrow> Alarm list \<times> Cli" where
  "start_workers test limit cnt [] c = ([], c)"
| "start_workers test limit cnt ((aid, obj) # rest) c =
     (if cnt + 1 <=s limit
      then case start_workers test limit (cnt + 1) rest
             (emit [Println (test @ '': invoking worker routine  '' @ Sprint_d (cnt + 1) @ '' '' @
                Sprint_d aid @ '' '' @ Sprint_Alarm obj)] c) of
             (started, c1) \<Rightarrow> (obj # started, c1)
      else ([], c))"

text \<open>Up to \<open>wg.Wait\<close>, which returns when every worker has.\<close>

definition peakPerformanceTest ::
  "Flags \<Rightarrow> (go_int \<times> Alarm) list \<Rightarrow> Cli \<Rightarrow> Alarm list \<times> Cli" where
  "peakPerformanceTest flags objs c =
     (case start_workers ''peakPerformanceTest'' (GetInt flags ''nal'') 0 objs c of
        (started, c1) \<Rightarrow>
          (started, emit [Println ''peakPerformanceTest: Waiting for workers to finish''] c1))"

definition enduranceTest :: "Flags \<Rightarrow> (go_int \<times> Alarm) list \<Rightarrow> Cli \<Rightarrow> Alarm list \<times> Cli" where
  "enduranceTest flags objs c =
     (case start_workers ''enduranceTest'' (GetInt flags ''aps'') 0 objs c of
        (started, c1) \<Rightarrow>
          (started, emit [Println ''enduranceTest: Waiting for workers to finish''] c1))"

datatype workers = NoWorkers | OnceWorkers "Alarm list" | PeriodWorkers "Alarm list"

text \<open>\<open>entries m\<close> is the order in which a range visits the map \<open>m\<close>.\<close>

definition conductperformancetest ::
  "CliEnv \<Rightarrow> ((go_int \<rightharpoonup> Alarm) \<Rightarrow> (go_int \<times> Alarm) list) \<Rightarrow> Flags \<Rightarrow> Cli \<Rightarrow> (workers, Cli) result"
where
  "conductperformancetest e entries flags c =
     (let targetUrl = manager_url flags ''/ric/v1/alarms/define'' in
      bindR (readPerfAlarmDefinitionFromJson e c) (\<lambda>readerror c1.
        if readerror \<noteq> None
        then Ok NoWorkers
          (emit [Println ''reading performance alarm definitions from json file failed ''] c1)
        else case sendPerfAlarmDefinitionToAlarmManager e targetUrl c1 of
          (Some senderror, c2) \<Rightarrow>
            Ok NoWorkers
              (emit [Println ''sending performance alarm definitions to alarm manager failed ''] c2)
        | (None, c2) \<Rightarrow>
            bindR (readPerfAlarmObjectFromJson e
                (emit [Println ''sent performance alarm definitions to alarm manager''] c2
                  \<lparr>CLIPerfAlarmObjects := Map.empty\<rparr>)) (\<lambda>readobjerror c3.
              if readobjerror \<noteq> None
              then Ok NoWorkers
                (emit [Println ''reading performance alarm objects from json file failed ''] c3)
              else
                let profile = GetInt flags ''prf'';
                    objs = entries (CLIPerfAlarmObjects c3)
                in if profile = 1
                   then case peakPerformanceTest flags objs
                          (emit [Println ''starting peak performance test''] c3) of
                          (started, c4) \<Rightarrow> Ok (OnceWorkers started) c4
                   else if profile = 2
                   then case enduranceTest flags objs
                          (emit [Println ''starting endurance test''] c3) of
                          (started, c4) \<Rightarrow> Ok (PeriodWorkers started) c4
                   else Ok NoWorkers (emit
                     [Println (''Unknown profile, received profile =  '' @ Sprint_d profile)] c3))))"

section \<open>A worker\<close>

text \<open>
  \<open>asleep\<close> holds the timer goroutines in their sleep, with its length in seconds, \<open>sending\<close> those
  past it that have yet to put their message into the channel \<open>chn\<close>.
\<close>

record Worker =
  asleep :: "(go_int \<times> string) multiset"
  sending :: "string multiset"
  chn :: "string list"
  running :: bool

definition wakeUpAfterTime :: "go_int \<Rightarrow> string \<Rightarrow> Worker \<Rightarrow> Worker" where
  "wakeUpAfterTime timeinseconds action wk =
     wk\<lparr>asleep := add_mset (timeinseconds, action) (asleep wk)\<rparr>"

definition idle_worker :: Worker where
  "idle_worker = \<lparr>asleep = {#}, sending = {#}, chn = [], running = True\<rparr>"

definition worker_client :: "CliEnv \<Rightarrow> Flags \<Rightarrow> AlarmClient option" where
  "worker_client e flags =
     (if GetString flags ''if'' = ''rmr'' then Some (NewAlarmClient e ''my-pod'' ''my-app'') else None)"

text \<open>Each worker up to its \<open>select\<close>, and what it does with what it receives there.\<close>

definition raiseClearAlarmOnce ::
  "CliEnv \<Rightarrow> Flags \<Rightarrow> Alarm \<Rightarrow> Cli \<Rightarrow> (Cli \<times> Worker) option" where
  "raiseClearAlarmOnce e flags alarmobject c =
     map_option (\<lambda>c1. (c1, wakeUpAfterTime PeakTestDuration ClearMsg idle_worker))
       (postAlarm e flags alarmobject AlarmActionRaise (worker_client e flags) c)"

definition once_receive ::
  "CliEnv \<Rightarrow> Flags \<Rightarrow> Alarm \<Rightarrow> string \<Rightarrow> Cli \<times> Worker \<Rightarrow> (Cli \<times> Worker) option" where
  "once_receive e flags alarmobject res cw =
     (case cw of (c, wk) \<Rightarrow>
        if res = ClearMsg
        then map_option
          (\<lambda>c1. (c1, (wakeUpAfterTime PeakTestDuration EndMsg wk)\<lparr>running := False\<rparr>))
          (postAlarm e flags alarmobject AlarmActionClear (worker_client e flags) c)
        else Some (c, wk\<lparr>running := False\<rparr>))"

definition raiseClearAlarmOverPeriod ::
  "CliEnv \<Rightarrow> Flags \<Rightarrow> Alarm \<Rightarrow> Cli \<Rightarrow> (Cli \<times> Worker) option" where
  "raiseClearAlarmOverPeriod e flags alarmobject c =
     (let timeinseconds = GetInt flags ''tim'' * 60 in
      map_option
        (\<lambda>c1. (c1, wakeUpAfterTime timeinseconds EndMsg
                 (wakeUpAfterTime OneSecondDuration ClearMsg idle_worker)))
        (postAlarm e flags alarmobject AlarmActionRaise (worker_client e flags) c))"

definition period_receive ::
  "CliEnv \<Rightarrow> Flags \<Rightarrow> Alarm \<Rightarrow> string \<Rightarrow> Cli \<times> Worker \<Rightarrow> (Cli \<times> Worker) option" where
  "period_receive e flags alarmobject res cw =
     (case cw of (c, wk) \<Rightarrow>
        if res = RaiseMsg
        then map_option (\<lambda>c1. (c1, wakeUpAfterTime OneSecondDuration ClearMsg wk))
          (postAlarm e flags alarmobject AlarmActionRaise (worker_client e flags) c)
        else if res = ClearMsg
        then map_option (\<lambda>c1. (c1, wakeUpAfterTime OneSecondDuration RaiseMsg wk))
          (postAlarm e flags alarmobject AlarmActionClear (worker_client e flags) c)
        else if res = EndMsg then Some (c, wk\<lparr>running := False\<rparr>)
        else Some (c, wk))"

text \<open>
  A worker and its timers: a sleep ends, a timer's send succeeds when the channel has room, the
  worker takes the message and acts on it.  Sleeps end in any order, which allows at least what
  the durations allow.
\<close>

inductive worker_step ::
  "(string \<Rightarrow> Cli \<times> Worker \<Rightarrow> (Cli \<times> Worker) option) \<Rightarrow> Cli \<times> Worker \<Rightarrow> Cli \<times> Worker \<Rightarrow> bool"
  for receive where
  wake: "asleep wk = add_mset (d, a) timers \<Longrightarrow>
    worker_step receive (c, wk) (c, wk\<lparr>asleep := timers, sending := add_mset a (sending wk)\<rparr>)"
| send: "sending wk = add_mset a others \<Longrightarrow> length (chn wk) < 1 \<Longrightarrow>
    worker_step receive (c, wk) (c, wk\<lparr>sending := others, chn := chn wk @ [a]\<rparr>)"
| recv: "running wk \<Longrightarrow> chn wk = res # rest \<Longrightarrow> receive res (c, wk\<lparr>chn := rest\<rparr>) = Some cw \<Longrightarrow>
    worker_step receive (c, wk) cw"

inductive worker_run ::
  "(string \<Rightarrow> Cli \<times> Worker \<Rightarrow> (Cli \<times> Worker) option) \<Rightarrow> Cli \<times> Worker \<Rightarrow> Cli \<times> Worker \<Rightarrow> bool"
  for receive s where
  initial: "worker_run receive s s"
| step: "worker_run receive s s1 \<Longrightarrow> worker_step receive s1 s2 \<Longrightarrow> worker_run receive s s2"

end
