(* ===== verification/Cli_Commands.thy ===== *)
theory Cli_Commands
  imports Cli_Perf
begin

text \<open>
  The commands of the command line tool (\<open>cli/alarm-cli.go\<close>): their names, flags with types and
  defaults, and actions, as \<open>main\<close> registers them, and the run of an action.  Help texts are left
  out.
\<close>

datatype flag_type = StringFlag | IntFlag | BoolFlag
datatype flag_default = Required | DefaultString string | DefaultInt go_int | DefaultBool bool

datatype action =
  DisplayActive | DisplayHistory | RaiseAction | ClearAction | ConfigureAction | DefineAction
| UndefineAction | PerfAction | AlertsAction

type_synonym command = "string \<times> (string \<times> flag_type \<times> flag_default) list \<times> action"

definition address_flags :: "string \<Rightarrow> string \<Rightarrow> (string \<times> flag_type \<times> flag_default) list" where
  "address_flags host port =
     [(''host'', StringFlag, DefaultString host), (''port'', StringFlag, DefaultString port)]"

definition registerActiveCmd :: "string \<Rightarrow> command" where
  "registerActiveCmd alarmManagerHost =
     (''active'', address_flags alarmManagerHost ''8080'', DisplayActive)"

definition registerHistoryCmd :: "string \<Rightarrow> command" where
  "registerHistoryCmd alarmManagerHost =
     (''history'', address_flags alarmManagerHost ''8080'', DisplayHistory)"

definition registerRaiseCmd :: "string \<Rightarrow> command" where
  "registerRaiseCmd alarmManagerHost =
     (''raise'',
      [(''moid'', StringFlag, Required), (''apid'', StringFlag, Required),
       (''sp'', IntFlag, Required), (''severity'', StringFlag, Required),
       (''iinfo'', StringFlag, Required), (''aai'', StringFlag, DefaultString ''-'')] @
      address_flags alarmManagerHost ''8080'' @ [(''if'', StringFlag, DefaultString ''http'')],
      RaiseAction)"

definition registerClearCmd :: "string \<Rightarrow> command" where
  "registerClearCmd alarmManagerHost =
     (''clear'',
      [(''moid'', StringFlag, Required), (''apid'', StringFlag, Required),
       (''sp'', IntFlag, Required), (''iinfo'', StringFlag, Required)] @
      address_flags alarmManagerHost ''8080'' @ [(''if'', StringFlag, DefaultString ''http'')],
      ClearAction)"

definition registerConfigureCmd :: "string \<Rightarrow> command" where
  "registerConfigureCmd alarmManagerHost =
     (''configure'',
      [(''mal'', IntFlag, Required), (''mah'', IntFlag, Required)] @
      address_flags alarmManagerHost ''8080'', ConfigureAction)"

definition registerDefineCmd :: "string \<Rightarrow> command" where
  "registerDefineCmd alarmManagerHost =
     (''define'',
      [(''aid'', IntFlag, Required), (''atx'', StringFlag, Required),
       (''ety'', StringFlag, Required), (''oin'', StringFlag, Required),
       (''rad'', IntFlag, DefaultInt 0), (''cad'', IntFlag, DefaultInt 0)] @
      address_flags alarmManagerHost ''8080'', DefineAction)"

definition registerUndefineCmd :: "string \<Rightarrow> command" where
  "registerUndefineCmd alarmManagerHost =
     (''undefine'', [(''aid'', IntFlag, Required)] @ address_flags alarmManagerHost ''8080'',
      UndefineAction)"

definition registerPerfCmd :: "string \<Rightarrow> command" where
  "registerPerfCmd alarmManagerHost =
     (''perf'',
      [(''prf'', IntFlag, Required), (''nal'', IntFlag, Required), (''aps'', IntFlag, Required),
       (''tim'', IntFlag, Required)] @
      address_flags alarmManagerHost ''8080'' @ [(''if'', StringFlag, DefaultString ''http'')],
      PerfAction)"

definition registerAlertCmd :: "string \<Rightarrow> command" where
  "registerAlertCmd alertManagerHost =
     (''alerts'',
      [(''active'', BoolFlag, DefaultBool True), (''inhibited'', BoolFlag, DefaultBool True),
       (''silenced'', BoolFlag, DefaultBool True), (''unprocessed'', BoolFlag, DefaultBool True)] @
      address_flags alertManagerHost ''9093'', AlertsAction)"

definition main :: "(string \<Rightarrow> string) \<Rightarrow> command list" where
  "main env =
     (let alarmManagerHost =
            (if env ''ALARM_MANAGER_HOST'' \<noteq> [] then env ''ALARM_MANAGER_HOST'' else ''localhost'');
          alertManagerHost =
            (if env ''ALERT_MANAGER_HOST'' \<noteq> [] then env ''ALERT_MANAGER_HOST'' else ''localhost'')
      in [registerActiveCmd alarmManagerHost, registerHistoryCmd alarmManagerHost,
          registerRaiseCmd alarmManagerHost, registerClearCmd alarmManagerHost,
          registerDefineCmd alarmManagerHost, registerUndefineCmd alarmManagerHost,
          registerConfigureCmd alarmManagerHost, registerPerfCmd alarmManagerHost,
          registerAlertCmd alertManagerHost])"

text \<open>
  The action of a command; of the performance test, the part up to the wait for its workers.
\<close>

fun run_action ::
  "CliEnv \<Rightarrow> ((go_int \<rightharpoonup> Alarm) \<Rightarrow> (go_int \<times> Alarm) list) \<Rightarrow> action \<Rightarrow> Flags \<Rightarrow> Cli \<Rightarrow>
     (workers, Cli) result option"
where
  "run_action e entries DisplayActive flags c =
     (case getAlarms e flags ''active'' c of
        (alarms, c1) \<Rightarrow> Some (Ok NoWorkers (displayAlarms e alarms False c1)))"
| "run_action e entries DisplayHistory flags c =
     (case getAlarms e flags ''history'' c of
        (alarms, c1) \<Rightarrow> Some (Ok NoWorkers (displayAlarms e alarms True c1)))"
| "run_action e entries RaiseAction flags c =
     map_option (Ok NoWorkers)
       (postAlarm e flags (readAlarmParams flags False) AlarmActionRaise None c)"
| "run_action e entries ClearAction flags c =
     map_option (Ok NoWorkers)
       (postAlarm e flags (readAlarmParams flags True) AlarmActionClear None c)"
| "run_action e entries ConfigureAction flags c = Some (Ok NoWorkers (postAlarmConfig e flags c))"
| "run_action e entries DefineAction flags c = Some (Ok NoWorkers (postAlarmDefinition e flags c))"
| "run_action e entries UndefineAction flags c =
     Some (Ok NoWorkers (deleteAlarmDefinition e flags c))"
| "run_action e entries PerfAction flags c = Some (conductperformancetest e entries flags c)"
| "run_action e entries AlertsAction flags c =
     Some (bindR (displayAlerts e flags c) (\<lambda>_. Ok NoWorkers))"

section \<open>Every flag that is read is registered\<close>

definition agree :: "Flags \<Rightarrow> Flags \<Rightarrow> string \<times> flag_type \<times> flag_default \<Rightarrow> bool" where
  "agree flags flags' f =
     (case f of
        (name, StringFlag, _) \<Rightarrow> GetString flags name = GetString flags' name
      | (name, IntFlag, _) \<Rightarrow> GetInt flags name = GetInt flags' name
      | (name, BoolFlag, _) \<Rightarrow> GetBool flags name = GetBool flags' name)"

lemma agree_simps [simp]:
  "agree flags flags' (name, StringFlag, d) \<longleftrightarrow> GetString flags name = GetString flags' name"
  "agree flags flags' (name, IntFlag, d) \<longleftrightarrow> GetInt flags name = GetInt flags' name"
  "agree flags flags' (name, BoolFlag, d) \<longleftrightarrow> GetBool flags name = GetBool flags' name"
  by (simp_all add: agree_def)

lemmas register_defs =
  registerActiveCmd_def registerHistoryCmd_def registerRaiseCmd_def registerClearCmd_def
  registerConfigureCmd_def registerDefineCmd_def registerUndefineCmd_def registerPerfCmd_def
  registerAlertCmd_def address_flags_def

text \<open>What each operation depends on.\<close>

lemma postAlarm_agree:
  assumes "GetString flags ''if'' = GetString flags' ''if''" "\<And>p. manager_url flags p = manager_url flags' p"
  shows "postAlarm e flags a act client c = postAlarm e flags' a act client c"
    and "worker_client e flags = worker_client e flags'"
  using assms by (simp_all add: postAlarm_def worker_client_def)

lemma workers_agree:
  assumes "GetString flags ''if'' = GetString flags' ''if''" "\<And>p. manager_url flags p = manager_url flags' p"
  shows "raiseClearAlarmOnce e flags = raiseClearAlarmOnce e flags'"
    and "once_receive e flags = once_receive e flags'"
    and "period_receive e flags = period_receive e flags'"
    and "GetInt flags ''tim'' = GetInt flags' ''tim'' \<Longrightarrow>
      raiseClearAlarmOverPeriod e flags = raiseClearAlarmOverPeriod e flags'"
  by (simp_all only: fun_eq_iff raiseClearAlarmOnce_def once_receive_def period_receive_def
      raiseClearAlarmOverPeriod_def postAlarm_agree [OF assms] simp_thms)

lemma conductperformancetest_agree:
  assumes "\<And>p. manager_url flags p = manager_url flags' p"
    "GetInt flags ''prf'' = GetInt flags' ''prf''" "GetInt flags ''nal'' = GetInt flags' ''nal''"
    "GetInt flags ''aps'' = GetInt flags' ''aps''"
  shows "conductperformancetest e entries flags c = conductperformancetest e entries flags' c"
proof -
  have "peakPerformanceTest flags = peakPerformanceTest flags'"
    "enduranceTest flags = enduranceTest flags'"
    by (simp_all add: fun_eq_iff peakPerformanceTest_def enduranceTest_def assms(3,4))
  then show ?thesis unfolding conductperformancetest_def assms(1,2) by (simp only:)
qed

text \<open>C37: Every command reads only flags registered for it, at the type they are registered with:
  two command lines that agree on those have the same effect, the workers of the performance
  test included.\<close>
theorem actions_read_registered_flags:
  assumes "(name, fs, act) \<in> set (main env)" "\<forall>f\<in>set fs. agree flags flags' f"
  shows "run_action e entries act flags c = run_action e entries act flags' c \<and>
    (act = PerfAction \<longrightarrow>
       raiseClearAlarmOnce e flags = raiseClearAlarmOnce e flags' \<and>
       once_receive e flags = once_receive e flags' \<and>
       raiseClearAlarmOverPeriod e flags = raiseClearAlarmOverPeriod e flags' \<and>
       period_receive e flags = period_receive e flags')"
proof -
  have url: "manager_url flags path = manager_url flags' path" for path
    using assms unfolding main_def register_defs
    by (auto simp: Let_def manager_url_def)
  show ?thesis
    using assms unfolding main_def register_defs
    by (auto simp: Let_def url workers_agree [OF _ url] postAlarm_agree [OF _ url]
        conductperformancetest_agree [OF url] readAlarmParams_def getAlarms_def
        postAlarmConfig_def postAlarmDefinition_def deleteAlarmDefinition_def displayAlerts_def
        getAlerts_def cong: if_cong)
qed

theorem actions_read_registered_flags_witness:
  "\<forall>e entries c. run_action e entries UndefineAction
      \<lparr>GetString = (\<lambda>n. if n = ''host'' \<or> n = ''port'' then ''x'' else ''y''), GetInt = (\<lambda>_. 1), GetBool = (\<lambda>_. True)\<rparr> c =
   run_action e entries UndefineAction
      \<lparr>GetString = (\<lambda>_. ''x''), GetInt = (\<lambda>n. if n = ''aid'' then 1 else 0), GetBool = (\<lambda>_. False)\<rparr> c"
proof -
  let ?f = "\<lparr>GetString = (\<lambda>n. if n = ''host'' \<or> n = ''port'' then ''x'' else ''y''), GetInt = (\<lambda>_. 1), GetBool = (\<lambda>_. True)\<rparr>"
  let ?g = "\<lparr>GetString = (\<lambda>_. ''x''), GetInt = (\<lambda>n. if n = ''aid'' then 1 else 0), GetBool = (\<lambda>_. False)\<rparr>"
  obtain fs where fs: "(''undefine'', fs, UndefineAction) \<in> set (main (\<lambda>_. []))"
    "\<forall>f\<in>set fs. agree ?f ?g f"
    by (simp add: main_def register_defs Let_def)
  from actions_read_registered_flags [OF this] show ?thesis by blast
qed

end
