(* ===== verification/Cli_Perf_Spec.thy ===== *)
theory Cli_Perf_Spec
  imports Cli_Commands
begin

text \<open>
  What the workers of the performance test do: which alarms get one, and that a worker posts
  raises and clears of its alarm in turn, however its timers are scheduled.
\<close>

section \<open>Posts\<close>

fun posts_in :: "effect list \<Rightarrow> (string \<times> json) list" where
  "posts_in [] = []"
| "posts_in (Post url v # xs) = (url, v) # posts_in xs"
| "posts_in (x # xs) = posts_in xs"

lemma posts_in_append [simp]: "posts_in (xs @ ys) = posts_in xs @ posts_in ys"
  by (induction xs rule: posts_in.induct) simp_all

definition alarm_post :: "Flags \<Rightarrow> Alarm \<Rightarrow> alarm_action \<Rightarrow> string \<times> json" where
  "alarm_post flags a act = (manager_url flags ''/ric/v1/alarms'',
     enc_AlarmMessage \<lparr>msgAlarm = a, AlarmAction = act, AlarmTime = 0\<rparr>)"

lemma postAlarm_http:
  assumes "GetString flags ''if'' \<noteq> ''rmr''"
  obtains c' where "postAlarm e flags a act client c = Some c'"
    "posts_in (trace c') = posts_in (trace c) @ [alarm_post flags a act]"
proof -
  have "\<exists>c'. postAlarm e flags a act client c = Some c' \<and>
      posts_in (trace c') = posts_in (trace c) @ [alarm_post flags a act]"
    using assms
    by (simp add: postAlarm_def postAlarmWithHttpIf_def Let_def emit_def alarm_post_def split: option.split)
  then show thesis using that by blast
qed

text \<open>The first \<open>n\<close> posts of a worker.\<close>

definition worker_posts :: "Flags \<Rightarrow> Alarm \<Rightarrow> nat \<Rightarrow> (string \<times> json) list" where
  "worker_posts flags a n =
     map (\<lambda>i. alarm_post flags a (if even i then AlarmActionRaise else AlarmActionClear)) [0..<n]"

lemma worker_posts_simps [simp]:
  "worker_posts flags a 0 = []"
  "worker_posts flags a (Suc n) = worker_posts flags a n @
     [alarm_post flags a (if even n then AlarmActionRaise else AlarmActionClear)]"
  by (simp_all add: worker_posts_def)

section \<open>Messages of a worker\<close>

definition messages :: "Worker \<Rightarrow> string multiset" where
  "messages wk = image_mset snd (asleep wk) + sending wk + mset (chn wk)"

lemma messages_simps [simp]:
  "messages (wakeUpAfterTime d a wk) = add_mset a (messages wk)"
  "messages (wk\<lparr>running := b\<rparr>) = messages wk"
  "messages idle_worker = {#}"
  "running (wakeUpAfterTime d a wk) = running wk"
  "chn (wakeUpAfterTime d a wk) = chn wk"
  "running idle_worker" "chn idle_worker = []"
  by (simp_all add: messages_def wakeUpAfterTime_def idle_worker_def)

lemma distinct_messages [simp]:
  "RaiseMsg \<noteq> ClearMsg" "ClearMsg \<noteq> RaiseMsg" "EndMsg \<noteq> RaiseMsg" "EndMsg \<noteq> ClearMsg"
  "RaiseMsg \<noteq> EndMsg" "ClearMsg \<noteq> EndMsg"
  by (simp_all add: RaiseMsg_def ClearMsg_def EndMsg_def)

text \<open>Timers only move messages; the channel holds at most one.\<close>

lemma worker_step_messages:
  assumes "worker_step receive (c, wk) (c', wk')" "length (chn wk) \<le> 1"
  shows "(c' = c \<and> messages wk' = messages wk \<and> running wk' = running wk \<and> length (chn wk') \<le> 1) \<or>
    (\<exists>res. running wk \<and> chn wk = [res] \<and> receive res (c, wk\<lparr>chn := []\<rparr>) = Some (c', wk') \<and>
       messages wk = add_mset res (messages (wk\<lparr>chn := []\<rparr>)))"
  using assms(1)
proof (cases rule: worker_step.cases)
  case (recv res rest)
  then show ?thesis using assms(2) by (simp add: messages_def)
qed (use assms(2) in \<open>simp_all add: messages_def\<close>)

text \<open>A message gets through: alone, or after the one that fills the channel has been taken.\<close>

lemma worker_run_step: "worker_step receive s t \<Longrightarrow> worker_run receive s t"
  using worker_run.initial worker_run.step by blast

lemma worker_run_trans: "worker_run receive t u \<Longrightarrow> worker_run receive s t \<Longrightarrow> worker_run receive s u"
  by (induction rule: worker_run.induct) (auto intro: worker_run.step)

lemma deliver:
  assumes "a \<in># messages wk" "chn wk = []"
  obtains wk' where "worker_run receive (c, wk) (c, wk')" "chn wk' = [a]"
    "messages wk' = messages wk" "running wk' = running wk"
proof -
  have sent: "\<exists>wk'. worker_run receive (c, wk) (c, wk') \<and> chn wk' = [a] \<and>
      messages wk' = messages wk \<and> running wk' = running wk"
    if in_sending: "a \<in># sending wk" "chn wk = []" for wk
  proof -
    let ?wk = "wk\<lparr>sending := sending wk - {#a#}, chn := [a]\<rparr>"
    have "sending wk = add_mset a (sending wk - {#a#})" using in_sending(1) by simp
    from worker_step.send [OF this, of receive c] in_sending(2)
    have "worker_run receive (c, wk) (c, ?wk)" by (simp add: worker_run_step)
    moreover have "messages ?wk = messages wk"
      using in_sending by (simp add: messages_def)
    ultimately show ?thesis by (intro exI [of _ ?wk]) simp
  qed
  have "\<exists>wk'. worker_run receive (c, wk) (c, wk') \<and> chn wk' = [a] \<and>
      messages wk' = messages wk \<and> running wk' = running wk"
  proof (cases "a \<in># sending wk")
    case False
    then obtain d where "(d, a) \<in># asleep wk" using assms by (auto simp: messages_def)
    then have eq: "asleep wk = add_mset (d, a) (asleep wk - {#(d, a)#})" by simp
    let ?wk = "wk\<lparr>asleep := asleep wk - {#(d, a)#}, sending := add_mset a (sending wk)\<rparr>"
    have first: "worker_run receive (c, wk) (c, ?wk)"
      by (rule worker_run_step) (rule worker_step.wake [OF eq])
    have "image_mset snd (asleep wk) = add_mset a (image_mset snd (asleep wk - {#(d, a)#}))"
      by (subst eq) simp
    then have "messages ?wk = messages wk" by (simp add: messages_def)
    with sent [of ?wk] assms(2) first show ?thesis by (auto intro: worker_run_trans)
  qed (use sent assms(2) in blast)
  then show thesis using that by blast
qed

text \<open>
  What a worker keeps, whatever the schedule, it has to keep only when it takes a message: \<open>I\<close>
  speaks of the process, of whether the worker still runs and of its messages under way.
\<close>

locale worker_invariant =
  fixes receive :: "string \<Rightarrow> Cli \<times> Worker \<Rightarrow> (Cli \<times> Worker) option"
    and I :: "Cli \<Rightarrow> bool \<Rightarrow> string multiset \<Rightarrow> bool"
  assumes taken: "I c True (add_mset res (messages wk)) \<Longrightarrow> running wk \<Longrightarrow> chn wk = [] \<Longrightarrow>
    \<exists>c' wk'. receive res (c, wk) = Some (c', wk') \<and> chn wk' = [] \<and> I c' (running wk') (messages wk')"
begin

definition holds :: "Cli \<times> Worker \<Rightarrow> bool" where
  "holds s \<longleftrightarrow> I (fst s) (running (snd s)) (messages (snd s)) \<and> length (chn (snd s)) \<le> 1"

lemma step: "worker_step receive s t \<Longrightarrow> holds s \<Longrightarrow> holds t"
proof -
  assume st: "worker_step receive s t" and h: "holds s"
  obtain c wk c' wk' where s: "s = (c, wk)" and t: "t = (c', wk')" by (cases s, cases t)
  from worker_step_messages [of receive c wk c' wk'] st h
  consider "c' = c" "messages wk' = messages wk" "running wk' = running wk" "length (chn wk') \<le> 1"
    | res where "running wk" "receive res (c, wk\<lparr>chn := []\<rparr>) = Some (c', wk')"
        "messages wk = add_mset res (messages (wk\<lparr>chn := []\<rparr>))"
    unfolding s t holds_def by auto
  then show "holds t"
  proof cases
    case 1
    then show ?thesis using h by (simp add: holds_def s t)
  next
    case 2
    then show ?thesis using h taken [of c res "wk\<lparr>chn := []\<rparr>"] by (simp add: holds_def s t)
  qed
qed

lemma run: "worker_run receive s t \<Longrightarrow> holds s \<Longrightarrow> holds t"
  by (induction rule: worker_run.induct) (auto intro: step)

text \<open>A message that fills the channel of a running worker is taken.\<close>

lemma take_message:
  assumes "holds (c, wk)" "running wk" "chn wk = [res]"
  obtains c' wk' where "receive res (c, wk\<lparr>chn := []\<rparr>) = Some (c', wk')" "chn wk' = []"
    "worker_run receive (c, wk) (c', wk')" "holds (c', wk')"
proof -
  have "messages wk = add_mset res (messages (wk\<lparr>chn := []\<rparr>))"
    using assms(3) by (simp add: messages_def)
  then obtain c' wk' where got: "receive res (c, wk\<lparr>chn := []\<rparr>) = Some (c', wk')" "chn wk' = []"
    using assms(1,2) taken [of c res "wk\<lparr>chn := []\<rparr>"] by (auto simp: holds_def)
  have "worker_run receive (c, wk) (c', wk')"
    using worker_step.recv [of wk res "[]" receive c, OF assms(2,3) got(1)] by (rule worker_run_step)
  with run assms(1) got that show thesis by blast
qed

end

section \<open>The two kinds of workers\<close>

text \<open>The message a worker waits for after \<open>n\<close> posts.\<close>

definition next_message :: "nat \<Rightarrow> string" where
  "next_message n = (if even n then RaiseMsg else ClearMsg)"

definition period_inv ::
  "Flags \<Rightarrow> Alarm \<Rightarrow> (string \<times> json) list \<Rightarrow> Cli \<Rightarrow> bool \<Rightarrow> string multiset \<Rightarrow> bool" where
  "period_inv flags a before c runs ms \<longleftrightarrow>
     GetString flags ''if'' \<noteq> ''rmr'' \<and>
     (\<exists>n\<ge>1. posts_in (trace c) = before @ worker_posts flags a n \<and>
        ms = add_mset (next_message n) (if runs then {#EndMsg#} else {#}))"

definition once_inv ::
  "Flags \<Rightarrow> Alarm \<Rightarrow> (string \<times> json) list \<Rightarrow> Cli \<Rightarrow> bool \<Rightarrow> string multiset \<Rightarrow> bool" where
  "once_inv flags a before c runs ms \<longleftrightarrow>
     GetString flags ''if'' \<noteq> ''rmr'' \<and>
     posts_in (trace c) = before @ worker_posts flags a (if runs then 1 else 2) \<and>
     ms = {#if runs then ClearMsg else EndMsg#}"

lemma next_message_Suc [simp]:
  "even n \<Longrightarrow> next_message n = RaiseMsg" "odd n \<Longrightarrow> next_message n = ClearMsg"
  by (simp_all add: next_message_def)

lemma next_message_not_End [simp]: "next_message n \<noteq> EndMsg"
  by (simp add: next_message_def)

interpretation period: worker_invariant "period_receive e flags a" "period_inv flags a before"
  for e flags a before
proof
  fix c res and wk :: Worker
  assume inv: "period_inv flags a before c True (add_mset res (messages wk))"
    and "running wk" and empty: "chn wk = []"
  then obtain n where n: "n \<ge> 1" "posts_in (trace c) = before @ worker_posts flags a n"
    and "add_mset res (messages wk) = {#next_message n, EndMsg#}"
    and http: "GetString flags ''if'' \<noteq> ''rmr''"
    by (auto simp: period_inv_def)
  then consider "res = EndMsg" "messages wk = {#next_message n#}"
    | "res = next_message n" "messages wk = {#EndMsg#}"
    by (auto simp: add_eq_conv_ex)
  then show "\<exists>c' wk'. period_receive e flags a res (c, wk) = Some (c', wk') \<and> chn wk' = [] \<and>
      period_inv flags a before c' (running wk') (messages wk')"
  proof cases
    case 1
    then show ?thesis using n http empty by (auto simp: period_receive_def period_inv_def)
  next
    case 2
    obtain c' where post: "postAlarm e flags a (if even n then AlarmActionRaise else AlarmActionClear)
          (worker_client e flags) c = Some c'"
        "posts_in (trace c') = posts_in (trace c) @
           [alarm_post flags a (if even n then AlarmActionRaise else AlarmActionClear)]"
      using postAlarm_http [OF http] .
    have "posts_in (trace c') = before @ worker_posts flags a (Suc n)" using post(2) n(2) by simp
    then show ?thesis
      using 2 post(1) http empty \<open>running wk\<close>
      by (cases "even n") (auto simp: period_receive_def period_inv_def intro!: exI [of _ "Suc n"])
  qed
qed

interpretation once: worker_invariant "once_receive e flags a" "once_inv flags a before"
  for e flags a before
proof
  fix c res and wk :: Worker
  assume inv: "once_inv flags a before c True (add_mset res (messages wk))"
    and "running wk" and empty: "chn wk = []"
  then have res: "res = ClearMsg" "messages wk = {#}" and http: "GetString flags ''if'' \<noteq> ''rmr''"
    by (auto simp: once_inv_def)
  obtain c' where post: "postAlarm e flags a AlarmActionClear (worker_client e flags) c = Some c'"
      "posts_in (trace c') = posts_in (trace c) @ [alarm_post flags a AlarmActionClear]"
    using postAlarm_http [OF http] .
  then show "\<exists>c' wk'. once_receive e flags a res (c, wk) = Some (c', wk') \<and> chn wk' = [] \<and>
      once_inv flags a before c' (running wk') (messages wk')"
    using res inv http empty by (auto simp: once_receive_def once_inv_def numeral_2_eq_2)
qed

lemma period_start:
  assumes "GetString flags ''if'' \<noteq> ''rmr''" "raiseClearAlarmOverPeriod e flags a c0 = Some s"
  shows "period.holds flags a (posts_in (trace c0)) s"
proof -
  obtain c' where "postAlarm e flags a AlarmActionRaise (worker_client e flags) c0 = Some c'"
      "posts_in (trace c') = posts_in (trace c0) @ [alarm_post flags a AlarmActionRaise]"
    using postAlarm_http [OF assms(1)] .
  then show ?thesis
    using assms by (auto simp: raiseClearAlarmOverPeriod_def Let_def period.holds_def period_inv_def
        intro!: exI [of _ 1])
qed

lemma once_start:
  assumes "GetString flags ''if'' \<noteq> ''rmr''" "raiseClearAlarmOnce e flags a c0 = Some s"
  shows "once.holds flags a (posts_in (trace c0)) s"
proof -
  obtain c' where "postAlarm e flags a AlarmActionRaise (worker_client e flags) c0 = Some c'"
      "posts_in (trace c') = posts_in (trace c0) @ [alarm_post flags a AlarmActionRaise]"
    using postAlarm_http [OF assms(1)] .
  then show ?thesis
    using assms by (auto simp: raiseClearAlarmOnce_def once.holds_def once_inv_def)
qed

text \<open>A running worker can come to its end.\<close>

lemma period_ends_from_empty:
  assumes "period.holds flags a before (c, wk)" "running wk" "chn wk = []"
  shows "\<exists>c' wk'. worker_run (period_receive e flags a) (c, wk) (c', wk') \<and> \<not> running wk'"
proof -
  have "EndMsg \<in># messages wk" using assms by (auto simp: period.holds_def period_inv_def)
  then obtain wk1 where w1: "worker_run (period_receive e flags a) (c, wk) (c, wk1)"
      "chn wk1 = [EndMsg]" "messages wk1 = messages wk" "running wk1 = running wk"
    using assms(3) by (rule deliver)
  have "running wk1" using w1(4) assms(2) by simp
  from period.take_message [of flags a before c wk1 EndMsg e, OF period.run [OF w1(1) assms(1)] this w1(2)]
  obtain c2 wk2 where w2: "period_receive e flags a EndMsg (c, wk1\<lparr>chn := []\<rparr>) = Some (c2, wk2)"
    "worker_run (period_receive e flags a) (c, wk1) (c2, wk2)" .
  then have "\<not> running wk2" by (auto simp: period_receive_def)
  then show ?thesis using worker_run_trans [OF w2(2) w1(1)] by blast
qed

lemma period_ends:
  assumes "period.holds flags a before (c, wk)" "running wk"
  shows "\<exists>c' wk'. worker_run (period_receive e flags a) (c, wk) (c', wk') \<and> \<not> running wk'"
proof (cases "chn wk")
  case Nil
  then show ?thesis using period_ends_from_empty assms by blast
next
  case (Cons res rest)
  then have "chn wk = [res]" using assms(1) by (simp add: period.holds_def)
  from period.take_message [OF assms this, of e]
  obtain c1 wk1 where w1: "chn wk1 = []"
    "worker_run (period_receive e flags a) (c, wk) (c1, wk1)" "period.holds flags a before (c1, wk1)" .
  then show ?thesis
    using period_ends_from_empty [of flags a before c1 wk1 e] worker_run_trans [OF _ w1(2)] by blast
qed

lemma once_ends:
  assumes "once.holds flags a before (c, wk)" "running wk"
  shows "\<exists>c' wk'. worker_run (once_receive e flags a) (c, wk) (c', wk') \<and> \<not> running wk'"
proof -
  have msgs: "messages wk = {#ClearMsg#}"
    using assms by (auto simp: once.holds_def once_inv_def)
  obtain wk1 where w1: "worker_run (once_receive e flags a) (c, wk) (c, wk1)"
    "chn wk1 = [ClearMsg]" "running wk1"
  proof (cases "chn wk")
    case Nil
    then show thesis using deliver [of ClearMsg wk "once_receive e flags a" c] msgs assms(2) that by auto
  next
    case (Cons res rest)
    then have "chn wk = [ClearMsg]" using msgs by (simp add: messages_def)
    then show thesis using that [of wk] assms(2) worker_run.initial by blast
  qed
  from once.take_message [OF once.run [OF w1(1) assms(1)] w1(3,2)]
  obtain c2 wk2 where w2: "once_receive e flags a ClearMsg (c, wk1\<lparr>chn := []\<rparr>) = Some (c2, wk2)"
    "worker_run (once_receive e flags a) (c, wk1) (c2, wk2)" .
  then have "\<not> running wk2" by (auto simp: once_receive_def)
  then show ?thesis using worker_run_trans [OF w2(2) w1(1)] by blast
qed

lemma worker_stopped:
  "worker_run receive s t \<Longrightarrow> \<not> running (snd s) \<Longrightarrow> fst t = fst s \<and> \<not> running (snd t)"
  by (induction rule: worker_run.induct) (auto elim!: worker_step.cases)



text \<open>The endurance test may end right after a raise and so leave its alarm active.\<close>

lemma endurance_may_end_raised:
  assumes "GetString flags ''if'' \<noteq> ''rmr''" "raiseClearAlarmOverPeriod e flags a c0 = Some (c, wk)"
  shows "\<exists>wk'. worker_run (period_receive e flags a) (c, wk) (c, wk') \<and> \<not> running wk' \<and>
    posts_in (trace c) = posts_in (trace c0) @ [alarm_post flags a AlarmActionRaise]"
proof -
  obtain c1 where "postAlarm e flags a AlarmActionRaise (worker_client e flags) c0 = Some c1"
      "posts_in (trace c1) = posts_in (trace c0) @ [alarm_post flags a AlarmActionRaise]"
    using postAlarm_http [OF assms(1)] .
  then have start: "EndMsg \<in># messages wk" "chn wk = []" "running wk"
      "posts_in (trace c) = posts_in (trace c0) @ [alarm_post flags a AlarmActionRaise]"
    using assms(2) by (auto simp: raiseClearAlarmOverPeriod_def Let_def)
  from start(1,2) obtain wk1 where w1: "worker_run (period_receive e flags a) (c, wk) (c, wk1)"
      "chn wk1 = [EndMsg]" "messages wk1 = messages wk" "running wk1 = running wk"
    by (rule deliver)
  let ?wk = "wk1\<lparr>chn := [], running := False\<rparr>"
  have "worker_step (period_receive e flags a) (c, wk1) (c, ?wk)"
    using w1(2,4) start(3) by (intro worker_step.recv) (auto simp: period_receive_def)
  then have "worker_run (period_receive e flags a) (c, wk) (c, ?wk)"
    using w1(1) by (rule worker_run.step [rotated])
  then show ?thesis using start(4) by auto
qed

section \<open>Samples\<close>

definition sample_cli_env :: CliEnv where
  "sample_cli_env =
     \<lparr>lib = rmr_env 0 None, http_get = (\<lambda>_. Body None), new_request = (\<lambda>_. None),
      http_delete = (\<lambda>_. None), query_alerts = (\<lambda>_. (Some [], None)),
      read_file = (\<lambda>_. BadJson ''x''), unmarshal_error = (\<lambda>_. ''x''), working_directory = ''/'',
      local_time = (\<lambda>_. ''t''), now_at = of_nat, init_round = 0\<rparr>"

definition sample_flags :: Flags where
  "sample_flags = \<lparr>GetString = (\<lambda>n. n), GetInt = (\<lambda>_. 1), GetBool = (\<lambda>_. True)\<rparr>"

lemma sample_flags_simps [simp]:
  "GetString sample_flags n = n" "GetInt sample_flags n = 1" "GetBool sample_flags n"
  by (simp_all add: sample_flags_def)

lemma sample_http: "GetString sample_flags ''if'' \<noteq> ''rmr''"
  by simp



section \<open>Which alarms get a worker\<close>

lemma emit_simps [simp]:
  "trace (emit xs c) = trace c @ xs"
  "CLIPerfAlarmObjects (emit xs c) = CLIPerfAlarmObjects c"
  "CliPerfAlarmDefinitions (emit xs c) = CliPerfAlarmDefinitions c"
  "known_definitions (emit xs c) = known_definitions c"
  by (simp_all add: emit_def)

lemma start_workers_take:
  "0 \<le> sint cnt \<Longrightarrow> sint cnt + int (length objs) < 2 ^ 63 \<Longrightarrow>
   fst (start_workers test limit cnt objs c) = map snd (take (nat (sint limit - sint cnt)) objs)"
proof (induction test limit cnt objs c rule: start_workers.induct)
  case (2 test limit cnt aid obj rest c)
  have inc: "sint (cnt + 1) = sint cnt + 1"
    using "2.prems" by (simp add: sint_plus64)
  show ?case
  proof (cases "cnt + 1 <=s limit")
    case True
    then have "nat (sint limit - sint cnt) = Suc (nat (sint limit - sint (cnt + 1)))"
      by (simp add: word_sle_eq inc)
    then show ?thesis
      using "2.IH" True "2.prems" by (simp add: inc case_prod_unfold)
  next
    case False
    then show ?thesis by (simp add: word_sle_eq inc)
  qed
qed simp

lemma start_workers_posts:
  "posts_in (trace (snd (start_workers test limit cnt objs c))) = posts_in (trace c)"
  by (induction test limit cnt objs c rule: start_workers.induct) (simp_all add: case_prod_unfold)

text \<open>The alarms of the file by problem: the last one of a problem counts.\<close>

definition objects_of :: "Alarm option list \<Rightarrow> go_int \<rightharpoonup> Alarm" where
  "objects_of os = map_of (rev (map (\<lambda>p. (SpecificProblem (the p), the p)) os))"

lemma objects_of_Cons: "objects_of (Some a # os) = [SpecificProblem a \<mapsto> a] ++ objects_of os"
  by (simp add: objects_of_def)

lemma store_objects_result:
  "None \<notin> set os \<Longrightarrow>
   store_objects os c = Ok () (c\<lparr>CLIPerfAlarmObjects := CLIPerfAlarmObjects c ++ objects_of os\<rparr>)"
proof (induction os c rule: store_objects.induct)
  case (3 a rest c)
  have copy: "\<lparr>ManagedObjectId = ManagedObjectId a, ApplicationId = ApplicationId a,
      SpecificProblem = SpecificProblem a, PerceivedSeverity = PerceivedSeverity a,
      IdentifyingInfo = IdentifyingInfo a, AdditionalInfo = AdditionalInfo a\<rparr> = a" by simp
  let ?c = "c\<lparr>CLIPerfAlarmObjects := (CLIPerfAlarmObjects c)(SpecificProblem a \<mapsto> a)\<rparr>"
  have objs: "CLIPerfAlarmObjects ?c ++ objects_of rest =
      CLIPerfAlarmObjects c ++ objects_of (Some a # rest)"
    by (simp add: objects_of_Cons map_add_assoc)
  have "store_objects (Some a # rest) c = store_objects rest ?c" by (simp add: copy Let_def)
  also have "\<dots> = Ok () (?c\<lparr>CLIPerfAlarmObjects := CLIPerfAlarmObjects ?c ++ objects_of rest\<rparr>)"
    by (rule "3.IH" [OF refl, unfolded copy]) (use "3.prems" in simp)
  also have "\<dots> = Ok () (c\<lparr>CLIPerfAlarmObjects := CLIPerfAlarmObjects c ++ objects_of (Some a # rest)\<rparr>)"
    unfolding objs by simp
  finally show ?case .
qed (simp_all add: objects_of_def)

definition without_ttl :: "AlarmDefinition \<Rightarrow> AlarmDefinition" where
  "without_ttl d = d\<lparr>TimeToLive := 0\<rparr>"

definition collected :: "(go_int \<rightharpoonup> AlarmDefinition) \<Rightarrow> AlarmDefinition option list \<Rightarrow> AlarmDefinition option list" where
  "collected known ds =
     map (map_option without_ttl) (filter (\<lambda>p. known (AlarmId (the p)) = None) ds)"

lemma collect_definitions_result:
  "None \<notin> set ds \<Longrightarrow> \<exists>c'. collect_definitions ds c = Ok () c' \<and>
     AlarmDefinitions (CliPerfAlarmDefinitions c') =
       AlarmDefinitions (CliPerfAlarmDefinitions c) @ collected (known_definitions c) ds \<and>
     posts_in (trace c') = posts_in (trace c)"
proof (induction ds c rule: collect_definitions.induct)
  case (3 d rest c)
  have copy: "\<lparr>AlarmId = AlarmId d, AlarmText = AlarmText d, EventType = EventType d,
      OperationInstructions = OperationInstructions d, RaiseDelay = RaiseDelay d,
      ClearDelay = ClearDelay d, TimeToLive = 0\<rparr> = without_ttl d"
    by (simp add: without_ttl_def)
  have rest: "None \<notin> set rest" using "3.prems" by simp
  show ?case
  proof (cases "known_definitions c (AlarmId d)")
    case None
    then have "collected (known_definitions c) (Some d # rest) =
        Some (without_ttl d) # collected (known_definitions c) rest"
      by (simp add: collected_def)
    then show ?thesis using "3.IH"(1) [OF None refl refl rest] None by (simp add: copy Let_def)
  next
    case (Some x)
    then have "collected (known_definitions c) (Some d # rest) = collected (known_definitions c) rest"
      by (simp add: collected_def)
    then show ?thesis using "3.IH"(2) [OF Some rest] Some by simp
  qed
qed (simp_all add: collected_def)

lemma read_definitions:
  assumes "read_file e (getenv (lib e) ''PERF_DEF_FILE'') =
      JsonFile (enc_RicAlarmDefinitions \<lparr>AlarmDefinitions = ds\<rparr>)" "None \<notin> set ds"
  obtains c' where "readPerfAlarmDefinitionFromJson e c = Ok None c'"
    "CliPerfAlarmDefinitions c' = \<lparr>AlarmDefinitions =
       AlarmDefinitions (CliPerfAlarmDefinitions c) @ collected (known_definitions c) ds\<rparr>"
    "posts_in (trace c') = posts_in (trace c)"
proof -
  let ?c = "emit [Println (''ReadPerfAlarmDefinitionFromJson: filename = '' @
    getenv (lib e) ''PERF_DEF_FILE'')] c"
  obtain c' where c': "collect_definitions ds ?c = Ok () c'"
    "AlarmDefinitions (CliPerfAlarmDefinitions c') =
       AlarmDefinitions (CliPerfAlarmDefinitions c) @ collected (known_definitions c) ds"
    "posts_in (trace c') = posts_in (trace c)"
    using collect_definitions_result [OF assms(2), of ?c] by auto
  have "readPerfAlarmDefinitionFromJson e c = Ok None c'"
    unfolding readPerfAlarmDefinitionFromJson_def Let_def assms(1)
    by (simp only: file_reply.case RicAlarmDefinitions_codec.roundtrip prod.case bool.case
        RicAlarmDefinitions.simps c'(1) bindR.simps)
  then show thesis using that c'(2,3) by simp
qed

lemma read_objects:
  assumes "read_file e (getenv (lib e) ''PERF_OBJ_FILE'') = JsonFile v"
    "dec_struct RicPerfAlarmObjects_fields v \<lparr>AlarmObjects = []\<rparr> = (\<lparr>AlarmObjects = os\<rparr>, True)"
    "None \<notin> set os"
  obtains c' where "readPerfAlarmObjectFromJson e c = Ok None c'"
    "CLIPerfAlarmObjects c' = CLIPerfAlarmObjects c ++ objects_of os"
    "posts_in (trace c') = posts_in (trace c)"
proof -
  let ?c = "emit [Println (''readPerfAlarmObjectFromJson: filename = '' @
    getenv (lib e) ''PERF_OBJ_FILE'')] c"
  have "readPerfAlarmObjectFromJson e c =
      Ok None (?c\<lparr>CLIPerfAlarmObjects := CLIPerfAlarmObjects ?c ++ objects_of os\<rparr>)"
    unfolding readPerfAlarmObjectFromJson_def Let_def assms(1)
    by (simp only: file_reply.case assms(2) prod.case bool.case RicPerfAlarmObjects.simps
        store_objects_result [OF assms(3)] bindR.simps)
  then show thesis using that by simp
qed

lemma send_definitions:
  assumes "\<And>url p. http_post (lib e) url p = None"
  shows "sendPerfAlarmDefinitionToAlarmManager e url c =
    (None, emit [Post url (enc_RicAlarmDefinitions (CliPerfAlarmDefinitions c))] c)"
  by (simp add: sendPerfAlarmDefinitionToAlarmManager_def Let_def assms)

lemma tests_started:
  assumes "int (length objs) < 2 ^ 63"
  shows "fst (peakPerformanceTest flags objs c) = map snd (take (nat (sint (GetInt flags ''nal''))) objs)"
    and "fst (enduranceTest flags objs c) = map snd (take (nat (sint (GetInt flags ''aps''))) objs)"
    and "posts_in (trace (snd (peakPerformanceTest flags objs c))) = posts_in (trace c)"
    and "posts_in (trace (snd (enduranceTest flags objs c))) = posts_in (trace c)"
  using assms
  by (simp_all add: peakPerformanceTest_def enduranceTest_def case_prod_unfold start_workers_take
      start_workers_posts)

text \<open>C40: The performance test, when its files are read and the posts go through: it posts the
  definitions of the file that are new to it once, with no time to live, and then starts one
  worker for each of the first alarms of the map, as many as the flag of the profile allows and
  none if that is not positive; the map has the last alarm of the file for each problem.  Any
  profile but 1 and 2 starts none.\<close>
theorem performance_test_workers:
  assumes defs: "read_file e (getenv (lib e) ''PERF_DEF_FILE'') =
      JsonFile (enc_RicAlarmDefinitions \<lparr>AlarmDefinitions = ds\<rparr>)" "None \<notin> set ds"
    and objs: "read_file e (getenv (lib e) ''PERF_OBJ_FILE'') = JsonFile v"
      "dec_struct RicPerfAlarmObjects_fields v \<lparr>AlarmObjects = []\<rparr> = (\<lparr>AlarmObjects = os\<rparr>, True)"
      "None \<notin> set os"
    and sent: "\<And>url p. http_post (lib e) url p = None"
    and small: "int (length (entries (objects_of os))) < 2 ^ 63"
  shows "\<exists>c'. conductperformancetest e entries flags c = Ok
      (let started = (\<lambda>flag. map snd (take (nat (sint (GetInt flags flag))) (entries (objects_of os))))
       in if GetInt flags ''prf'' = 1 then OnceWorkers (started ''nal'')
          else if GetInt flags ''prf'' = 2 then PeriodWorkers (started ''aps'')
          else NoWorkers) c' \<and>
    posts_in (trace c') = posts_in (trace c) @
      [(manager_url flags ''/ric/v1/alarms/define'',
        enc_RicAlarmDefinitions \<lparr>AlarmDefinitions =
          AlarmDefinitions (CliPerfAlarmDefinitions c) @ collected (known_definitions c) ds\<rparr>)]"
proof -
  let ?url = "manager_url flags ''/ric/v1/alarms/define''"
  obtain c1 where c1: "readPerfAlarmDefinitionFromJson e c = Ok None c1"
    "CliPerfAlarmDefinitions c1 = \<lparr>AlarmDefinitions =
       AlarmDefinitions (CliPerfAlarmDefinitions c) @ collected (known_definitions c) ds\<rparr>"
    "posts_in (trace c1) = posts_in (trace c)"
    using read_definitions [OF defs] .
  let ?c2 = "emit [Println ''sent performance alarm definitions to alarm manager'']
    (emit [Post ?url (enc_RicAlarmDefinitions (CliPerfAlarmDefinitions c1))] c1)
      \<lparr>CLIPerfAlarmObjects := Map.empty\<rparr>"
  obtain c3 where c3: "readPerfAlarmObjectFromJson e ?c2 = Ok None c3"
    "CLIPerfAlarmObjects c3 = CLIPerfAlarmObjects ?c2 ++ objects_of os"
    "posts_in (trace c3) = posts_in (trace ?c2)"
    using read_objects [OF objs] .
  have objects: "CLIPerfAlarmObjects c3 = objects_of os" using c3(2) by simp
  have posts: "posts_in (trace c3) = posts_in (trace c) @ [(?url, enc_RicAlarmDefinitions (CliPerfAlarmDefinitions c1))]"
    using c3(3) c1(3) by simp
  have "conductperformancetest e entries flags c =
    (let profile = GetInt flags ''prf''; objs = entries (objects_of os)
     in if profile = 1
        then case peakPerformanceTest flags objs (emit [Println ''starting peak performance test''] c3) of
               (started, c4) \<Rightarrow> Ok (OnceWorkers started) c4
        else if profile = 2
        then case enduranceTest flags objs (emit [Println ''starting endurance test''] c3) of
               (started, c4) \<Rightarrow> Ok (PeriodWorkers started) c4
        else Ok NoWorkers (emit [Println (''Unknown profile, received profile =  '' @ Sprint_d profile)] c3))"
    unfolding conductperformancetest_def Let_def
    by (simp only: c1(1) bindR.simps send_definitions [OF sent] c3(1) objects prod.case option.case
        simp_thms if_False)
  then show ?thesis
    using posts tests_started [OF small, of flags]
    by (simp add: Let_def case_prod_unfold c1(2) del: append.simps)
qed

definition perf_env :: CliEnv where
  "perf_env = sample_cli_env
     \<lparr>lib := (rmr_env 0 None)\<lparr>getenv := (\<lambda>n. n)\<rparr>,
      read_file := (\<lambda>f. JsonFile
        (if f = ''PERF_DEF_FILE''
         then enc_RicAlarmDefinitions \<lparr>AlarmDefinitions = [Some zero_AlarmDefinition]\<rparr>
         else JObj [(''alarmobjects'', JArr [enc_Alarm zero_Alarm])]))\<rparr>"

theorem performance_test_workers_witness:
  "\<exists>c'. conductperformancetest perf_env (\<lambda>m. [(0, the (m 0))]) sample_flags fresh_cli =
    Ok (OnceWorkers [zero_Alarm]) c'"
proof -
  have "dec_struct RicPerfAlarmObjects_fields (JObj [(''alarmobjects'', JArr [enc_Alarm zero_Alarm])])
      \<lparr>AlarmObjects = []\<rparr> = (\<lparr>AlarmObjects = [Some zero_Alarm]\<rparr>, True)"
    by (simp add: RicPerfAlarmObjects_fields_def decode_simps members_roundtrip)
  moreover have "objects_of [Some zero_Alarm] 0 = Some zero_Alarm"
    by (simp add: objects_of_def zero_Alarm_def)
  ultimately show ?thesis
    using performance_test_workers [of perf_env "[Some zero_AlarmDefinition]"
        "JObj [(''alarmobjects'', JArr [enc_Alarm zero_Alarm])]" "[Some zero_Alarm]"
        "\<lambda>m. [(0, the (m 0))]" sample_flags fresh_cli]
    by (auto simp: perf_env_def rmr_env_def)
qed

end
