(* ===== verification/Cli_Manager.thy ===== *)
theory Cli_Manager
  imports Cli_Perf_Spec Rest_Api
begin

text \<open>
  The command line tool against the alarm manager: the requests a command issues, the manager's
  routes (\<open>InjectRoutes\<close>) and handlers, and what the two do together.  The router that matches a
  request to a route (gorilla/mux) is a parameter; \<open>mux_contract\<close> is its documented behaviour on
  the manager's routes.  A handler runs on its own here: no other goroutine runs in its delays.
\<close>

section \<open>The manager as a server\<close>

type_synonym router = "string \<Rightarrow> string \<Rightarrow> (rest_handler \<times> string option) option"

record Server =
  mux :: router
  error_json :: "string \<Rightarrow> json"
  manager_env :: Env
  symptom_env :: SymptomEnv
  symptom_response :: "symptom_reply \<Rightarrow> response"
  definition_order :: "World \<Rightarrow> go_int list"

definition handle :: "Server \<Rightarrow> rest_handler \<Rightarrow> Request \<Rightarrow> World \<Rightarrow> (response, World) result" where
  "handle srv h r w =
     (case h of
        H_RaiseAlarm \<Rightarrow> RaiseAlarm (error_json srv) (manager_env srv) (\<lambda>w. w) r w
      | H_ClearAlarm \<Rightarrow> ClearAlarm (error_json srv) (manager_env srv) (\<lambda>w. w) r w
      | H_GetActiveAlarms \<Rightarrow> Ok (GetActiveAlarms w) w
      | H_GetAlarmHistory \<Rightarrow> Ok (GetAlarmHistory w) w
      | H_SetAlarmConfig \<Rightarrow> SetAlarmConfig r w
      | H_GetAlarmConfig \<Rightarrow> Ok (GetAlarmConfig w) w
      | H_SetAlarmDefinition \<Rightarrow> SetAlarmDefinition r w
      | H_DeleteAlarmDefinition \<Rightarrow> (case DeleteAlarmDefinition r w of (resp, w1) \<Rightarrow> Ok resp w1)
      | H_GetAlarmDefinition \<Rightarrow> Ok (GetAlarmDefinition (definition_order srv w) r w) w
      | H_SymptomDataHandler \<Rightarrow>
          (case SymptomDataHandler (symptom_env srv) (manager_env srv) (definition_order srv w) w of
             ((_, reply), w1) \<Rightarrow> Ok (symptom_response srv reply) w1))"

type_synonym http_request = "string \<times> string \<times> body"

definition serve :: "Server \<Rightarrow> http_request \<Rightarrow> World \<Rightarrow> (response, World) result" where
  "serve srv rq w =
     (case rq of (meth, path, b) \<Rightarrow>
        (case mux srv meth path of
           None \<Rightarrow> Ok (404, None) w
         | Some (h, var) \<Rightarrow> handle srv h \<lparr>reqBody = b, pathAlarmId = var\<rparr> w))"

fun serve_all :: "Server \<Rightarrow> http_request list \<Rightarrow> World \<Rightarrow> (response list, World) result" where
  "serve_all srv [] w = Ok [] w"
| "serve_all srv (rq # rqs) w =
     bindR (serve srv rq w) (\<lambda>x w1. bindR (serve_all srv rqs w1) (\<lambda>xs w2. Ok (x # xs) w2))"

text \<open>
  A literal route takes its own path; a route that ends in \<open>{alarmId}\<close> takes any non-empty rest
  without a slash, and gives it to the handler.
\<close>

definition mux_contract :: "router \<Rightarrow> bool" where
  "mux_contract m \<longleftrightarrow>
     (\<forall>(path, h, meth)\<in>set InjectRoutes. CHR ''{'' \<notin> set path \<longrightarrow> m meth path = Some (h, None)) \<and>
     (\<forall>(path, h, meth)\<in>set InjectRoutes. \<forall>p seg.
        path = p @ ''{alarmId}'' \<and> seg \<noteq> [] \<and> CHR ''/'' \<notin> set seg \<longrightarrow>
        m meth (p @ seg) = Some (h, Some seg))"

lemma mux_literal:
  assumes "mux_contract m"
  shows "m ''POST'' ''/ric/v1/alarms'' = Some (H_RaiseAlarm, None)"
    "m ''DELETE'' ''/ric/v1/alarms'' = Some (H_ClearAlarm, None)"
    "m ''GET'' ''/ric/v1/alarms/active'' = Some (H_GetActiveAlarms, None)"
    "m ''GET'' ''/ric/v1/alarms/history'' = Some (H_GetAlarmHistory, None)"
    "m ''POST'' ''/ric/v1/alarms/config'' = Some (H_SetAlarmConfig, None)"
    "m ''POST'' ''/ric/v1/alarms/define'' = Some (H_SetAlarmDefinition, None)"
  using assms by (simp_all add: mux_contract_def InjectRoutes_def)

lemma mux_alarm_id:
  assumes "mux_contract m" "seg \<noteq> []" "CHR ''/'' \<notin> set seg"
  shows "m ''DELETE'' (''/ric/v1/alarms/define/'' @ seg) = Some (H_DeleteAlarmDefinition, Some seg)"
proof -
  have "(''/ric/v1/alarms/define/{alarmId}'', H_DeleteAlarmDefinition, ''DELETE'') \<in> set InjectRoutes"
    by (simp add: InjectRoutes_def)
  moreover have "''/ric/v1/alarms/define/{alarmId}'' = ''/ric/v1/alarms/define/'' @ ''{alarmId}''"
    by simp
  ultimately show ?thesis using assms unfolding mux_contract_def by fast
qed

section \<open>The requests of a command\<close>

text \<open>The path of a URL of the manager the flags name.\<close>

definition path_of :: "Flags \<Rightarrow> string \<Rightarrow> string" where
  "path_of flags url = drop (length (manager_url flags [])) url"

lemma path_of_manager_url [simp]: "path_of flags (manager_url flags path) = path"
  by (simp add: path_of_def manager_url_def)

fun requests :: "Flags \<Rightarrow> effect list \<Rightarrow> http_request list" where
  "requests flags [] = []"
| "requests flags (Post url v # xs) = (''POST'', path_of flags url, JsonBody v) # requests flags xs"
| "requests flags (Delete url # xs) = (''DELETE'', path_of flags url, NoBody) # requests flags xs"
| "requests flags (Get url # xs) = (''GET'', path_of flags url, NoBody) # requests flags xs"
| "requests flags (x # xs) = requests flags xs"

lemma requests_append [simp]: "requests flags (xs @ ys) = requests flags xs @ requests flags ys"
  by (induction flags xs rule: requests.induct) simp_all

text \<open>A command of a fresh process, and the manager's handling of what it requests.\<close>

definition command ::
  "CliEnv \<Rightarrow> Server \<Rightarrow> action \<Rightarrow> Flags \<Rightarrow> World \<Rightarrow> (response list, World) result option"
where
  "command e srv act flags w =
     (case run_action e (\<lambda>_. []) act flags fresh_cli of
        None \<Rightarrow> None
      | Some r \<Rightarrow> Some (serve_all srv (requests flags (trace (final r))) w))"

lemma fresh_trace [simp]: "trace fresh_cli = []"
  by (simp add: fresh_cli_def)

section \<open>Defining and undefining\<close>

definition cli_definition :: "Flags \<Rightarrow> AlarmDefinition" where
  "cli_definition flags =
     \<lparr>AlarmId = GetInt flags ''aid'', AlarmText = GetString flags ''atx'',
      EventType = GetString flags ''ety'', OperationInstructions = GetString flags ''oin'',
      RaiseDelay = GetInt flags ''rad'', ClearDelay = GetInt flags ''cad'', TimeToLive = 0\<rparr>"

lemma command_define:
  "command e srv DefineAction flags w = Some (serve_all srv
     [(''POST'', ''/ric/v1/alarms/define'',
       JsonBody (enc_RicAlarmDefinitions \<lparr>AlarmDefinitions = [Some (cli_definition flags)]\<rparr>))] w)"
  by (simp add: command_def postAlarmDefinition_def cli_definition_def Let_def
      del: serve_all.simps split: option.split)

lemma command_undefine:
  assumes "\<And>url. new_request e url = None"
  shows "command e srv UndefineAction flags w = Some (serve_all srv
     [(''DELETE'', ''/ric/v1/alarms/define/'' @ FormatUint10 (GetInt flags ''aid''), NoBody)] w)"
  by (simp add: command_def deleteAlarmDefinition_def assms Let_def
      del: serve_all.simps split: option.split)

lemma FormatUint10_segment: "FormatUint10 x \<noteq> []" "CHR ''/'' \<notin> set (FormatUint10 x)"
  using digits_of_digits [of "CHR ''/''" "unat x"] by (auto simp: FormatUint10_def is_digit_def)

lemma serve_define:
  assumes "mux_contract (mux srv)"
  shows "serve srv (''POST'', ''/ric/v1/alarms/define'',
      JsonBody (enc_RicAlarmDefinitions \<lparr>AlarmDefinitions = [Some d]\<rparr>)) w =
    Ok (200, None) (w\<lparr>RICAlarmDefinitions :=
      (case RICAlarmDefinitions w (AlarmId d) of
         None \<Rightarrow> (RICAlarmDefinitions w)(AlarmId d \<mapsto> d) | Some _ \<Rightarrow> RICAlarmDefinitions w)\<rparr>)"
  using mux_literal [OF assms]
  by (simp add: serve_def handle_def SetAlarmDefinition_def RicAlarmDefinitions_codec.roundtrip
      respondWithJSON_def split: option.split)

lemma serve_undefine:
  assumes "mux_contract (mux srv)"
  shows "serve srv (''DELETE'', ''/ric/v1/alarms/define/'' @ FormatUint10 x, NoBody) w =
    (if 0 \<le> sint x
     then Ok no_response (w\<lparr>RICAlarmDefinitions := (RICAlarmDefinitions w)(x := None)\<rparr>)
     else Ok (respondWithError 400 ''Invalid path parameter'') w)"
  using mux_alarm_id [OF assms FormatUint10_segment, of x] Atoi_FormatUint10 [of x]
    Atoi_FormatUint10_neg [of x]
  by (auto simp: serve_def handle_def DeleteAlarmDefinition_def simp del: append.simps)

text \<open>C35: \<open>define\<close> and \<open>undefine\<close> of the tool against the manager.  \<open>define\<close> enters the definition
  of its flags, without a time to live, unless the id has one; \<open>undefine\<close> with the same id
  removes it if the id is not negative.  A negative id is printed as an unsigned number the
  manager cannot read: the request is refused and the definition stays.  Nothing else changes.\<close>
theorem cli_define_undefine:
  assumes "mux_contract (mux srv)" "\<And>url. new_request e url = None"
  shows "\<exists>w1. command e srv DefineAction flags w = Some (Ok [(200, None)] w1) \<and>
    w1 = w\<lparr>RICAlarmDefinitions := (RICAlarmDefinitions w)(GetInt flags ''aid'' \<mapsto>
      (case RICAlarmDefinitions w (GetInt flags ''aid'') of
         None \<Rightarrow> cli_definition flags | Some d \<Rightarrow> d))\<rparr> \<and>
    command e srv UndefineAction flags w1 =
      (if 0 \<le> sint (GetInt flags ''aid'')
       then Some (Ok [no_response] (w\<lparr>RICAlarmDefinitions :=
         (RICAlarmDefinitions w)(GetInt flags ''aid'' := None)\<rparr>))
       else Some (Ok [respondWithError 400 ''Invalid path parameter''] w1))"
proof -
  let ?id = "GetInt flags ''aid''"
  have cid: "AlarmId (cli_definition flags) = ?id" by (simp add: cli_definition_def)
  show ?thesis
    unfolding command_define command_undefine [OF assms(2)]
    by (cases "RICAlarmDefinitions w ?id")
      (simp_all add: serve_define [OF assms(1)] serve_undefine [OF assms(1)] cid fun_upd_idem
        del: append.simps)
qed

section \<open>Raising and clearing\<close>

definition cli_message :: "Flags \<Rightarrow> bool \<Rightarrow> go_int \<Rightarrow> AlarmNotification" where
  "cli_message flags clear now =
     \<lparr>notifMessage = \<lparr>msgAlarm = readAlarmParams flags clear,
        AlarmAction = (if clear then AlarmActionClear else AlarmActionRaise), AlarmTime = now\<rparr>,
      notifDef = zero_AlarmDefinition\<rparr>"

abbreviation action_of :: "bool \<Rightarrow> action" where
  "action_of clear \<equiv> (if clear then ClearAction else RaiseAction)"

lemma command_raise_clear:
  assumes "GetString flags ''if'' \<noteq> ''rmr''"
  shows "command e srv (action_of clear) flags w = Some (serve_all srv
     [(''POST'', ''/ric/v1/alarms'',
       JsonBody (enc_AlarmMessage ((notifMessage (cli_message flags clear 0)))))] w)"
  using assms
  by (simp add: command_def postAlarm_def postAlarmWithHttpIf_def cli_message_def Let_def
      del: serve_all.simps split: option.split)

text \<open>The manager stamps the message and handles it.\<close>

lemma serve_message:
  assumes "mux_contract (mux srv)" "GetString flags ''moid'' \<noteq> []" "GetString flags ''apid'' \<noteq> []"
  shows "is_ok (serve srv (''POST'', ''/ric/v1/alarms'',
      JsonBody (enc_AlarmMessage (notifMessage (cli_message flags clear 0)))) w) =
    is_ok (ProcessAlarm_call (manager_env srv) (\<lambda>w. w)
      (cli_message flags clear (time_now (manager_env srv) (clk w))) (w\<lparr>clk := Suc (clk w)\<rparr>))"
    "final (serve srv (''POST'', ''/ric/v1/alarms'',
      JsonBody (enc_AlarmMessage (notifMessage (cli_message flags clear 0)))) w) =
    final (ProcessAlarm_call (manager_env srv) (\<lambda>w. w)
      (cli_message flags clear (time_now (manager_env srv) (clk w))) (w\<lparr>clk := Suc (clk w)\<rparr>))"
proof -
  let ?m = "cli_message flags clear (time_now (manager_env srv) (clk w))"
  let ?call = "ProcessAlarm_call (manager_env srv) (\<lambda>w. w) ?m (w\<lparr>clk := Suc (clk w)\<rparr>)"
  have stamped: "\<lparr>notifMessage = (notifMessage (cli_message flags clear 0))
      \<lparr>AlarmTime := time_now (manager_env srv) (clk w)\<rparr>, notifDef = zero_AlarmDefinition\<rparr> = ?m"
    by (simp add: cli_message_def)
  have "doAction (manager_env srv) (\<lambda>w. w)
      \<lparr>reqBody = JsonBody (enc_AlarmMessage (notifMessage (cli_message flags clear 0))), pathAlarmId = None\<rparr>
      True w = bindR ?call (\<lambda>(_, err) w2. Ok err w2)"
    using assms(2,3)
    by (simp add: doAction_def members_roundtrip UnixNano_def stamped [symmetric] del: stamped)
      (simp add: cli_message_def readAlarmParams_def AlarmActionRaise_def AlarmActionClear_def)
  then show "is_ok (serve srv (''POST'', ''/ric/v1/alarms'',
      JsonBody (enc_AlarmMessage (notifMessage (cli_message flags clear 0)))) w) = is_ok ?call"
    "final (serve srv (''POST'', ''/ric/v1/alarms'',
      JsonBody (enc_AlarmMessage (notifMessage (cli_message flags clear 0)))) w) = final ?call"
    using mux_literal [OF assms(1)]
    by (cases ?call; simp add: serve_def handle_def RaiseAlarm_def case_prod_unfold)+
qed

definition cli_key :: "Flags \<Rightarrow> alarm_key" where
  "cli_key flags = (GetString flags ''moid'', GetString flags ''apid'', GetInt flags ''sp'',
     GetString flags ''iinfo'')"

lemma cli_message_simps [simp]:
  "nKey (cli_message flags c t) = cli_key flags"
  "nProblem (cli_message flags c t) = GetInt flags ''sp''"
  "nAction (cli_message flags c t) = (if c then AlarmActionClear else AlarmActionRaise)"
  "nSeverity (cli_message flags False t) = GetString flags ''severity''"
  by (simp_all add: cli_message_def readAlarmParams_def alarm_key_def cli_key_def)

definition plain_problem :: "World \<Rightarrow> go_int \<Rightarrow> bool" where
  "plain_problem w sp \<longleftrightarrow>
     (\<exists>d. RICAlarmDefinitions w sp = Some d \<and> RaiseDelay d <=s 0 \<and> ClearDelay d <=s 0) \<and>
     sp \<noteq> ACTIVE_ALARM_EXCEED_MAX_THRESHOLD \<and> sp \<noteq> ALARM_HISTORY_EXCEED_MAX_THRESHOLD"

lemma keeps_setup_plain:
  assumes "keeps_setup w w'" "plain_problem w sp"
  shows "plain_problem w' sp"
proof -
  obtain d where d: "RICAlarmDefinitions w sp = Some d" "RaiseDelay d <=s 0" "ClearDelay d <=s 0"
    using assms(2) by (auto simp: plain_problem_def)
  obtain d' where d': "RICAlarmDefinitions w' sp = Some d'" "erase_id d' = erase_id d"
    using same_definitions_Some [of w w' sp d] assms(1) d(1) by (auto simp: keeps_setup_def)
  show ?thesis
    using d d' assms(2) erase_id_fields(3,4) [OF d'(2)] by (simp add: plain_problem_def)
qed

lemma command_raise_clear_step:
  assumes "mux_contract (mux srv)" "GetString flags ''if'' \<noteq> ''rmr''"
    and "GetString flags ''moid'' \<noteq> []" "GetString flags ''apid'' \<noteq> []"
    and "\<not> mutex w" "thresholds_defined w" "tidy w" "plain_problem w (GetInt flags ''sp'')"
  shows "\<exists>r w'. command e srv (action_of c) flags w = Some (Ok r w') \<and>
    abs_table w' = (abs_table w)
      (cli_key flags := (if c then None else Some (GetString flags ''severity''))) \<and>
    \<not> mutex w' \<and> thresholds_defined w' \<and> tidy w' \<and> plain_problem w' (GetInt flags ''sp'')"
proof -
  let ?e = "manager_env srv"
  let ?w = "w\<lparr>clk := Suc (clk w)\<rparr>" and ?m = "cli_message flags c (time_now ?e (clk w))"
  have ready: "\<not> mutex ?w" "thresholds_defined ?w" "undelayed ?w ?m" "tidy ?w"
    using assms(5-8) by (auto simp: thresholds_defined_def can_raise_threshold_def undelayed_def
        tidy_def plain_problem_def)
  obtain r w' where call: "ProcessAlarm_call ?e (\<lambda>w. w) ?m ?w = Ok r w'"
      "abs_table w' = abs_step (known ?w) ?m (abs_table ?w)" "tidy w'"
    using message_step [OF ready] by blast
  have free: "\<not> mutex w'" "thresholds_defined w'"
    using ProcessAlarm_returns [OF ready(1,2), of "\<lambda>w. w" ?e ?m] call(1) by simp_all
  have "plain_problem ?w (GetInt flags ''sp'')" using assms(8) by (simp add: plain_problem_def)
  moreover have "keeps_setup ?w w'"
    using keeps_setup_call [of "\<lambda>w. w" ?w ?e ?m] call(1) by simp
  ultimately have plain: "plain_problem w' (GetInt flags ''sp'')" using keeps_setup_plain by blast
  have "abs_table w' = (abs_table w)
      (cli_key flags := (if c then None else Some (GetString flags ''severity'')))"
    using call(2) assms(8)
    by (auto simp: abs_step_def known_def ordinary_def plain_problem_def)
  moreover obtain x where "serve srv (''POST'', ''/ric/v1/alarms'',
      JsonBody (enc_AlarmMessage (notifMessage (cli_message flags c 0)))) w = Ok x w'"
    using serve_message [OF assms(1,3,4), of c w] call(1)
    by (cases "serve srv (''POST'', ''/ric/v1/alarms'',
      JsonBody (enc_AlarmMessage (notifMessage (cli_message flags c 0)))) w") simp_all
  ultimately show ?thesis
    using free plain call(3) by (simp add: command_raise_clear [OF assms(2)])
qed


section \<open>Listings\<close>

text \<open>The tool reads what the manager answers in state \<open>w\<close>.\<close>

definition connected :: "CliEnv \<Rightarrow> Server \<Rightarrow> Flags \<Rightarrow> World \<Rightarrow> bool" where
  "connected e srv flags w \<longleftrightarrow>
     (\<forall>path. case serve srv (''GET'', path, NoBody) w of
        Ok (_, b) _ \<Rightarrow> http_get e (manager_url flags path) = Body b | Panic _ _ \<Rightarrow> True)"

lemma connected_listing:
  assumes "connected e srv flags w" "serve srv (''GET'', path, NoBody) w = Ok (code, b) w"
  shows "http_get e (manager_url flags path) = Body b"
  using assms(1) [unfolded connected_def, THEN spec, of path] assms(2) by simp

lemma getAlarms_listing:
  assumes "http_get e (manager_url flags (''/ric/v1/alarms/'' @ which)) =
    Body (Some (enc_slice enc_AlarmNotification ns))"
  shows "getAlarms e flags which c = (ns, emit [Get (manager_url flags (''/ric/v1/alarms/'' @ which))] c)"
  using assms unfolding getAlarms_def Let_def
  by (simp add: AlarmNotification_codec.slice_roundtrip del: append.simps)

text \<open>C36: \<open>active\<close> of the tool shows the active alarms of the manager in order, but those whose
  raise delay field is not zero, which in the active table marks a raise that is still in its
  delay; \<open>history\<close> shows the whole history.\<close>
theorem cli_listings:
  assumes "mux_contract (mux srv)" "connected e srv flags w"
  shows "run_action e entries DisplayActive flags fresh_cli = Some (Ok NoWorkers
      (emit [Get (manager_url flags ''/ric/v1/alarms/active''),
         Render [''ID'', ''SP'', ''MOID'', ''APPID'', ''IINFO'', ''SEVERITY'', ''AAI'', ''TIME'']
           (map (\<lambda>a. alarm_row a @ [CStr (local_time e (nTime a))])
             (filter (\<lambda>a. nRaiseDelay a = 0) (active w)))] fresh_cli)) \<and>
    run_action e entries DisplayHistory flags fresh_cli = Some (Ok NoWorkers
      (emit [Get (manager_url flags ''/ric/v1/alarms/history''),
         Render [''ID'', ''SP'', ''MOID'', ''APPID'', ''IINFO'', ''SEVERITY'', ''AAI'', ''ACTION'', ''TIME'']
           (map (\<lambda>a. alarm_row a @ [CStr (nAction a), CStr (local_time e (nTime a))])
             (history w))] fresh_cli))"
proof -
  have emit2: "emit ys (emit xs c) = emit (xs @ ys) c" for xs ys c by (simp add: emit_def)
  have filter_map: "concat (map (\<lambda>a. if nRaiseDelay a = 0 then [f a] else []) ns) =
      map f (filter (\<lambda>a. nRaiseDelay a = 0) ns)" for f :: "AlarmNotification \<Rightarrow> cell list" and ns
    by (induction ns) simp_all
  have "serve srv (''GET'', ''/ric/v1/alarms/active'', NoBody) w =
      Ok (200, Some (enc_slice enc_AlarmNotification (active w))) w"
    "serve srv (''GET'', ''/ric/v1/alarms/history'', NoBody) w =
      Ok (200, Some (enc_slice enc_AlarmNotification (history w))) w"
    using mux_literal [OF assms(1)]
    by (simp_all add: serve_def handle_def GetActiveAlarms_def GetAlarmHistory_def respondWithJSON_def)
  then show ?thesis
    using connected_listing [OF assms(2)] getAlarms_listing [of e flags "''active''" "active w" fresh_cli]
      getAlarms_listing [of e flags "''history''" "history w" fresh_cli]
    by (simp add: displayAlarms_def emit2 filter_map)
qed

section \<open>Samples\<close>

definition literal_routes :: "((string \<times> string) \<times> rest_handler) list" where
  "literal_routes =
     map (\<lambda>(path, h, meth). ((meth, path), h)) (filter (\<lambda>(path, _). CHR ''{'' \<notin> set path) InjectRoutes)"

definition sample_mux :: router where
  "sample_mux meth path =
     (case map_of literal_routes (meth, path) of
        Some h \<Rightarrow> Some (h, None)
      | None \<Rightarrow>
          Some (if meth = ''DELETE'' then H_DeleteAlarmDefinition else H_GetAlarmDefinition,
                Some (drop (length ''/ric/v1/alarms/define/'') path)))"

lemma alarm_id_route:
  assumes "(path, h, meth) \<in> set InjectRoutes" "path = p @ ''{alarmId}''"
  shows "p = ''/ric/v1/alarms/define/'' \<and>
    (h, meth) \<in> {(H_DeleteAlarmDefinition, ''DELETE''), (H_GetAlarmDefinition, ''GET'')}"
proof -
  have "last path = CHR ''}''" using assms(2) by simp
  then have path: "path = ''/ric/v1/alarms/define/{alarmId}''"
    and route: "(h, meth) \<in> {(H_DeleteAlarmDefinition, ''DELETE''), (H_GetAlarmDefinition, ''GET'')}"
    using assms(1) by (auto simp: InjectRoutes_def)
  have "p @ ''{alarmId}'' = ''/ric/v1/alarms/define/'' @ ''{alarmId}''"
    unfolding assms(2) [symmetric] path by simp
  then have "p = ''/ric/v1/alarms/define/''" by (simp only: append_same_eq)
  with route show ?thesis by (intro conjI)
qed

lemma literal_routes_distinct: "distinct (map fst literal_routes)"
  by (simp add: literal_routes_def InjectRoutes_def)

lemma literal_routes_member:
  "(path, h, meth) \<in> set InjectRoutes \<Longrightarrow> CHR ''{'' \<notin> set path \<Longrightarrow>
   ((meth, path), h) \<in> set literal_routes"
  unfolding literal_routes_def by force

lemma sample_mux_contract: "mux_contract sample_mux"
proof -
  have "sample_mux meth path = Some (h, None)"
    if "(path, h, meth) \<in> set InjectRoutes" "CHR ''{'' \<notin> set path" for path h meth
    using map_of_is_SomeI [OF literal_routes_distinct literal_routes_member [OF that]]
    by (simp add: sample_mux_def)
  moreover have "sample_mux meth (p @ seg) = Some (h, Some seg)"
    if "(path, h, meth) \<in> set InjectRoutes" "path = p @ ''{alarmId}''" "seg \<noteq> []" for path h meth p seg
    using alarm_id_route [OF that(1,2)] that(3)
    by (auto simp: sample_mux_def literal_routes_def InjectRoutes_def)
  ultimately show ?thesis unfolding mux_contract_def by (auto simp del: append.simps)
qed

definition sample_server :: Server where
  "sample_server =
     \<lparr>mux = sample_mux, error_json = JStr, manager_env = sample_env,
      symptom_env = sample_symptom_env, symptom_response = (\<lambda>_. no_response),
      definition_order = (\<lambda>_. [])\<rparr>"

lemma sample_server_mux: "mux_contract (mux sample_server)"
  by (simp add: sample_server_def sample_mux_contract)

theorem cli_define_undefine_witness:
  "\<exists>w1. command sample_cli_env sample_server DefineAction sample_flags (sample_world 0 0 0) =
      Some (Ok [(200, None)] w1) \<and>
    RICAlarmDefinitions w1 1 = Some (cli_definition sample_flags) \<and>
    (\<exists>w2. command sample_cli_env sample_server UndefineAction sample_flags w1 =
       Some (Ok [no_response] w2) \<and> RICAlarmDefinitions w2 1 = None)"
proof -
  have "new_request sample_cli_env url = None" for url by (simp add: sample_cli_env_def)
  moreover have "RICAlarmDefinitions (sample_world 0 0 0) 1 = None"
    by (simp add: sample_world_def ACTIVE_ALARM_EXCEED_MAX_THRESHOLD_def
        ALARM_HISTORY_EXCEED_MAX_THRESHOLD_def)
  ultimately show ?thesis
    using cli_define_undefine [OF sample_server_mux, of sample_cli_env sample_flags "sample_world 0 0 0"]
    by auto
qed

definition problem_flags :: Flags where
  "problem_flags = sample_flags\<lparr>GetInt := (\<lambda>_. 72004)\<rparr>"


definition connected_env :: "Flags \<Rightarrow> World \<Rightarrow> CliEnv" where
  "connected_env flags w = sample_cli_env
     \<lparr>http_get := (\<lambda>url. case serve sample_server (''GET'', path_of flags url, NoBody) w of
        Ok (_, b) _ \<Rightarrow> Body b | Panic _ _ \<Rightarrow> Body None)\<rparr>"

theorem cli_listings_witness:
  "run_action (connected_env sample_flags (sample_world_active 0 0 0)) (\<lambda>_. []) DisplayActive sample_flags fresh_cli =
    Some (Ok NoWorkers (emit
      [Get (manager_url sample_flags ''/ric/v1/alarms/active''),
       Render [''ID'', ''SP'', ''MOID'', ''APPID'', ''IINFO'', ''SEVERITY'', ''AAI'', ''TIME'']
         (map (\<lambda>a. alarm_row a @ [CStr ''t'']) [sample_entry SeverityMajor])] fresh_cli))"
proof -
  have "connected (connected_env sample_flags (sample_world_active 0 0 0)) sample_server sample_flags
      (sample_world_active 0 0 0)"
    unfolding connected_def connected_env_def by (auto split: result.split prod.split)
  moreover have "nRaiseDelay (sample_entry SeverityMajor) = 0"
    by (simp add: sample_entry_def completed_def sample_message_def zero_AlarmDefinition_def)
  ultimately show ?thesis
    using cli_listings [OF sample_server_mux, of
        "connected_env sample_flags (sample_world_active 0 0 0)" sample_flags "sample_world_active 0 0 0"]
    by (simp add: connected_env_def sample_cli_env_def)
qed

end
