(* ===== verification/Spec2Isabelle.thy ===== *)
theory Spec2Isabelle
  imports Manager_Concurrency Lib_Manager Cli_Manager
begin

text \<open>
  A model of the alarm system of the O-RAN near-RT RIC and its verification: the alarm library
  applications link (\<open>alarm/alarm.go\<close>, \<open>alarm/types.go\<close>, \<open>alarm/utils.c\<close>), the alarm manager
  (\<open>manager/cmd/manager.go\<close>, \<open>types.go\<close>, \<open>restapi.go\<close>) and the command line tool
  (\<open>cli/alarm-cli.go\<close>).

  \<^bold>\<open>The system.\<close>  An application raises or clears an alarm through the library, which sends a
  JSON message over RMR or, if that fails, posts it over HTTP.  The manager looks the problem up
  in the table of definitions, keeps a table of active alarms and a history, saves both to a
  file, and tells the Prometheus Alert Manager or NOMA.  Definitions may ask for a delay before a
  raise or a clear and for a time to live.  The tool shows and changes the manager's tables over
  REST and can load the manager with a performance test.

  \<^bold>\<open>Shared vocabulary.\<close>
  \<^item> \<open>Go_Prelude\<close>: 64-bit integers, outcomes with panics, lists; \<open>Go_Slice\<close>: slices over shared
    arrays, and the contract of a keyed sequence (locales \<open>sequence\<close>, \<open>keyed_sequence\<close>);
    \<open>Go_Strings\<close>: \<open>%d\<close>, \<open>Atoi\<close>, \<open>FormatUint\<close>; \<open>Go_Json\<close>: \<open>encoding/json\<close> on JSON values
    (locale \<open>codec\<close>); \<open>Polling\<close>: loops that ask until they get an answer (locale \<open>polling\<close>).
  \<^item> \<open>Alarm_Types\<close>: the structs of both packages, with their JSON form.  Every struct decodes to
    what was encoded.

  \<^bold>\<open>The library.\<close>  \<open>Alarm_Lib\<close> has one definition per function; \<open>LibEnv\<close> is RMR, the network
  and the process environment.  \<open>Alarm_Lib_Spec\<close>: at most ten attempts over RMR, the fallback to
  HTTP, when receiving and connecting return.  \<open>Lib_Manager\<close>: a successful send has on the
  manager the effect of \<open>ProcessAlarm\<close>, by whatever transport, and \<open>ClearAll\<close> has none.

  \<^bold>\<open>The manager.\<close>  Its state is \<open>World\<close> in \<open>Manager_State\<close>: the struct \<open>AlarmManager\<close>, the
  definitions, the file, and what it posted.
  \<^item> \<open>Manager_Table\<close>: searching, deleting, numbering, the two lists and their threshold alarms.
    \<open>Manager_Publish\<close>: alerts, notifications, the file.
  \<^item> \<open>Manager_Process\<close>: \<open>ProcessAlarm\<close>, \<open>ProcessRaiseAlarm\<close>, \<open>ProcessClearAlarm\<close>, cut at their
    delays into pieces; \<open>ProcessAlarm_call\<close> puts the pieces together.
  \<^item> \<open>Manager_Frame\<close>: what every handler keeps, proved once for any relation of states (locale
    \<open>state_relation\<close>).  \<open>Manager_Spec\<close>, \<open>Manager_Correct\<close>: the exact effect of each branch.
    \<open>Manager_Total\<close>: the mutex is released on every path and nothing panics while the threshold
    problems stay defined.  \<open>Manager_Refinement\<close>: the handlers implement a map from alarm
    identities to severities, and a restart recovers the tables from the file.
  \<^item> \<open>Manager_Timers\<close>: a tick of the time-to-live timer; \<open>Manager_Alerts\<close>: a tick of the alert
    timer, and the alarms derived from alerts of FM; \<open>Manager_Config\<close>: construction,
    configuration and start; \<open>Rest_Api\<close>: the REST handlers.
  \<^item> \<open>Manager_Concurrency\<close>: the manager as a concurrent system.  \<open>sys_step\<close> interleaves the pieces
    of all handlers, delays, timers and REST requests; invariants are proved through the locale
    \<open>system_invariant\<close>: identities never repeat, the history only grows, and every pending alarm
    has a goroutine that will complete it.

  \<^bold>\<open>The tool.\<close>  \<open>Cli\<close>: each action as a trace of requests and output; \<open>Cli_Perf\<close>: the
  performance test and its workers; \<open>Cli_Commands\<close>: the commands \<open>main\<close> registers, and that each
  reads only flags registered for it; \<open>Cli_Perf_Spec\<close>: workers alternate raises and clears under
  every schedule of their timers (locale \<open>worker_invariant\<close>); \<open>Cli_Manager\<close>: commands against the
  manager's routes and handlers.  \<open>Samples\<close> has the concrete inputs of the examples.

  \<^bold>\<open>Bounds.\<close>  No fuel is used.  The send loop terminates by its counter; the loops that may wait
  forever (\<open>rmrRcv\<close>, \<open>rmr_wait_ready\<close>, \<open>wait_rmr\<close>) are partial functions whose value \<open>None\<close> is
  not returning, with theorems that say exactly when they do.

  \<^bold>\<open>Assumptions.\<close>  The clock, the network, file writes and the router are arguments of the
  definitions.  JSON text is modelled by the value it parses to, with strings in valid UTF-8.
  A section of a handler between two points where the mutex is free is one atomic step; of the end
  of a raise, which the code runs without the mutex, each of the three statements is one, so
  races inside a statement are not covered (\<open>unlocked_append_loses_clear\<close> shows one).  Memory allocation succeeds and an \<open>int\<close> has 64 bits.

  \<^bold>\<open>Not modelled.\<close>  Logging; the xapp framework, RMR, gorilla/mux, viper, commando, go-pretty and
  the Prometheus clients, which are parameters; \<open>NewAlertmanagerClient\<close>,
  \<open>newAlertManagerClient\<close>, \<open>getCurrentDirectory\<close> and the manager's \<open>main\<close>, which only pass values
  to them; the unused global \<open>RICPerfAlarmObjects\<close>; tests, build files and data.
\<close>

end
